(* ===== verification/Prelude.thy ===== *)
theory Prelude
  imports Main "HOL-Library.List_Lexorder" "HOL-Library.Char_ord" "HOL-Library.Product_Lexorder"
    "HOL-Library.Code_Target_Nat"
begin

text \<open>
  Shared vocabulary of the development.

  \<^item> Rust's \<open>Result\<close> as a sum (\<open>Inl\<close> the error) with its \<open>?\<close> operator, and database
    transactions as functions from a state to an error or a value with the next state: an
    error rolls the transaction back, so it carries no state.
  \<^item> SQL tables as lists of rows, with the statement forms the sources use (select, update by
    predicate, ordered and limited selection).
  \<^item> Rust strings as their UTF-8 bytes (\<^typ>\<open>string\<close> is a list of 8-bit characters): \<open>len\<close> is
    \<^const>\<open>length\<close>, \<open>trim\<close> removes the Unicode white space encoded at both ends, and the order
    of strings is the lexicographic order of their bytes.
\<close>

named_theorems tx_simps \<open>evaluation rules of the transaction combinators\<close>
named_theorems table_simps \<open>how reads see the writes made to a table\<close>

section \<open>Results and transactions\<close>

type_synonym ('e, 'a) result = "'e + 'a"

definition bindE :: "('e, 'a) result \<Rightarrow> ('a \<Rightarrow> ('e, 'b) result) \<Rightarrow> ('e, 'b) result" where
  "bindE r f = (case r of Inl e \<Rightarrow> Inl e | Inr x \<Rightarrow> f x)"

definition ok_or :: "'a option \<Rightarrow> 'e \<Rightarrow> ('e, 'a) result" where
  "ok_or x e = (case x of None \<Rightarrow> Inl e | Some y \<Rightarrow> Inr y)"

definition ensure :: "bool \<Rightarrow> 'e \<Rightarrow> ('e, unit) result" where
  "ensure b e = (if b then Inr () else Inl e)"

definition is_ok :: "('e, 'a) result \<Rightarrow> bool" where
  "is_ok r = (case r of Inl _ \<Rightarrow> False | Inr _ \<Rightarrow> True)"

fun collectE :: "('a \<Rightarrow> ('e, 'b) result) \<Rightarrow> 'a list \<Rightarrow> ('e, 'b list) result" where
  "collectE f [] = Inr []"
| "collectE f (x # xs) = bindE (f x) (\<lambda>y. bindE (collectE f xs) (\<lambda>ys. Inr (y # ys)))"

type_synonym ('s, 'e, 'a) tx = "'s \<Rightarrow> ('e, 'a \<times> 's) result"

definition returnT :: "'a \<Rightarrow> ('s, 'e, 'a) tx" where
  "returnT x = (\<lambda>s. Inr (x, s))"

definition throwT :: "'e \<Rightarrow> ('s, 'e, 'a) tx" where
  "throwT e = (\<lambda>s. Inl e)"

definition bindT :: "('s, 'e, 'a) tx \<Rightarrow> ('a \<Rightarrow> ('s, 'e, 'b) tx) \<Rightarrow> ('s, 'e, 'b) tx" where
  "bindT m f = (\<lambda>s. case m s of Inl e \<Rightarrow> Inl e | Inr (x, s') \<Rightarrow> f x s')"

definition readT :: "('s \<Rightarrow> 'a) \<Rightarrow> ('s, 'e, 'a) tx" where
  "readT f = (\<lambda>s. Inr (f s, s))"

definition writeT :: "('s \<Rightarrow> 's) \<Rightarrow> ('s, 'e, unit) tx" where
  "writeT f = (\<lambda>s. Inr ((), f s))"

definition liftT :: "('e, 'a) result \<Rightarrow> ('s, 'e, 'a) tx" where
  "liftT r = (\<lambda>s. case r of Inl e \<Rightarrow> Inl e | Inr x \<Rightarrow> Inr (x, s))"

definition ensureT :: "bool \<Rightarrow> 'e \<Rightarrow> ('s, 'e, unit) tx" where
  "ensureT b e = (if b then returnT () else throwT e)"

definition whenT :: "bool \<Rightarrow> ('s, 'e, unit) tx \<Rightarrow> ('s, 'e, unit) tx" where
  "whenT b m = (if b then m else returnT ())"

fun for_each :: "'a list \<Rightarrow> ('a \<Rightarrow> ('s, 'e, unit) tx) \<Rightarrow> ('s, 'e, unit) tx" where
  "for_each [] f = returnT ()"
| "for_each (x # xs) f = bindT (f x) (\<lambda>_. for_each xs f)"

lemma bindE_simps [tx_simps, simp]:
  "bindE (Inl e) f = Inl e" "bindE (Inr x) f = f x"
  by (simp_all add: bindE_def)

lemma bindE_Inr_iff [tx_simps]: "bindE r f = Inr y \<longleftrightarrow> (\<exists>x. r = Inr x \<and> f x = Inr y)"
  by (cases r) simp_all

lemma ok_or_Inr_iff [tx_simps]: "ok_or x e = Inr y \<longleftrightarrow> x = Some y"
  by (cases x) (auto simp: ok_or_def)

lemma ensure_Inr_iff [tx_simps]: "ensure b e = Inr u \<longleftrightarrow> b"
  by (simp add: ensure_def)

lemma collectE_Inr: "collectE f xs = Inr ys \<Longrightarrow> list_all2 (\<lambda>x y. f x = Inr y) xs ys"
  by (induction xs arbitrary: ys) (auto simp: tx_simps)

lemma collectE_member:
  assumes "collectE f xs = Inr ys" "y \<in> set ys"
  obtains x where "x \<in> set xs" "f x = Inr y"
proof -
  have "\<exists>x \<in> set xs. f x = Inr y"
    using assms by (induction xs arbitrary: ys) (auto simp: tx_simps)
  then show ?thesis using that by blast
qed

lemma returnT_Inr_iff [tx_simps]: "returnT x s = Inr (y, t) \<longleftrightarrow> y = x \<and> t = s"
  by (auto simp: returnT_def)

lemma throwT_Inr_iff [tx_simps]: "throwT e s = Inr z \<longleftrightarrow> False"
  by (simp add: throwT_def)

lemma bindT_Inr_iff [tx_simps]:
  "bindT m f s = Inr z \<longleftrightarrow> (\<exists>x t. m s = Inr (x, t) \<and> f x t = Inr z)"
  by (auto simp: bindT_def split: sum.splits)

lemma readT_Inr_iff [tx_simps]: "readT f s = Inr (y, t) \<longleftrightarrow> y = f s \<and> t = s"
  by (auto simp: readT_def)

lemma writeT_Inr_iff [tx_simps]: "writeT f s = Inr (y, t) \<longleftrightarrow> t = f s"
  by (auto simp: writeT_def)

lemma liftT_Inr_iff [tx_simps]: "liftT r s = Inr (y, t) \<longleftrightarrow> r = Inr y \<and> t = s"
  by (cases r) (auto simp: liftT_def)

lemma ensureT_Inr_iff [tx_simps]: "ensureT b e s = Inr (y, t) \<longleftrightarrow> b \<and> t = s"
  by (auto simp: ensureT_def returnT_def throwT_def)

lemma whenT_Inr_iff [tx_simps]:
  "whenT b m s = Inr (y, t) \<longleftrightarrow> (if b then m s = Inr (y, t) else t = s)"
  by (auto simp: whenT_def returnT_def)

lemmas tx_defs = returnT_def throwT_def bindT_def readT_def writeT_def liftT_def ensureT_def
  whenT_def bindE_def ok_or_def ensure_def

text \<open>
  A request handler runs several transactions one after the other: what an earlier one committed
  stays when a later one fails, and a failed one leaves the state it started from.
\<close>

type_synonym ('s, 'e, 'a) hx = "'s \<Rightarrow> 's \<times> ('e, 'a) result"

definition commit :: "('s, 'e, 'a) tx \<Rightarrow> ('s, 'e, 'a) hx" where
  "commit m = (\<lambda>s. case m s of Inl e \<Rightarrow> (s, Inl e) | Inr (x, t) \<Rightarrow> (t, Inr x))"

definition returnH :: "'a \<Rightarrow> ('s, 'e, 'a) hx" where
  "returnH x = (\<lambda>s. (s, Inr x))"

definition throwH :: "'e \<Rightarrow> ('s, 'e, 'a) hx" where
  "throwH e = (\<lambda>s. (s, Inl e))"

definition bindH :: "('s, 'e, 'a) hx \<Rightarrow> ('a \<Rightarrow> ('s, 'e, 'b) hx) \<Rightarrow> ('s, 'e, 'b) hx" where
  "bindH m f = (\<lambda>s. case m s of (t, Inl e) \<Rightarrow> (t, Inl e) | (t, Inr x) \<Rightarrow> f x t)"

definition liftH :: "('e, 'a) result \<Rightarrow> ('s, 'e, 'a) hx" where
  "liftH r = (\<lambda>s. (s, r))"

text \<open>\<open>let _ = \<dots>.await\<close> drops a failure; \<open>for_eachH\<close> stops at the first one.\<close>

definition ignoreH :: "('s, 'e, 'a) tx \<Rightarrow> ('s, 'e, unit) hx" where
  "ignoreH m = (\<lambda>s. (fst (commit m s), Inr ()))"

fun for_eachH :: "'a list \<Rightarrow> ('a \<Rightarrow> ('s, 'e, unit) hx) \<Rightarrow> ('s, 'e, unit) hx" where
  "for_eachH [] f = returnH ()"
| "for_eachH (x # xs) f = bindH (f x) (\<lambda>_. for_eachH xs f)"

lemmas handler_defs = commit_def returnH_def throwH_def bindH_def liftH_def

lemma bindH_Inr_iff [tx_simps]:
  "bindH m f s = (t, Inr y) \<longleftrightarrow> (\<exists>u x. m s = (u, Inr x) \<and> f x u = (t, Inr y))"
  by (auto simp: bindH_def split: prod.splits sum.splits)

lemma commit_Inr_iff [tx_simps]: "commit m s = (t, Inr y) \<longleftrightarrow> m s = Inr (y, t)"
  by (auto simp: commit_def split: sum.splits)

lemma liftH_Inr_iff [tx_simps]: "liftH r s = (t, Inr y) \<longleftrightarrow> r = Inr y \<and> t = s"
  by (auto simp: liftH_def)

lemma returnH_Inr_iff [tx_simps]: "returnH x s = (t, Inr y) \<longleftrightarrow> y = x \<and> t = s"
  by (auto simp: returnH_def)

subsection \<open>Relations that transactions respect\<close>

text \<open>
  A reflexive and transitive relation between the states before and after is respected by a
  sequence of statements as soon as each statement respects it. Invariants are the case
  \<open>R s t = (I s \<longrightarrow> I t)\<close>.
\<close>

definition obeys :: "('s \<Rightarrow> 's \<Rightarrow> bool) \<Rightarrow> ('s, 'e, 'a) tx \<Rightarrow> bool" where
  "obeys R m = (\<forall>s x t. m s = Inr (x, t) \<longrightarrow> R s t)"

lemma obeysI: "(\<And>s x t. m s = Inr (x, t) \<Longrightarrow> R s t) \<Longrightarrow> obeys R m"
  by (auto simp: obeys_def)

lemma obeysD: "obeys R m \<Longrightarrow> m s = Inr (x, t) \<Longrightarrow> R s t"
  by (auto simp: obeys_def)

definition obeysH :: "('s \<Rightarrow> 's \<Rightarrow> bool) \<Rightarrow> ('s, 'e, 'a) hx \<Rightarrow> bool" where
  "obeysH R h = (\<forall>s. R s (fst (h s)))"

lemma obeysHD: "obeysH R h \<Longrightarrow> h s = (t, x) \<Longrightarrow> R s t"
  by (metis fst_conv obeysH_def)

locale state_preorder =
  fixes R :: "'s \<Rightarrow> 's \<Rightarrow> bool"
  assumes R_refl: "R s s"
    and R_trans: "R s t \<Longrightarrow> R t u \<Longrightarrow> R s u"
begin

lemma obeys_return: "obeys R (returnT x)"
  by (auto simp: obeys_def tx_simps R_refl)

lemma obeys_throw: "obeys R (throwT e)"
  by (auto simp: obeys_def tx_simps)

lemma obeys_read: "obeys R (readT f)"
  by (auto simp: obeys_def tx_simps R_refl)

lemma obeys_lift: "obeys R (liftT r)"
  by (auto simp: obeys_def tx_simps R_refl)

lemma obeys_ensure: "obeys R (ensureT b e)"
  by (auto simp: obeys_def tx_simps R_refl)

lemma obeys_bind: "obeys R m \<Longrightarrow> (\<And>x. obeys R (f x)) \<Longrightarrow> obeys R (bindT m f)"
  unfolding obeys_def tx_simps by (blast intro: R_trans)

lemma obeys_when: "obeys R m \<Longrightarrow> obeys R (whenT b m)"
  by (auto simp: obeys_def tx_simps R_refl split: if_splits)

lemma obeys_for_each: "(\<And>x. x \<in> set xs \<Longrightarrow> obeys R (f x)) \<Longrightarrow> obeys R (for_each xs f)"
  by (induction xs) (auto intro: obeys_return obeys_bind)

text \<open>When a read decides what is done next, the rest only has to obey from the state read.\<close>

lemma obeys_read_bind:
  "(\<And>s x t. f (g s) s = Inr (x, t) \<Longrightarrow> R s t) \<Longrightarrow> obeys R (bindT (readT g) f)"
  by (auto simp: obeys_def tx_simps)

lemma obeysH_commit: "obeys R m \<Longrightarrow> obeysH R (commit m)"
  by (auto simp: obeysH_def obeys_def commit_def R_refl split: sum.splits)

lemma obeysH_return: "obeysH R (returnH x)"
  by (auto simp: obeysH_def returnH_def R_refl)

lemma obeysH_throw: "obeysH R (throwH e)"
  by (auto simp: obeysH_def throwH_def R_refl)

lemma obeysH_lift: "obeysH R (liftH r)"
  by (auto simp: obeysH_def liftH_def R_refl)

lemma obeysH_bind: "obeysH R m \<Longrightarrow> (\<And>x. obeysH R (f x)) \<Longrightarrow> obeysH R (bindH m f)"
  unfolding obeysH_def bindH_def
  by (auto split: prod.splits sum.splits) (metis R_trans fst_conv)+

lemmas obeys_rules = obeys_return obeys_throw obeys_read obeys_lift
  obeys_ensure obeys_bind obeys_when obeys_for_each

lemma obeysH_ignore: "obeys R m \<Longrightarrow> obeysH R (ignoreH m)"
  using obeysH_commit [of m] by (simp add: obeysH_def ignoreH_def)

lemma obeysH_for_each: "(\<And>x. x \<in> set xs \<Longrightarrow> obeysH R (f x)) \<Longrightarrow> obeysH R (for_eachH xs f)"
  by (induction xs) (auto intro: obeysH_return obeysH_bind)

lemmas obeysH_rules = obeysH_return obeysH_throw obeysH_lift obeysH_bind obeysH_commit
  obeysH_ignore obeysH_for_each

end

section \<open>Tables\<close>

text \<open>
  \<open>UPDATE t SET \<dots> WHERE p\<close>, \<open>SELECT \<dots> WHERE p\<close> on at most one row, \<open>EXISTS\<close>, and
  \<open>ORDER BY k LIMIT n\<close>.
\<close>

definition update_where :: "('r \<Rightarrow> bool) \<Rightarrow> ('r \<Rightarrow> 'r) \<Rightarrow> 'r list \<Rightarrow> 'r list" where
  "update_where p f rs = map (\<lambda>r. if p r then f r else r) rs"

definition fetch_optional :: "('r \<Rightarrow> bool) \<Rightarrow> 'r list \<Rightarrow> 'r option" where
  "fetch_optional p rs = List.find p rs"

definition exists_row :: "('r \<Rightarrow> bool) \<Rightarrow> 'r list \<Rightarrow> bool" where
  "exists_row p rs = list_ex p rs"

definition order_limit :: "('r \<Rightarrow> 'k::linorder) \<Rightarrow> nat \<Rightarrow> 'r list \<Rightarrow> 'r list" where
  "order_limit k n rs = take n (sort_key k rs)"

lemma find_member: "List.find p xs = Some x \<Longrightarrow> x \<in> set xs \<and> p x"
  by (auto simp: find_Some_iff)

lemma exists_row_iff [table_simps]: "exists_row p rs \<longleftrightarrow> (\<exists>r \<in> set rs. p r)"
  by (simp add: exists_row_def list_ex_iff)

lemma fetch_optional_Some:
  "fetch_optional p rs = Some r \<Longrightarrow> r \<in> set rs \<and> p r"
  by (auto simp: fetch_optional_def find_Some_iff)

lemma fetch_optional_None [table_simps]: "fetch_optional p rs = None \<longleftrightarrow> (\<forall>r \<in> set rs. \<not> p r)"
  by (auto simp: fetch_optional_def find_None_iff)

lemma set_update_where [table_simps]:
  "set (update_where p f rs) = {if p r then f r else r | r. r \<in> set rs}"
  by (auto simp: update_where_def)

lemma map_update_where:
  "(\<And>r. p r \<Longrightarrow> g (f r) = g r) \<Longrightarrow> map g (update_where p f rs) = map g rs"
  by (auto simp: update_where_def)

lemma fetch_update_where:
  assumes "\<And>r. p (if q r then f r else r) = p r" "\<And>r. p r \<Longrightarrow> q r = b"
  shows "fetch_optional p (update_where q f rs) =
    map_option (\<lambda>r. if b then f r else r) (fetch_optional p rs)"
  using assms by (induction rs) (auto simp: fetch_optional_def update_where_def)

lemma length_update_where [simp]: "length (update_where p f rs) = length rs"
  by (simp add: update_where_def)

lemma set_order_limit: "set (order_limit k n rs) \<subseteq> set rs"
  using set_take_subset [of n "sort_key k rs"] by (auto simp: order_limit_def)

lemma order_limit_first:
  assumes "order_limit k n rs = r # rest" "x \<in> set rs"
  shows "k r \<le> k x"
proof -
  from assms(1) obtain more where "sort_key k rs = r # more"
    by (cases "sort_key k rs"; cases n) (auto simp: order_limit_def)
  moreover have "sorted (map k (sort_key k rs))" by simp
  moreover from assms(2) have "x \<in> set (sort_key k rs)" by simp
  ultimately show ?thesis by auto
qed

lemma fetch_optional_unique:
  assumes "distinct (map k rs)" "r \<in> set rs"
  shows "fetch_optional (\<lambda>x. k x = k r) rs = Some r"
  using assms
  by (induction rs) (auto simp: fetch_optional_def)

section \<open>Strings as UTF-8 bytes\<close>

abbreviation byte :: "char \<Rightarrow> nat" where
  "byte c \<equiv> of_char c"

text \<open>
  The three-byte encodings of \<open>White_Space\<close>: U+1680, U+2000 to U+200A, U+2028, U+2029,
  U+202F, U+205F and U+3000. The two-byte ones are U+0085 and U+00A0.
\<close>

definition white2 :: "nat \<Rightarrow> nat \<Rightarrow> bool" where
  "white2 a b = (a = 0xC2 \<and> (b = 0x85 \<or> b = 0xA0))"

definition white3 :: "nat \<Rightarrow> nat \<Rightarrow> nat \<Rightarrow> bool" where
  "white3 a b c =
     ((a = 0xE1 \<and> b = 0x9A \<and> c = 0x80)
      \<or> (a = 0xE2 \<and> b = 0x80 \<and> ((0x80 \<le> c \<and> c \<le> 0x8A) \<or> c = 0xA8 \<or> c = 0xA9 \<or> c = 0xAF))
      \<or> (a = 0xE2 \<and> b = 0x81 \<and> c = 0x9F)
      \<or> (a = 0xE3 \<and> b = 0x80 \<and> c = 0x80))"

definition white1 :: "nat \<Rightarrow> bool" where
  "white1 a = ((9 \<le> a \<and> a \<le> 13) \<or> a = 32)"

fun trim_start :: "string \<Rightarrow> string" where
  "trim_start [] = []"
| "trim_start [a] = (if white1 (byte a) then [] else [a])"
| "trim_start [a, b] =
     (if white1 (byte a) then trim_start [b]
      else if white2 (byte a) (byte b) then [] else [a, b])"
| "trim_start (a # b # c # s) =
     (if white1 (byte a) then trim_start (b # c # s)
      else if white2 (byte a) (byte b) then trim_start (c # s)
      else if white3 (byte a) (byte b) (byte c) then trim_start s
      else a # b # c # s)"

text \<open>The same at the end, on the reversed bytes.\<close>

fun trim_rev :: "string \<Rightarrow> string" where
  "trim_rev [] = []"
| "trim_rev [a] = (if white1 (byte a) then [] else [a])"
| "trim_rev [a, b] =
     (if white1 (byte a) then trim_rev [b]
      else if white2 (byte b) (byte a) then [] else [a, b])"
| "trim_rev (a # b # c # s) =
     (if white1 (byte a) then trim_rev (b # c # s)
      else if white2 (byte b) (byte a) then trim_rev (c # s)
      else if white3 (byte c) (byte b) (byte a) then trim_rev s
      else a # b # c # s)"

definition trim :: "string \<Rightarrow> string" where
  "trim s = rev (trim_rev (rev (trim_start s)))"

definition is_continuation :: "char \<Rightarrow> bool" where
  "is_continuation c = (0x80 \<le> byte c \<and> byte c < 0xC0)"

definition chars_count :: "string \<Rightarrow> nat" where
  "chars_count s = length (filter (\<lambda>c. \<not> is_continuation c) s)"

definition is_ascii_alphanumeric :: "char \<Rightarrow> bool" where
  "is_ascii_alphanumeric c =
     ((48 \<le> byte c \<and> byte c \<le> 57) \<or> (65 \<le> byte c \<and> byte c \<le> 90) \<or> (97 \<le> byte c \<and> byte c \<le> 122))"

definition ascii_lower :: "char \<Rightarrow> char" where
  "ascii_lower c = (if 65 \<le> byte c \<and> byte c \<le> 90 then char_of (byte c + 32) else c)"

definition to_ascii_lowercase :: "string \<Rightarrow> string" where
  "to_ascii_lowercase s = map ascii_lower s"

definition replace_char :: "char \<Rightarrow> char \<Rightarrow> string \<Rightarrow> string" where
  "replace_char a b s = map (\<lambda>c. if c = a then b else c) s"

fun join :: "string \<Rightarrow> string list \<Rightarrow> string" where
  "join sep [] = []"
| "join sep [x] = x"
| "join sep (x # y # xs) = x @ sep @ join sep (y # xs)"

definition newline :: string where
  "newline = [CHR 0x0A]"

definition blank_line :: string where
  "blank_line = newline @ newline"

text \<open>\<open>Display\<close> of the integer types.\<close>

fun nat_text :: "nat \<Rightarrow> string" where
  "nat_text n =
     (if n < 10 then [char_of (48 + n)] else nat_text (n div 10) @ [char_of (48 + n mod 10)])"

declare nat_text.simps [simp del]

definition int_text :: "int \<Rightarrow> string" where
  "int_text i = (if i < 0 then ''-'' @ nat_text (nat (- i)) else nat_text (nat i))"

lemma length_trim_start: "length (trim_start s) \<le> length s"
  by (induction s rule: trim_start.induct) auto

lemma length_trim_rev: "length (trim_rev s) \<le> length s"
  by (induction s rule: trim_rev.induct) auto

lemma length_trim: "length (trim s) \<le> length s"
  using length_trim_rev [of "rev (trim_start s)"] length_trim_start [of s]
  by (simp add: trim_def)

section \<open>Machine integers\<close>

definition u64_max :: nat where "u64_max = 2 ^ 64 - 1"
definition i64_max :: int where "i64_max = 2 ^ 63 - 1"
definition i64_min :: int where "i64_min = - (2 ^ 63)"
definition i32_max :: int where "i32_max = 2 ^ 31 - 1"
definition u16_max :: int where "u16_max = 2 ^ 16 - 1"

definition saturating_add_u64 :: "nat \<Rightarrow> nat \<Rightarrow> nat" where
  "saturating_add_u64 a b = min u64_max (a + b)"

definition saturating_add_i64 :: "int \<Rightarrow> int \<Rightarrow> int" where
  "saturating_add_i64 a b = max i64_min (min i64_max (a + b))"

definition clamp :: "int \<Rightarrow> int \<Rightarrow> int \<Rightarrow> int" where
  "clamp lo hi x = max lo (min hi x)"

lemma saturating_add_u64_le: "saturating_add_u64 a b \<le> u64_max"
  by (simp add: saturating_add_u64_def)

lemma saturating_add_u64_exact: "a + b \<le> u64_max \<Longrightarrow> saturating_add_u64 a b = a + b"
  by (simp add: saturating_add_u64_def)

lemma clamp_bounds: "lo \<le> hi \<Longrightarrow> lo \<le> clamp lo hi x \<and> clamp lo hi x \<le> hi"
  by (simp add: clamp_def)

section \<open>Insertion-ordered sets\<close>

text \<open>
  The sources build lists without repetitions with a \<open>HashSet\<close> of what was seen:
  \<open>if seen.insert(x.clone()) { out.push(x) }\<close>.
\<close>

definition push_unseen :: "'a list \<Rightarrow> 'a \<Rightarrow> 'a list" where
  "push_unseen out x = (if x \<in> set out then out else out @ [x])"

lemma set_push_unseen [simp]: "set (push_unseen out x) = insert x (set out)"
  by (auto simp: push_unseen_def)

lemma distinct_push_unseen: "distinct out \<Longrightarrow> distinct (push_unseen out x)"
  by (simp add: push_unseen_def)

end
