(* ===== verification/Json.thy ===== *)
theory Json
  imports Prelude
begin

text \<open>
  \<open>serde_json::Value\<close> as the sources use it. Without the \<open>preserve_order\<close> feature an object is
  a \<open>BTreeMap<String, Value>\<close>: an association list sorted by key, so that iteration visits the
  keys in order and two objects with the same entries are equal. Numbers are the integers of
  \<open>u64\<close>/\<open>i64\<close> or the bits of a double, which no modelled code inspects.
\<close>

datatype number = Integer int | Float nat

datatype json =
    Null
  | Bool bool
  | Number number
  | String string
  | Array "json list"
  | Object "(string \<times> json) list"

type_synonym jmap = "(string \<times> json) list"

section \<open>Objects\<close>

definition obj_get :: "string \<Rightarrow> jmap \<Rightarrow> json option" where
  "obj_get k m = map_of m k"

fun obj_insert :: "string \<Rightarrow> json \<Rightarrow> jmap \<Rightarrow> jmap" where
  "obj_insert k v [] = [(k, v)]"
| "obj_insert k v ((k', v') # m) =
     (if k = k' then (k, v) # m
      else if k < k' then (k, v) # (k', v') # m
      else (k', v') # obj_insert k v m)"

definition obj_remove :: "string \<Rightarrow> jmap \<Rightarrow> jmap" where
  "obj_remove k m = filter (\<lambda>(k', _). k' \<noteq> k) m"

definition obj_wf :: "jmap \<Rightarrow> bool" where
  "obj_wf m = (sorted (map fst m) \<and> distinct (map fst m))"

definition json_object :: "(string \<times> json) list \<Rightarrow> json" where
  "json_object kvs = Object (fold (\<lambda>(k, v) m. obj_insert k v m) kvs [])"

text \<open>
  The contract of a map of JSON values: what a lookup returns after an insertion or a removal,
  and that both keep the representation well formed. Its clients rewrite request objects.
\<close>

locale object_map =
  fixes get :: "'k \<Rightarrow> 'm \<Rightarrow> 'v option"
    and insert :: "'k \<Rightarrow> 'v \<Rightarrow> 'm \<Rightarrow> 'm"
    and remove :: "'k \<Rightarrow> 'm \<Rightarrow> 'm"
    and wf :: "'m \<Rightarrow> bool"
  assumes get_insert: "get k (insert k' v m) = (if k = k' then Some v else get k m)"
    and get_remove: "get k (remove k' m) = (if k = k' then None else get k m)"
    and wf_insert: "wf m \<Longrightarrow> wf (insert k v m)"
    and wf_remove: "wf m \<Longrightarrow> wf (remove k m)"
begin

lemma get_insert_same [simp]: "get k (insert k v m) = Some v"
  by (simp add: get_insert)

lemma get_insert_other [simp]: "k \<noteq> k' \<Longrightarrow> get k (insert k' v m) = get k m"
  by (simp add: get_insert)

lemma get_remove_same [simp]: "get k (remove k m) = None"
  by (simp add: get_remove)

lemma get_remove_other [simp]: "k \<noteq> k' \<Longrightarrow> get k (remove k' m) = get k m"
  by (simp add: get_remove)

text \<open>A sequence of insertions answers each key with its last value.\<close>

lemma get_fold_insert:
  "get k (fold (\<lambda>(k', v) m. insert k' v m) kvs m) =
     (case map_of (rev kvs) k of None \<Rightarrow> get k m | Some v \<Rightarrow> Some v)"
  by (induction kvs arbitrary: m)
    (auto simp: get_insert map_add_def split: option.splits if_splits)

lemma wf_fold_insert: "wf m \<Longrightarrow> wf (fold (\<lambda>(k', v) m. insert k' v m) kvs m)"
  by (induction kvs arbitrary: m) (auto intro: wf_insert)

end

lemma fst_obj_insert: "set (map fst (obj_insert k v m)) = insert k (set (map fst m))"
  by (induction k v m rule: obj_insert.induct) auto

lemma obj_wf_insert: "obj_wf m \<Longrightarrow> obj_wf (obj_insert k v m)"
proof (induction k v m rule: obj_insert.induct)
  case (1 k v)
  then show ?case by (simp add: obj_wf_def)
next
  case (2 k v k' v' m)
  then have IH: "k \<noteq> k' \<Longrightarrow> \<not> k < k' \<Longrightarrow> obj_wf (obj_insert k v m)"
    by (simp add: obj_wf_def)
  have keys: "set (map fst (obj_insert k v m)) = insert k (set (map fst m))"
    by (rule fst_obj_insert)
  show ?case
  proof (cases "k = k' \<or> k < k'")
    case True
    with 2 show ?thesis by (auto simp: obj_wf_def)
  next
    case False
    then have "k' < k" by auto
    with False IH keys 2 show ?thesis
      by (auto simp: obj_wf_def)
  qed
qed

lemma obj_get_insert: "obj_get k (obj_insert k' v m) = (if k = k' then Some v else obj_get k m)"
  by (induction k' v m rule: obj_insert.induct) (auto simp: obj_get_def)

lemma obj_get_remove: "obj_get k (obj_remove k' m) = (if k = k' then None else obj_get k m)"
  by (induction m) (auto simp: obj_get_def obj_remove_def)

lemma obj_wf_remove: "obj_wf m \<Longrightarrow> obj_wf (obj_remove k m)"
  unfolding obj_wf_def obj_remove_def
  by (induction m) auto

interpretation obj: object_map obj_get obj_insert obj_remove obj_wf
  by unfold_locales (auto simp: obj_get_insert obj_get_remove obj_wf_insert obj_wf_remove)

lemma obj_get_json_object:
  "json_object kvs = Object m \<Longrightarrow> obj_get k m = map_of (rev kvs) k"
  using obj.get_fold_insert [of k kvs "[]"]
  by (auto simp: json_object_def obj_get_def split: option.splits)

section \<open>Accessors of values\<close>

text \<open>\<open>Value::get\<close> with a string key: only an object answers.\<close>

fun get :: "string \<Rightarrow> json \<Rightarrow> json option" where
  "get k (Object m) = obj_get k m"
| "get k _ = None"

fun as_str :: "json \<Rightarrow> string option" where
  "as_str (String s) = Some s"
| "as_str _ = None"

fun as_bool :: "json \<Rightarrow> bool option" where
  "as_bool (Bool b) = Some b"
| "as_bool _ = None"

fun as_array :: "json \<Rightarrow> json list option" where
  "as_array (Array xs) = Some xs"
| "as_array _ = None"

fun as_object :: "json \<Rightarrow> jmap option" where
  "as_object (Object m) = Some m"
| "as_object _ = None"

fun as_u64 :: "json \<Rightarrow> nat option" where
  "as_u64 (Number (Integer i)) = (if 0 \<le> i \<and> i < 2 ^ 64 then Some (nat i) else None)"
| "as_u64 _ = None"

definition is_object :: "json \<Rightarrow> bool" where
  "is_object v = (as_object v \<noteq> None)"

definition is_null :: "json \<Rightarrow> bool" where
  "is_null v = (v = Null)"

definition get_str :: "string \<Rightarrow> json \<Rightarrow> string option" where
  "get_str k v = Option.bind (get k v) as_str"

definition filter_opt :: "('a \<Rightarrow> bool) \<Rightarrow> 'a option \<Rightarrow> 'a option" where
  "filter_opt p x = (case x of None \<Rightarrow> None | Some y \<Rightarrow> if p y then Some y else None)"

text \<open>\<open>.and_then(Value::as_str).map(str::trim).filter(|value| !value.is_empty())\<close>\<close>

definition trimmed_str :: "json option \<Rightarrow> string option" where
  "trimmed_str v = filter_opt (\<lambda>s. s \<noteq> []) (map_option trim (Option.bind v as_str))"

definition or_else :: "'a option \<Rightarrow> 'a option \<Rightarrow> 'a option" where
  "or_else x y = (case x of None \<Rightarrow> y | Some _ \<Rightarrow> x)"

definition unwrap_or :: "'a \<Rightarrow> 'a option \<Rightarrow> 'a" where
  "unwrap_or d x = (case x of None \<Rightarrow> d | Some y \<Rightarrow> y)"

lemma filter_opt_Some [simp]: "filter_opt p x = Some y \<longleftrightarrow> x = Some y \<and> p y"
  by (auto simp: filter_opt_def split: option.splits)

lemma unwrap_or_simps [simp]: "unwrap_or d None = d" "unwrap_or d (Some x) = x"
  by (simp_all add: unwrap_or_def)

lemma or_else_simps [simp]: "or_else None y = y" "or_else (Some x) y = Some x"
  by (simp_all add: or_else_def)

lemma trimmed_str_nonempty: "trimmed_str v = Some s \<Longrightarrow> s \<noteq> []"
  by (auto simp: trimmed_str_def)

lemma get_json_object: "get k (json_object kvs) = map_of (rev kvs) k"
  using obj_get_json_object [of kvs _ k] by (simp add: json_object_def)

end
