(* ===== verification/Contracts.thy ===== *)
theory Contracts
  imports Json
begin

text \<open>
  The wire contracts of \<open>crates/cowork-contracts\<close> that the modelled components exchange: run
  states with their transition table, run specifications and records, executors, and the
  compatibility check of schema versions. Identifiers are the 128-bit values of \<open>Uuid\<close> read as
  naturals (their order is the byte order PostgreSQL uses), times are microseconds, and
  capability names stay strings.
\<close>

type_synonym uuid = nat
type_synonym time = int
type_synonym capability = string

definition SCHEMA_VERSION :: nat where "SCHEMA_VERSION = 2"
definition MIN_COMPATIBLE_SCHEMA_VERSION :: nat where "MIN_COMPATIBLE_SCHEMA_VERSION = 1"

section \<open>Data\<close>

datatype executor_target =
    ServerLinux "uuid option"
  | ManagedWindowsPool uuid
  | PersonalDevice uuid

datatype executor_kind = KServerLinux | KManagedWindows | KPersonalDevice

datatype remote_control_mode = Off | ConfirmEachSession | Unattended

datatype run_state =
    Queued | WaitingForExecutor | WaitingForSnapshot | Running | WaitingApproval
  | WaitingInput | Interrupted | Completed | Failed | Canceled | Expired

datatype project_privacy = PrivateLocal | TeamManaged

datatype run_event_kind =
    Ev_Created | Ev_StateChanged | Ev_ModelStarted | Ev_ModelDelta | Ev_ModelCompleted
  | Ev_ToolStarted | Ev_ToolCompleted | Ev_ToolFailed | Ev_CheckpointCreated
  | Ev_ApprovalRequested | Ev_ApprovalResolved | Ev_InputRequested | Ev_InputReceived
  | Ev_ArtifactCreated | Ev_DesktopSessionChanged | Ev_ExecutorAssigned
  | Ev_ExecutorHeartbeat | Ev_Warning | Ev_Failed | Ev_Completed

datatype message_role = RoleUser | RoleAssistant | RoleSystem | RoleTool

datatype team_role = TeamOwner | TeamAdmin | TeamMember

datatype project_role = Viewer | Runner | Editor

datatype quota_scope = ScopeUser | ScopeTeam

datatype approval_state = Pending | Approved | Rejected | ApprovalExpired

datatype input_state = InputPending | InputSubmitted | InputExpired

record frozen_reference =
  ref_id :: uuid
  ref_revision :: int

record run_spec =
  spec_schema_version :: nat
  spec_id :: uuid
  spec_thread_id :: uuid
  spec_project_id :: uuid
  spec_project :: frozen_reference
  spec_project_privacy :: project_privacy
  spec_task :: "frozen_reference option"
  spec_creator_user_id :: uuid
  spec_executor_target :: executor_target
  spec_required_capabilities :: "capability list"
  spec_input :: json
  spec_model_profile_id :: "uuid option"
  spec_snapshot_id :: "uuid option"
  spec_idempotency_key :: string
  spec_created_at :: time

record run_error =
  err_code :: string
  err_message :: string
  err_retryable :: bool
  err_details :: json

record run_record =
  rec_spec :: run_spec
  rec_state :: run_state
  rec_revision :: int
  rec_etag :: string
  rec_assigned_executor_id :: "uuid option"
  rec_lease_expires_at :: "time option"
  rec_started_at :: "time option"
  rec_finished_at :: "time option"
  rec_result :: "json option"
  rec_error :: "run_error option"
  rec_updated_at :: time

record run_event =
  ev_run_id :: uuid
  ev_sequence :: int
  ev_event_id :: uuid
  ev_kind :: run_event_kind
  ev_payload :: json
  ev_created_at :: time

record capability_descriptor =
  cap_name :: capability
  cap_version :: string
  cap_attributes :: jmap

record executor_registration =
  reg_schema_version :: nat
  reg_executor_id :: uuid
  reg_kind :: executor_kind
  reg_pool_id :: "uuid option"
  reg_owner_user_id :: "uuid option"
  reg_display_name :: string
  reg_protocol_version :: nat
  reg_capabilities :: "capability_descriptor list"
  reg_labels :: "(string \<times> string) list"
  reg_remote_control :: "remote_control_mode option"
  reg_max_concurrent_runs :: int

record executor_record =
  exr_registration :: executor_registration
  exr_online :: bool
  exr_draining :: bool
  exr_active_runs :: int
  exr_last_seen_at :: time

record run_lease =
  lease_run :: run_record
  lease_lease_token :: uuid
  lease_lease_expires_at :: time

section \<open>The run state machine\<close>

fun is_terminal :: "run_state \<Rightarrow> bool" where
  "is_terminal s = (s = Completed \<or> s = Failed \<or> s = Canceled \<or> s = Expired)"

fun can_transition_to :: "run_state \<Rightarrow> run_state \<Rightarrow> bool" where
  "can_transition_to s n =
     (if s = n then True
      else case s of
        Queued \<Rightarrow> n \<in> {WaitingForExecutor, WaitingForSnapshot, Running, Canceled, Expired}
      | WaitingForExecutor \<Rightarrow> n \<in> {Queued, Running, Canceled, Expired}
      | WaitingForSnapshot \<Rightarrow> n \<in> {Queued, WaitingForExecutor, Canceled, Expired}
      | Running \<Rightarrow> n \<in> {WaitingApproval, WaitingInput, Interrupted, Completed, Failed, Canceled}
      | WaitingApproval \<Rightarrow> n \<in> {Running, Interrupted, Failed, Canceled, Expired}
      | WaitingInput \<Rightarrow> n \<in> {Running, Interrupted, Failed, Canceled, Expired}
      | Interrupted \<Rightarrow> n \<in> {Queued, Failed, Canceled, Expired}
      | _ \<Rightarrow> False)"

declare is_terminal.simps [simp del] can_transition_to.simps [simp del]

datatype contract_error =
    UnsupportedSchemaVersion nat nat nat
  | InvalidRunTransition run_state run_state

definition ensure_compatible :: "nat \<Rightarrow> (contract_error, unit) result" where
  "ensure_compatible v =
     (if MIN_COMPATIBLE_SCHEMA_VERSION \<le> v \<and> v \<le> SCHEMA_VERSION then Inr ()
      else Inl (UnsupportedSchemaVersion v MIN_COMPATIBLE_SCHEMA_VERSION SCHEMA_VERSION))"

definition ensure_run_transition :: "run_state \<Rightarrow> run_state \<Rightarrow> (contract_error, unit) result" where
  "ensure_run_transition a b =
     (if can_transition_to a b then Inr () else Inl (InvalidRunTransition a b))"

text \<open>\<open>Debug\<close> and \<open>Display\<close> of the errors, as \<open>error.to_string()\<close> renders them.\<close>

fun state_debug :: "run_state \<Rightarrow> string" where
  "state_debug Queued = ''Queued''"
| "state_debug WaitingForExecutor = ''WaitingForExecutor''"
| "state_debug WaitingForSnapshot = ''WaitingForSnapshot''"
| "state_debug Running = ''Running''"
| "state_debug WaitingApproval = ''WaitingApproval''"
| "state_debug WaitingInput = ''WaitingInput''"
| "state_debug Interrupted = ''Interrupted''"
| "state_debug Completed = ''Completed''"
| "state_debug Failed = ''Failed''"
| "state_debug Canceled = ''Canceled''"
| "state_debug Expired = ''Expired''"

fun contract_error_text :: "contract_error \<Rightarrow> string" where
  "contract_error_text (UnsupportedSchemaVersion a lo hi) =
     ''unsupported schema version '' @ nat_text a @ ''; supported range is '' @ nat_text lo
       @ ''..='' @ nat_text hi"
| "contract_error_text (InvalidRunTransition a b) =
     ''invalid run state transition from '' @ state_debug a @ '' to '' @ state_debug b"

lemma terminal_simps [simp]:
  "is_terminal Completed" "is_terminal Failed" "is_terminal Canceled" "is_terminal Expired"
  "\<not> is_terminal Queued" "\<not> is_terminal WaitingForExecutor" "\<not> is_terminal WaitingForSnapshot"
  "\<not> is_terminal Running" "\<not> is_terminal WaitingApproval" "\<not> is_terminal WaitingInput"
  "\<not> is_terminal Interrupted"
  by (simp_all add: is_terminal.simps)

lemma can_transition_refl [simp]: "can_transition_to s s"
  by (simp add: can_transition_to.simps)

lemma terminal_sink: "is_terminal s \<Longrightarrow> can_transition_to s n \<Longrightarrow> n = s"
  by (cases s) (auto simp: can_transition_to.simps split: if_splits)

lemma ensure_run_transition_Inr [tx_simps]:
  "ensure_run_transition a b = Inr u \<longleftrightarrow> can_transition_to a b"
  by (simp add: ensure_run_transition_def)

lemma ensure_compatible_Inr [tx_simps]:
  "ensure_compatible v = Inr u \<longleftrightarrow> v = 1 \<or> v = 2"
  by (auto simp: ensure_compatible_def MIN_COMPATIBLE_SCHEMA_VERSION_def SCHEMA_VERSION_def)

subsection \<open>Reachability in the contract\<close>

inductive lifecycle :: "run_state \<Rightarrow> run_state \<Rightarrow> bool" where
  stay: "lifecycle s s"
| move: "lifecycle s t \<Longrightarrow> can_transition_to t u \<Longrightarrow> lifecycle s u"

lemma lifecycle_step: "can_transition_to s t \<Longrightarrow> lifecycle s t"
  by (rule lifecycle.move [OF lifecycle.stay])

lemma lifecycle_trans: "lifecycle s t \<Longrightarrow> lifecycle t u \<Longrightarrow> lifecycle s u"
  by (rotate_tac 1, induction rule: lifecycle.induct) (auto intro: lifecycle.intros)

lemma lifecycle_terminal: "lifecycle s t \<Longrightarrow> is_terminal s \<Longrightarrow> t = s"
  by (induction rule: lifecycle.induct) (auto dest: terminal_sink)

text \<open>The states in which an executor holds the lease of a run.\<close>

fun holds_lease :: "run_state \<Rightarrow> bool" where
  "holds_lease s = (s = Running \<or> s = WaitingApproval \<or> s = WaitingInput)"

lemma holds_lease_not_terminal: "holds_lease s \<Longrightarrow> \<not> is_terminal s"
  by (cases s) simp_all

lemma terminal_not_holds_lease: "is_terminal s \<Longrightarrow> \<not> holds_lease s"
  by (cases s) simp_all

end
