(* ===== verification/Database.thy ===== *)
theory Database
  imports Contracts
begin

text \<open>
  The PostgreSQL state behind the control plane (\<open>server/cowork-server/migrations\<close>): one list of
  rows per table the modelled statements read or write, the errors of \<open>error.rs\<close>, and the
  environment of a request.

  Columns that only copy a field of a stored JSON document are projections of it: the columns
  \<open>id\<close>, \<open>thread_id\<close>, \<open>project_id\<close>, \<open>creator_user_id\<close>, \<open>idempotency_key\<close>, \<open>target_*\<close>,
  \<open>snapshot_id\<close> and \<open>created_at\<close> of \<open>runs\<close> are bound from the specification at insertion and no
  statement updates them; the columns of \<open>executors\<close> repeat the registration. A column with a
  \<open>CHECK\<close> over the names of an enumeration holds the enumeration.
\<close>

section \<open>Errors and the environment of a request\<close>

datatype api_error =
    BadRequest string
  | Unauthorized string
  | NotFound string
  | Conflict string
  | Unprocessable string
  | Quota string
  | DatabaseError string
  | JsonError string
  | Internal string

text \<open>
  What a request takes from outside the program: the transaction time \<open>now()\<close> of the database
  and \<open>Utc::now()\<close> of the process, the draws of \<open>Uuid::new_v4()\<close>, and the renderings of the
  \<open>uuid\<close>, \<open>chrono\<close> and \<open>serde_json\<close> crates (\<open>Value\<close> is rendered compactly, so the length of
  \<open>serde_json::to_vec\<close> is that of its text). \<open>env_month\<close> is the first day of the month of a time
  (rendered by \<open>env_date\<close>) and \<open>env_column_size\<close> is \<open>pg_column_size\<close>. \<open>Uuid\<close>, URLs, \<open>chrono_tz\<close> zones
  and \<open>cron\<close> schedules are parsed by their crates: \<open>env_timezone\<close> answers with the name of the
  zone, \<open>env_cron_error\<close> with the error of an expression that does not parse, and
  \<open>env_cron_next\<close> with the first occurrence of an expression in a zone strictly after a time.
  \<open>env_debug\<close> is the \<open>Debug\<close> rendering of a string.
\<close>

record url =
  url_scheme :: string
  url_host_str :: "string option"
  url_port_or_known_default :: "nat option"
  url_username :: string
  url_password :: "string option"
  url_query :: "string option"
  url_fragment :: "string option"

record env =
  env_now :: time
  env_utc_now :: time
  env_new_v4 :: "nat \<Rightarrow> uuid"
  env_uuid :: "uuid \<Rightarrow> string"
  env_time :: "time \<Rightarrow> string"
  env_json :: "json \<Rightarrow> string"
  env_column_size :: "json \<Rightarrow> int"
  env_month :: "time \<Rightarrow> int"
  env_date :: "int \<Rightarrow> string"
  env_parse_uuid :: "string \<Rightarrow> uuid option"
  env_parse_url :: "string \<Rightarrow> url option"
  env_timezone :: "string \<Rightarrow> string option"
  env_cron_error :: "string \<Rightarrow> string option"
  env_cron_next :: "string \<Rightarrow> string \<Rightarrow> time \<Rightarrow> time option"
  env_debug :: "string \<Rightarrow> string"

section \<open>Rows\<close>

record run_row =
  run_spec :: run_spec
  run_state :: run_state
  run_revision :: int
  run_result :: "json option"
  run_error :: "run_error option"
  run_assigned :: "uuid option"
  run_lease_owner :: "uuid option"
  run_lease_token :: "uuid option"
  run_lease_expires :: "time option"
  run_updated :: time
  run_started :: "time option"
  run_finished :: "time option"
  run_next_sequence :: int

abbreviation run_id :: "run_row \<Rightarrow> uuid" where
  "run_id r \<equiv> spec_id (run_spec r)"

abbreviation run_thread :: "run_row \<Rightarrow> uuid" where
  "run_thread r \<equiv> spec_thread_id (run_spec r)"

abbreviation run_key :: "run_row \<Rightarrow> time \<times> uuid" where
  "run_key r \<equiv> (spec_created_at (run_spec r), run_id r)"

record executor_row =
  exec_registration :: executor_registration
  exec_active_runs :: int
  exec_draining :: bool
  exec_last_seen :: time
  exec_updated :: time

abbreviation exec_id :: "executor_row \<Rightarrow> uuid" where
  "exec_id e \<equiv> reg_executor_id (exec_registration e)"

record checkpoint_row =
  ck_id :: uuid
  ck_run_id :: uuid
  ck_sequence :: int
  ck_safe :: bool
  ck_executor_state :: json
  ck_created :: time

record push_row =
  push_id :: uuid
  push_run_id :: uuid
  push_user_id :: uuid
  push_sequence :: int
  push_kind :: run_event_kind

record subscription_row =
  sub_id :: uuid
  sub_user_id :: uuid
  sub_device_id :: uuid
  sub_revoked :: "time option"

record session_row =
  sess_id :: uuid
  sess_user_id :: uuid
  sess_device_id :: uuid
  sess_expires :: time
  sess_revoked :: "time option"

record message_row =
  msg_id :: uuid
  msg_revision :: int
  msg_etag :: string
  msg_thread_id :: uuid
  msg_author :: "uuid option"
  msg_role :: message_role
  msg_content :: json
  msg_run_id :: "uuid option"
  msg_created :: time
  msg_updated :: time
  msg_deleted :: "time option"

record thread_row =
  thr_id :: uuid
  thr_revision :: int
  thr_etag :: string
  thr_project_id :: uuid
  thr_created_by :: uuid
  thr_forked_thread :: "uuid option"
  thr_forked_message :: "uuid option"
  thr_title :: string
  thr_created :: time
  thr_updated :: time
  thr_deleted :: "time option"

record project_row =
  prj_id :: uuid
  prj_revision :: int
  prj_etag :: string
  prj_owner :: uuid
  prj_team :: "uuid option"
  prj_privacy :: project_privacy
  prj_name :: string
  prj_description :: string
  prj_preferred_target :: "json option"
  prj_current_version :: "uuid option"
  prj_policy :: json
  prj_created :: time
  prj_updated :: time
  prj_deleted :: "time option"

record user_row =
  usr_id :: uuid
  usr_platform_admin :: bool
  usr_deleted :: "time option"

record grant_row =
  grant_id :: uuid
  grant_granted_by :: uuid
  grant_support_user :: uuid
  grant_project :: "uuid option"
  grant_thread :: "uuid option"
  grant_reason :: string
  grant_created :: time
  grant_expires :: time
  grant_revoked :: "time option"

record quota_limit_row =
  ql_scope :: quota_scope
  ql_scope_id :: uuid
  ql_storage_bytes :: "int option"
  ql_concurrent_runs :: "int option"
  ql_monthly_tokens :: "int option"
  ql_monthly_cost :: "int option"
  ql_hard_cost_limit :: bool
  ql_updated :: time

record quota_usage_row =
  qu_scope :: quota_scope
  qu_scope_id :: uuid
  qu_period :: int
  qu_tokens :: int
  qu_cost :: int
  qu_updated :: time

datatype manifest_status = Uploading | Ready | ManifestExpired | Deleting

text \<open>The declaration of a snapshot, stored as JSON in the manifest column.\<close>

record snapshot_upload_chunk =
  suc_digest :: string
  suc_plaintext_size :: nat

record snapshot_upload_file =
  suf_path :: string
  suf_size :: nat
  suf_mode :: nat
  suf_modified_at :: time
  suf_chunks :: "snapshot_upload_chunk list"

record manifest_row =
  man_id :: uuid
  man_project_id :: uuid
  man_created_by :: uuid
  man_scope :: quota_scope
  man_scope_id :: uuid
  man_total_bytes :: int
  man_status :: manifest_status
  man_source_run :: "uuid option"
  man_created :: time
  man_expires :: "time option"
  man_encryption_key :: string
  man_file_count :: int
  man_files :: "snapshot_upload_file list"
  man_warnings :: "string list"
  man_upload_expires :: time
  man_committed :: "time option"

text \<open>Chunks of snapshots, keyed by scope and digest; a digest is written as its 64 lowercase
  hexadecimal digits.\<close>

datatype chunk_status = ChunkUploading | ChunkReady | ChunkDeleting

record chunk_row =
  chk_scope :: quota_scope
  chk_scope_id :: uuid
  chk_digest :: string
  chk_object_key :: string
  chk_plaintext_size :: int
  chk_ciphertext_size :: int
  chk_wrapped_data_key :: string
  chk_nonce :: string
  chk_wrap_nonce :: "string option"
  chk_ref_count :: int
  chk_status :: chunk_status
  chk_last_referenced :: time

record manifest_chunk_row =
  mc_manifest :: uuid
  mc_path :: string
  mc_index :: int
  mc_scope :: quota_scope
  mc_scope_id :: uuid
  mc_digest :: string

record reservation_row =
  rsv_manifest :: uuid
  rsv_scope :: quota_scope
  rsv_scope_id :: uuid
  rsv_digest :: string

record version_row =
  ver_id :: uuid
  ver_project_id :: uuid
  ver_revision :: int
  ver_parent :: "uuid option"
  ver_merge_base :: "uuid option"
  ver_manifest :: uuid
  ver_created_by_user :: "uuid option"
  ver_created_by_run :: "uuid option"
  ver_diff_summary :: json
  ver_created :: time

record artifact_row =
  art_id :: uuid
  art_run_id :: uuid
  art_revision :: int
  art_kind :: string
  art_media_type :: string
  art_name :: string
  art_object_key :: string
  art_digest :: string
  art_size :: int
  art_metadata :: json
  art_scope :: "quota_scope option"
  art_scope_id :: "uuid option"
  art_encrypted_data_key :: "string option"
  art_nonce :: "string option"
  art_wrap_nonce :: "string option"
  art_source_event :: "uuid option"
  art_created :: time
  art_deleted :: "time option"

record approval_row =
  apr_id :: uuid
  apr_run_id :: uuid
  apr_revision :: int
  apr_etag :: string
  apr_action :: json
  apr_state :: approval_state
  apr_requested :: time
  apr_expires :: time
  apr_resolved_by :: "uuid option"
  apr_resolved :: "time option"
  apr_executor :: "uuid option"
  apr_source :: "uuid option"

record input_row =
  inp_id :: uuid
  inp_run_id :: uuid
  inp_revision :: int
  inp_etag :: string
  inp_prompt :: json
  inp_state :: input_state
  inp_response :: "json option"
  inp_requested :: time
  inp_expires :: time
  inp_responded_by :: "uuid option"
  inp_responded :: "time option"
  inp_source :: "uuid option"

record sync_entity_row =
  se_user :: uuid
  se_type :: string
  se_entity :: uuid
  se_revision :: int
  se_etag :: string
  se_payload :: "json option"
  se_tombstone :: bool
  se_updated :: time

record sync_change_row =
  sc_cursor :: int
  sc_user :: uuid
  sc_type :: string
  sc_entity :: uuid
  sc_revision :: int
  sc_upsert :: bool
  sc_payload :: "json option"

datatype sync_operation = SyncUpsert | SyncDelete

datatype sync_apply_status = SyncApplied | SyncConflict

record synced_entity =
  sye_type :: string
  sye_entity :: uuid
  sye_revision :: int
  sye_etag :: string
  sye_payload :: "json option"
  sye_tombstone :: bool
  sye_updated :: time

record sync_apply_result =
  sar_operation_id :: uuid
  sar_status :: sync_apply_status
  sar_entity :: "synced_entity option"

record sync_operation_row =
  so_operation_id :: uuid
  so_device :: uuid
  so_user :: uuid
  so_type :: string
  so_entity :: uuid
  so_base_revision :: int
  so_operation :: sync_operation
  so_payload :: "json option"
  so_client_timestamp :: time
  so_server_revision :: "int option"
  so_result :: sync_apply_result

record device_cursor_row =
  dc_device :: uuid
  dc_user :: uuid
  dc_last_cursor :: int

record pool_row =
  pool_id :: uuid
  pool_revision :: int
  pool_etag :: string
  pool_name :: string
  pool_kind :: executor_kind
  pool_team :: "uuid option"
  pool_policy :: json
  pool_created_by :: "uuid option"
  pool_deleted :: "time option"

record team_row =
  tm_id :: uuid
  tm_revision :: int
  tm_etag :: string
  tm_name :: string
  tm_owner :: uuid
  tm_created :: time
  tm_updated :: time
  tm_deleted :: "time option"

record task_row =
  tsk_id :: uuid
  tsk_revision :: int
  tsk_etag :: string
  tsk_project_id :: uuid
  tsk_name :: string
  tsk_instructions :: string
  tsk_required_capabilities :: "capability list"
  tsk_default_target :: "executor_target option"
  tsk_config :: json
  tsk_released :: bool
  tsk_created_by :: uuid
  tsk_created :: time
  tsk_deleted :: "time option"

record schedule_row =
  sch_id :: uuid
  sch_revision :: int
  sch_etag :: string
  sch_task_id :: uuid
  sch_project_id :: uuid
  sch_thread_id :: uuid
  sch_cron :: string
  sch_timezone :: string
  sch_target :: executor_target
  sch_input :: json
  sch_model_profile :: "uuid option"
  sch_enabled :: bool
  sch_next_run :: "time option"
  sch_last_triggered :: "time option"
  sch_blocked :: "string option"
  sch_created_by :: uuid
  sch_created :: time
  sch_updated :: time
  sch_deleted :: "time option"

text \<open>An envelope of \<open>storage.rs\<close>: the columns are all set or all \<open>NULL\<close> by a \<open>CHECK\<close>.\<close>

record sealed_value =
  sv_ciphertext :: string
  sv_encrypted_data_key :: string
  sv_nonce :: string
  sv_wrap_nonce :: string

record profile_row =
  pp_id :: uuid
  pp_revision :: int
  pp_etag :: string
  pp_owner :: "uuid option"
  pp_team :: "uuid option"
  pp_name :: string
  pp_kind :: string
  pp_defaults :: json
  pp_secret :: "sealed_value option"
  pp_created :: time
  pp_updated :: time
  pp_deleted :: "time option"

record mcp_binding_row =
  mb_project_id :: uuid
  mb_entity_id :: uuid
  mb_revision :: int
  mb_etag :: string
  mb_owner :: uuid
  mb_team :: "uuid option"
  mb_name :: string
  mb_transport :: string
  mb_hint :: string
  mb_argument_count :: int
  mb_environment_keys :: json
  mb_sealed :: sealed_value
  mb_created :: time
  mb_updated :: time

record audit_row =
  aud_actor :: uuid
  aud_action :: string
  aud_target_type :: string
  aud_target :: uuid
  aud_metadata :: json

section \<open>The database\<close>

record db =
  runs :: "run_row list"
  events :: "run_event list"
  executors :: "executor_row list"
  checkpoints :: "checkpoint_row list"
  pushes :: "push_row list"
  subscriptions :: "subscription_row list"
  sessions :: "session_row list"
  messages :: "message_row list"
  threads :: "thread_row list"
  projects :: "project_row list"
  users :: "user_row list"
  team_members :: "(uuid \<times> uuid \<times> team_role) list"
  project_members :: "(uuid \<times> uuid \<times> project_role) list"
  grants :: "grant_row list"
  quota_limits :: "quota_limit_row list"
  quota_usage :: "quota_usage_row list"
  manifests :: "manifest_row list"
  versions :: "version_row list"
  approvals :: "approval_row list"
  inputs :: "input_row list"
  sync_entities :: "sync_entity_row list"
  sync_changes :: "sync_change_row list"
  materializations :: "(uuid \<times> string \<times> uuid) list"
  audits :: "audit_row list"
  pools :: "pool_row list"
  pool_grants :: "(uuid \<times> uuid) list"
  teams :: "team_row list"
  tasks :: "task_row list"
  schedules :: "schedule_row list"
  profiles :: "profile_row list"
  mcp_bindings :: "mcp_binding_row list"
  chunks :: "chunk_row list"
  manifest_chunks :: "manifest_chunk_row list"
  reservations :: "reservation_row list"
  artifacts :: "artifact_row list"
  sync_operations :: "sync_operation_row list"
  device_cursors :: "device_cursor_row list"
  draws :: nat

type_synonym 'a dbtx = "(db, api_error, 'a) tx"

text \<open>The draws of the identifier generator are numbered through the request.\<close>

definition new_v4 :: "env \<Rightarrow> uuid dbtx" where
  "new_v4 E = (\<lambda>d. Inr (env_new_v4 E (draws d), d\<lparr>draws := Suc (draws d)\<rparr>))"

definition version_etag :: "env \<Rightarrow> uuid \<Rightarrow> int \<Rightarrow> string" where
  "version_etag E i revision = ''W/'' @ [CHR 0x22] @ env_uuid E i @ '':'' @ int_text revision @ [CHR 0x22]"

type_synonym 'a handler = "(db, api_error, 'a) hx"

definition find_run :: "uuid \<Rightarrow> db \<Rightarrow> run_row option" where
  "find_run i d = fetch_optional (\<lambda>r. run_id r = i) (runs d)"

definition find_executor :: "uuid \<Rightarrow> db \<Rightarrow> executor_row option" where
  "find_executor i d = fetch_optional (\<lambda>e. exec_id e = i) (executors d)"

definition update_run :: "uuid \<Rightarrow> (run_row \<Rightarrow> run_row) \<Rightarrow> unit dbtx" where
  "update_run i f = writeT (\<lambda>d. d\<lparr>runs := update_where (\<lambda>r. run_id r = i) f (runs d)\<rparr>)"

definition update_executor :: "uuid \<Rightarrow> (executor_row \<Rightarrow> executor_row) \<Rightarrow> unit dbtx" where
  "update_executor i f =
     writeT (\<lambda>d. d\<lparr>executors := update_where (\<lambda>e. exec_id e = i) f (executors d)\<rparr>)"

text \<open>\<open>fetch_one\<close> of a row that is not there is \<open>sqlx::Error::RowNotFound\<close>.\<close>

definition row_not_found :: api_error where
  "row_not_found = DatabaseError ''no rows returned by a query that expected to return at least one row''"

definition unique_violation :: "string \<Rightarrow> api_error" where
  "unique_violation c = DatabaseError (''duplicate key value violates unique constraint '' @ c)"

definition run_not_found :: "env \<Rightarrow> uuid \<Rightarrow> api_error" where
  "run_not_found E i = NotFound (''run '' @ env_uuid E i @ '' was not found'')"

lemma new_v4_Inr [tx_simps]:
  "new_v4 E d = Inr (i, d') \<longleftrightarrow> i = env_new_v4 E (draws d) \<and> d' = d\<lparr>draws := Suc (draws d)\<rparr>"
  by (auto simp: new_v4_def)

lemma update_run_Inr [tx_simps]:
  "update_run i f d = Inr (u, d') \<longleftrightarrow>
     d' = d\<lparr>runs := update_where (\<lambda>r. run_id r = i) f (runs d)\<rparr>"
  by (simp add: update_run_def tx_simps)

lemma update_executor_Inr [tx_simps]:
  "update_executor i f d = Inr (u, d') \<longleftrightarrow>
     d' = d\<lparr>executors := update_where (\<lambda>e. exec_id e = i) f (executors d)\<rparr>"
  by (simp add: update_executor_def tx_simps)

lemma find_run_Some: "find_run i d = Some r \<Longrightarrow> r \<in> set (runs d) \<and> run_id r = i"
  unfolding find_run_def by (auto dest: fetch_optional_Some)

section \<open>Frames\<close>

text \<open>
  Most statements leave runs, events and executors alone: \<open>same_core\<close> says so, and the collection
  \<open>core_intros\<close> holds the transactions that obey it.
\<close>

named_theorems core_intros \<open>transactions that leave runs, events and executors as they were\<close>

definition core :: "db \<Rightarrow> run_row list \<times> run_event list \<times> executor_row list" where
  "core d = (runs d, events d, executors d)"

definition same_core :: "db \<Rightarrow> db \<Rightarrow> bool" where
  "same_core d d' = (core d' = core d)"

interpretation same_core: state_preorder same_core
  by unfold_locales (simp_all add: same_core_def)

interpretation unchanged: state_preorder "\<lambda>d d'. d' = d"
  by unfold_locales simp_all

lemmas [core_intros] = same_core.obeys_rules

lemma writeT_core [core_intros]: "(\<And>d. core (f d) = core d) \<Longrightarrow> obeys same_core (writeT f)"
  by (rule obeysI) (simp add: tx_simps same_core_def)

lemma new_v4_core [core_intros]: "obeys same_core (new_v4 E)"
  by (rule obeysI) (auto simp: tx_simps same_core_def core_def)

lemma same_core_tables: "same_core d d' \<longleftrightarrow> runs d' = runs d \<and> events d' = events d \<and> executors d' = executors d"
  by (auto simp: same_core_def core_def)

end
