(* ===== verification/Access.thy ===== *)
theory Access
  imports Database
begin

text \<open>
  Who may act on what: the role checks of \<open>organization.rs\<close> on projects, threads, pools and run
  contexts, the support grants of \<open>governance.rs\<close> they fall back to, and the platform-administrator
  and personal-device checks of \<open>db.rs\<close>.
\<close>

section \<open>Roles\<close>

fun role_rank :: "project_role \<Rightarrow> nat" where
  "role_rank Viewer = 0"
| "role_rank Runner = 1"
| "role_rank Editor = 2"

fun project_role_name :: "project_role \<Rightarrow> string" where
  "project_role_name Viewer = ''viewer''"
| "project_role_name Runner = ''runner''"
| "project_role_name Editor = ''editor''"

definition parse_project_role :: "string \<Rightarrow> (api_error, project_role) result" where
  "parse_project_role s =
     (if s = ''viewer'' then Inr Viewer
      else if s = ''runner'' then Inr Runner
      else if s = ''editor'' then Inr Editor
      else Inl (Internal (''unknown project role '' @ s)))"

lemma role_rank_inject: "role_rank a = role_rank b \<longleftrightarrow> a = b"
  by (cases a; cases b) simp_all

text \<open>Project roles are totally ordered by their rank.\<close>

instantiation project_role :: linorder
begin

definition less_eq_project_role :: "project_role \<Rightarrow> project_role \<Rightarrow> bool" where
  "less_eq_project_role a b = (role_rank a \<le> role_rank b)"

definition less_project_role :: "project_role \<Rightarrow> project_role \<Rightarrow> bool" where
  "less_project_role a b = (role_rank a < role_rank b)"

instance
  by standard (auto simp: less_eq_project_role_def less_project_role_def role_rank_inject)

end

lemma Viewer_le [simp]: "Viewer \<le> r"
  by (simp add: less_eq_project_role_def)

lemma role_rank_less: "role_rank a < role_rank b \<longleftrightarrow> \<not> b \<le> a"
  by (simp add: less_eq_project_role_def not_le)

lemma parse_project_role_name: "parse_project_role (project_role_name r) = Inr r"
  by (cases r) (simp_all add: parse_project_role_def)

section \<open>Administrators, personal devices and support grants\<close>

definition user_is_platform_admin :: "uuid \<Rightarrow> db \<Rightarrow> bool" where
  "user_is_platform_admin u d =
     (case fetch_optional (\<lambda>r. usr_id r = u \<and> usr_deleted r = None) (users d) of
        None \<Rightarrow> False | Some r \<Rightarrow> usr_platform_admin r)"

definition owns_personal_device :: "uuid \<Rightarrow> uuid \<Rightarrow> db \<Rightarrow> bool" where
  "owns_personal_device u e d =
     exists_row (\<lambda>r. exec_id r = e \<and> reg_kind (exec_registration r) = KPersonalDevice
                  \<and> reg_owner_user_id (exec_registration r) = Some u) (executors d)"

definition user_can_manage_executor :: "uuid \<Rightarrow> uuid \<Rightarrow> db \<Rightarrow> bool" where
  "user_can_manage_executor u e d = (if user_is_platform_admin u d then True else owns_personal_device u e d)"

definition user_can_target_personal_device :: "uuid \<Rightarrow> uuid \<Rightarrow> db \<Rightarrow> bool" where
  "user_can_target_personal_device u e d = owns_personal_device u e d"

definition grant_active :: "env \<Rightarrow> uuid \<Rightarrow> grant_row \<Rightarrow> bool" where
  "grant_active E u g =
     (grant_support_user g = u \<and> grant_revoked g = None \<and> env_now E < grant_expires g)"

definition first_grant :: "(grant_row \<Rightarrow> bool) \<Rightarrow> db \<Rightarrow> uuid option" where
  "first_grant p d =
     (case order_limit grant_expires 1 (filter p (grants d)) of [] \<Rightarrow> None | g # _ \<Rightarrow> Some (grant_id g))"

definition active_project_support_grant :: "env \<Rightarrow> uuid \<Rightarrow> uuid \<Rightarrow> db \<Rightarrow> uuid option" where
  "active_project_support_grant E u p d =
     first_grant (\<lambda>g. grant_active E u g \<and> grant_project g = Some p \<and> grant_thread g = None) d"

definition active_thread_support_grant :: "env \<Rightarrow> uuid \<Rightarrow> uuid \<Rightarrow> db \<Rightarrow> uuid option" where
  "active_thread_support_grant E u t d =
     first_grant (\<lambda>g. grant_active E u g \<and> grant_thread g = Some t \<and> grant_project g = None) d"

definition insert_audit :: "uuid \<Rightarrow> string \<Rightarrow> string \<Rightarrow> uuid \<Rightarrow> json \<Rightarrow> unit dbtx" where
  "insert_audit actor action ty target metadata =
     writeT (\<lambda>d. d\<lparr>audits := audits d @
       [\<lparr>aud_actor = actor, aud_action = action, aud_target_type = ty, aud_target = target,
         aud_metadata = metadata\<rparr>]\<rparr>)"

definition audit_support_access :: "env \<Rightarrow> uuid \<Rightarrow> uuid \<Rightarrow> string \<Rightarrow> uuid \<Rightarrow> unit dbtx" where
  "audit_support_access E u g ty target =
     insert_audit u ''support_grant.access'' ty target
       (json_object [(''support_grant_id'', String (env_uuid E g))])"

section \<open>Project, thread and run access\<close>

definition membership_role :: "uuid \<Rightarrow> project_row \<Rightarrow> db \<Rightarrow> project_role option" where
  "membership_role u p d =
     (if prj_owner p = u then Some Editor
      else case fetch_optional (\<lambda>(pr, us, _). pr = prj_id p \<and> us = u) (project_members d) of
        Some (_, _, role) \<Rightarrow> Some role
      | None \<Rightarrow>
          (case fetch_optional (\<lambda>(tm, us, _). Some tm = prj_team p \<and> us = u) (team_members d) of
             Some (_, _, TeamOwner) \<Rightarrow> Some Editor
           | Some (_, _, TeamAdmin) \<Rightarrow> Some Editor
           | Some (_, _, TeamMember) \<Rightarrow> Some Viewer
           | None \<Rightarrow> None))"

definition find_project :: "uuid \<Rightarrow> db \<Rightarrow> project_row option" where
  "find_project p d = fetch_optional (\<lambda>r. prj_id r = p \<and> prj_deleted r = None) (projects d)"

definition no_project_access :: api_error where
  "no_project_access = Unauthorized ''the current user cannot access this project''"

definition ensure_project_role :: "env \<Rightarrow> uuid \<Rightarrow> uuid \<Rightarrow> project_role \<Rightarrow> project_role dbtx" where
  "ensure_project_role E u p required =
     bindT (readT (find_project p)) (\<lambda>row.
     case row of
       None \<Rightarrow> throwT (NotFound (''project '' @ env_uuid E p @ '' was not found''))
     | Some project \<Rightarrow>
       bindT (readT (membership_role u project)) (\<lambda>member.
       bindT
         (case member of
            Some role \<Rightarrow> returnT role
          | None \<Rightarrow>
              if required = Viewer then
                bindT (readT (active_project_support_grant E u p)) (\<lambda>g.
                case g of
                  Some grant \<Rightarrow>
                    bindT (audit_support_access E u grant ''project'' p) (\<lambda>_. returnT Viewer)
                | None \<Rightarrow> throwT no_project_access)
              else throwT no_project_access)
         (\<lambda>role.
           if role_rank role < role_rank required
           then throwT (Unauthorized (''project role '' @ project_role_name required @ '' is required''))
           else returnT role)))"

definition ensure_thread_project :: "uuid \<Rightarrow> uuid \<Rightarrow> unit dbtx" where
  "ensure_thread_project t p =
     bindT (readT (\<lambda>d. exists_row (\<lambda>r. thr_id r = t \<and> thr_project_id r = p \<and> thr_deleted r = None)
                         (threads d))) (\<lambda>valid.
     ensureT valid (Unprocessable ''thread does not belong to the selected project''))"

definition ensure_thread_role ::
    "env \<Rightarrow> uuid \<Rightarrow> uuid \<Rightarrow> uuid \<Rightarrow> project_role \<Rightarrow> project_role dbtx" where
  "ensure_thread_role E u p t required =
     bindT (ensure_thread_project t p) (\<lambda>_. \<lambda>d.
       case ensure_project_role E u p required d of
         Inr z \<Rightarrow> Inr z
       | Inl (Unauthorized m) \<Rightarrow>
           if required = Viewer then
             bindT (readT (active_thread_support_grant E u t)) (\<lambda>g.
             case g of
               None \<Rightarrow> throwT (Unauthorized ''the current user cannot access this thread'')
             | Some grant \<Rightarrow>
                 bindT (audit_support_access E u grant ''thread'' t) (\<lambda>_. returnT Viewer)) d
           else Inl (Unauthorized m)
       | Inl e \<Rightarrow> Inl e)"

definition ensure_pool_allowed_for_project :: "uuid \<Rightarrow> uuid \<Rightarrow> executor_kind \<Rightarrow> unit dbtx" where
  "ensure_pool_allowed_for_project pl p kind =
     bindT (readT (\<lambda>d. exists_row (\<lambda>r. pool_id r = pl \<and> pool_kind r = kind \<and> pool_deleted r = None)
                         (pools d) \<and> (pl, p) \<in> set (pool_grants d))) (\<lambda>allowed.
     ensureT allowed (Unauthorized ''executor pool is not granted to this project''))"

text \<open>The target part of \<open>ensure_run_context\<close> is \<open>workflow::validate_target_for_project\<close>.\<close>

definition validate_target_for_project :: "uuid \<Rightarrow> uuid \<Rightarrow> executor_target \<Rightarrow> unit dbtx" where
  "validate_target_for_project u p target =
     (case target of
        ServerLinux (Some pl) \<Rightarrow> ensure_pool_allowed_for_project pl p KServerLinux
      | ManagedWindowsPool pl \<Rightarrow> ensure_pool_allowed_for_project pl p KManagedWindows
      | PersonalDevice dev \<Rightarrow>
          bindT (readT (user_can_target_personal_device u dev)) (\<lambda>own.
          ensureT own (Unauthorized ''personal devices can only be targeted by their owner''))
      | ServerLinux None \<Rightarrow> returnT ())"

definition ensure_run_context ::
    "env \<Rightarrow> uuid \<Rightarrow> uuid \<Rightarrow> uuid \<Rightarrow> int \<Rightarrow> project_privacy \<Rightarrow> executor_target \<Rightarrow> unit dbtx" where
  "ensure_run_context E u p t revision privacy target =
     bindT (ensure_project_role E u p Runner) (\<lambda>_.
     bindT (ensure_thread_project t p) (\<lambda>_.
     bindT (readT (find_project p)) (\<lambda>row.
     case row of
       None \<Rightarrow> throwT row_not_found
     | Some project \<Rightarrow>
       bindT (ensureT (prj_revision project = revision)
                (Conflict (''project revision changed from '' @ int_text revision @ '' to ''
                   @ int_text (prj_revision project)))) (\<lambda>_.
       bindT (ensureT (prj_privacy project = privacy)
                (Conflict ''project privacy does not match the persisted project'')) (\<lambda>_.
       validate_target_for_project u p target)))))"

definition ensure_team_admin :: "uuid \<Rightarrow> uuid \<Rightarrow> unit dbtx" where
  "ensure_team_admin u t =
     bindT (readT (\<lambda>d. fetch_optional (\<lambda>(tm, us, _). tm = t \<and> us = u) (team_members d))) (\<lambda>row.
     ensureT (case row of Some (_, _, TeamOwner) \<Rightarrow> True | Some (_, _, TeamAdmin) \<Rightarrow> True | _ \<Rightarrow> False)
       (Unauthorized ''team owner or administrator role is required''))"

section \<open>Lemmas\<close>

lemma audit_support_access_Inr [tx_simps]:
  "audit_support_access E u g ty target d = Inr (x, d') \<longleftrightarrow>
     d' = d\<lparr>audits := audits d @
       [\<lparr>aud_actor = u, aud_action = ''support_grant.access'', aud_target_type = ty,
         aud_target = target,
         aud_metadata = json_object [(''support_grant_id'', String (env_uuid E g))]\<rparr>]\<rparr>"
  by (simp add: audit_support_access_def insert_audit_def tx_simps)

lemma first_grant_Some: "first_grant p d = Some i \<Longrightarrow> \<exists>g \<in> set (grants d). p g \<and> grant_id g = i"
  using set_order_limit [of grant_expires 1 "filter p (grants d)"]
  by (auto simp: first_grant_def split: list.splits)

text \<open>Every access decision leaves all tables but the audit log as they were.\<close>

definition only_audits :: "db \<Rightarrow> db \<Rightarrow> bool" where
  "only_audits d d' = (\<exists>more. d' = d\<lparr>audits := audits d @ more\<rparr>)"

lemma only_audits_refl: "only_audits d d"
  unfolding only_audits_def by (rule exI [of _ "[]"]) simp

lemma only_audits_trans: "only_audits d d' \<Longrightarrow> only_audits d' d'' \<Longrightarrow> only_audits d d''"
  unfolding only_audits_def by auto

interpretation audit_only: state_preorder only_audits
  by unfold_locales (auto intro: only_audits_refl only_audits_trans)

lemma audit_support_access_only: "obeys only_audits (audit_support_access E u g ty target)"
  by (rule obeysI) (auto simp: tx_simps only_audits_def)

lemma ensure_project_role_only: "obeys only_audits (ensure_project_role E u p required)"
  unfolding ensure_project_role_def
  by (intro audit_only.obeys_rules)
    (auto split: option.splits intro!: audit_only.obeys_rules audit_support_access_only)

lemma ensure_thread_project_only: "obeys only_audits (ensure_thread_project t p)"
  unfolding ensure_thread_project_def by (intro audit_only.obeys_rules)

lemma ensure_project_role_member:
  assumes "find_project p d = Some project" "membership_role u project d = Some role"
  shows "ensure_project_role E u p required d =
    (if role_rank role < role_rank required
     then Inl (Unauthorized (''project role '' @ project_role_name required @ '' is required''))
     else Inr (role, d))"
  using assms by (simp add: ensure_project_role_def tx_defs)

lemma ensure_project_role_outsider:
  assumes "find_project p d = Some project" "membership_role u project d = None"
  shows "ensure_project_role E u p required d =
    (case (required, active_project_support_grant E u p d) of
       (Viewer, Some g) \<Rightarrow> Inr (Viewer, d\<lparr>audits := audits d @
         [\<lparr>aud_actor = u, aud_action = ''support_grant.access'', aud_target_type = ''project'',
           aud_target = p,
           aud_metadata = json_object [(''support_grant_id'', String (env_uuid E g))]\<rparr>]\<rparr>)
     | _ \<Rightarrow> Inl no_project_access)"
  using assms
  by (cases required; cases "active_project_support_grant E u p d")
    (simp_all add: ensure_project_role_def tx_defs audit_support_access_def insert_audit_def)

lemma ensure_thread_role_only: "obeys only_audits (ensure_thread_role E u p t required)"
proof -
  have "obeys only_audits (\<lambda>d. case ensure_project_role E u p required d of
         Inr z \<Rightarrow> Inr z
       | Inl (Unauthorized m) \<Rightarrow>
           if required = Viewer then
             bindT (readT (active_thread_support_grant E u t)) (\<lambda>g.
             case g of
               None \<Rightarrow> throwT (Unauthorized ''the current user cannot access this thread'')
             | Some grant \<Rightarrow>
                 bindT (audit_support_access E u grant ''thread'' t) (\<lambda>_. returnT Viewer)) d
           else Inl (Unauthorized m)
       | Inl e \<Rightarrow> Inl e)" (is "obeys _ ?m")
  proof (rule obeysI)
    fix d x d' assume run: "?m d = Inr (x, d')"
    show "only_audits d d'"
    proof (cases "ensure_project_role E u p required d")
      case (Inr z)
      with run show ?thesis by (auto intro: obeysD [OF ensure_project_role_only])
    next
      case (Inl e)
      with run show ?thesis
        by (auto simp: tx_simps only_audits_def split: api_error.splits if_splits option.splits)
    qed
  qed
  then show ?thesis
    unfolding ensure_thread_role_def
    by (intro audit_only.obeys_bind ensure_thread_project_only)
qed

lemma only_audits_core: "obeys only_audits m \<Longrightarrow> obeys same_core m"
  unfolding obeys_def only_audits_def same_core_def core_def by fastforce

lemmas [core_intros] = ensure_project_role_only [THEN only_audits_core]
  ensure_thread_role_only [THEN only_audits_core] ensure_thread_project_only [THEN only_audits_core]

end
