(* ===== verification/Governance.thy ===== *)
theory Governance
  imports Access
begin

text \<open>
  Quotas and support grants (\<open>governance.rs\<close>): the limits an administrator sets, the checks a
  run, a stored object and a model call pass, the monthly usage they record, and the life of a
  time-bounded support grant. The advisory locks of \<open>lock_quota\<close> only serialise transactions,
  which are already atomic here.
\<close>

section \<open>Quotas\<close>

fun quota_scope_name :: "quota_scope \<Rightarrow> string" where
  "quota_scope_name ScopeUser = ''user''"
| "quota_scope_name ScopeTeam = ''team''"

definition parse_quota_scope :: "string \<Rightarrow> (api_error, quota_scope) result" where
  "parse_quota_scope s =
     (if s = ''user'' then Inr ScopeUser
      else if s = ''team'' then Inr ScopeTeam
      else Inl (NotFound (''quota scope '' @ s @ '' was not found'')))"

definition optional_u64_to_i64 :: "nat option \<Rightarrow> string \<Rightarrow> (api_error, int option) result" where
  "optional_u64_to_i64 v field =
     (case v of
        None \<Rightarrow> Inr None
      | Some n \<Rightarrow> if int n \<le> i64_max then Inr (Some (int n))
                  else Inl (Unprocessable (field @ '' is too large'')))"

definition optional_i64_to_u64 :: "int option \<Rightarrow> (api_error, nat option) result" where
  "optional_i64_to_u64 v =
     (case v of
        None \<Rightarrow> Inr None
      | Some i \<Rightarrow> if 0 \<le> i then Inr (Some (nat i))
                  else Inl (Internal ''out of range integral type conversion attempted''))"

definition i64_to_u64 :: "int \<Rightarrow> (api_error, nat) result" where
  "i64_to_u64 i = (if 0 \<le> i then Inr (nat i)
     else Inl (Internal ''out of range integral type conversion attempted''))"

definition i64_to_u32 :: "int \<Rightarrow> (api_error, nat) result" where
  "i64_to_u32 i = (if 0 \<le> i \<and> i < 2 ^ 32 then Inr (nat i)
     else Inl (Internal ''out of range integral type conversion attempted''))"

definition current_period_start :: "env \<Rightarrow> int" where
  "current_period_start E = env_month E (env_utc_now E)"

definition quota_row :: "quota_scope \<Rightarrow> uuid \<Rightarrow> db \<Rightarrow> quota_limit_row option" where
  "quota_row sc i d = fetch_optional (\<lambda>q. ql_scope q = sc \<and> ql_scope_id q = i) (quota_limits d)"

definition usage_row :: "quota_scope \<Rightarrow> uuid \<Rightarrow> int \<Rightarrow> db \<Rightarrow> quota_usage_row option" where
  "usage_row sc i period d =
     fetch_optional (\<lambda>q. qu_scope q = sc \<and> qu_scope_id q = i \<and> qu_period q = period) (quota_usage d)"

definition scopes_of :: "uuid \<Rightarrow> uuid option \<Rightarrow> (quota_scope \<times> uuid) list" where
  "scopes_of u team = (ScopeUser, u) # (case team of None \<Rightarrow> [] | Some t \<Rightarrow> [(ScopeTeam, t)])"

text \<open>The runs that count against a scope: not in a terminal state, created by the user or in a
  project of the team (the join ignores whether the project is deleted).\<close>

definition project_of_team :: "uuid \<Rightarrow> db \<Rightarrow> run_row \<Rightarrow> bool" where
  "project_of_team t d r =
     exists_row (\<lambda>p. prj_id p = spec_project_id (run_spec r) \<and> prj_team p = Some t) (projects d)"

definition running_count :: "quota_scope \<Rightarrow> uuid \<Rightarrow> db \<Rightarrow> int" where
  "running_count sc i d =
     (case sc of
        ScopeUser \<Rightarrow>
          int (length (filter (\<lambda>r. spec_creator_user_id (run_spec r) = i
                                 \<and> \<not> is_terminal (run_state r)) (runs d)))
      | ScopeTeam \<Rightarrow>
          int (length (filter (\<lambda>r. project_of_team i d r \<and> \<not> is_terminal (run_state r)) (runs d))))"

definition check_concurrent :: "quota_scope \<times> uuid \<Rightarrow> unit dbtx" where
  "check_concurrent = (\<lambda>(sc, i).
     bindT (readT (\<lambda>d. Option.bind (quota_row sc i d) ql_concurrent_runs)) (\<lambda>limit.
     case limit of
       None \<Rightarrow> returnT ()
     | Some l \<Rightarrow>
         bindT (readT (running_count sc i)) (\<lambda>running.
         if running \<ge> l
         then throwT (Quota (quota_scope_name sc @ '' concurrent run quota of '' @ int_text l
                        @ '' is exhausted''))
         else returnT ())))"

definition enforce_run_quota_tx :: "uuid \<Rightarrow> uuid \<Rightarrow> unit dbtx" where
  "enforce_run_quota_tx u p =
     bindT (readT (find_project p)) (\<lambda>row.
     case row of
       None \<Rightarrow> throwT row_not_found
     | Some project \<Rightarrow> for_each (scopes_of u (prj_team project)) check_concurrent)"

definition manifest_bytes :: "env \<Rightarrow> quota_scope \<Rightarrow> uuid \<Rightarrow> db \<Rightarrow> int" where
  "manifest_bytes E sc i d =
     sum_list (map man_total_bytes (filter (\<lambda>m. man_scope m = sc \<and> man_scope_id m = i
       \<and> (man_status m = Uploading \<or> man_status m = Ready)
       \<and> (case man_expires m of None \<Rightarrow> True | Some t \<Rightarrow> env_now E < t)) (manifests d)))"

definition entity_bytes :: "env \<Rightarrow> uuid \<Rightarrow> db \<Rightarrow> int" where
  "entity_bytes E u d =
     sum_list (map (\<lambda>e. case se_payload e of None \<Rightarrow> 0 | Some v \<Rightarrow> env_column_size E v)
       (filter (\<lambda>e. se_user e = u \<and> \<not> se_tombstone e) (sync_entities d)))"

definition storage_used :: "env \<Rightarrow> quota_scope \<Rightarrow> uuid \<Rightarrow> db \<Rightarrow> int" where
  "storage_used E sc i d =
     manifest_bytes E sc i d + (if sc = ScopeUser then entity_bytes E i d else 0)"

definition enforce_storage_quota_tx :: "env \<Rightarrow> string \<Rightarrow> uuid \<Rightarrow> nat \<Rightarrow> unit dbtx" where
  "enforce_storage_quota_tx E scope_type i additional_bytes =
     bindT (liftT (parse_quota_scope scope_type)) (\<lambda>sc.
     bindT (readT (\<lambda>d. Option.bind (quota_row sc i d) ql_storage_bytes)) (\<lambda>limit.
     case limit of
       None \<Rightarrow> returnT ()
     | Some l \<Rightarrow>
         bindT (readT (storage_used E sc i)) (\<lambda>used.
         if int additional_bytes > i64_max then throwT (Unprocessable ''snapshot size is too large'')
         else if saturating_add_i64 used (int additional_bytes) > l
         then throwT (Quota (quota_scope_name sc @ '' storage quota of '' @ int_text l
                        @ '' bytes would be exceeded''))
         else returnT ())))"

text \<open>\<open>run_quota_scopes_tx\<close> joins \<open>projects\<close> without looking at \<open>deleted_at\<close>.\<close>

definition run_quota_scopes_tx :: "env \<Rightarrow> uuid \<Rightarrow> (quota_scope \<times> uuid) list dbtx" where
  "run_quota_scopes_tx E i = (\<lambda>d.
     case find_run i d of
       None \<Rightarrow> Inl (run_not_found E i)
     | Some r \<Rightarrow>
         (case fetch_optional (\<lambda>p. prj_id p = spec_project_id (run_spec r)) (projects d) of
            None \<Rightarrow> Inl (run_not_found E i)
          | Some p \<Rightarrow> Inr (scopes_of (spec_creator_user_id (run_spec r)) (prj_team p), d)))"

definition check_model_quota :: "env \<Rightarrow> quota_scope \<times> uuid \<Rightarrow> unit dbtx" where
  "check_model_quota E = (\<lambda>(sc, i).
     bindT (readT (quota_row sc i)) (\<lambda>row.
     case row of
       None \<Rightarrow> returnT ()
     | Some q \<Rightarrow>
         bindT (readT (usage_row sc i (current_period_start E))) (\<lambda>usage.
         let tokens = (case usage of None \<Rightarrow> 0 | Some x \<Rightarrow> qu_tokens x);
             cost = (case usage of None \<Rightarrow> 0 | Some x \<Rightarrow> qu_cost x)
         in
         if (case ql_monthly_tokens q of None \<Rightarrow> False | Some l \<Rightarrow> tokens \<ge> l)
         then throwT (Quota (quota_scope_name sc @ '' monthly token quota is exhausted''))
         else if ql_hard_cost_limit q
              \<and> (case ql_monthly_cost q of None \<Rightarrow> False | Some l \<Rightarrow> cost \<ge> l)
         then throwT (Quota (quota_scope_name sc @ '' monthly cost quota is exhausted''))
         else returnT ())))"

definition ensure_model_quota_for_run_tx :: "env \<Rightarrow> uuid \<Rightarrow> unit dbtx" where
  "ensure_model_quota_for_run_tx E i =
     bindT (run_quota_scopes_tx E i) (\<lambda>scopes. for_each scopes (check_model_quota E))"

text \<open>\<open>INSERT \<dots> ON CONFLICT DO UPDATE\<close> adds to the row of the period; a sum beyond \<open>BIGINT\<close> is
  refused by the database.\<close>

definition bigint_out_of_range :: api_error where
  "bigint_out_of_range = DatabaseError ''bigint out of range''"

definition integer_out_of_range :: api_error where
  "integer_out_of_range = DatabaseError ''integer out of range''"

definition add_usage :: "env \<Rightarrow> int \<Rightarrow> int \<Rightarrow> quota_scope \<times> uuid \<Rightarrow> unit dbtx" where
  "add_usage E tokens cost = (\<lambda>(sc, i).
     bindT (readT (usage_row sc i (current_period_start E))) (\<lambda>row.
     case row of
       None \<Rightarrow> writeT (\<lambda>d. d\<lparr>quota_usage := quota_usage d @
         [\<lparr>qu_scope = sc, qu_scope_id = i, qu_period = current_period_start E, qu_tokens = tokens,
           qu_cost = cost, qu_updated = env_now E\<rparr>]\<rparr>)
     | Some q \<Rightarrow>
         if qu_tokens q + tokens > i64_max \<or> qu_cost q + cost > i64_max
         then throwT bigint_out_of_range
         else writeT (\<lambda>d. d\<lparr>quota_usage := update_where
           (\<lambda>q. qu_scope q = sc \<and> qu_scope_id q = i \<and> qu_period q = current_period_start E)
           (\<lambda>q. q\<lparr>qu_tokens := qu_tokens q + tokens, qu_cost := qu_cost q + cost,
                  qu_updated := env_now E\<rparr>) (quota_usage d)\<rparr>)))"

definition u64_to_i64 :: "nat \<Rightarrow> (api_error, int) result" where
  "u64_to_i64 n = (if int n \<le> i64_max then Inr (int n)
     else Inl (Internal ''out of range integral type conversion attempted''))"

definition record_model_usage_for_run_tx :: "env \<Rightarrow> uuid \<Rightarrow> nat \<Rightarrow> nat \<Rightarrow> unit dbtx" where
  "record_model_usage_for_run_tx E i tokens cost =
     bindT (run_quota_scopes_tx E i) (\<lambda>scopes.
     bindT (liftT (u64_to_i64 tokens)) (\<lambda>t.
     bindT (liftT (u64_to_i64 cost)) (\<lambda>c.
     for_each scopes (add_usage E t c))))"

definition ensure_model_quota_for_run :: "env \<Rightarrow> uuid \<Rightarrow> unit handler" where
  "ensure_model_quota_for_run E i = commit (ensure_model_quota_for_run_tx E i)"

definition record_model_usage_for_run :: "env \<Rightarrow> uuid \<Rightarrow> nat \<Rightarrow> nat \<Rightarrow> unit handler" where
  "record_model_usage_for_run E i tokens cost =
     commit (record_model_usage_for_run_tx E i tokens cost)"

section \<open>Setting and reading limits\<close>

record set_quota_request =
  sq_storage_bytes :: "nat option"
  sq_concurrent_runs :: "nat option"
  sq_monthly_tokens :: "nat option"
  sq_monthly_cost :: "nat option"
  sq_hard_cost_limit :: bool

record quota_limits_record =
  qlr_storage_bytes :: "nat option"
  qlr_concurrent_runs :: "nat option"
  qlr_monthly_tokens :: "nat option"
  qlr_monthly_cost :: "nat option"
  qlr_hard_cost_limit :: bool
  qlr_updated :: time

record quota_usage_record =
  qur_period :: string
  qur_storage_bytes :: nat
  qur_running_runs :: nat
  qur_tokens :: nat
  qur_cost :: nat
  qur_updated :: time

definition upsert_quota :: "quota_limit_row \<Rightarrow> db \<Rightarrow> db" where
  "upsert_quota q d =
     (case quota_row (ql_scope q) (ql_scope_id q) d of
        None \<Rightarrow> d\<lparr>quota_limits := quota_limits d @ [q]\<rparr>
      | Some _ \<Rightarrow> d\<lparr>quota_limits := update_where
          (\<lambda>x. ql_scope x = ql_scope q \<and> ql_scope_id x = ql_scope_id q) (\<lambda>_. q) (quota_limits d)\<rparr>)"

definition optional_number :: "nat option \<Rightarrow> json" where
  "optional_number v = (case v of None \<Rightarrow> Null | Some n \<Rightarrow> Number (Integer (int n)))"

definition u32_to_integer :: "nat option \<Rightarrow> (api_error, int option) result" where
  "u32_to_integer v =
     (case v of None \<Rightarrow> Inr None
      | Some n \<Rightarrow> if int n \<le> i32_max then Inr (Some (int n)) else Inl integer_out_of_range)"

definition quota_status ::
    "env \<Rightarrow> quota_scope \<Rightarrow> uuid \<Rightarrow> (quota_limits_record \<times> quota_usage_record) dbtx" where
  "quota_status E sc i = (\<lambda>d.
     let usage = usage_row sc i (current_period_start E) d in
     bindE
       (case quota_row sc i d of
          Some q \<Rightarrow>
            bindE (optional_i64_to_u64 (ql_storage_bytes q)) (\<lambda>sb.
            bindE (optional_i64_to_u64 (ql_concurrent_runs q)) (\<lambda>cr.
            bindE (optional_i64_to_u64 (ql_monthly_tokens q)) (\<lambda>mt.
            bindE (optional_i64_to_u64 (ql_monthly_cost q)) (\<lambda>mc.
            Inr \<lparr>qlr_storage_bytes = sb, qlr_concurrent_runs = cr, qlr_monthly_tokens = mt,
                 qlr_monthly_cost = mc, qlr_hard_cost_limit = ql_hard_cost_limit q,
                 qlr_updated = ql_updated q\<rparr>))))
        | None \<Rightarrow>
            Inr \<lparr>qlr_storage_bytes = None, qlr_concurrent_runs = None, qlr_monthly_tokens = None,
                 qlr_monthly_cost = None, qlr_hard_cost_limit = True, qlr_updated = env_utc_now E\<rparr>)
       (\<lambda>limits.
     bindE (i64_to_u64 (storage_used E sc i d)) (\<lambda>sb.
     bindE (i64_to_u32 (running_count sc i d)) (\<lambda>rr.
     bindE (case usage of None \<Rightarrow> Inr 0 | Some q \<Rightarrow> i64_to_u64 (qu_tokens q)) (\<lambda>tk.
     bindE (case usage of None \<Rightarrow> Inr 0 | Some q \<Rightarrow> i64_to_u64 (qu_cost q)) (\<lambda>ct.
     Inr ((limits,
       \<lparr>qur_period = env_date E (current_period_start E), qur_storage_bytes = sb,
        qur_running_runs = rr, qur_tokens = tk, qur_cost = ct,
        qur_updated = (case usage of None \<Rightarrow> env_utc_now E | Some q \<Rightarrow> qu_updated q)\<rparr>), d)))))))"

definition ensure_quota_view :: "uuid \<Rightarrow> quota_scope \<Rightarrow> uuid \<Rightarrow> unit dbtx" where
  "ensure_quota_view u sc i =
     bindT (readT (user_is_platform_admin u)) (\<lambda>admin.
     if admin then returnT ()
     else bindT (readT (\<lambda>d. case sc of
            ScopeUser \<Rightarrow> u = i
          | ScopeTeam \<Rightarrow> exists_row (\<lambda>(tm, us, _). tm = i \<and> us = u) (team_members d))) (\<lambda>allowed.
          ensureT allowed (Unauthorized ''the current user cannot view this quota'')))"

definition get_quota ::
    "env \<Rightarrow> uuid \<Rightarrow> string \<Rightarrow> uuid \<Rightarrow> (quota_limits_record \<times> quota_usage_record) handler" where
  "get_quota E u scope_name i =
     bindH (liftH (parse_quota_scope scope_name)) (\<lambda>sc.
     bindH (commit (ensure_quota_view u sc i)) (\<lambda>_.
     commit (quota_status E sc i)))"

definition set_quota ::
    "env \<Rightarrow> uuid \<Rightarrow> string \<Rightarrow> uuid \<Rightarrow> set_quota_request
      \<Rightarrow> (quota_limits_record \<times> quota_usage_record) handler" where
  "set_quota E u scope_name i rq =
     bindH (liftH (parse_quota_scope scope_name)) (\<lambda>sc.
     bindH (case sc of
         ScopeUser \<Rightarrow>
           commit (bindT (readT (user_is_platform_admin u)) (\<lambda>admin.
             bindT (ensureT admin (Unauthorized
               ''platform administrator role is required to set user quotas'')) (\<lambda>_.
             bindT (readT (\<lambda>d. exists_row (\<lambda>r. usr_id r = i \<and> usr_deleted r = None) (users d))) (\<lambda>ex.
             ensureT ex (NotFound (''user '' @ env_uuid E i @ '' was not found''))))))
       | ScopeTeam \<Rightarrow> commit (ensure_team_admin u i)) (\<lambda>_.
     bindH (liftH (ensure (\<not> (sq_monthly_cost rq \<noteq> None \<and> sq_monthly_tokens rq = None))
         (Unprocessable
           ''a monthly token fallback is required whenever a cost quota is configured''))) (\<lambda>_.
     bindH (liftH (optional_u64_to_i64 (sq_storage_bytes rq) ''storage_bytes'')) (\<lambda>sb.
     bindH (liftH (optional_u64_to_i64 (sq_monthly_tokens rq) ''monthly_tokens'')) (\<lambda>mt.
     bindH (liftH (optional_u64_to_i64 (sq_monthly_cost rq) ''monthly_cost_micros'')) (\<lambda>mc.
     bindH (commit
       (bindT (liftT (u32_to_integer (sq_concurrent_runs rq))) (\<lambda>cr.
        bindT (writeT (upsert_quota \<lparr>ql_scope = sc, ql_scope_id = i, ql_storage_bytes = sb,
            ql_concurrent_runs = cr, ql_monthly_tokens = mt, ql_monthly_cost = mc,
            ql_hard_cost_limit = sq_hard_cost_limit rq, ql_updated = env_now E\<rparr>)) (\<lambda>_.
        insert_audit u ''quota.update'' (quota_scope_name sc @ ''_quota'') i
          (json_object [(''storage_bytes'', optional_number (sq_storage_bytes rq)),
             (''concurrent_runs'', optional_number (sq_concurrent_runs rq)),
             (''monthly_tokens'', optional_number (sq_monthly_tokens rq)),
             (''monthly_cost_micros'', optional_number (sq_monthly_cost rq)),
             (''hard_cost_limit'', Bool (sq_hard_cost_limit rq))]))))) (\<lambda>_.
     commit (quota_status E sc i))))))))"

section \<open>Support grants\<close>

record create_support_grant_request =
  csg_support_user :: uuid
  csg_project :: "uuid option"
  csg_thread :: "uuid option"
  csg_reason :: string
  csg_expires :: time

definition hours :: "int \<Rightarrow> time" where
  "hours n = n * 3600 * 1000000"

definition optional_uuid :: "env \<Rightarrow> uuid option \<Rightarrow> json" where
  "optional_uuid E v = (case v of None \<Rightarrow> Null | Some i \<Rightarrow> String (env_uuid E i))"

definition thread_project :: "uuid \<Rightarrow> db \<Rightarrow> uuid option" where
  "thread_project t d =
     map_option thr_project_id (fetch_optional (\<lambda>r. thr_id r = t \<and> thr_deleted r = None) (threads d))"

definition grant_target :: "env \<Rightarrow> create_support_grant_request \<Rightarrow> uuid dbtx" where
  "grant_target E rq =
     (case (csg_project rq, csg_thread rq) of
        (Some p, _) \<Rightarrow> returnT p
      | (None, Some t) \<Rightarrow> (\<lambda>d. liftT (ok_or (thread_project t d)
           (NotFound (''thread '' @ env_uuid E t @ '' was not found''))) d)
      | (None, None) \<Rightarrow> throwT (Internal ''internal error: entered unreachable code''))"

definition create_support_grant ::
    "env \<Rightarrow> uuid \<Rightarrow> create_support_grant_request \<Rightarrow> grant_row handler" where
  "create_support_grant E u rq =
     bindH (liftH (ensure ((csg_project rq \<noteq> None) \<noteq> (csg_thread rq \<noteq> None))
       (Unprocessable ''a support grant must select exactly one project or thread''))) (\<lambda>_.
     bindH (liftH (ensure (csg_support_user rq \<noteq> u)
       (Unprocessable ''support access cannot be granted to the grantor''))) (\<lambda>_.
     bindH (liftH (ensure (trim (csg_reason rq) \<noteq> [] \<and> chars_count (trim (csg_reason rq)) \<le> 1000)
       (Unprocessable ''support grant reason must contain 1 to 1000 characters''))) (\<lambda>_.
     bindH (liftH (ensure (env_utc_now E < csg_expires rq \<and> csg_expires rq \<le> env_utc_now E + hours 24)
       (Unprocessable ''support grants must expire within the next 24 hours''))) (\<lambda>_.
     bindH (commit (grant_target E rq)) (\<lambda>p.
     bindH (commit (ensure_project_role E u p Editor)) (\<lambda>_.
     bindH (commit (bindT (readT (user_is_platform_admin (csg_support_user rq))) (\<lambda>admin.
       ensureT admin (Unprocessable
         ''support access can only be granted to a platform administrator'')))) (\<lambda>_.
     commit
       (bindT (new_v4 E) (\<lambda>i.
        let g = \<lparr>grant_id = i, grant_granted_by = u, grant_support_user = csg_support_user rq,
                 grant_project = csg_project rq, grant_thread = csg_thread rq,
                 grant_reason = trim (csg_reason rq), grant_created = env_utc_now E,
                 grant_expires = csg_expires rq, grant_revoked = None\<rparr> in
        bindT (readT (\<lambda>d. exists_row (\<lambda>r. grant_id r = i) (grants d))) (\<lambda>taken.
        bindT (ensureT (\<not> taken) (unique_violation ''support_grants_pkey'')) (\<lambda>_.
        bindT (writeT (\<lambda>d. d\<lparr>grants := grants d @ [g]\<rparr>)) (\<lambda>_.
        bindT (insert_audit u ''support_grant.create'' ''support_grant'' i
          (json_object [(''support_user_id'', String (env_uuid E (csg_support_user rq))),
             (''project_id'', optional_uuid E (csg_project rq)),
             (''thread_id'', optional_uuid E (csg_thread rq)),
             (''expires_at'', String (env_time E (csg_expires rq)))])) (\<lambda>_.
        returnT g)))))))))))))"

text \<open>The project a grant opens, through its thread when it names one (deleted or not).\<close>

definition scope_project :: "grant_row \<Rightarrow> db \<Rightarrow> uuid option" where
  "scope_project g d =
     (case grant_project g of
        Some p \<Rightarrow> Some p
      | None \<Rightarrow> map_option thr_project_id
          (fetch_optional (\<lambda>r. grant_thread g = Some (thr_id r)) (threads d)))"

definition grant_visible :: "uuid \<Rightarrow> db \<Rightarrow> grant_row \<Rightarrow> bool" where
  "grant_visible u d g =
     exists_row (\<lambda>p. scope_project g d = Some (prj_id p)
       \<and> (grant_granted_by g = u \<or> prj_owner p = u
          \<or> exists_row (\<lambda>(pr, us, role). pr = prj_id p \<and> us = u \<and> role = Editor) (project_members d)
          \<or> exists_row (\<lambda>(tm, us, role). Some tm = prj_team p \<and> us = u
                \<and> (role = TeamOwner \<or> role = TeamAdmin)) (team_members d))) (projects d)"

definition list_support_grants :: "uuid \<Rightarrow> grant_row list dbtx" where
  "list_support_grants u = readT (\<lambda>d.
     order_limit (\<lambda>g. - grant_created g) 500
       (if user_is_platform_admin u d then grants d else filter (grant_visible u d) (grants d)))"

definition revoke_support_grant :: "env \<Rightarrow> uuid \<Rightarrow> uuid \<Rightarrow> unit handler" where
  "revoke_support_grant E u i =
     bindH (commit (\<lambda>d. liftT (ok_or (fetch_optional (\<lambda>g. grant_id g = i) (grants d))
       (NotFound (''support grant '' @ env_uuid E i @ '' was not found''))) d)) (\<lambda>g.
     bindH (if u \<noteq> grant_support_user g \<and> u \<noteq> grant_granted_by g
            then bindH (commit (\<lambda>d. liftT (ok_or (scope_project g d)
                   (DatabaseError ''unexpected null; try decoding as an `Option`'')) d)) (\<lambda>p.
                 bindH (commit (ensure_project_role E u p Editor)) (\<lambda>_. returnH ()))
            else returnH ()) (\<lambda>_.
     commit
       (bindT (readT (\<lambda>d. exists_row (\<lambda>r. grant_id r = i \<and> grant_revoked r = None) (grants d))) (\<lambda>open.
        bindT (ensureT open (Conflict ''support grant is already revoked'')) (\<lambda>_.
        bindT (writeT (\<lambda>d. d\<lparr>grants := update_where (\<lambda>r. grant_id r = i \<and> grant_revoked r = None)
          (\<lambda>r. r\<lparr>grant_revoked := Some (env_now E)\<rparr>) (grants d)\<rparr>)) (\<lambda>_.
        insert_audit u ''support_grant.revoke'' ''support_grant'' i
          (json_object [(''support_user_id'', String (env_uuid E (grant_support_user g)))])))))))"

section \<open>Frames\<close>

lemma check_concurrent_unchanged: "obeys (\<lambda>d d'. d' = d) (check_concurrent x)"
  unfolding check_concurrent_def
  by (cases x) (auto intro!: unchanged.obeys_rules split: option.splits)

lemma enforce_run_quota_unchanged: "obeys (\<lambda>d d'. d' = d) (enforce_run_quota_tx u p)"
  unfolding enforce_run_quota_tx_def
  by (auto intro!: unchanged.obeys_rules check_concurrent_unchanged split: option.splits)

lemma enforce_storage_quota_unchanged: "obeys (\<lambda>d d'. d' = d) (enforce_storage_quota_tx E ty i n)"
  unfolding enforce_storage_quota_tx_def
  by (auto intro!: unchanged.obeys_rules split: option.splits)

lemma run_quota_scopes_unchanged: "obeys (\<lambda>d d'. d' = d) (run_quota_scopes_tx E i)"
  by (rule obeysI) (auto simp: run_quota_scopes_tx_def split: option.splits)

lemma check_model_quota_unchanged: "obeys (\<lambda>d d'. d' = d) (check_model_quota E x)"
  unfolding check_model_quota_def Let_def
  by (cases x) (auto intro!: unchanged.obeys_rules split: option.splits)

lemma ensure_model_quota_unchanged: "obeys (\<lambda>d d'. d' = d) (ensure_model_quota_for_run_tx E i)"
  unfolding ensure_model_quota_for_run_tx_def
  by (intro unchanged.obeys_rules run_quota_scopes_unchanged check_model_quota_unchanged)

lemma unchanged_core: "obeys (\<lambda>d d'. d' = d) m \<Longrightarrow> obeys same_core m"
  by (auto simp: obeys_def same_core_def)

lemmas [core_intros] = enforce_storage_quota_unchanged [THEN unchanged_core]
  ensure_model_quota_unchanged [THEN unchanged_core] run_quota_scopes_unchanged [THEN unchanged_core]
  enforce_run_quota_unchanged [THEN unchanged_core]

lemma add_usage_core [core_intros]: "obeys same_core (add_usage E t c x)"
  unfolding add_usage_def
  by (cases x) (auto intro!: core_intros simp: core_def split: option.splits)

lemma record_model_usage_core [core_intros]:
  "obeys same_core (record_model_usage_for_run_tx E i tokens cost)"
  unfolding record_model_usage_for_run_tx_def by (intro core_intros)

section \<open>Admission\<close>

lemma for_each_unchanged:
  assumes "\<And>x. obeys (\<lambda>d d'. d' = d) (f x)"
  shows "for_each xs f d = Inr (u, d') \<longleftrightarrow> d' = d \<and> (\<forall>x \<in> set xs. f x d = Inr ((), d))"
proof (induction xs)
  case (Cons x xs)
  have "f x d = Inr (y, t) \<Longrightarrow> t = d" for y t using assms [of x] by (simp add: obeys_def)
  with Cons show ?case by (auto simp: tx_simps)
qed (simp add: tx_simps)

definition within_quota :: "quota_scope \<Rightarrow> uuid \<Rightarrow> db \<Rightarrow> bool" where
  "within_quota sc i d =
     (case Option.bind (quota_row sc i d) ql_concurrent_runs of
        None \<Rightarrow> True | Some l \<Rightarrow> running_count sc i d < l)"

lemma check_concurrent_Inr: "check_concurrent (sc, i) d = Inr ((), d) \<longleftrightarrow> within_quota sc i d"
  by (auto simp: check_concurrent_def within_quota_def tx_simps split: option.splits)

lemma enforce_run_quota_Inr:
  "enforce_run_quota_tx u p d = Inr (x, d') \<longleftrightarrow>
     d' = d \<and> (\<exists>project. find_project p d = Some project
       \<and> (\<forall>(sc, i) \<in> set (scopes_of u (prj_team project)). within_quota sc i d))"
  by (auto simp: enforce_run_quota_tx_def tx_simps for_each_unchanged [OF check_concurrent_unchanged]
      check_concurrent_Inr split: option.splits prod.splits)

text \<open>The runs of a scope depend on the specifications and states of the runs and on the projects.\<close>

lemma running_count_cong:
  assumes "map (\<lambda>r. (run_spec r, run_state r)) (runs d') = map (\<lambda>r. (run_spec r, run_state r)) (runs d)"
    and "projects d' = projects d"
  shows "running_count sc i d' = running_count sc i d"
proof -
  have *: "length (filter (\<lambda>r. P (run_spec r) (run_state r)) (runs d')) =
      length (filter (\<lambda>r. P (run_spec r) (run_state r)) (runs d))" for P
    using arg_cong [OF assms(1), of "\<lambda>xs. length (filter (\<lambda>(s, t). P s t) xs)"]
    by (simp add: filter_map comp_def)
  show ?thesis
    using * [of "\<lambda>s t. spec_creator_user_id s = i \<and> \<not> is_terminal t"]
      * [of "\<lambda>s t. exists_row (\<lambda>p. prj_id p = spec_project_id s \<and> prj_team p = Some i) (projects d)
           \<and> \<not> is_terminal t"]
    by (simp add: running_count_def project_of_team_def assms(2) split: quota_scope.splits)
qed

lemma running_count_add:
  "running_count sc i (d\<lparr>runs := runs d @ [r]\<rparr>) \<le> running_count sc i d + 1"
  by (simp add: running_count_def project_of_team_def split: quota_scope.splits)

section \<open>Usage\<close>

definition used_tokens :: "env \<Rightarrow> quota_scope \<Rightarrow> uuid \<Rightarrow> db \<Rightarrow> int" where
  "used_tokens E sc i d =
     (case usage_row sc i (current_period_start E) d of None \<Rightarrow> 0 | Some q \<Rightarrow> qu_tokens q)"

definition used_cost :: "env \<Rightarrow> quota_scope \<Rightarrow> uuid \<Rightarrow> db \<Rightarrow> int" where
  "used_cost E sc i d =
     (case usage_row sc i (current_period_start E) d of None \<Rightarrow> 0 | Some q \<Rightarrow> qu_cost q)"

lemma add_usage_used:
  assumes "add_usage E t c x d = Inr (u, d')"
  shows "used_tokens E sc i d' = used_tokens E sc i d + (if x = (sc, i) then t else 0)"
    "used_cost E sc i d' = used_cost E sc i d + (if x = (sc, i) then c else 0)"
proof -
  obtain s j where x: "x = (s, j)" by (cases x)
  let ?key = "\<lambda>sc i q. qu_scope q = sc \<and> qu_scope_id q = i \<and> qu_period q = current_period_start E"
  let ?new = "\<lparr>qu_scope = s, qu_scope_id = j, qu_period = current_period_start E, qu_tokens = t,
    qu_cost = c, qu_updated = env_now E\<rparr>"
  let ?add = "\<lambda>q. q\<lparr>qu_tokens := qu_tokens q + t, qu_cost := qu_cost q + c, qu_updated := env_now E\<rparr>"
  have app: "fetch_optional (?key sc i) (qs @ [?new]) =
      (case fetch_optional (?key sc i) qs of Some q \<Rightarrow> Some q
       | None \<Rightarrow> if (s, j) = (sc, i) then Some ?new else None)" for qs
    by (induction qs) (auto simp: fetch_optional_def)
  have upd: "fetch_optional (?key sc i) (update_where (?key s j) ?add qs) =
      map_option (\<lambda>q. if (s, j) = (sc, i) then ?add q else q) (fetch_optional (?key sc i) qs)" for qs
    by (rule fetch_update_where) auto
  have row: "usage_row sc i (current_period_start E) d' =
      (if (s, j) = (sc, i)
       then Some (case usage_row sc i (current_period_start E) d of None \<Rightarrow> ?new | Some q \<Rightarrow> ?add q)
       else usage_row sc i (current_period_start E) d)"
  proof (cases "usage_row s j (current_period_start E) d")
    case None
    with assms have "quota_usage d' = quota_usage d @ [?new]" by (auto simp: add_usage_def x tx_simps)
    with None app [of "quota_usage d"] show ?thesis
      by (auto simp: usage_row_def split: option.splits)
  next
    case (Some q)
    with assms have "quota_usage d' = update_where (?key s j) ?add (quota_usage d)"
      by (auto simp: add_usage_def x tx_simps split: if_splits)
    with Some upd [of "quota_usage d"] show ?thesis
      by (auto simp: usage_row_def option.map_ident)
  qed
  show "used_tokens E sc i d' = used_tokens E sc i d + (if x = (sc, i) then t else 0)"
    "used_cost E sc i d' = used_cost E sc i d + (if x = (sc, i) then c else 0)"
    by (auto simp: used_tokens_def used_cost_def x row split: option.splits)
qed

lemma add_usage_each:
  assumes "for_each xs (add_usage E t c) d = Inr (u, d')" "distinct xs"
  shows "used_tokens E sc i d' = used_tokens E sc i d + (if (sc, i) \<in> set xs then t else 0)"
    "used_cost E sc i d' = used_cost E sc i d + (if (sc, i) \<in> set xs then c else 0)"
proof -
  have "used_tokens E sc i d' = used_tokens E sc i d + (if (sc, i) \<in> set xs then t else 0)
      \<and> used_cost E sc i d' = used_cost E sc i d + (if (sc, i) \<in> set xs then c else 0)"
    using assms
  proof (induction xs arbitrary: d)
    case (Cons x xs)
    then obtain v d1 where "add_usage E t c x d = Inr (v, d1)" "for_each xs (add_usage E t c) d1 = Inr (u, d')"
      by (auto simp: tx_simps)
    with Cons add_usage_used [of E t c x d v d1 sc i] show ?case by (auto split: if_splits)
  qed (simp add: tx_simps)
  then show "used_tokens E sc i d' = used_tokens E sc i d + (if (sc, i) \<in> set xs then t else 0)"
    "used_cost E sc i d' = used_cost E sc i d + (if (sc, i) \<in> set xs then c else 0)"
    by simp_all
qed

lemma distinct_scopes_of: "distinct (scopes_of u team)"
  by (auto simp: scopes_of_def split: option.splits)

end
