(* ===== verification/EventLog.thy ===== *)
theory EventLog
  imports Governance
begin

text \<open>
  The durable event log of a run (\<open>db.rs\<close>): idempotent appends that draw their sequence number
  from \<open>runs.next_event_sequence\<close>, the push deliveries they queue, reads after a cursor, and the
  90-day retention that deletes event rows without giving their numbers back.
\<close>

section \<open>Names\<close>

fun event_kind_name :: "run_event_kind \<Rightarrow> string" where
  "event_kind_name Ev_Created = ''created''"
| "event_kind_name Ev_StateChanged = ''state_changed''"
| "event_kind_name Ev_ModelStarted = ''model_started''"
| "event_kind_name Ev_ModelDelta = ''model_delta''"
| "event_kind_name Ev_ModelCompleted = ''model_completed''"
| "event_kind_name Ev_ToolStarted = ''tool_started''"
| "event_kind_name Ev_ToolCompleted = ''tool_completed''"
| "event_kind_name Ev_ToolFailed = ''tool_failed''"
| "event_kind_name Ev_CheckpointCreated = ''checkpoint_created''"
| "event_kind_name Ev_ApprovalRequested = ''approval_requested''"
| "event_kind_name Ev_ApprovalResolved = ''approval_resolved''"
| "event_kind_name Ev_InputRequested = ''input_requested''"
| "event_kind_name Ev_InputReceived = ''input_received''"
| "event_kind_name Ev_ArtifactCreated = ''artifact_created''"
| "event_kind_name Ev_DesktopSessionChanged = ''desktop_session_changed''"
| "event_kind_name Ev_ExecutorAssigned = ''executor_assigned''"
| "event_kind_name Ev_ExecutorHeartbeat = ''executor_heartbeat''"
| "event_kind_name Ev_Warning = ''warning''"
| "event_kind_name Ev_Failed = ''failed''"
| "event_kind_name Ev_Completed = ''completed''"

text \<open>The variants in the order of the contract, with their identifiers.\<close>

definition event_kind_variants :: "(string \<times> run_event_kind) list" where
  "event_kind_variants =
     [(''Created'', Ev_Created), (''StateChanged'', Ev_StateChanged),
      (''ModelStarted'', Ev_ModelStarted), (''ModelDelta'', Ev_ModelDelta),
      (''ModelCompleted'', Ev_ModelCompleted), (''ToolStarted'', Ev_ToolStarted),
      (''ToolCompleted'', Ev_ToolCompleted), (''ToolFailed'', Ev_ToolFailed),
      (''CheckpointCreated'', Ev_CheckpointCreated), (''ApprovalRequested'', Ev_ApprovalRequested),
      (''ApprovalResolved'', Ev_ApprovalResolved), (''InputRequested'', Ev_InputRequested),
      (''InputReceived'', Ev_InputReceived), (''ArtifactCreated'', Ev_ArtifactCreated),
      (''DesktopSessionChanged'', Ev_DesktopSessionChanged),
      (''ExecutorAssigned'', Ev_ExecutorAssigned), (''ExecutorHeartbeat'', Ev_ExecutorHeartbeat),
      (''Warning'', Ev_Warning), (''Failed'', Ev_Failed), (''Completed'', Ev_Completed)]"

text \<open>\<open>rename_all = "snake_case"\<close>: an upper-case letter becomes its lower case, after an
  underscore unless it is the first.\<close>

definition is_ascii_uppercase :: "char \<Rightarrow> bool" where
  "is_ascii_uppercase c = (65 \<le> byte c \<and> byte c \<le> 90)"

fun snake_rest :: "string \<Rightarrow> string" where
  "snake_rest [] = []"
| "snake_rest (c # cs) =
     (if is_ascii_uppercase c then CHR ''_'' # ascii_lower c # snake_rest cs else c # snake_rest cs)"

fun snake_case :: "string \<Rightarrow> string" where
  "snake_case [] = []"
| "snake_case (c # cs) = ascii_lower c # snake_rest cs"

definition parse_event_kind :: "string \<Rightarrow> (api_error, run_event_kind) result" where
  "parse_event_kind s =
     ok_or (map_of (map (\<lambda>(v, k). (snake_case v, k)) event_kind_variants) s)
       (JsonError (''unknown variant '' @ s))"

section \<open>Appending\<close>

definition should_push :: "run_event_kind \<Rightarrow> bool" where
  "should_push k = (k \<in> {Ev_ApprovalRequested, Ev_InputRequested, Ev_ArtifactCreated, Ev_Warning,
                          Ev_Failed, Ev_Completed})"

definition find_event :: "uuid \<Rightarrow> db \<Rightarrow> run_event option" where
  "find_event i d = fetch_optional (\<lambda>e. ev_event_id e = i) (events d)"

definition queue_push :: "env \<Rightarrow> run_row \<Rightarrow> run_event \<Rightarrow> unit dbtx" where
  "queue_push E r e =
     bindT (new_v4 E) (\<lambda>i.
     writeT (\<lambda>d.
       let u = spec_creator_user_id (run_spec r) in
       if exists_row (\<lambda>s. sub_user_id s = u \<and> sub_revoked s = None) (subscriptions d)
          \<and> \<not> exists_row (\<lambda>p. push_user_id p = u \<and> push_run_id p = run_id r
                           \<and> push_sequence p = ev_sequence e) (pushes d)
       then d\<lparr>pushes := pushes d @
              [\<lparr>push_id = i, push_run_id = run_id r, push_user_id = u,
                push_sequence = ev_sequence e, push_kind = ev_kind e\<rparr>]\<rparr>
       else d))"

definition append_event_tx_with_id ::
    "env \<Rightarrow> uuid \<Rightarrow> uuid \<Rightarrow> run_event_kind \<Rightarrow> json \<Rightarrow> run_event dbtx" where
  "append_event_tx_with_id E i event_id kind payload =
     bindT (readT (find_run i)) (\<lambda>row.
     case row of
       None \<Rightarrow> throwT (run_not_found E i)
     | Some r \<Rightarrow>
       bindT (readT (find_event event_id)) (\<lambda>existing.
       case existing of
         Some e \<Rightarrow>
           if ev_run_id e \<noteq> i \<or> ev_kind e \<noteq> kind \<or> ev_payload e \<noteq> payload
           then throwT (Conflict ''event ID was already used for different event content'')
           else returnT e
       | None \<Rightarrow>
           let e = \<lparr>ev_run_id = i, ev_sequence = run_next_sequence r, ev_event_id = event_id,
                    ev_kind = kind, ev_payload = payload, ev_created_at = env_now E\<rparr> in
           bindT (readT (\<lambda>d. exists_row (\<lambda>x. ev_run_id x = i \<and> ev_sequence x = ev_sequence e)
             (events d))) (\<lambda>taken.
           bindT (ensureT (\<not> taken) (unique_violation ''run_events_pkey'')) (\<lambda>_.
           bindT (update_run i (\<lambda>r. r\<lparr>run_next_sequence := run_next_sequence r + 1\<rparr>)) (\<lambda>_.
           bindT (writeT (\<lambda>d. d\<lparr>events := events d @ [e]\<rparr>)) (\<lambda>_.
           bindT (whenT (should_push kind) (queue_push E r e)) (\<lambda>_.
           returnT e)))))))"

definition append_event_tx :: "env \<Rightarrow> uuid \<Rightarrow> run_event_kind \<Rightarrow> json \<Rightarrow> run_event dbtx" where
  "append_event_tx E i kind payload =
     bindT (new_v4 E) (\<lambda>event_id. append_event_tx_with_id E i event_id kind payload)"

section \<open>Reading and retention\<close>

definition get_run_events :: "uuid \<Rightarrow> int \<Rightarrow> int \<Rightarrow> run_event list dbtx" where
  "get_run_events i after_sequence limit = readT (\<lambda>d.
     order_limit ev_sequence (nat (clamp 1 1000 limit))
       (filter (\<lambda>e. ev_run_id e = i \<and> after_sequence < ev_sequence e) (events d)))"

definition days :: "int \<Rightarrow> time" where
  "days n = n * 24 * 3600 * 1000000"

definition event_expired :: "time \<Rightarrow> db \<Rightarrow> run_event \<Rightarrow> bool" where
  "event_expired now d e =
     (ev_created_at e < now - days 90
      \<and> (case find_run (ev_run_id e) d of
           None \<Rightarrow> False
         | Some r \<Rightarrow> is_terminal (run_state r)
             \<and> unwrap_or (run_updated r) (run_finished r) < now - days 90))"

definition event_key :: "run_event \<Rightarrow> uuid \<times> int" where
  "event_key e = (ev_run_id e, ev_sequence e)"

definition expired_events :: "time \<Rightarrow> int \<Rightarrow> db \<Rightarrow> run_event list" where
  "expired_events now limit d =
     order_limit (\<lambda>e. (ev_created_at e, event_key e)) (nat (clamp 1 10000 limit))
       (filter (event_expired now d) (events d))"

text \<open>The deletion cascades to the push deliveries of the deleted events.\<close>

definition enforce_run_event_retention :: "time \<Rightarrow> int \<Rightarrow> nat dbtx" where
  "enforce_run_event_retention now limit =
     bindT (readT (\<lambda>d. map event_key (expired_events now limit d))) (\<lambda>expired.
     bindT (readT (\<lambda>d. length (filter (\<lambda>e. event_key e \<in> set expired) (events d)))) (\<lambda>n.
     bindT (writeT (\<lambda>d. d\<lparr>events := filter (\<lambda>e. event_key e \<notin> set expired) (events d),
       pushes := filter (\<lambda>p. (push_run_id p, push_sequence p) \<notin> set expired) (pushes d)\<rparr>)) (\<lambda>_.
     returnT n)))"

end
