(* ===== verification/RunInvariant.thy ===== *)
theory RunInvariant
  imports EventLog
begin

text \<open>
  What every transaction of the control plane keeps of runs, their event log and the executors,
  and how they may evolve. \<open>consistent\<close> is the invariant; \<open>evolves\<close> relates two states: the
  specification of a run never changes, its state moves along the contract, a terminal run keeps
  its outcome, a run that waits for a snapshot it does not name only leaves that state to end,
  and no sequence number of an event is given twice. Their combination \<open>sound\<close> is a
  preorder, so a transaction is sound as soon as its statements are.
\<close>

section \<open>Definitions\<close>

definition lease_coherent :: "run_row \<Rightarrow> bool" where
  "lease_coherent r =
     (if holds_lease (run_state r)
      then run_lease_owner r \<noteq> None \<and> run_assigned r = run_lease_owner r
           \<and> run_lease_token r \<noteq> None \<and> run_lease_expires r \<noteq> None \<and> run_started r \<noteq> None
      else run_lease_owner r = None \<and> run_lease_token r = None \<and> run_lease_expires r = None)"

definition row_ok :: "run_row \<Rightarrow> bool" where
  "row_ok r =
     (lease_coherent r \<and> (is_terminal (run_state r) \<longrightarrow> run_finished r \<noteq> None)
      \<and> 1 \<le> run_revision r \<and> 1 \<le> run_next_sequence r)"

abbreviation idempotency :: "run_row \<Rightarrow> uuid \<times> string" where
  "idempotency r \<equiv> (spec_creator_user_id (run_spec r), spec_idempotency_key (run_spec r))"

definition runs_ok :: "db \<Rightarrow> bool" where
  "runs_ok d =
     (distinct (map run_id (runs d)) \<and> distinct (map idempotency (runs d))
      \<and> (\<forall>r \<in> set (runs d). row_ok r))"

definition log_ok :: "db \<Rightarrow> bool" where
  "log_ok d =
     (distinct (map ev_event_id (events d)) \<and> distinct (map event_key (events d))
      \<and> (\<forall>e \<in> set (events d). \<exists>r \<in> set (runs d).
           run_id r = ev_run_id e \<and> 1 \<le> ev_sequence e \<and> ev_sequence e < run_next_sequence r))"

definition executors_ok :: "db \<Rightarrow> bool" where
  "executors_ok d =
     (distinct (map exec_id (executors d)) \<and> (\<forall>e \<in> set (executors d). 0 \<le> exec_active_runs e))"

definition consistent :: "db \<Rightarrow> bool" where
  "consistent d = (runs_ok d \<and> log_ok d \<and> executors_ok d)"

definition evolve_row :: "run_row \<Rightarrow> run_row \<Rightarrow> bool" where
  "evolve_row r r' =
     (run_spec r' = run_spec r \<and> lifecycle (run_state r) (run_state r')
      \<and> run_revision r \<le> run_revision r'
      \<and> (run_state r' \<noteq> run_state r \<longrightarrow> run_revision r < run_revision r')
      \<and> run_next_sequence r \<le> run_next_sequence r'
      \<and> (is_terminal (run_state r) \<longrightarrow> run_result r' = run_result r \<and> run_error r' = run_error r)
      \<and> (run_state r = WaitingForSnapshot \<and> spec_snapshot_id (run_spec r) = None \<longrightarrow>
           run_state r' = WaitingForSnapshot \<or> is_terminal (run_state r')))"

definition runs_evolve :: "db \<Rightarrow> db \<Rightarrow> bool" where
  "runs_evolve d d' =
     (\<exists>rs more. runs d' = rs @ more \<and> list_all2 evolve_row (runs d) rs)"

definition events_fresh :: "db \<Rightarrow> db \<Rightarrow> bool" where
  "events_fresh d d' =
     (\<forall>e \<in> set (events d'). e \<in> set (events d)
        \<or> (\<forall>r \<in> set (runs d). run_id r = ev_run_id e \<longrightarrow> run_next_sequence r \<le> ev_sequence e))"

definition events_kept :: "db \<Rightarrow> db \<Rightarrow> bool" where
  "events_kept d d' =
     (\<forall>e \<in> set (events d). e \<in> set (events d')
        \<or> (\<exists>r \<in> set (runs d'). run_id r = ev_run_id e \<and> is_terminal (run_state r)))"

definition evolves :: "db \<Rightarrow> db \<Rightarrow> bool" where
  "evolves d d' = (runs_evolve d d' \<and> events_fresh d d' \<and> events_kept d d')"

definition sound :: "db \<Rightarrow> db \<Rightarrow> bool" where
  "sound d d' = (consistent d \<longrightarrow> consistent d' \<and> evolves d d')"

section \<open>The preorder\<close>

lemma evolve_row_refl: "evolve_row r r"
  by (simp add: evolve_row_def lifecycle.stay)

lemma evolve_row_id: "evolve_row r r' \<Longrightarrow> run_id r' = run_id r"
  by (simp add: evolve_row_def)

lemma evolve_row_terminal:
  "evolve_row r r' \<Longrightarrow> is_terminal (run_state r) \<Longrightarrow> run_state r' = run_state r"
  unfolding evolve_row_def by (blast dest: lifecycle_terminal)

lemma evolve_row_trans:
  assumes "evolve_row r s" "evolve_row s t"
  shows "evolve_row r t"
proof -
  have "lifecycle (run_state r) (run_state t)"
    using assms unfolding evolve_row_def by (blast intro: lifecycle_trans)
  moreover have "run_state t = run_state s" if "is_terminal (run_state s)"
    using assms(2) that by (rule evolve_row_terminal)
  moreover have "run_state s = run_state r" if "is_terminal (run_state r)"
    using assms(1) that by (rule evolve_row_terminal)
  ultimately show ?thesis
    using assms unfolding evolve_row_def
    by (cases "run_state s = run_state r"; cases "run_state t = run_state s") auto
qed

lemma runs_evolve_refl: "runs_evolve d d"
  unfolding runs_evolve_def
  by (intro exI [of _ "runs d"] exI [of _ "[]"]) (simp add: list_all2_same evolve_row_refl)

lemma runs_evolve_trans:
  assumes "runs_evolve d d'" "runs_evolve d' d''"
  shows "runs_evolve d d''"
proof -
  from assms obtain rs more rs' more' where
    1: "runs d' = rs @ more" "list_all2 evolve_row (runs d) rs" and
    2: "runs d'' = rs' @ more'" "list_all2 evolve_row (rs @ more) rs'"
    by (auto simp: runs_evolve_def)
  from 2(2) obtain us vs where 3: "rs' = us @ vs" "list_all2 evolve_row rs us"
    by (auto simp: list_all2_append1)
  have "list_all2 evolve_row (runs d) us"
    by (rule list_all2_trans [OF evolve_row_trans 1(2) 3(2)])
  with 2(1) 3(1) show ?thesis by (auto simp: runs_evolve_def)
qed

lemma runs_evolve_member:
  assumes "runs_evolve d d'" "r \<in> set (runs d)"
  obtains r' where "r' \<in> set (runs d')" "evolve_row r r'"
proof -
  from assms(1) obtain rs more where rs: "runs d' = rs @ more" "list_all2 evolve_row (runs d) rs"
    by (auto simp: runs_evolve_def)
  from assms(2) obtain n where n: "n < length (runs d)" "runs d ! n = r"
    by (auto simp: in_set_conv_nth)
  with rs(2) have "evolve_row r (rs ! n)" "n < length rs"
    by (auto dest: list_all2_nthD list_all2_lengthD)
  with rs(1) show ?thesis by (intro that [of "rs ! n"]) auto
qed

lemma events_fresh_trans:
  assumes "runs_evolve d d'" "events_fresh d d'" "events_fresh d' d''"
  shows "events_fresh d d''"
  unfolding events_fresh_def
proof (intro ballI)
  fix e assume e: "e \<in> set (events d'')"
  show "e \<in> set (events d)
    \<or> (\<forall>r \<in> set (runs d). run_id r = ev_run_id e \<longrightarrow> run_next_sequence r \<le> ev_sequence e)"
  proof (cases "e \<in> set (events d')")
    case True
    with assms(2) show ?thesis by (auto simp: events_fresh_def)
  next
    case False
    with e assms(3) have *: "r' \<in> set (runs d') \<Longrightarrow> run_id r' = ev_run_id e \<Longrightarrow>
      run_next_sequence r' \<le> ev_sequence e" for r'
      by (auto simp: events_fresh_def)
    show ?thesis
    proof (intro disjI2 ballI impI)
      fix r assume r: "r \<in> set (runs d)" "run_id r = ev_run_id e"
      from assms(1) r(1) obtain r' where r': "r' \<in> set (runs d')" "evolve_row r r'"
        by (rule runs_evolve_member)
      with r(2) have "run_next_sequence r' \<le> ev_sequence e" by (intro *) (auto dest: evolve_row_id)
      with r'(2) show "run_next_sequence r \<le> ev_sequence e" by (simp add: evolve_row_def)
    qed
  qed
qed

lemma events_kept_trans:
  assumes "runs_evolve d' d''" "events_kept d d'" "events_kept d' d''"
  shows "events_kept d d''"
  unfolding events_kept_def
proof (intro ballI)
  fix e assume e: "e \<in> set (events d)"
  show "e \<in> set (events d'') \<or> (\<exists>r \<in> set (runs d''). run_id r = ev_run_id e \<and> is_terminal (run_state r))"
  proof (cases "e \<in> set (events d')")
    case True
    with assms(3) show ?thesis by (auto simp: events_kept_def)
  next
    case False
    with e assms(2) obtain r where r: "r \<in> set (runs d')" "run_id r = ev_run_id e"
      "is_terminal (run_state r)"
      by (auto simp: events_kept_def)
    from assms(1) r(1) obtain r' where "r' \<in> set (runs d'')" "evolve_row r r'"
      by (rule runs_evolve_member)
    with r show ?thesis by (metis evolve_row_id evolve_row_terminal)
  qed
qed

lemma sound_refl: "sound d d"
  by (simp add: sound_def evolves_def runs_evolve_refl events_fresh_def events_kept_def)

lemma sound_trans: "sound d d' \<Longrightarrow> sound d' d'' \<Longrightarrow> sound d d''"
  unfolding sound_def evolves_def
  by (blast intro: runs_evolve_trans events_fresh_trans events_kept_trans)

interpretation sound: state_preorder sound
  by unfold_locales (blast intro: sound_refl sound_trans)+

section \<open>Statements\<close>

lemma same_core_sound: "same_core d d' \<Longrightarrow> sound d d'"
  using sound_refl [of d]
  unfolding same_core_def core_def sound_def consistent_def runs_ok_def log_ok_def executors_ok_def
    evolves_def runs_evolve_def events_fresh_def events_kept_def
  by simp

lemma obeys_same_core_sound: "obeys same_core m \<Longrightarrow> obeys sound m"
  by (auto simp: obeys_def intro: same_core_sound)

text \<open>Updating one run.\<close>

lemma find_run_member: "runs_ok d \<Longrightarrow> r \<in> set (runs d) \<Longrightarrow> find_run (run_id r) d = Some r"
  unfolding runs_ok_def find_run_def by (auto intro: fetch_optional_unique)

lemma update_one_run:
  assumes ok: "runs_ok d" and r: "find_run i d = Some r"
  shows "update_where (\<lambda>x. run_id x = i) f (runs d) = map (\<lambda>x. if x = r then f x else x) (runs d)"
  unfolding update_where_def
proof (rule map_cong [OF refl])
  fix x assume "x \<in> set (runs d)"
  with ok have "find_run (run_id x) d = Some x" by (rule find_run_member)
  with r find_run_Some [OF r] show "(if run_id x = i then f x else x) = (if x = r then f x else x)"
    by auto
qed

lemma find_run_update:
  assumes ok: "runs_ok d" and r: "find_run i d = Some r" and id: "run_spec (f r) = run_spec r"
  shows "find_run i (d\<lparr>runs := update_where (\<lambda>x. run_id x = i) f (runs d)\<rparr>) = Some (f r)"
proof -
  have "List.find (\<lambda>x. run_id x = i) (map (\<lambda>x. if x = r then f x else x) xs) = Some (f r)"
    if "List.find (\<lambda>x. run_id x = i) xs = Some r" for xs
    using that id by (induction xs) (auto split: if_splits)
  with r update_one_run [OF ok r] show ?thesis
    by (simp add: find_run_def fetch_optional_def)
qed

lemma update_runs_sound:
  assumes step: "\<And>r. consistent d \<Longrightarrow> r \<in> set (runs d) \<Longrightarrow> p r \<Longrightarrow> row_ok r \<Longrightarrow> row_ok (f r) \<and> evolve_row r (f r)"
  shows "sound d (d\<lparr>runs := update_where p f (runs d)\<rparr>)" (is "sound d ?d")
  unfolding sound_def
proof
  assume consistent: "consistent d"
  then have ok: "\<forall>r \<in> set (runs d). row_ok r" and log: "log_ok d"
    by (simp_all add: consistent_def runs_ok_def)
  with step [OF consistent] have row: "row_ok (if p r then f r else r) \<and> evolve_row r (if p r then f r else r)"
    if "r \<in> set (runs d)" for r
    using that by (auto simp: evolve_row_refl)
  then have spec: "run_spec (if p r then f r else r) = run_spec r" if "r \<in> set (runs d)" for r
    using that by (simp add: evolve_row_def)
  then have "map (\<lambda>r. g (run_spec r)) (runs ?d) = map (\<lambda>r. g (run_spec r)) (runs d)"
    for g :: "run_spec \<Rightarrow> 'b"
    by (simp add: update_where_def)
  note keys = this [of spec_id] this [of "\<lambda>s. (spec_creator_user_id s, spec_idempotency_key s)"]
  have "row_ok x" if "x \<in> set (runs ?d)" for x
    using that row by (auto simp: set_update_where)
  with consistent have "runs_ok ?d"
    unfolding runs_ok_def consistent_def keys by blast
  moreover have ev: "runs_evolve d ?d"
    unfolding runs_evolve_def using row
    by (intro exI [of _ "runs ?d"] exI [of _ "[]"])
      (auto simp: update_where_def list_all2_map2 list_all2_same)
  moreover have "log_ok ?d"
    unfolding log_ok_def
  proof (intro conjI ballI)
    show "distinct (map ev_event_id (events ?d))" "distinct (map event_key (events ?d))"
      using log by (simp_all add: log_ok_def)
    fix e assume "e \<in> set (events ?d)"
    with log obtain x where x: "x \<in> set (runs d)" "run_id x = ev_run_id e"
      "1 \<le> ev_sequence e" "ev_sequence e < run_next_sequence x"
      by (auto simp: log_ok_def)
    from ev x(1) obtain x' where "x' \<in> set (runs ?d)" "evolve_row x x'" by (rule runs_evolve_member)
    with x show "\<exists>r \<in> set (runs ?d). run_id r = ev_run_id e \<and> 1 \<le> ev_sequence e
        \<and> ev_sequence e < run_next_sequence r"
      by (intro bexI [of _ x']) (auto simp: evolve_row_def)
  qed
  moreover have "executors_ok ?d" using consistent by (simp add: consistent_def executors_ok_def)
  ultimately show "consistent ?d \<and> evolves d ?d"
    by (simp add: consistent_def evolves_def events_fresh_def events_kept_def)
qed

lemma update_run_sound:
  assumes r: "consistent d \<Longrightarrow> find_run i d = Some r"
    and step: "consistent d \<Longrightarrow> row_ok r \<Longrightarrow> row_ok (f r) \<and> evolve_row r (f r)"
  shows "sound d (d\<lparr>runs := update_where (\<lambda>x. run_id x = i) f (runs d)\<rparr>)"
proof (rule update_runs_sound)
  fix x assume x: "consistent d" "x \<in> set (runs d)" "run_id x = i" "row_ok x"
  then have "x = r" using r [OF x(1)] find_run_member [of d x] by (simp add: consistent_def)
  with x step show "row_ok (f x) \<and> evolve_row x (f x)" by simp
qed

lemma runs_same_update: "runs d = runs d' \<Longrightarrow> find_run i d = find_run i d'"
  by (simp add: find_run_def)

lemma executors_sound:
  "(executors_ok d \<Longrightarrow> executors_ok (d\<lparr>executors := es\<rparr>)) \<Longrightarrow> sound d (d\<lparr>executors := es\<rparr>)"
  using runs_evolve_refl [of d]
  unfolding sound_def consistent_def evolves_def runs_evolve_def
  by (simp add: runs_ok_def log_ok_def events_fresh_def events_kept_def)

lemma update_executor_sound:
  assumes "\<And>e. exec_id e = i \<Longrightarrow> exec_id (f e) = i \<and> (0 \<le> exec_active_runs e \<longrightarrow> 0 \<le> exec_active_runs (f e))"
  shows "obeys sound (update_executor i f)"
proof (rule obeysI)
  fix d x d' assume "update_executor i f d = Inr (x, d')"
  then have d': "d' = d\<lparr>executors := update_where (\<lambda>e. exec_id e = i) f (executors d)\<rparr>"
    by (simp add: tx_simps)
  have "map exec_id (update_where (\<lambda>e. exec_id e = i) f (executors d)) = map exec_id (executors d)"
    by (rule map_update_where) (simp add: assms)
  moreover have "0 \<le> exec_active_runs e"
    if "executors_ok d" "e \<in> set (update_where (\<lambda>e. exec_id e = i) f (executors d))" for e
  proof -
    from that(2) obtain x where x: "x \<in> set (executors d)" "e = (if exec_id x = i then f x else x)"
      by (auto simp: set_update_where)
    with that(1) have "0 \<le> exec_active_runs x" by (simp add: executors_ok_def)
    with x(2) assms [of x] show ?thesis by (cases "exec_id x = i") simp_all
  qed
  ultimately show "sound d d'"
    unfolding d' by (intro executors_sound) (simp add: executors_ok_def)
qed

lemma update_executor_runs: "update_executor i f d = Inr (x, d') \<Longrightarrow> runs d' = runs d"
  by (auto simp: tx_simps)

section \<open>The event log\<close>

definition new_event :: "env \<Rightarrow> run_row \<Rightarrow> uuid \<Rightarrow> run_event_kind \<Rightarrow> json \<Rightarrow> run_event" where
  "new_event E r event_id kind payload =
     \<lparr>ev_run_id = run_id r, ev_sequence = run_next_sequence r, ev_event_id = event_id,
      ev_kind = kind, ev_payload = payload, ev_created_at = env_now E\<rparr>"

lemma queue_push_core [core_intros]: "obeys same_core (queue_push E r e)"
  unfolding queue_push_def
  by (intro same_core.obeys_bind new_v4_core obeysI)
    (auto simp: tx_simps same_core_def core_def Let_def)

text \<open>An append either finds the event it is asked to write, or writes it with the next number.\<close>

lemma append_event_cases:
  assumes "append_event_tx_with_id E i event_id kind payload d = Inr (e, d')"
  obtains
    (replayed) "find_event event_id d = Some e" "d' = d" "ev_run_id e = i" "ev_kind e = kind"
      "ev_payload e = payload"
  | (appended) r where "find_run i d = Some r" "find_event event_id d = None"
      "e = new_event E r event_id kind payload" "event_key e \<notin> event_key ` set (events d)"
      "core d' = (update_where (\<lambda>r. run_id r = i) (\<lambda>r. r\<lparr>run_next_sequence := run_next_sequence r + 1\<rparr>)
                    (runs d), events d @ [e], executors d)"
proof (cases "find_run i d")
  case None
  with assms show ?thesis by (simp add: append_event_tx_with_id_def tx_simps)
next
  case (Some r)
  note run = this
  from run have [simp]: "run_id r = i" by (auto dest: find_run_Some)
  show ?thesis
  proof (cases "find_event event_id d")
    case (Some e')
    with run assms replayed show ?thesis
      by (auto simp: append_event_tx_with_id_def tx_simps split: if_splits)
  next
    case None
    let ?d = "d\<lparr>runs := update_where (\<lambda>r. run_id r = i)
      (\<lambda>r. r\<lparr>run_next_sequence := run_next_sequence r + 1\<rparr>) (runs d),
      events := events d @ [new_event E r event_id kind payload]\<rparr>"
    from run None assms have e: "e = new_event E r event_id kind payload"
      and free: "\<not> exists_row (\<lambda>x. ev_run_id x = i \<and> ev_sequence x = run_next_sequence r) (events d)"
      and push: "whenT (should_push kind) (queue_push E r e) ?d = Inr ((), d')"
      by (auto simp: append_event_tx_with_id_def tx_simps new_event_def Let_def)
    from push have "same_core ?d d'"
      by (rule obeysD [OF same_core.obeys_when [OF queue_push_core]])
    with free show ?thesis
      by (intro appended [OF run None e])
        (auto simp: e same_core_def core_def new_event_def event_key_def exists_row_iff)
  qed
qed

lemma append_event_sound: "obeys sound (append_event_tx_with_id E i event_id kind payload)"
proof (rule obeysI)
  fix d e d' assume run: "append_event_tx_with_id E i event_id kind payload d = Inr (e, d')"
  show "sound d d'"
  proof (cases rule: append_event_cases [OF run])
    case 1
    then show ?thesis by (simp add: sound_refl)
  next
    case (2 r)
    define m where "m = d\<lparr>runs := update_where (\<lambda>r. run_id r = i)
      (\<lambda>r. r\<lparr>run_next_sequence := run_next_sequence r + 1\<rparr>) (runs d)\<rparr>"
    let ?r = "r\<lparr>run_next_sequence := run_next_sequence r + 1\<rparr>"
    have sm: "sound d m"
      unfolding m_def using 2(1)
      by (intro update_run_sound)
        (auto simp: row_ok_def lease_coherent_def evolve_row_def lifecycle.stay)
    have ms: "runs m = runs d'" "events d' = events m @ [e]" "executors m = executors d'"
      using 2(5) by (simp_all add: m_def core_def)
    have "consistent d' \<and> evolves d d'" if consistent: "consistent d"
    proof -
      from consistent have rm: "find_run i m = Some ?r"
        unfolding m_def by (intro find_run_update) (auto simp: consistent_def 2(1))
      from sm consistent have m: "consistent m" "evolves d m" by (simp_all add: sound_def)
      have new: "event_key e \<notin> event_key ` set (events m)" "ev_event_id e \<notin> ev_event_id ` set (events m)"
        using 2(2,3,4) by (auto simp: m_def find_event_def fetch_optional_None new_event_def)
      have seq: "1 \<le> ev_sequence e" "run_id ?r = ev_run_id e" "ev_sequence e < run_next_sequence ?r"
        using consistent find_run_Some [OF 2(1)] 2(3) by (auto simp: consistent_def runs_ok_def row_ok_def new_event_def)
      have "log_ok d'"
        using m(1) new seq find_run_Some [OF rm] unfolding consistent_def log_ok_def ms(1) [symmetric] ms(2)
        by (auto intro!: bexI [of _ ?r])
      with m(1) have "consistent d'" by (simp add: consistent_def runs_ok_def executors_ok_def ms)
      moreover have "run_next_sequence x \<le> ev_sequence e" if "x \<in> set (runs d)" "run_id x = ev_run_id e" for x
        using consistent that 2(1,3) find_run_member [of d x] find_run_Some [OF 2(1)]
        by (simp add: consistent_def new_event_def)
      ultimately show ?thesis
        using m(2) by (auto simp: evolves_def runs_evolve_def events_fresh_def events_kept_def ms)
    qed
    then show ?thesis by (simp add: sound_def)
  qed
qed

lemma append_event_tx_sound: "obeys sound (append_event_tx E i kind payload)"
  unfolding append_event_tx_def
  by (intro sound.obeys_bind obeys_same_core_sound new_v4_core append_event_sound)

named_theorems sound_intros \<open>sound transactions\<close>

lemmas [sound_intros] = sound.obeys_rules append_event_sound append_event_tx_sound
  new_v4_core [THEN obeys_same_core_sound]
  ensure_model_quota_unchanged [THEN unchanged_core, THEN obeys_same_core_sound]
  record_model_usage_core [THEN obeys_same_core_sound]

lemma retention_sound: "obeys sound (enforce_run_event_retention now limit)"
proof (rule obeysI)
  fix d n d' assume "enforce_run_event_retention now limit d = Inr (n, d')"
  then have d': "runs d' = runs d" "executors d' = executors d"
    "events d' = filter (\<lambda>e. event_key e \<notin> event_key ` set (expired_events now limit d)) (events d)"
    by (auto simp: enforce_run_event_retention_def tx_simps)
  have gone: "\<exists>r \<in> set (runs d). run_id r = ev_run_id e \<and> is_terminal (run_state r)"
    if "e \<in> set (events d)" "event_key e \<in> event_key ` set (expired_events now limit d)" for e
  proof -
    from that(2) obtain x where x: "x \<in> set (expired_events now limit d)" "event_key x = event_key e"
      by auto
    then have "event_expired now d x"
      using set_order_limit unfolding expired_events_def by fastforce
    with x(2) show ?thesis
      by (auto simp: event_expired_def event_key_def dest!: find_run_Some split: option.splits)
  qed
  have "log_ok d'" if "log_ok d"
    using that by (auto simp: log_ok_def d' distinct_map_filter)
  with gone runs_evolve_refl [of d] show "sound d d'"
    by (auto simp: sound_def consistent_def runs_ok_def executors_ok_def d' evolves_def runs_evolve_def
        events_fresh_def events_kept_def)
qed

lemma add_run_sound:
  assumes "row_ok r" "find_run (run_id r) d = None" "idempotency r \<notin> idempotency ` set (runs d)"
  shows "sound d (d\<lparr>runs := runs d @ [r]\<rparr>)"
proof -
  have "run_id r \<notin> run_id ` set (runs d)"
    using assms(2) by (auto simp: find_run_def fetch_optional_None)
  moreover have "runs_evolve d (d\<lparr>runs := runs d @ [r]\<rparr>)"
    unfolding runs_evolve_def
    by (intro exI [of _ "runs d"] exI [of _ "[r]"]) (simp add: list_all2_same evolve_row_refl)
  ultimately show ?thesis
    using assms(1,3)
    unfolding sound_def consistent_def runs_ok_def log_ok_def executors_ok_def evolves_def
    by (auto simp: events_fresh_def events_kept_def)
qed

section \<open>What an append leaves alone\<close>

interpretation same_projects: state_preorder "\<lambda>d d'. projects d' = projects d"
  by unfold_locales simp_all

lemma append_event_projects:
  "obeys (\<lambda>d d'. projects d' = projects d) (append_event_tx_with_id E i event_id kind payload)"
  unfolding append_event_tx_with_id_def Let_def queue_push_def
  by (auto intro!: same_projects.obeys_rules split: option.splits)
    (auto intro!: obeysI simp: tx_simps Let_def)

definition run_essence :: "run_row \<Rightarrow> run_row" where
  "run_essence r = r\<lparr>run_next_sequence := 0\<rparr>"

text \<open>Apart from the next number, an append changes no column of any run.\<close>

lemma append_event_essence:
  assumes "append_event_tx_with_id E i event_id kind payload d = Inr (e, d')"
  shows "map run_essence (runs d') = map run_essence (runs d)" "executors d' = executors d"
proof (atomize (full), cases rule: append_event_cases [OF assms])
  case 1
  then show "map run_essence (runs d') = map run_essence (runs d) \<and> executors d' = executors d" by simp
next
  case (2 r)
  then have "runs d' = update_where (\<lambda>r. run_id r = i)
      (\<lambda>r. r\<lparr>run_next_sequence := run_next_sequence r + 1\<rparr>) (runs d)" "executors d' = executors d"
    by (simp_all add: core_def)
  moreover from this(1) have "map run_essence (runs d') = map run_essence (runs d)"
    by (simp add: map_update_where run_essence_def)
  ultimately show "map run_essence (runs d') = map run_essence (runs d) \<and> executors d' = executors d" by simp
qed

lemma append_event_tx_split:
  "append_event_tx E i kind payload d = Inr (e, d') \<longleftrightarrow>
     append_event_tx_with_id E i (env_new_v4 E (draws d)) kind payload (d\<lparr>draws := Suc (draws d)\<rparr>) = Inr (e, d')"
  by (simp add: append_event_tx_def tx_simps)

lemma append_event_tx_essence:
  assumes "append_event_tx E i kind payload d = Inr (e, d')"
  shows "map run_essence (runs d') = map run_essence (runs d)" "executors d' = executors d"
    "projects d' = projects d"
  using assms append_event_essence [of E i _ kind payload _ e d'] obeysD [OF append_event_projects]
  unfolding append_event_tx_split by fastforce+

lemma essence_find_run:
  assumes "map run_essence (runs d') = map run_essence (runs d)"
  shows "map_option run_essence (find_run i d') = map_option run_essence (find_run i d)"
proof -
  have "map_option run_essence (List.find (\<lambda>r. run_id r = i) rs) =
      List.find (\<lambda>r. run_id r = i) (map run_essence rs)" for rs
    by (induction rs) (auto simp: run_essence_def)
  with assms show ?thesis by (simp add: find_run_def fetch_optional_def)
qed

lemma essence_map:
  assumes "map run_essence (runs d') = map run_essence (runs d)" "\<And>r. g (run_essence r) = g r"
  shows "map g (runs d') = map g (runs d)"
  using arg_cong [OF assms(1), of "map g"] by (simp add: comp_def assms(2))

end
