(* ===== verification/SyncPublish.thy ===== *)
theory SyncPublish
  imports Governance
begin

text \<open>
  How canonical server records are projected into the per-user synchronisation log (\<open>sync.rs\<close>):
  \<open>publish_server_entity_tx\<close> writes the next revision of an entity and appends a change for the
  devices that pull, and the three canonical projections publish a private project, its threads
  and their messages. The log is append-only; its cursor is the position of the row (the
  \<open>BIGSERIAL\<close> of the table, without the gaps that rolled-back transactions leave).
\<close>

section \<open>Definitions\<close>

definition MAX_SYNC_PAYLOAD_BYTES :: nat where
  "MAX_SYNC_PAYLOAD_BYTES = 512 * 1024"

definition ALLOWED_ENTITY_TYPES :: "string list" where
  "ALLOWED_ENTITY_TYPES =
     [''project'', ''thread'', ''message'', ''task'', ''schedule'', ''run'', ''crew'', ''skill'',
      ''memory'', ''provider_profile'', ''secret_metadata'', ''mcp_metadata'']"

definition validate_entity_type :: "string \<Rightarrow> (api_error, unit) result" where
  "validate_entity_type ty =
     ensure (ty \<in> set ALLOWED_ENTITY_TYPES) (Unprocessable (''unsupported sync entity type '' @ ty))"

definition secret_field_names :: "string list" where
  "secret_field_names =
     [''api_key'', ''access_token'', ''refresh_token'', ''password'', ''secret'', ''client_secret'',
      ''authorization'']"

fun contains_cleartext_secret_field :: "json \<Rightarrow> bool" where
  "contains_cleartext_secret_field (Object m) =
     list_ex (\<lambda>(k, v). to_ascii_lowercase k \<in> set secret_field_names
                       \<or> contains_cleartext_secret_field v) m"
| "contains_cleartext_secret_field (Array xs) = list_ex contains_cleartext_secret_field xs"
| "contains_cleartext_secret_field _ = False"

definition find_entity :: "uuid \<Rightarrow> string \<Rightarrow> uuid \<Rightarrow> db \<Rightarrow> sync_entity_row option" where
  "find_entity u ty i d =
     fetch_optional (\<lambda>e. se_user e = u \<and> se_type e = ty \<and> se_entity e = i) (sync_entities d)"

definition upsert_entity :: "env \<Rightarrow> sync_entity_row \<Rightarrow> db \<Rightarrow> db" where
  "upsert_entity E e d =
     (case find_entity (se_user e) (se_type e) (se_entity e) d of
        None \<Rightarrow> d\<lparr>sync_entities := sync_entities d @ [e]\<rparr>
      | Some _ \<Rightarrow> d\<lparr>sync_entities := update_where
          (\<lambda>x. se_user x = se_user e \<and> se_type x = se_type e \<and> se_entity x = se_entity e)
          (\<lambda>_. e) (sync_entities d)\<rparr>)"

definition append_change ::
    "uuid \<Rightarrow> string \<Rightarrow> uuid \<Rightarrow> int \<Rightarrow> bool \<Rightarrow> json option \<Rightarrow> db \<Rightarrow> db" where
  "append_change u ty i revision upsert payload d =
     d\<lparr>sync_changes := sync_changes d @
       [\<lparr>sc_cursor = int (length (sync_changes d)) + 1, sc_user = u, sc_type = ty, sc_entity = i,
         sc_revision = revision, sc_upsert = upsert, sc_payload = payload\<rparr>]\<rparr>"

definition remember_materialization :: "uuid \<Rightarrow> string \<Rightarrow> uuid \<Rightarrow> unit dbtx" where
  "remember_materialization u ty i =
     writeT (\<lambda>d. d\<lparr>materializations := push_unseen (materializations d) (u, ty, i)\<rparr>)"

definition json_len :: "env \<Rightarrow> json \<Rightarrow> nat" where
  "json_len E v = length (env_json E v)"

definition publish_server_entity_tx :: "env \<Rightarrow> uuid \<Rightarrow> string \<Rightarrow> uuid \<Rightarrow> json \<Rightarrow> unit dbtx" where
  "publish_server_entity_tx E u ty i payload =
     bindT (liftT (validate_entity_type ty)) (\<lambda>_.
     bindT (ensureT (json_len E payload \<le> MAX_SYNC_PAYLOAD_BYTES)
       (Unprocessable (''projected sync payload must not exceed ''
          @ nat_text MAX_SYNC_PAYLOAD_BYTES @ '' bytes''))) (\<lambda>_.
     bindT (readT (find_entity u ty i)) (\<lambda>current.
     if (case current of None \<Rightarrow> False | Some e \<Rightarrow> \<not> se_tombstone e \<and> se_payload e = Some payload)
     then returnT ()
     else
       let revision = (case current of None \<Rightarrow> 0 | Some e \<Rightarrow> se_revision e) + 1;
           current_bytes = (case Option.bind current se_payload of None \<Rightarrow> 0 | Some v \<Rightarrow> json_len E v)
       in
       bindT (enforce_storage_quota_tx E ''user'' u (json_len E payload - current_bytes)) (\<lambda>_.
       bindT (writeT (upsert_entity E \<lparr>se_user = u, se_type = ty, se_entity = i,
         se_revision = revision, se_etag = version_etag E i revision, se_payload = Some payload,
         se_tombstone = False, se_updated = env_now E\<rparr>)) (\<lambda>_.
       writeT (append_change u ty i revision True (Some payload)))))))"

definition publish_server_tombstone_tx :: "env \<Rightarrow> uuid \<Rightarrow> string \<Rightarrow> uuid \<Rightarrow> unit dbtx" where
  "publish_server_tombstone_tx E u ty i =
     bindT (liftT (validate_entity_type ty)) (\<lambda>_.
     bindT (readT (find_entity u ty i)) (\<lambda>current.
     if (case current of None \<Rightarrow> False | Some e \<Rightarrow> se_tombstone e)
     then returnT ()
     else
       let revision = (case current of None \<Rightarrow> 0 | Some e \<Rightarrow> se_revision e) + 1 in
       bindT (writeT (upsert_entity E \<lparr>se_user = u, se_type = ty, se_entity = i,
         se_revision = revision, se_etag = version_etag E i revision, se_payload = None,
         se_tombstone = True, se_updated = env_now E\<rparr>)) (\<lambda>_.
       bindT (writeT (append_change u ty i revision False None)) (\<lambda>_.
       remember_materialization u ty i))))"

text \<open>\<open>is_char_boundary\<close> holds at the end and in front of a byte that is not a continuation.\<close>

definition is_char_boundary :: "string \<Rightarrow> nat \<Rightarrow> bool" where
  "is_char_boundary s n =
     (n = 0 \<or> n = length s \<or> (n < length s \<and> \<not> is_continuation (s ! n)))"

fun floor_boundary :: "string \<Rightarrow> nat \<Rightarrow> nat" where
  "floor_boundary s 0 = 0"
| "floor_boundary s (Suc n) = (if is_char_boundary s (Suc n) then Suc n else floor_boundary s n)"

definition message_text :: "env \<Rightarrow> json \<Rightarrow> string" where
  "message_text E content =
     (case content of
        String v \<Rightarrow> v
      | Object m \<Rightarrow>
          (case List.map_filter (\<lambda>k. Option.bind (obj_get k m) as_str)
                  [''text'', ''response'', ''output'', ''message''] of
             v # _ \<Rightarrow> v
           | [] \<Rightarrow> env_json E content)
      | _ \<Rightarrow> env_json E content)"

definition bounded_message_text :: "env \<Rightarrow> json \<Rightarrow> nat \<Rightarrow> string \<times> bool" where
  "bounded_message_text E content maximum_bytes =
     (let text = message_text E content in
      if length text \<le> maximum_bytes then (text, False)
      else (take (floor_boundary text maximum_bytes) text, True))"

fun message_role_name :: "message_role \<Rightarrow> string" where
  "message_role_name RoleUser = ''user''"
| "message_role_name RoleAssistant = ''assistant''"
| "message_role_name RoleSystem = ''system''"
| "message_role_name RoleTool = ''tool''"

definition timestamp_millis :: "time \<Rightarrow> int" where
  "timestamp_millis t = t div 1000"

definition publish_canonical_project_tx :: "env \<Rightarrow> uuid \<Rightarrow> bool dbtx" where
  "publish_canonical_project_tx E p =
     bindT (readT (find_project p)) (\<lambda>row.
     case row of
       None \<Rightarrow> returnT False
     | Some pr \<Rightarrow>
       if prj_privacy pr \<noteq> PrivateLocal then returnT False
       else
         bindT (readT (\<lambda>d. map thr_id (sort_key (\<lambda>t. (thr_created t, thr_id t))
           (filter (\<lambda>t. thr_project_id t = p \<and> thr_deleted t = None) (threads d))))) (\<lambda>thread_ids.
         bindT (publish_server_entity_tx E (prj_owner pr) ''project'' p
           (json_object
             [(''title'', String (prj_name pr)),
              (''instructions'', String (prj_description pr)),
              (''thread_ids'', Array (map (String \<circ> env_uuid E) thread_ids)),
              (''project_kind'', String ''private''),
              (''files_location'', String ''personal_device''),
              (''preferred_executor_target'',
                 (case prj_preferred_target pr of None \<Rightarrow> Null | Some v \<Rightarrow> v)),
              (''policy'', prj_policy pr),
              (''created_at'', String (env_time E (prj_created pr))),
              (''updated_at'', String (env_time E (prj_updated pr))),
              (''source'', String ''server'')])) (\<lambda>_.
         bindT (remember_materialization (prj_owner pr) ''project'' p) (\<lambda>_. returnT True))))"

text \<open>A thread that is not deleted, with its project that is not deleted.\<close>

definition live_thread :: "uuid \<Rightarrow> db \<Rightarrow> (thread_row \<times> project_row) option" where
  "live_thread t d =
     Option.bind (fetch_optional (\<lambda>r. thr_id r = t \<and> thr_deleted r = None) (threads d)) (\<lambda>th.
     map_option (\<lambda>pr. (th, pr)) (find_project (thr_project_id th) d))"

definition publish_canonical_thread_tx :: "env \<Rightarrow> uuid \<Rightarrow> bool dbtx" where
  "publish_canonical_thread_tx E t =
     bindT (readT (live_thread t)) (\<lambda>row.
     case row of
       None \<Rightarrow> returnT False
     | Some (th, pr) \<Rightarrow>
       if prj_privacy pr \<noteq> PrivateLocal then returnT False
       else
         bindT (publish_canonical_project_tx E (thr_project_id th)) (\<lambda>_.
         bindT (publish_server_entity_tx E (prj_owner pr) ''thread'' t
           (json_object
             [(''title'', String (thr_title th)),
              (''provider_settings'', Object []),
              (''runner'', String ''model''),
              (''crew_id'', Null),
              (''created_at'', String (env_time E (thr_created th))),
              (''updated_at'', String (env_time E (thr_updated th))),
              (''source'', String ''server'')])) (\<lambda>_.
         bindT (remember_materialization (prj_owner pr) ''thread'' t) (\<lambda>_. returnT True))))"

definition find_message :: "uuid \<Rightarrow> db \<Rightarrow> message_row option" where
  "find_message i d = fetch_optional (\<lambda>m. msg_id m = i \<and> msg_deleted m = None) (messages d)"

definition publish_canonical_message_tx :: "env \<Rightarrow> uuid \<Rightarrow> bool dbtx" where
  "publish_canonical_message_tx E i =
     bindT (readT (\<lambda>d. Option.bind (find_message i d) (\<lambda>m.
       map_option (\<lambda>(th, pr). (m, pr)) (live_thread (msg_thread_id m) d)))) (\<lambda>row.
     case row of
       None \<Rightarrow> returnT False
     | Some (m, pr) \<Rightarrow>
       if prj_privacy pr \<noteq> PrivateLocal then returnT False
       else
         bindT (publish_canonical_thread_tx E (msg_thread_id m)) (\<lambda>_.
         let (text, truncated) = bounded_message_text E (msg_content m) 200000 in
         bindT (publish_server_entity_tx E (prj_owner pr) ''message'' i
           (json_object
             [(''thread_id'', String (env_uuid E (msg_thread_id m))),
              (''role'', String (message_role_name (msg_role m))),
              (''content'', String text),
              (''content_truncated'', Bool truncated),
              (''timestamp'', Number (Integer (timestamp_millis (msg_created m)))),
              (''attachment_descriptors'', Array []),
              (''durable_run_id'', optional_uuid E (msg_run_id m)),
              (''source'', String ''server'')])) (\<lambda>_.
         bindT (remember_materialization (prj_owner pr) ''message'' i) (\<lambda>_. returnT True))))"

section \<open>Frames\<close>

lemma upsert_entity_core [simp]: "core (upsert_entity E e d) = core d"
  by (simp add: upsert_entity_def core_def split: option.splits)

lemma append_change_core [simp]: "core (append_change u ty i n b v d) = core d"
  by (simp add: append_change_def core_def)

lemma remember_materialization_core [core_intros]: "obeys same_core (remember_materialization u ty i)"
  unfolding remember_materialization_def by (intro core_intros) (simp add: core_def)

lemma publish_server_entity_core [core_intros]: "obeys same_core (publish_server_entity_tx E u ty i v)"
  unfolding publish_server_entity_tx_def Let_def by (auto intro!: core_intros)

lemma publish_server_tombstone_core [core_intros]:
  "obeys same_core (publish_server_tombstone_tx E u ty i)"
  unfolding publish_server_tombstone_tx_def Let_def by (auto intro!: core_intros)

lemma publish_canonical_project_core [core_intros]: "obeys same_core (publish_canonical_project_tx E p)"
  unfolding publish_canonical_project_tx_def by (auto intro!: core_intros split: option.splits)

lemma publish_canonical_thread_core [core_intros]: "obeys same_core (publish_canonical_thread_tx E t)"
  unfolding publish_canonical_thread_tx_def
  by (auto intro!: core_intros split: option.splits prod.splits)

lemma publish_canonical_message_core [core_intros]: "obeys same_core (publish_canonical_message_tx E i)"
  unfolding publish_canonical_message_tx_def
  by (auto intro!: core_intros split: option.splits prod.splits)

end
