(* ===== verification/RunStore.thy ===== *)
theory RunStore
  imports RunInvariant SyncPublish
begin

text \<open>
  Runs as the control plane stores them (\<open>db.rs\<close>): the names of states, the record a row is
  returned as, idempotent creation alone or with its chat message, listing, the contract-checked
  transition, and the versions and messages a finished run publishes.
\<close>

section \<open>Names and records\<close>

fun state_name :: "run_state \<Rightarrow> string" where
  "state_name Queued = ''queued''"
| "state_name WaitingForExecutor = ''waiting_for_executor''"
| "state_name WaitingForSnapshot = ''waiting_for_snapshot''"
| "state_name Running = ''running''"
| "state_name WaitingApproval = ''waiting_approval''"
| "state_name WaitingInput = ''waiting_input''"
| "state_name Interrupted = ''interrupted''"
| "state_name Completed = ''completed''"
| "state_name Failed = ''failed''"
| "state_name Canceled = ''canceled''"
| "state_name Expired = ''expired''"

definition parse_state :: "string \<Rightarrow> (api_error, run_state) result" where
  "parse_state s =
     (if s = ''queued'' then Inr Queued
      else if s = ''waiting_for_executor'' then Inr WaitingForExecutor
      else if s = ''waiting_for_snapshot'' then Inr WaitingForSnapshot
      else if s = ''running'' then Inr Running
      else if s = ''waiting_approval'' then Inr WaitingApproval
      else if s = ''waiting_input'' then Inr WaitingInput
      else if s = ''interrupted'' then Inr Interrupted
      else if s = ''completed'' then Inr Completed
      else if s = ''failed'' then Inr Failed
      else if s = ''canceled'' then Inr Canceled
      else if s = ''expired'' then Inr Expired
      else Inl (Internal (''unknown run state '' @ s)))"

definition TERMINAL_STATES :: "string list" where
  "TERMINAL_STATES = [''completed'', ''failed'', ''canceled'', ''expired'']"

fun target_columns :: "executor_target \<Rightarrow> string \<times> uuid option \<times> uuid option" where
  "target_columns (ServerLinux pl) = (''server_linux'', pl, None)"
| "target_columns (ManagedWindowsPool pl) = (''managed_windows_pool'', Some pl, None)"
| "target_columns (PersonalDevice dev) = (''personal_device'', None, Some dev)"

definition row_to_run :: "env \<Rightarrow> run_row \<Rightarrow> run_record" where
  "row_to_run E r =
     \<lparr>rec_spec = run_spec r, rec_state = run_state r, rec_revision = run_revision r,
      rec_etag = version_etag E (run_id r) (run_revision r),
      rec_assigned_executor_id = run_assigned r, rec_lease_expires_at = run_lease_expires r,
      rec_started_at = run_started r, rec_finished_at = run_finished r,
      rec_result = run_result r, rec_error = run_error r, rec_updated_at = run_updated r\<rparr>"

definition run_error_json :: "run_error \<Rightarrow> json" where
  "run_error_json e =
     json_object [(''code'', String (err_code e)), (''message'', String (err_message e)),
       (''retryable'', Bool (err_retryable e)), (''details'', err_details e)]"

text \<open>\<open>UPDATE runs \<dots> WHERE id = $1 RETURNING *\<close>, read with \<open>fetch_one\<close>.\<close>

definition update_run_returning :: "uuid \<Rightarrow> (run_row \<Rightarrow> run_row) \<Rightarrow> run_row dbtx" where
  "update_run_returning i f =
     bindT (update_run i f) (\<lambda>_.
     bindT (readT (find_run i)) (\<lambda>row. liftT (ok_or row row_not_found)))"

section \<open>Creation\<close>

definition find_idempotent :: "run_spec \<Rightarrow> db \<Rightarrow> run_row option" where
  "find_idempotent s d =
     fetch_optional (\<lambda>r. spec_creator_user_id (run_spec r) = spec_creator_user_id s
                        \<and> spec_idempotency_key (run_spec r) = spec_idempotency_key s) (runs d)"

definition new_run :: "run_spec \<Rightarrow> run_state \<Rightarrow> run_row" where
  "new_run s initial_state =
     \<lparr>run_spec = s, run_state = initial_state, run_revision = 1, run_result = None,
      run_error = None, run_assigned = None, run_lease_owner = None, run_lease_token = None,
      run_lease_expires = None, run_updated = spec_created_at s, run_started = None,
      run_finished = None, run_next_sequence = 1\<rparr>"

text \<open>
  The insertion cannot meet the idempotency key again: the transaction has looked it up under
  the advisory lock of the creator.
\<close>

definition create_run_tx :: "env \<Rightarrow> run_spec \<Rightarrow> run_state \<Rightarrow> (run_record \<times> bool) dbtx" where
  "create_run_tx E s initial_state =
     bindT (readT (find_idempotent s)) (\<lambda>existing.
     case existing of
       Some r \<Rightarrow> returnT (row_to_run E r, False)
     | None \<Rightarrow>
       bindT (enforce_run_quota_tx (spec_creator_user_id s) (spec_project_id s)) (\<lambda>_.
       bindT (readT (find_run (spec_id s))) (\<lambda>clash.
       bindT (ensureT (clash = None) (unique_violation ''runs_pkey'')) (\<lambda>_.
       bindT (writeT (\<lambda>d. d\<lparr>runs := runs d @ [new_run s initial_state]\<rparr>)) (\<lambda>_.
       bindT (append_event_tx E (spec_id s) Ev_Created
         (json_object [(''state'', String (state_name initial_state))])) (\<lambda>_.
       returnT (row_to_run E (new_run s initial_state), True)))))))"

definition create_run :: "env \<Rightarrow> run_spec \<Rightarrow> run_state \<Rightarrow> run_record dbtx" where
  "create_run E s initial_state =
     bindT (create_run_tx E s initial_state) (\<lambda>(r, _). returnT r)"

definition thread_not_found :: "env \<Rightarrow> uuid \<Rightarrow> api_error" where
  "thread_not_found E t = NotFound (''thread '' @ env_uuid E t @ '' was not found'')"

definition touch_thread_tx :: "env \<Rightarrow> uuid \<Rightarrow> unit dbtx" where
  "touch_thread_tx E t =
     bindT (readT (\<lambda>d. length (filter (\<lambda>r. thr_id r = t \<and> thr_deleted r = None) (threads d)))) (\<lambda>n.
     bindT (writeT (\<lambda>d. d\<lparr>threads := update_where (\<lambda>r. thr_id r = t \<and> thr_deleted r = None)
       (\<lambda>r. r\<lparr>thr_revision := thr_revision r + 1,
              thr_etag := version_etag E (thr_id r) (thr_revision r + 1),
              thr_updated := env_now E\<rparr>) (threads d)\<rparr>)) (\<lambda>_.
     ensureT (n = 1) (thread_not_found E t)))"

text \<open>A message that would repeat the identifier of another, or the role of another message of
  its run (the partial unique index on user and assistant messages).\<close>

definition message_clash :: "message_row \<Rightarrow> db \<Rightarrow> bool" where
  "message_clash m d =
     exists_row (\<lambda>x. msg_id x = msg_id m
        \<or> (msg_run_id m \<noteq> None \<and> msg_run_id x = msg_run_id m \<and> msg_role x = msg_role m
           \<and> (msg_role m = RoleUser \<or> msg_role m = RoleAssistant)
           \<and> msg_deleted x = None \<and> msg_deleted m = None)) (messages d)"

definition new_message ::
    "env \<Rightarrow> uuid \<Rightarrow> uuid \<Rightarrow> uuid option \<Rightarrow> message_role \<Rightarrow> json \<Rightarrow> uuid \<Rightarrow> message_row" where
  "new_message E i t author role content run =
     \<lparr>msg_id = i, msg_revision = 1, msg_etag = version_etag E i 1, msg_thread_id = t,
      msg_author = author, msg_role = role, msg_content = content, msg_run_id = Some run,
      msg_created = env_now E, msg_updated = env_now E, msg_deleted = None\<rparr>"

definition user_message :: "uuid \<Rightarrow> db \<Rightarrow> message_row option" where
  "user_message i d =
     fetch_optional (\<lambda>m. msg_run_id m = Some i \<and> msg_role m = RoleUser \<and> msg_deleted m = None)
       (messages d)"

definition create_thread_message_run ::
    "env \<Rightarrow> run_spec \<Rightarrow> run_state \<Rightarrow> json \<Rightarrow> (message_row \<times> run_record) dbtx" where
  "create_thread_message_run E s initial_state content =
     bindT (create_run_tx E s initial_state) (\<lambda>(run, inserted).
     bindT (ensureT (spec_thread_id (rec_spec run) = spec_thread_id s)
       (Conflict ''idempotency key belongs to a run in a different thread'')) (\<lambda>_.
     if inserted then
       bindT (new_v4 E) (\<lambda>i.
       let m = new_message E i (spec_thread_id s) (Some (spec_creator_user_id s)) RoleUser content
                 (spec_id (rec_spec run)) in
       bindT (readT (message_clash m)) (\<lambda>clash.
       bindT (ensureT (\<not> clash) (unique_violation ''messages'')) (\<lambda>_.
       bindT (writeT (\<lambda>d. d\<lparr>messages := messages d @ [m]\<rparr>)) (\<lambda>_.
       bindT (touch_thread_tx E (spec_thread_id s)) (\<lambda>_.
       bindT (publish_canonical_message_tx E i) (\<lambda>_.
       returnT (m, run)))))))
     else
       bindT (readT (user_message (spec_id (rec_spec run)))) (\<lambda>row.
       bindT (liftT (ok_or row (Conflict
         ''idempotency key belongs to a run that was not created from a chat message''))) (\<lambda>m.
       returnT (m, run)))))"

section \<open>Reading\<close>

definition list_thread_messages :: "uuid \<Rightarrow> int \<Rightarrow> message_row list dbtx" where
  "list_thread_messages t limit = readT (\<lambda>d.
     order_limit (\<lambda>m. (msg_created m, msg_id m)) (nat (clamp 1 1000 limit))
       (filter (\<lambda>m. msg_thread_id m = t \<and> msg_deleted m = None) (messages d)))"

definition get_run :: "env \<Rightarrow> uuid \<Rightarrow> run_record dbtx" where
  "get_run E i =
     bindT (readT (find_run i)) (\<lambda>row.
     bindT (liftT (ok_or row (run_not_found E i))) (\<lambda>r. returnT (row_to_run E r)))"

definition run_visible :: "env \<Rightarrow> uuid \<Rightarrow> db \<Rightarrow> run_row \<Rightarrow> bool" where
  "run_visible E u d r =
     exists_row (\<lambda>p. prj_id p = spec_project_id (run_spec r) \<and> prj_deleted p = None
       \<and> (spec_creator_user_id (run_spec r) = u \<or> prj_owner p = u
          \<or> exists_row (\<lambda>(pr, us, _). pr = prj_id p \<and> us = u) (project_members d)
          \<or> exists_row (\<lambda>(tm, us, _). Some tm = prj_team p \<and> us = u) (team_members d)
          \<or> exists_row (\<lambda>g. grant_active E u g \<and> (grant_project g = Some (spec_project_id (run_spec r))
                \<or> grant_thread g = Some (run_thread r))) (grants d))) (projects d)"

definition list_runs_for_user :: "env \<Rightarrow> uuid \<Rightarrow> int \<Rightarrow> run_record list dbtx" where
  "list_runs_for_user E u limit = readT (\<lambda>d.
     map (row_to_run E) (order_limit (\<lambda>r. (- spec_created_at (run_spec r), - int (run_id r)))
       (nat (clamp 1 200 limit)) (filter (run_visible E u d) (runs d))))"

section \<open>Transitions\<close>

text \<open>\<open>active_runs = GREATEST(active_runs - 1, 0)\<close>, with or without \<open>last_seen_at = now()\<close>.\<close>

definition release_executor :: "env \<Rightarrow> bool \<Rightarrow> uuid \<Rightarrow> unit dbtx" where
  "release_executor E seen i =
     update_executor i (\<lambda>e. e\<lparr>exec_active_runs := max (exec_active_runs e - 1) 0,
       exec_last_seen := (if seen then env_now E else exec_last_seen e)\<rparr>)"

definition transition_row ::
    "env \<Rightarrow> run_state \<Rightarrow> json option \<Rightarrow> run_error option \<Rightarrow> run_row \<Rightarrow> run_row" where
  "transition_row E next_state result error r =
     r\<lparr>run_state := next_state, run_revision := run_revision r + 1,
       run_result := or_else result (run_result r), run_error := or_else error (run_error r),
       run_updated := env_now E,
       run_finished := (if is_terminal next_state then Some (env_now E) else run_finished r),
       run_lease_owner := (if is_terminal next_state then None else run_lease_owner r),
       run_lease_token := (if is_terminal next_state then None else run_lease_token r),
       run_lease_expires := (if is_terminal next_state then None else run_lease_expires r)\<rparr>"

definition state_changed :: "run_state \<Rightarrow> run_state \<Rightarrow> json" where
  "state_changed a b = json_object [(''from'', String (state_name a)), (''to'', String (state_name b))]"

definition check_transition :: "run_state \<Rightarrow> run_state \<Rightarrow> unit dbtx" where
  "check_transition a b =
     (case ensure_run_transition a b of
        Inl e \<Rightarrow> throwT (Conflict (contract_error_text e))
      | Inr _ \<Rightarrow> returnT ())"

definition transition_run ::
    "env \<Rightarrow> uuid \<Rightarrow> run_state \<Rightarrow> json option \<Rightarrow> run_error option \<Rightarrow> run_record dbtx" where
  "transition_run E i next_state result error =
     bindT (readT (find_run i)) (\<lambda>row.
     bindT (liftT (ok_or row (run_not_found E i))) (\<lambda>current.
     bindT (check_transition (run_state current) next_state) (\<lambda>_.
     bindT (if is_terminal next_state \<and> \<not> is_terminal (run_state current)
            then case run_assigned current of
                   None \<Rightarrow> returnT ()
                 | Some ex \<Rightarrow> release_executor E True ex
            else returnT ()) (\<lambda>_.
     bindT (update_run_returning i (transition_row E next_state result error)) (\<lambda>r.
     bindT (append_event_tx E i Ev_StateChanged (state_changed (run_state current) next_state)) (\<lambda>_.
     returnT (row_to_run E r)))))))"

definition cancel_run :: "env \<Rightarrow> uuid \<Rightarrow> run_record dbtx" where
  "cancel_run E i = transition_run E i Canceled None None"

section \<open>What a finished run publishes\<close>

definition append_assistant_message_tx :: "env \<Rightarrow> uuid \<Rightarrow> json \<Rightarrow> unit dbtx" where
  "append_assistant_message_tx E i content =
     bindT (new_v4 E) (\<lambda>mid.
     bindT (readT (user_message i)) (\<lambda>row.
     case row of
       None \<Rightarrow> returnT ()
     | Some u \<Rightarrow>
         let m = new_message E mid (msg_thread_id u) None RoleAssistant content i in
         bindT (readT (message_clash m)) (\<lambda>clash.
         if clash then returnT ()
         else
           bindT (writeT (\<lambda>d. d\<lparr>messages := messages d @ [m]\<rparr>)) (\<lambda>_.
           bindT (touch_thread_tx E (msg_thread_id u)) (\<lambda>_.
           bindT (publish_canonical_message_tx E mid) (\<lambda>_. returnT ()))))))"

definition result_manifest_ready :: "env \<Rightarrow> run_spec \<Rightarrow> uuid \<Rightarrow> db \<Rightarrow> bool" where
  "result_manifest_ready E s m d =
     exists_row (\<lambda>x. man_id x = m \<and> man_source_run x = Some (spec_id s)
       \<and> man_project_id x = spec_project_id s \<and> man_created_by x = spec_creator_user_id s
       \<and> man_status x = Ready
       \<and> (case man_expires x of None \<Rightarrow> True | Some t \<Rightarrow> env_now E < t)) (manifests d)"

definition base_version :: "run_spec \<Rightarrow> db \<Rightarrow> uuid option" where
  "base_version s d =
     Option.bind (spec_snapshot_id s) (\<lambda>snap.
     case order_limit (\<lambda>v. - ver_revision v) 1
       (filter (\<lambda>v. ver_project_id v = spec_project_id s \<and> ver_manifest v = snap) (versions d)) of
       [] \<Rightarrow> None | v # _ \<Rightarrow> Some (ver_id v))"

definition max_revision :: "uuid \<Rightarrow> db \<Rightarrow> int" where
  "max_revision p d =
     (case map ver_revision (filter (\<lambda>v. ver_project_id v = p) (versions d)) of
        [] \<Rightarrow> 0 | x # xs \<Rightarrow> fold max xs x)"

definition create_run_result_version_tx :: "env \<Rightarrow> run_spec \<Rightarrow> uuid \<Rightarrow> json \<Rightarrow> uuid dbtx" where
  "create_run_result_version_tx E s m diff_summary =
     bindT (readT (result_manifest_ready E s m)) (\<lambda>valid.
     bindT (ensureT valid (Unprocessable
       ''result_snapshot_manifest_id must be a ready snapshot produced by this leased run'')) (\<lambda>_.
     bindT (readT (find_project (spec_project_id s))) (\<lambda>project.
     bindT (ensureT (project \<noteq> None)
       (NotFound (''project '' @ env_uuid E (spec_project_id s) @ '' was not found''))) (\<lambda>_.
     bindT (readT (base_version s)) (\<lambda>base.
     bindT (readT (\<lambda>d. max_revision (spec_project_id s) d + 1)) (\<lambda>revision.
     bindT (new_v4 E) (\<lambda>vid.
     bindT (readT (\<lambda>d. exists_row (\<lambda>v. ver_id v = vid) (versions d))) (\<lambda>taken.
     bindT (ensureT (\<not> taken) (unique_violation ''project_versions_pkey'')) (\<lambda>_.
     bindT (writeT (\<lambda>d. d\<lparr>versions := versions d @
       [\<lparr>ver_id = vid, ver_project_id = spec_project_id s, ver_revision = revision,
         ver_parent = base, ver_merge_base = base, ver_manifest = m,
         ver_created_by_user = Some (spec_creator_user_id s),
         ver_created_by_run = Some (spec_id s), ver_diff_summary = diff_summary,
         ver_created = env_now E\<rparr>]\<rparr>)) (\<lambda>_.
     returnT vid))))))))))"

section \<open>Soundness\<close>

lemma touch_thread_core [core_intros]: "obeys same_core (touch_thread_tx E t)"
  unfolding touch_thread_tx_def by (auto intro!: core_intros simp: core_def)

lemma append_assistant_message_core [core_intros]:
  "obeys same_core (append_assistant_message_tx E i content)"
  unfolding append_assistant_message_tx_def Let_def
  by (auto intro!: core_intros simp: core_def split: option.splits)

lemma create_run_result_version_core [core_intros]:
  "obeys same_core (create_run_result_version_tx E s m diff)"
  unfolding create_run_result_version_tx_def by (auto intro!: core_intros simp: core_def)

lemmas [sound_intros] = touch_thread_core [THEN obeys_same_core_sound]
  append_assistant_message_core [THEN obeys_same_core_sound]

lemma release_executor_sound [sound_intros]: "obeys sound (release_executor E seen i)"
  unfolding release_executor_def by (rule update_executor_sound) simp

lemma release_executor_runs: "release_executor E seen i d = Inr (x, d') \<Longrightarrow> runs d' = runs d"
  unfolding release_executor_def by (rule update_executor_runs)

lemma update_run_returning_Inr [tx_simps]:
  "update_run_returning i f d = Inr (r, d') \<longleftrightarrow>
     d' = d\<lparr>runs := update_where (\<lambda>r. run_id r = i) f (runs d)\<rparr> \<and> find_run i d' = Some r"
  by (auto simp: update_run_returning_def tx_simps)

lemma check_transition_Inr [tx_simps]:
  "check_transition a b d = Inr (u, d') \<longleftrightarrow> can_transition_to a b \<and> d' = d"
  by (auto simp: check_transition_def ensure_run_transition_def tx_defs split: if_splits)

lemma new_run_ok: "\<not> holds_lease st \<Longrightarrow> \<not> is_terminal st \<Longrightarrow> row_ok (new_run s st)"
  by (simp add: new_run_def row_ok_def lease_coherent_def)

lemma create_run_tx_cases:
  assumes "create_run_tx E s st d = Inr ((x, b), d')"
  obtains (existing) r where "find_idempotent s d = Some r" "\<not> b" "x = row_to_run E r" "d' = d"
  | (inserted) e where "find_idempotent s d = None" "b" "x = row_to_run E (new_run s st)"
      "find_run (spec_id s) d = None"
      "enforce_run_quota_tx (spec_creator_user_id s) (spec_project_id s) d = Inr ((), d)"
      "append_event_tx E (spec_id s) Ev_Created (json_object [(''state'', String (state_name st))])
         (d\<lparr>runs := runs d @ [new_run s st]\<rparr>) = Inr (e, d')"
proof (cases "find_idempotent s d")
  case None
  with assms obtain d1 e where "enforce_run_quota_tx (spec_creator_user_id s) (spec_project_id s) d = Inr ((), d1)"
    and rest: "b" "x = row_to_run E (new_run s st)" "find_run (spec_id s) d1 = None"
      "append_event_tx E (spec_id s) Ev_Created (json_object [(''state'', String (state_name st))])
         (d1\<lparr>runs := runs d1 @ [new_run s st]\<rparr>) = Inr (e, d')"
    by (auto simp: create_run_tx_def tx_simps)
  moreover from this(1) have "d1 = d" by (rule obeysD [OF enforce_run_quota_unchanged])
  ultimately show ?thesis using None by (intro inserted) simp_all
next
  case (Some r)
  with assms show ?thesis by (intro existing) (auto simp: create_run_tx_def tx_simps)
qed

lemma create_run_tx_sound:
  assumes "\<not> holds_lease st" "\<not> is_terminal st"
  shows "obeys sound (create_run_tx E s st)"
proof (rule obeysI)
  fix d x d' assume "create_run_tx E s st d = Inr (x, d')"
  then have run: "create_run_tx E s st d = Inr ((fst x, snd x), d')" by simp
  show "sound d d'"
  proof (cases rule: create_run_tx_cases [OF run])
    case (1 r)
    then show ?thesis by (simp add: sound_refl)
  next
    case (2 e)
    from 2(1) have "idempotency (new_run s st) \<notin> idempotency ` set (runs d)"
      by (auto simp: find_idempotent_def fetch_optional_None new_run_def)
    with 2(4) assms have "sound d (d\<lparr>runs := runs d @ [new_run s st]\<rparr>)"
      by (intro add_run_sound new_run_ok) (simp_all add: new_run_def)
    with obeysD [OF append_event_tx_sound 2(6)] show ?thesis by (blast intro: sound_trans)
  qed
qed

lemma create_run_sound:
  "\<not> holds_lease st \<Longrightarrow> \<not> is_terminal st \<Longrightarrow> obeys sound (create_run E s st)"
  unfolding create_run_def
  by (intro sound.obeys_bind create_run_tx_sound) (auto intro: sound.obeys_return)

lemma create_thread_message_run_sound:
  "\<not> holds_lease st \<Longrightarrow> \<not> is_terminal st \<Longrightarrow> obeys sound (create_thread_message_run E s st content)"
  unfolding create_thread_message_run_def Let_def
  by (intro sound.obeys_bind create_run_tx_sound)
    (auto intro!: obeys_same_core_sound core_intros simp: core_def)

text \<open>A transition to a state without a lease; out of \<open>waiting_for_snapshot\<close> it needs a snapshot.\<close>

lemma transition_row_sound:
  assumes "row_ok r" "can_transition_to (run_state r) st" "\<not> holds_lease st" "st \<noteq> Interrupted"
    and "is_terminal st \<or> spec_snapshot_id (run_spec r) \<noteq> None"
  shows "row_ok (transition_row E st None None r) \<and> evolve_row r (transition_row E st None None r)"
proof -
  have lease: "is_terminal st" if "holds_lease (run_state r)"
    using that assms(2-4) by (auto simp: can_transition_to.simps split: if_splits)
  have "is_terminal (run_state r) \<Longrightarrow> st = run_state r"
    using assms(2) by (rule terminal_sink [rotated])
  with assms lease lifecycle_step [OF assms(2)] show ?thesis
    by (auto simp: row_ok_def lease_coherent_def evolve_row_def transition_row_def
        simp del: holds_lease.simps split: if_splits)
qed

lemma transition_run_step:
  assumes "\<not> holds_lease st" "st \<noteq> Interrupted" "transition_run E i st None None d = Inr (x, d')"
    and free: "\<And>r. find_run i d = Some r \<Longrightarrow> is_terminal st \<or> spec_snapshot_id (run_spec r) \<noteq> None"
  shows "sound d d'"
proof -
  from assms(3) obtain r u d1 d2 e where r: "find_run i d = Some r"
    and ok: "can_transition_to (run_state r) st"
    and rel: "(if is_terminal st \<and> \<not> is_terminal (run_state r)
       then case run_assigned r of None \<Rightarrow> returnT () | Some ex \<Rightarrow> release_executor E True ex
       else returnT ()) d = Inr (u, d1)"
    and d2: "d2 = d1\<lparr>runs := update_where (\<lambda>r. run_id r = i) (transition_row E st None None) (runs d1)\<rparr>"
    and ev: "append_event_tx E i Ev_StateChanged (state_changed (run_state r) st) d2 = Inr (e, d')"
    unfolding transition_run_def tx_simps by blast
  from rel have d1: "sound d d1" "runs d1 = runs d"
    by (auto simp: tx_simps sound_refl split: if_splits option.splits
        dest: obeysD [OF release_executor_sound] release_executor_runs)
  have "sound d1 d2"
    unfolding d2 using r d1(2) assms(1,2) ok free [OF r]
    by (intro update_run_sound [of _ _ r] transition_row_sound) (simp_all add: find_run_def)
  with d1(1) obeysD [OF append_event_tx_sound ev] show ?thesis
    by (blast intro: sound_trans)
qed

lemma end_run_sound: "is_terminal st \<Longrightarrow> obeys sound (transition_run E i st None None)"
  by (rule obeysI, rule transition_run_step) (auto dest: terminal_not_holds_lease)

lemma cancel_run_sound: "obeys sound (cancel_run E i)"
  unfolding cancel_run_def by (rule end_run_sound) simp

lemma find_idempotent_member:
  assumes "runs_ok d" "r \<in> set (runs d)" "idempotency r = (spec_creator_user_id s, spec_idempotency_key s)"
  shows "find_idempotent s d = Some r"
proof -
  from assms(1,2) have "fetch_optional (\<lambda>x. idempotency x = idempotency r) (runs d) = Some r"
    by (intro fetch_optional_unique) (simp add: runs_ok_def)
  with assms(3) show ?thesis by (simp add: find_idempotent_def)
qed

text \<open>After creation the run is there, under the key it was asked for.\<close>

lemma create_run_tx_present:
  assumes "create_run_tx E s st d = Inr ((x, b), d')"
  shows "\<exists>r \<in> set (runs d'). run_spec r = rec_spec x
    \<and> idempotency r = (spec_creator_user_id s, spec_idempotency_key s)"
proof (cases rule: create_run_tx_cases [OF assms])
  case (1 r)
  then show ?thesis
    by (auto simp: find_idempotent_def row_to_run_def dest!: fetch_optional_Some intro!: bexI [of _ r])
next
  case (2 e)
  have "map run_spec (runs d') = map run_spec (runs d @ [new_run s st])"
    using essence_map [OF append_event_tx_essence(1) [OF 2(6)], of run_spec]
    by (simp add: run_essence_def)
  then have "s \<in> set (map run_spec (runs d'))" by (simp add: new_run_def)
  with 2(3) show ?thesis by (auto simp: row_to_run_def new_run_def)
qed

lemma create_run_tx_quota:
  assumes "create_run_tx E s st d = Inr ((x, True), d')" "find_project (spec_project_id s) d = Some p"
    and "(sc, i) \<in> set (scopes_of (spec_creator_user_id s) (prj_team p))"
    and "Option.bind (quota_row sc i d) ql_concurrent_runs = Some l"
  shows "running_count sc i d' \<le> l"
proof (cases rule: create_run_tx_cases [OF assms(1)])
  case (2 e)
  let ?d = "d\<lparr>runs := runs d @ [new_run s st]\<rparr>"
  from 2(5) assms(2-4) have "running_count sc i d < l"
    by (auto simp: enforce_run_quota_Inr within_quota_def)
  moreover have "running_count sc i ?d \<le> running_count sc i d + 1" by (rule running_count_add)
  moreover have "running_count sc i d' = running_count sc i ?d"
    by (rule running_count_cong [OF essence_map [OF append_event_tx_essence(1) [OF 2(6)]]
          append_event_tx_essence(3) [OF 2(6)]]) (simp add: run_essence_def)
  ultimately show ?thesis by simp
qed simp

end
