(* ===== verification/Executors.thy ===== *)
theory Executors
  imports RunStore
begin

text \<open>
  Executors (\<open>db.rs\<close>): registration by an administrator and self-refresh by the device agent,
  heartbeats, who sees which executor, and the capability match that decides which run an
  executor may take.
\<close>

section \<open>Capability match\<close>

fun executor_kind_name :: "executor_kind \<Rightarrow> string" where
  "executor_kind_name KServerLinux = ''server_linux''"
| "executor_kind_name KManagedWindows = ''managed_windows''"
| "executor_kind_name KPersonalDevice = ''personal_device''"

definition has_capabilities :: "executor_registration \<Rightarrow> capability list \<Rightarrow> bool" where
  "has_capabilities reg required =
     list_all (\<lambda>c. c \<in> set (map cap_name (reg_capabilities reg))) required"

definition array_items :: "json option \<Rightarrow> json list" where
  "array_items v = unwrap_or [] (Option.bind v as_array)"

text \<open>The names of the MCP servers that the frozen context of a run selects.\<close>

definition selected_mcp_names :: "json \<Rightarrow> string list" where
  "selected_mcp_names input =
     List.map_filter (\<lambda>item. trimmed_str (Option.bind (get ''definition'' item) (get ''name'')))
       (array_items (Option.bind (get ''frozen_runtime_context'' input) (get ''mcp_metadata'')))"

definition configured_mcp_names :: "executor_registration \<Rightarrow> string list" where
  "configured_mcp_names reg =
     List.map_filter as_str
       (array_items (Option.bind (List.find (\<lambda>c. cap_name c = ''tool.mcp.invoke'') (reg_capabilities reg))
          (\<lambda>c. obj_get ''server_names'' (cap_attributes c))))"

definition supports_run :: "executor_registration \<Rightarrow> capability list \<Rightarrow> json \<Rightarrow> bool" where
  "supports_run reg required input =
     (if \<not> has_capabilities reg required then False
      else if reg_kind reg \<noteq> KManagedWindows then True
      else if get_str ''task_runner'' input = Some ''crew''
              \<and> \<not> list_ex (\<lambda>c. cap_name c = ''crew.python'') (reg_capabilities reg) then False
      else if selected_mcp_names input = [] then True
      else list_all (\<lambda>n. n \<in> set (configured_mcp_names reg)) (selected_mcp_names input))"

section \<open>Registration\<close>

definition seconds :: "int \<Rightarrow> time" where
  "seconds n = n * 1000000"

definition row_to_executor :: "env \<Rightarrow> executor_row \<Rightarrow> (api_error, executor_record) result" where
  "row_to_executor E e =
     (if 0 \<le> exec_active_runs e \<and> exec_active_runs e \<le> u16_max
      then Inr \<lparr>exr_registration = exec_registration e,
                exr_online = (exec_last_seen e > env_utc_now E - seconds 60),
                exr_draining = exec_draining e, exr_active_runs = exec_active_runs e,
                exr_last_seen_at = exec_last_seen e\<rparr>
      else Inl (Internal ''out of range integral type conversion attempted''))"

definition executor_not_found :: "env \<Rightarrow> uuid \<Rightarrow> api_error" where
  "executor_not_found E i = NotFound (''executor '' @ env_uuid E i @ '' was not found'')"

definition fetch_executor :: "env \<Rightarrow> uuid \<Rightarrow> executor_row dbtx" where
  "fetch_executor E i =
     bindT (readT (find_executor i)) (\<lambda>row. liftT (ok_or row (executor_not_found E i)))"

definition ensure_schema :: "nat \<Rightarrow> (api_error, unit) result" where
  "ensure_schema v =
     (case ensure_compatible v of
        Inl e \<Rightarrow> Inl (Unprocessable (contract_error_text e)) | Inr _ \<Rightarrow> Inr ())"

definition no_concurrency :: api_error where
  "no_concurrency = Unprocessable ''max_concurrent_runs must be at least one''"

text \<open>The statements of registration and heartbeats run on their own, so that what they wrote
  stays when the row cannot be returned.\<close>

definition upsert_executor :: "env \<Rightarrow> executor_registration \<Rightarrow> executor_row dbtx" where
  "upsert_executor E reg =
     bindT (readT (find_executor (reg_executor_id reg))) (\<lambda>row.
     bindT (case row of
              None \<Rightarrow> writeT (\<lambda>d. d\<lparr>executors := executors d @
                [\<lparr>exec_registration = reg, exec_active_runs = 0, exec_draining = False,
                  exec_last_seen = env_utc_now E, exec_updated = env_utc_now E\<rparr>]\<rparr>)
            | Some _ \<Rightarrow> update_executor (reg_executor_id reg)
                (\<lambda>e. e\<lparr>exec_registration := reg, exec_last_seen := env_utc_now E,
                       exec_updated := env_utc_now E\<rparr>)) (\<lambda>_.
     bindT (readT (find_executor (reg_executor_id reg))) (\<lambda>row. liftT (ok_or row row_not_found))))"

definition register_executor :: "env \<Rightarrow> executor_registration \<Rightarrow> executor_record handler" where
  "register_executor E reg =
     bindH (liftH (ensure_schema (reg_schema_version reg))) (\<lambda>_.
     bindH (liftH (ensure (reg_max_concurrent_runs reg \<noteq> 0) no_concurrency)) (\<lambda>_.
     bindH (liftH (ensure (\<not> (reg_kind reg = KPersonalDevice \<and> reg_owner_user_id reg = None))
       (Unprocessable ''personal devices require owner_user_id''))) (\<lambda>_.
     bindH (commit (upsert_executor E reg)) (\<lambda>e.
     liftH (row_to_executor E e)))))"

text \<open>\<open>PersonalDeviceRemoteControlMode::default()\<close>\<close>

definition default_remote_control :: remote_control_mode where
  "default_remote_control = ConfirmEachSession"

definition refreshed_registration ::
    "executor_registration \<Rightarrow> executor_registration \<Rightarrow> executor_registration" where
  "refreshed_registration existing reg =
     (if reg_kind reg = KPersonalDevice
      then reg\<lparr>reg_owner_user_id := or_else (reg_owner_user_id reg) (reg_owner_user_id existing),
               reg_remote_control :=
                 Some (unwrap_or default_remote_control (reg_remote_control existing))\<rparr>
      else reg)"

definition update_executor_returning ::
    "uuid \<Rightarrow> (executor_row \<Rightarrow> executor_row) \<Rightarrow> api_error \<Rightarrow> executor_row dbtx" where
  "update_executor_returning i f missing =
     bindT (update_executor i f) (\<lambda>_.
     bindT (readT (find_executor i)) (\<lambda>row. liftT (ok_or row missing)))"

definition refresh_executor_registration ::
    "env \<Rightarrow> uuid \<Rightarrow> executor_registration \<Rightarrow> executor_record handler" where
  "refresh_executor_registration E i reg =
     bindH (liftH (ensure (reg_executor_id reg = i)
       (Unauthorized ''executor credential and registration ID do not match''))) (\<lambda>_.
     bindH (liftH (ensure_schema (reg_schema_version reg))) (\<lambda>_.
     bindH (commit (fetch_executor E i)) (\<lambda>row.
     bindH (liftH (row_to_executor E row)) (\<lambda>existing.
     let old = exr_registration existing; new = refreshed_registration old reg in
     bindH (liftH (ensure (\<not> (reg_kind new \<noteq> KPersonalDevice \<and> reg_remote_control new \<noteq> None))
       (Unprocessable ''personal_device_remote_control is only valid for personal devices''))) (\<lambda>_.
     bindH (liftH (ensure (reg_kind old = reg_kind new \<and> reg_pool_id old = reg_pool_id new
                     \<and> reg_owner_user_id old = reg_owner_user_id new)
       (Conflict ''an executor cannot change its kind, pool, or owner through self-registration''))) (\<lambda>_.
     bindH (liftH (ensure (reg_max_concurrent_runs new \<noteq> 0) no_concurrency)) (\<lambda>_.
     bindH (commit (update_executor_returning i (\<lambda>e. e\<lparr>exec_registration := new,
       exec_last_seen := env_now E, exec_updated := env_now E\<rparr>) row_not_found)) (\<lambda>e.
     liftH (row_to_executor E e)))))))))"

definition heartbeat_executor :: "env \<Rightarrow> uuid \<Rightarrow> nat \<Rightarrow> executor_record handler" where
  "heartbeat_executor E i active_runs =
     bindH (liftH (ensure (int active_runs \<le> i32_max) (BadRequest ''too many active run IDs''))) (\<lambda>_.
     bindH (commit (update_executor_returning i (\<lambda>e. e\<lparr>exec_last_seen := env_now E,
       exec_active_runs := int active_runs, exec_updated := env_now E\<rparr>) (executor_not_found E i))) (\<lambda>e.
     liftH (row_to_executor E e)))"

section \<open>Visibility and availability\<close>

text \<open>The joins through the pool of an executor to its team and to the projects it is granted to.\<close>

definition pool_reaches_user :: "uuid \<Rightarrow> db \<Rightarrow> pool_row \<Rightarrow> bool" where
  "pool_reaches_user u d pl =
     (exists_row (\<lambda>(tm, us, _). Some tm = pool_team pl \<and> us = u) (team_members d)
      \<or> exists_row (\<lambda>p. (pool_id pl, prj_id p) \<in> set (pool_grants d) \<and> prj_deleted p = None
          \<and> (prj_owner p = u
             \<or> exists_row (\<lambda>(pr, us, _). pr = prj_id p \<and> us = u) (project_members d)
             \<or> exists_row (\<lambda>(tm, us, _). Some tm = prj_team p \<and> us = u) (team_members d))) (projects d))"

definition executor_visible :: "uuid \<Rightarrow> db \<Rightarrow> executor_row \<Rightarrow> bool" where
  "executor_visible u d e =
     (if reg_kind (exec_registration e) = KPersonalDevice
      then reg_owner_user_id (exec_registration e) = Some u
      else exists_row (\<lambda>pl. reg_pool_id (exec_registration e) = Some (pool_id pl)
             \<and> pool_deleted pl = None \<and> pool_reaches_user u d pl) (pools d))"

definition list_executors_for_user :: "env \<Rightarrow> uuid \<Rightarrow> executor_record list dbtx" where
  "list_executors_for_user E u = (\<lambda>d. liftT
     (collectE (row_to_executor E) (sort_key (\<lambda>e. - exec_last_seen e)
       (if user_is_platform_admin u d then executors d
        else filter (executor_visible u d) (executors d)))) d)"

definition available :: "env \<Rightarrow> executor_row \<Rightarrow> bool" where
  "available E e = (\<not> exec_draining e \<and> exec_last_seen e > env_now E - seconds 60)"

definition target_executors :: "env \<Rightarrow> executor_target \<Rightarrow> db \<Rightarrow> executor_row list" where
  "target_executors E target d =
     filter (\<lambda>e. available E e \<and>
       (case target of
          ManagedWindowsPool pl \<Rightarrow> reg_kind (exec_registration e) = KManagedWindows
            \<and> reg_pool_id (exec_registration e) = Some pl
        | PersonalDevice dev \<Rightarrow> reg_kind (exec_registration e) = KPersonalDevice \<and> exec_id e = dev
        | ServerLinux _ \<Rightarrow> False)) (executors d)"

fun any_supports ::
    "env \<Rightarrow> capability list \<Rightarrow> json \<Rightarrow> executor_row list \<Rightarrow> (api_error, bool) result" where
  "any_supports E required input [] = Inr False"
| "any_supports E required input (e # es) =
     bindE (row_to_executor E e) (\<lambda>r.
     if supports_run (exr_registration r) required input then Inr True
     else any_supports E required input es)"

definition target_has_executor ::
    "env \<Rightarrow> executor_target \<Rightarrow> capability list \<Rightarrow> json \<Rightarrow> bool dbtx" where
  "target_has_executor E target required input = (\<lambda>d.
     case target of
       ServerLinux _ \<Rightarrow> Inr (True, d)
     | _ \<Rightarrow> liftT (any_supports E required input (target_executors E target d)) d)"

section \<open>Soundness\<close>

lemma fetch_executor_Inr [tx_simps]:
  "fetch_executor E i d = Inr (e, d') \<longleftrightarrow> find_executor i d = Some e \<and> d' = d"
  by (auto simp: fetch_executor_def tx_simps)

lemma row_to_executor_Inr:
  "row_to_executor E e = Inr x \<Longrightarrow>
     exr_registration x = exec_registration e \<and> exr_draining x = exec_draining e
     \<and> exr_active_runs x = exec_active_runs e"
  by (auto simp: row_to_executor_def split: if_splits)

lemma find_executor_Some: "find_executor i d = Some e \<Longrightarrow> e \<in> set (executors d) \<and> exec_id e = i"
  unfolding find_executor_def by (auto dest: fetch_optional_Some)

lemma upsert_executor_sound: "obeys sound (upsert_executor E reg)"
proof (rule obeysI)
  fix d x d' assume up: "upsert_executor E reg d = Inr (x, d')"
  show "sound d d'"
  proof (cases "find_executor (reg_executor_id reg) d")
    case None
    then have "reg_executor_id reg \<notin> exec_id ` set (executors d)"
      by (auto simp: find_executor_def fetch_optional_None)
    with up None show ?thesis
      by (auto simp: upsert_executor_def tx_simps executors_ok_def intro!: executors_sound)
  next
    case (Some e)
    with up have "update_executor (reg_executor_id reg) (\<lambda>e. e\<lparr>exec_registration := reg,
        exec_last_seen := env_utc_now E, exec_updated := env_utc_now E\<rparr>) d = Inr ((), d')"
      by (auto simp: upsert_executor_def tx_simps)
    then show ?thesis by (rule obeysD [OF update_executor_sound, rotated]) simp
  qed
qed

lemma register_executor_sound: "obeysH sound (register_executor E reg)"
  unfolding register_executor_def by (intro sound.obeysH_rules upsert_executor_sound)

lemma update_executor_returning_sound:
  assumes "\<And>e. exec_id e = i \<Longrightarrow> exec_id (f e) = i \<and> (0 \<le> exec_active_runs e \<longrightarrow> 0 \<le> exec_active_runs (f e))"
  shows "obeys sound (update_executor_returning i f missing)"
  unfolding update_executor_returning_def by (intro sound.obeys_rules update_executor_sound assms)

lemma refresh_executor_sound: "obeysH sound (refresh_executor_registration E i reg)"
proof (cases "reg_executor_id reg = i")
  case True
  then have "reg_executor_id (refreshed_registration old reg) = i" for old
    by (simp add: refreshed_registration_def)
  then show ?thesis
    unfolding refresh_executor_registration_def Let_def fetch_executor_def
    by (intro sound.obeysH_rules sound.obeys_rules update_executor_returning_sound) simp
next
  case False
  then show ?thesis
    by (simp add: refresh_executor_registration_def obeysH_def handler_defs ensure_def sound_refl)
qed

lemma heartbeat_executor_sound: "obeysH sound (heartbeat_executor E i n)"
  unfolding heartbeat_executor_def
  by (intro sound.obeysH_rules update_executor_returning_sound) simp

end
