(* ===== verification/Leases.thy ===== *)
theory Leases
  imports Executors
begin

text \<open>
  The lease protocol between the control plane and the executors (\<open>db.rs\<close>): claiming a run,
  recovering and renewing a lease, the events an executor appends under it with the accounting
  of model usage, finishing a run, and the sweep that interrupts runs whose executor stopped
  heartbeating. A lease is fenced by its token: every call of an executor names the run, itself
  and the token it was given.
\<close>

section \<open>Claiming\<close>

definition no_open_predecessor :: "db \<Rightarrow> run_row \<Rightarrow> bool" where
  "no_open_predecessor d r =
     (\<not> exists_row (\<lambda>prior. run_thread prior = run_thread r \<and> run_key prior < run_key r
          \<and> \<not> is_terminal (run_state prior)) (runs d))"

fun target_matches :: "executor_registration \<Rightarrow> executor_target \<Rightarrow> bool" where
  "target_matches reg (ManagedWindowsPool pl) =
     (reg_kind reg = KManagedWindows \<and> reg_pool_id reg = Some pl)"
| "target_matches reg (PersonalDevice dev) =
     (reg_kind reg = KPersonalDevice \<and> reg_executor_id reg = dev)"
| "target_matches reg (ServerLinux _) = False"

definition external_candidates :: "executor_registration \<Rightarrow> db \<Rightarrow> run_row list" where
  "external_candidates reg d =
     order_limit run_key 25
       (filter (\<lambda>r. (run_state r = Queued \<or> run_state r = WaitingForExecutor)
                  \<and> target_matches reg (spec_executor_target (run_spec r))
                  \<and> no_open_predecessor d r) (runs d))"

definition lease_row :: "env \<Rightarrow> uuid \<Rightarrow> uuid \<Rightarrow> time \<Rightarrow> run_row \<Rightarrow> run_row" where
  "lease_row E ex token expires r =
     r\<lparr>run_state := Running, run_revision := run_revision r + 1, run_assigned := Some ex,
       run_lease_owner := Some ex, run_lease_token := Some token, run_lease_expires := Some expires,
       run_started := or_else (run_started r) (Some (env_now E)), run_updated := env_now E\<rparr>"

definition lease_events :: "env \<Rightarrow> uuid \<Rightarrow> uuid \<Rightarrow> time \<Rightarrow> run_state \<Rightarrow> unit dbtx" where
  "lease_events E i ex expires from =
     bindT (append_event_tx E i Ev_ExecutorAssigned
       (json_object [(''executor_id'', String (env_uuid E ex)),
                     (''lease_expires_at'', String (env_time E expires))])) (\<lambda>_.
     bindT (append_event_tx E i Ev_StateChanged (state_changed from Running)) (\<lambda>_.
     returnT ()))"

text \<open>The event of an external claim names \<open>queued\<close> as the state left, whichever it was.\<close>

definition claim_external_run :: "env \<Rightarrow> uuid \<Rightarrow> int \<Rightarrow> run_lease option dbtx" where
  "claim_external_run E ex lease_seconds =
     bindT (fetch_executor E ex) (\<lambda>row.
     bindT (liftT (row_to_executor E row)) (\<lambda>executor.
     let reg = exr_registration executor in
     if exr_draining executor \<or> exr_active_runs executor \<ge> reg_max_concurrent_runs reg
     then returnT None
     else
       bindT (readT (external_candidates reg)) (\<lambda>candidates.
       case List.find (\<lambda>r. supports_run reg (spec_required_capabilities (run_spec r))
                             (spec_input (run_spec r))) candidates of
         None \<Rightarrow> returnT None
       | Some selected \<Rightarrow>
           let expires = env_utc_now E + seconds lease_seconds; i = run_id selected in
           bindT (new_v4 E) (\<lambda>token.
           bindT (update_run_returning i (lease_row E ex token expires)) (\<lambda>run.
           bindT (update_executor ex (\<lambda>e. e\<lparr>exec_active_runs := exec_active_runs e + 1,
             exec_last_seen := env_now E\<rparr>)) (\<lambda>_.
           bindT (lease_events E i ex expires Queued) (\<lambda>_.
           returnT (Some \<lparr>lease_run = row_to_run E run, lease_lease_token = token,
                           lease_lease_expires_at = expires\<rparr>))))))))"

definition server_candidates :: "db \<Rightarrow> run_row list" where
  "server_candidates d =
     order_limit run_key 1
       (filter (\<lambda>r. run_state r = Queued
                  \<and> (case spec_executor_target (run_spec r) of ServerLinux _ \<Rightarrow> True | _ \<Rightarrow> False)
                  \<and> no_open_predecessor d r) (runs d))"

definition claim_server_run :: "env \<Rightarrow> uuid \<Rightarrow> int \<Rightarrow> run_lease option dbtx" where
  "claim_server_run E worker lease_seconds =
     bindT (readT server_candidates) (\<lambda>candidates.
     case candidates of
       [] \<Rightarrow> returnT None
     | current # _ \<Rightarrow>
         let expires = env_utc_now E + seconds lease_seconds; i = run_id current in
         bindT (new_v4 E) (\<lambda>token.
         bindT (update_run_returning i (lease_row E worker token expires)) (\<lambda>run.
         bindT (lease_events E i worker expires (run_state current)) (\<lambda>_.
         returnT (Some \<lparr>lease_run = row_to_run E run, lease_lease_token = token,
                         lease_lease_expires_at = expires\<rparr>)))))"

section \<open>Holding a lease\<close>

definition clear_lease :: "run_row \<Rightarrow> run_row" where
  "clear_lease r = r\<lparr>run_lease_owner := None, run_lease_token := None, run_lease_expires := None\<rparr>"

definition expires_after :: "time \<Rightarrow> run_row \<Rightarrow> bool" where
  "expires_after t r = (case run_lease_expires r of None \<Rightarrow> False | Some x \<Rightarrow> t < x)"

definition latest_checkpoint :: "uuid \<Rightarrow> db \<Rightarrow> bool option" where
  "latest_checkpoint i d =
     (case order_limit (\<lambda>c. - ck_sequence c) 1 (filter (\<lambda>c. ck_run_id c = i) (checkpoints d)) of
        [] \<Rightarrow> None | c # _ \<Rightarrow> Some (ck_safe c))"

definition recoverable :: "env \<Rightarrow> uuid \<Rightarrow> run_row \<Rightarrow> bool" where
  "recoverable E ex r =
     (run_assigned r = Some ex \<and> run_lease_owner r = Some ex \<and> run_lease_token r \<noteq> None
      \<and> expires_after (env_now E) r \<and> holds_lease (run_state r))"

definition interruption :: "string \<Rightarrow> string \<Rightarrow> json \<Rightarrow> run_error" where
  "interruption code message details =
     \<lparr>err_code = code, err_message = message, err_retryable = False, err_details = details\<rparr>"

definition reconnect_error :: run_error where
  "reconnect_error =
     interruption ''unsafe_tool_interrupted''
       ''The executor disconnected during or after an unsafe action. The action was not retried.''
       (json_object [(''safe_to_resume'', Bool False), (''manual_review_required'', Bool True),
          (''detected_during_reconnect'', Bool True)])"

definition interrupt_row :: "env \<Rightarrow> run_error \<Rightarrow> run_row \<Rightarrow> run_row" where
  "interrupt_row E e r =
     clear_lease (r\<lparr>run_state := Interrupted, run_revision := run_revision r + 1,
       run_error := Some e, run_updated := env_now E\<rparr>)"

definition recover_external_run :: "env \<Rightarrow> uuid \<Rightarrow> int \<Rightarrow> run_lease option dbtx" where
  "recover_external_run E ex lease_seconds =
     bindT (readT (\<lambda>d. order_limit (\<lambda>r. - run_updated r) 1 (filter (recoverable E ex) (runs d)))) (\<lambda>rows.
     case rows of
       [] \<Rightarrow> returnT None
     | r # _ \<Rightarrow>
       bindT (readT (latest_checkpoint (run_id r))) (\<lambda>safe.
       if safe = Some False then
         bindT (update_run (run_id r) (interrupt_row E reconnect_error)) (\<lambda>_.
         bindT (release_executor E False ex) (\<lambda>_.
         bindT (append_event_tx E (run_id r) Ev_StateChanged
           (json_object [(''from'', String (state_name (run_state r))), (''to'', String ''interrupted''),
              (''reason'', String ''unsafe_tool_interrupted''), (''safe_to_resume'', Bool False),
              (''manual_review_required'', Bool True), (''detected_during_reconnect'', Bool True)])) (\<lambda>_.
         returnT None)))
       else
         bindT (liftT (ok_or (run_lease_token r) (Internal ''recoverable run has no lease token''))) (\<lambda>token.
         let expires = env_utc_now E + seconds lease_seconds in
         bindT (update_run_returning (run_id r)
           (\<lambda>r. r\<lparr>run_lease_expires := Some expires, run_updated := env_now E\<rparr>)) (\<lambda>run.
         bindT (append_event_tx E (run_id r) Ev_ExecutorHeartbeat
           (json_object [(''executor_id'', String (env_uuid E ex)), (''lease_recovered'', Bool True),
              (''lease_expires_at'', String (env_time E expires))])) (\<lambda>_.
         returnT (Some \<lparr>lease_run = row_to_run E run, lease_lease_token = token,
                         lease_lease_expires_at = expires\<rparr>))))))"

definition invalid_lease :: api_error where
  "invalid_lease = Conflict ''the run lease is no longer valid''"

definition owns_lease :: "uuid \<Rightarrow> uuid \<Rightarrow> uuid \<Rightarrow> run_row \<Rightarrow> bool" where
  "owns_lease i ex token r =
     (run_id r = i \<and> run_lease_owner r = Some ex \<and> run_lease_token r = Some token
      \<and> holds_lease (run_state r))"

text \<open>Unlike \<open>verify_lease\<close>, renewal does not ask whether the lease has expired.\<close>

definition renew_lease :: "env \<Rightarrow> uuid \<Rightarrow> uuid \<Rightarrow> uuid \<Rightarrow> int \<Rightarrow> run_record dbtx" where
  "renew_lease E i ex token lease_seconds =
     bindT (readT (\<lambda>d. exists_row (owns_lease i ex token) (runs d))) (\<lambda>held.
     bindT (ensureT held invalid_lease) (\<lambda>_.
     bindT (update_run_returning i (\<lambda>r. r\<lparr>run_lease_expires := Some (env_now E + seconds lease_seconds),
       run_updated := env_now E\<rparr>)) (\<lambda>run.
     returnT (row_to_run E run))))"

definition verify_lease :: "env \<Rightarrow> uuid \<Rightarrow> uuid \<Rightarrow> uuid \<Rightarrow> run_row dbtx" where
  "verify_lease E i ex token =
     bindT (readT (\<lambda>d. fetch_optional (\<lambda>r. owns_lease i ex token r \<and> expires_after (env_now E) r)
       (runs d))) (\<lambda>row.
     liftT (ok_or row invalid_lease))"

section \<open>Events under a lease\<close>

definition usage_field :: "jmap \<Rightarrow> string \<Rightarrow> (api_error, nat option) result" where
  "usage_field usage name =
     (case obj_get name usage of
        None \<Rightarrow> Inr None
      | Some v \<Rightarrow>
          (case as_u64 v of
             Some n \<Rightarrow> Inr (Some n)
           | None \<Rightarrow> Inl (Unprocessable (''external ModelCompleted usage.'' @ name
                       @ '' must be an unsigned integer''))))"

definition external_model_usage_tokens ::
    "run_event_kind \<Rightarrow> json \<Rightarrow> (api_error, nat option) result" where
  "external_model_usage_tokens kind payload =
     (if kind \<noteq> Ev_ModelCompleted then Inr None
      else case get ''usage'' payload of
        None \<Rightarrow> Inr None
      | Some usage \<Rightarrow>
          if is_null usage then Inr None
          else
            bindE (ok_or (as_object usage)
              (Unprocessable ''external ModelCompleted usage must be an object'')) (\<lambda>m.
            bindE (usage_field m ''prompt_tokens'') (\<lambda>prompt_tokens.
            bindE (usage_field m ''completion_tokens'') (\<lambda>completion_tokens.
            bindE (usage_field m ''total_tokens'') (\<lambda>total_tokens.
            if prompt_tokens = None \<and> completion_tokens = None \<and> total_tokens = None
            then Inr None
            else Inr (Some (max (unwrap_or 0 total_tokens)
                   (saturating_add_u64 (unwrap_or 0 prompt_tokens) (unwrap_or 0 completion_tokens)))))))))"

record leased_event_input =
  lei_run_id :: uuid
  lei_executor_id :: uuid
  lei_lease_token :: uuid
  lei_source_event_id :: "uuid option"
  lei_kind :: run_event_kind
  lei_payload :: json

definition append_new_leased_event :: "env \<Rightarrow> leased_event_input \<Rightarrow> bool \<Rightarrow> run_event dbtx" where
  "append_new_leased_event E inp account =
     bindT (liftT (if account then external_model_usage_tokens (lei_kind inp) (lei_payload inp)
                   else Inr None)) (\<lambda>usage_tokens.
     bindT (whenT (account \<and> lei_kind inp = Ev_ModelStarted)
       (ensure_model_quota_for_run_tx E (lei_run_id inp))) (\<lambda>_.
     bindT (case lei_source_event_id inp of Some s \<Rightarrow> returnT s | None \<Rightarrow> new_v4 E) (\<lambda>event_id.
     bindT (append_event_tx_with_id E (lei_run_id inp) event_id (lei_kind inp) (lei_payload inp)) (\<lambda>event.
     bindT (case usage_tokens of
              None \<Rightarrow> returnT ()
            | Some tokens \<Rightarrow> record_model_usage_for_run_tx E (lei_run_id inp) tokens 0) (\<lambda>_.
     returnT event)))))"

definition append_leased_event_with_accounting ::
    "env \<Rightarrow> leased_event_input \<Rightarrow> bool \<Rightarrow> run_event dbtx" where
  "append_leased_event_with_accounting E inp account =
     bindT (ensureT (\<not> (account \<and> (lei_kind inp = Ev_ModelStarted \<or> lei_kind inp = Ev_ModelCompleted)
                          \<and> lei_source_event_id inp = None))
       (Unprocessable ''external model events require a stable source_event_id'')) (\<lambda>_.
     bindT (verify_lease E (lei_run_id inp) (lei_executor_id inp) (lei_lease_token inp)) (\<lambda>_.
     bindT (readT (\<lambda>d. Option.bind (lei_source_event_id inp) (\<lambda>s. find_event s d))) (\<lambda>existing.
     case existing of
       Some e \<Rightarrow>
         if ev_run_id e \<noteq> lei_run_id inp \<or> ev_kind e \<noteq> lei_kind inp \<or> ev_payload e \<noteq> lei_payload inp
         then throwT (Conflict ''source_event_id was already used for different event content'')
         else returnT e
     | None \<Rightarrow> append_new_leased_event E inp account)))"

definition append_leased_event :: "env \<Rightarrow> leased_event_input \<Rightarrow> run_event dbtx" where
  "append_leased_event E inp = append_leased_event_with_accounting E inp False"

definition append_external_leased_event :: "env \<Rightarrow> leased_event_input \<Rightarrow> run_event dbtx" where
  "append_external_leased_event E inp = append_leased_event_with_accounting E inp True"

section \<open>Finishing\<close>

record leased_run_outcome =
  out_state :: run_state
  out_result :: "json option"
  out_error :: "run_error option"
  out_manifest :: "uuid option"
  out_diff_summary :: json

definition attach_version :: "env \<Rightarrow> json option \<Rightarrow> uuid \<Rightarrow> uuid \<Rightarrow> json" where
  "attach_version E result version manifest =
     (let v = unwrap_or (Object []) result;
          m = (case as_object v of Some m \<Rightarrow> m | None \<Rightarrow> obj_insert ''value'' v [])
      in Object (obj_insert ''result_snapshot_manifest_id'' (String (env_uuid E manifest))
           (obj_insert ''project_version_id'' (String (env_uuid E version)) m)))"

definition finish_row ::
    "env \<Rightarrow> run_state \<Rightarrow> json option \<Rightarrow> run_error option \<Rightarrow> run_row \<Rightarrow> run_row" where
  "finish_row E state result error r =
     clear_lease (r\<lparr>run_state := state, run_revision := run_revision r + 1, run_result := result,
       run_error := error, run_finished := Some (env_now E), run_updated := env_now E\<rparr>)"

definition result_with_version ::
    "env \<Rightarrow> run_spec \<Rightarrow> leased_run_outcome \<Rightarrow> json option dbtx" where
  "result_with_version E s outcome =
     (case out_manifest outcome of
        None \<Rightarrow> returnT (out_result outcome)
      | Some manifest \<Rightarrow>
          bindT (ensureT (out_state outcome = Completed)
            (Unprocessable ''only completed runs may publish a result snapshot'')) (\<lambda>_.
          bindT (create_run_result_version_tx E s manifest (out_diff_summary outcome)) (\<lambda>version.
          returnT (Some (attach_version E (out_result outcome) version manifest)))))"

definition outcome_payload :: "json option \<Rightarrow> run_error option \<Rightarrow> json" where
  "outcome_payload result error = unwrap_or Null (or_else result (map_option run_error_json error))"

definition finish_leased_run ::
    "env \<Rightarrow> uuid \<Rightarrow> uuid \<Rightarrow> uuid \<Rightarrow> leased_run_outcome \<Rightarrow> run_record dbtx" where
  "finish_leased_run E i ex token outcome =
     bindT (verify_lease E i ex token) (\<lambda>current.
     bindT (check_transition (run_state current) (out_state outcome)) (\<lambda>_.
     bindT (result_with_version E (run_spec current) outcome) (\<lambda>result.
     bindT (update_run_returning i (finish_row E (out_state outcome) result (out_error outcome))) (\<lambda>row.
     bindT (release_executor E True ex) (\<lambda>_.
     bindT (append_event_tx E i (if out_state outcome = Completed then Ev_Completed else Ev_Failed)
       (outcome_payload result (out_error outcome))) (\<lambda>_.
     bindT (whenT (out_state outcome = Completed)
       (append_assistant_message_tx E i (unwrap_or Null result))) (\<lambda>_.
     returnT (row_to_run E row))))))))"

definition complete_leased_run ::
    "env \<Rightarrow> uuid \<Rightarrow> uuid \<Rightarrow> uuid \<Rightarrow> json \<Rightarrow> uuid option \<Rightarrow> json \<Rightarrow> run_record dbtx" where
  "complete_leased_run E i ex token result manifest diff_summary =
     finish_leased_run E i ex token
       \<lparr>out_state = Completed, out_result = Some result, out_error = None,
        out_manifest = manifest, out_diff_summary = diff_summary\<rparr>"

definition fail_leased_run :: "env \<Rightarrow> uuid \<Rightarrow> uuid \<Rightarrow> uuid \<Rightarrow> run_error \<Rightarrow> run_record dbtx" where
  "fail_leased_run E i ex token error =
     finish_leased_run E i ex token
       \<lparr>out_state = Failed, out_result = None, out_error = Some error,
        out_manifest = None, out_diff_summary = Null\<rparr>"

definition interrupt_leased_run :: "env \<Rightarrow> uuid \<Rightarrow> uuid \<Rightarrow> uuid \<Rightarrow> run_error \<Rightarrow> run_record dbtx" where
  "interrupt_leased_run E i ex token error =
     finish_leased_run E i ex token
       \<lparr>out_state = Interrupted, out_result = None, out_error = Some error,
        out_manifest = None, out_diff_summary = Null\<rparr>"

section \<open>The sweep\<close>

definition lease_expired :: "env \<Rightarrow> run_row \<Rightarrow> bool" where
  "lease_expired E r =
     (holds_lease (run_state r)
      \<and> (case run_lease_expires r of None \<Rightarrow> False | Some x \<Rightarrow> x < env_now E))"

definition safe_to_resume :: "db \<Rightarrow> run_row \<Rightarrow> bool" where
  "safe_to_resume d r = unwrap_or True (latest_checkpoint (run_id r) d)"

definition expiry_reason :: "bool \<Rightarrow> string" where
  "expiry_reason safe = (if safe then ''executor_lease_expired'' else ''unsafe_tool_interrupted'')"

definition expiry_error :: "bool \<Rightarrow> run_error" where
  "expiry_error safe =
     interruption (expiry_reason safe)
       (if safe then ''The executor stopped heartbeating at a safe checkpoint.''
        else ''The executor stopped heartbeating during an unsafe action. The action was not retried.'')
       (json_object [(''safe_to_resume'', Bool safe), (''manual_review_required'', Bool (\<not> safe))])"

definition report_expired :: "env \<Rightarrow> run_row \<times> bool \<Rightarrow> unit dbtx" where
  "report_expired E = (\<lambda>(r, safe).
     bindT (case run_assigned r of None \<Rightarrow> returnT () | Some ex \<Rightarrow> release_executor E False ex) (\<lambda>_.
     bindT (append_event_tx E (run_id r) Ev_StateChanged
       (json_object [(''from'', String (state_name (run_state r))), (''to'', String ''interrupted''),
          (''reason'', String (expiry_reason safe)), (''safe_to_resume'', Bool safe),
          (''manual_review_required'', Bool (\<not> safe))])) (\<lambda>_.
     returnT ())))"

definition interrupt_expired_leases :: "env \<Rightarrow> nat dbtx" where
  "interrupt_expired_leases E =
     bindT (readT (\<lambda>d. map (\<lambda>r. (r, safe_to_resume d r)) (filter (lease_expired E) (runs d)))) (\<lambda>expired.
     bindT (writeT (\<lambda>d. d\<lparr>runs := update_where (lease_expired E)
       (\<lambda>r. interrupt_row E (expiry_error (safe_to_resume d r)) r) (runs d)\<rparr>)) (\<lambda>_.
     bindT (for_each expired (report_expired E)) (\<lambda>_.
     returnT (length expired))))"

section \<open>Retention of sessions\<close>

definition session_expired :: "time \<Rightarrow> session_row \<Rightarrow> bool" where
  "session_expired now s =
     (sess_expires s < now - days 90
      \<or> (case sess_revoked s of None \<Rightarrow> False | Some t \<Rightarrow> t < now - days 90))"

definition enforce_auth_session_retention :: "time \<Rightarrow> int \<Rightarrow> nat dbtx" where
  "enforce_auth_session_retention now limit =
     bindT (readT (\<lambda>d. order_limit (\<lambda>s. (unwrap_or (sess_expires s) (sess_revoked s), sess_id s))
       (nat (clamp 1 10000 limit)) (filter (session_expired now) (sessions d)))) (\<lambda>rows.
     if rows = [] then returnT 0
     else
       bindT (writeT (\<lambda>d. d\<lparr>subscriptions := filter (\<lambda>s.
         \<not> (exists_row (\<lambda>x. sess_user_id x = sub_user_id s \<and> sess_device_id x = sub_device_id s) rows
            \<and> \<not> exists_row (\<lambda>x. sess_user_id x = sub_user_id s \<and> sess_device_id x = sub_device_id s
                  \<and> sess_revoked x = None \<and> now < sess_expires x) (sessions d))) (subscriptions d)\<rparr>)) (\<lambda>_.
       bindT (readT (\<lambda>d. length (filter (\<lambda>s. sess_id s \<in> set (map sess_id rows)) (sessions d)))) (\<lambda>n.
       bindT (writeT (\<lambda>d. d\<lparr>sessions := filter (\<lambda>s. sess_id s \<notin> set (map sess_id rows)) (sessions d)\<rparr>)) (\<lambda>_.
       returnT n))))"

section \<open>Soundness\<close>

lemma lease_events_sound: "obeys sound (lease_events E i ex expires from)"
  unfolding lease_events_def by (intro sound.obeys_rules append_event_tx_sound)

lemma lease_row_sound:
  assumes "row_ok r" "run_state r = Queued \<or> run_state r = WaitingForExecutor"
  shows "row_ok (lease_row E ex token expires r) \<and> evolve_row r (lease_row E ex token expires r)"
proof -
  have "lifecycle (run_state r) Running"
    using assms(2) by (intro lifecycle_step) (auto simp: can_transition_to.simps)
  with assms show ?thesis
    by (auto simp: row_ok_def lease_coherent_def lease_row_def evolve_row_def or_else_def
        split: option.splits)
qed

lemma interrupt_row_sound:
  assumes "row_ok r" "holds_lease (run_state r)"
  shows "row_ok (interrupt_row E e r) \<and> evolve_row r (interrupt_row E e r)"
proof -
  have "lifecycle (run_state r) Interrupted"
    using assms(2) by (intro lifecycle_step) (auto simp: can_transition_to.simps)
  with assms show ?thesis
    by (auto simp: row_ok_def lease_coherent_def interrupt_row_def clear_lease_def evolve_row_def)
qed

lemma finish_row_sound:
  assumes "row_ok r" "holds_lease (run_state r)" "can_transition_to (run_state r) st" "\<not> holds_lease st"
  shows "row_ok (finish_row E st v e r) \<and> evolve_row r (finish_row E st v e r)"
  using assms lifecycle_step [OF assms(3)]
  by (auto simp: row_ok_def lease_coherent_def finish_row_def clear_lease_def evolve_row_def)

lemma external_candidates_member:
  "r \<in> set (external_candidates reg d) \<Longrightarrow> r \<in> set (runs d)
     \<and> (run_state r = Queued \<or> run_state r = WaitingForExecutor)
     \<and> target_matches reg (spec_executor_target (run_spec r)) \<and> no_open_predecessor d r"
  unfolding external_candidates_def by (drule subsetD [OF set_order_limit]) simp

lemma server_candidates_member:
  "r \<in> set (server_candidates d) \<Longrightarrow> r \<in> set (runs d) \<and> run_state r = Queued
     \<and> (\<exists>pl. spec_executor_target (run_spec r) = ServerLinux pl) \<and> no_open_predecessor d r"
  unfolding server_candidates_def
  by (drule subsetD [OF set_order_limit]) (auto split: executor_target.splits)

text \<open>Giving the lease of a run that waits for one.\<close>

lemma give_lease_sound:
  assumes "r \<in> set (runs d)" "run_state r = Queued \<or> run_state r = WaitingForExecutor"
    and "runs d1 = runs d"
  shows "sound d1 (d1\<lparr>runs := update_where (\<lambda>x. run_id x = run_id r) (lease_row E ex token expires) (runs d1)\<rparr>)"
  using assms by (intro update_run_sound [of _ _ r] lease_row_sound)
    (auto simp: consistent_def intro: find_run_member)

lemma claim_server_run_sound: "obeys sound (claim_server_run E w n)"
proof (rule obeysI)
  fix d x d' assume run: "claim_server_run E w n d = Inr (x, d')"
  show "sound d d'"
  proof (cases "server_candidates d")
    case Nil
    with run show ?thesis by (simp add: claim_server_run_def tx_simps sound_refl)
  next
    case (Cons r rs)
    from Cons server_candidates_member [of r d] have r: "r \<in> set (runs d)" "run_state r = Queued"
      by auto
    let ?e = "env_utc_now E + seconds n" and ?t = "env_new_v4 E (draws d)"
    let ?d1 = "d\<lparr>draws := Suc (draws d)\<rparr>"
    let ?d2 = "?d1\<lparr>runs := update_where (\<lambda>x. run_id x = run_id r) (lease_row E w ?t ?e) (runs ?d1)\<rparr>"
    from run Cons obtain u where "lease_events E (run_id r) w ?e (run_state r) ?d2 = Inr (u, d')"
      by (auto simp: claim_server_run_def tx_simps Let_def)
    then have "sound ?d2 d'" by (rule obeysD [OF lease_events_sound])
    moreover have "sound ?d1 ?d2" using r by (intro give_lease_sound) simp_all
    moreover have "sound d ?d1" by (intro same_core_sound) (simp add: same_core_tables)
    ultimately show ?thesis by (blast intro: sound_trans)
  qed
qed

text \<open>What a successful external claim did, statement by statement.\<close>

lemma claim_external_run_cases:
  assumes "claim_external_run E ex n d = Inr (x, d')"
  obtains (none) "x = None" "d' = d"
  | (claimed) e r d2 where "find_executor ex d = Some e" "\<not> exec_draining e"
      "exec_active_runs e < reg_max_concurrent_runs (exec_registration e)"
      "List.find (\<lambda>r. supports_run (exec_registration e) (spec_required_capabilities (run_spec r))
         (spec_input (run_spec r))) (external_candidates (exec_registration e) d) = Some r"
      "d2 = d\<lparr>draws := Suc (draws d), runs := update_where (\<lambda>x. run_id x = run_id r)
         (lease_row E ex (env_new_v4 E (draws d)) (env_utc_now E + seconds n)) (runs d)\<rparr>"
      "bindT (update_executor ex (\<lambda>e. e\<lparr>exec_active_runs := exec_active_runs e + 1,
             exec_last_seen := env_now E\<rparr>)) (\<lambda>_.
         lease_events E (run_id r) ex (env_utc_now E + seconds n) Queued) d2 = Inr ((), d')"
      "x = Some \<lparr>lease_run = row_to_run E (the (find_run (run_id r) d2)),
         lease_lease_token = env_new_v4 E (draws d),
         lease_lease_expires_at = env_utc_now E + seconds n\<rparr>"
proof -
  from assms obtain e xr where e: "find_executor ex d = Some e" "row_to_executor E e = Inr xr"
    and rest: "(let reg = exr_registration xr in
     if exr_draining xr \<or> exr_active_runs xr \<ge> reg_max_concurrent_runs reg
     then returnT None
     else
       bindT (readT (external_candidates reg)) (\<lambda>candidates.
       case List.find (\<lambda>r. supports_run reg (spec_required_capabilities (run_spec r))
                             (spec_input (run_spec r))) candidates of
         None \<Rightarrow> returnT None
       | Some selected \<Rightarrow>
           let expires = env_utc_now E + seconds n; i = run_id selected in
           bindT (new_v4 E) (\<lambda>token.
           bindT (update_run_returning i (lease_row E ex token expires)) (\<lambda>run.
           bindT (update_executor ex (\<lambda>e. e\<lparr>exec_active_runs := exec_active_runs e + 1,
             exec_last_seen := env_now E\<rparr>)) (\<lambda>_.
           bindT (lease_events E i ex expires Queued) (\<lambda>_.
           returnT (Some \<lparr>lease_run = row_to_run E run, lease_lease_token = token,
                           lease_lease_expires_at = expires\<rparr>))))))) d = Inr (x, d')"
    by (auto simp: claim_external_run_def tx_simps)
  note [simp] = row_to_executor_Inr [OF e(2)]
  show ?thesis
  proof (cases "exec_draining e \<or> exec_active_runs e \<ge> reg_max_concurrent_runs (exec_registration e)")
    case True
    with rest show ?thesis by (intro none) (auto simp: tx_simps Let_def)
  next
    case False
    note free = this
    show ?thesis
    proof (cases "List.find (\<lambda>r. supports_run (exec_registration e) (spec_required_capabilities (run_spec r))
         (spec_input (run_spec r))) (external_candidates (exec_registration e) d)")
      case None
      with rest free show ?thesis by (intro none) (auto simp: tx_simps Let_def)
    next
      case (Some r)
      with rest free show ?thesis
        by (intro claimed [OF e(1) _ _ Some refl]) (auto simp: tx_simps Let_def)
    qed
  qed
qed

lemma claim_external_run_sound: "obeys sound (claim_external_run E ex n)"
proof (rule obeysI)
  fix d x d' assume run: "claim_external_run E ex n d = Inr (x, d')"
  show "sound d d'"
  proof (cases rule: claim_external_run_cases [OF run])
    case 1
    then show ?thesis by (simp add: sound_refl)
  next
    case (2 e r d2)
    from 2(4) have r: "r \<in> set (runs d)" "run_state r = Queued \<or> run_state r = WaitingForExecutor"
      by (auto dest!: find_member external_candidates_member)
    let ?d1 = "d\<lparr>draws := Suc (draws d)\<rparr>"
    have "sound d ?d1" by (intro same_core_sound) (simp add: same_core_tables)
    moreover have "sound ?d1 d2"
      using give_lease_sound [OF r, of ?d1 E ex "env_new_v4 E (draws d)" "env_utc_now E + seconds n"]
      by (simp add: 2(5))
    moreover have "sound d2 d'"
      using 2(6)
      by (rule obeysD [rotated])
        (intro sound.obeys_rules update_executor_sound lease_events_sound, simp)
    ultimately show ?thesis by (blast intro: sound_trans)
  qed
qed

lemma recoverable_first:
  "order_limit k 1 (filter (recoverable E ex) (runs d)) = r # rs \<Longrightarrow> r \<in> set (runs d) \<and> recoverable E ex r"
  using set_order_limit [of k 1 "filter (recoverable E ex) (runs d)"] by auto

lemma recover_external_run_sound: "obeys sound (recover_external_run E ex n)"
proof (rule obeysI)
  fix d x d' assume run: "recover_external_run E ex n d = Inr (x, d')"
  show "sound d d'"
  proof (cases "order_limit (\<lambda>r. - run_updated r) 1 (filter (recoverable E ex) (runs d))")
    case Nil
    with run show ?thesis by (simp add: recover_external_run_def tx_simps sound_refl)
  next
    case (Cons r rs)
    from recoverable_first [OF Cons] have r: "r \<in> set (runs d)" "holds_lease (run_state r)"
      "run_lease_token r \<noteq> None" "recoverable E ex r"
      by (auto simp: recoverable_def)
    have upd: "sound d (d\<lparr>runs := update_where (\<lambda>x. run_id x = run_id r) f (runs d)\<rparr>)"
      if "row_ok r \<Longrightarrow> row_ok (f r) \<and> evolve_row r (f r)" for f
      using that r(1) by (intro update_run_sound [of _ _ r]) (auto simp: consistent_def intro: find_run_member)
    show ?thesis
    proof (cases "latest_checkpoint (run_id r) d = Some False")
      case True
      let ?d = "d\<lparr>runs := update_where (\<lambda>x. run_id x = run_id r) (interrupt_row E reconnect_error) (runs d)\<rparr>"
      from run Cons True obtain d2 e v where
        "release_executor E False ex ?d = Inr ((), d2)"
        "append_event_tx E (run_id r) Ev_StateChanged v d2 = Inr (e, d')"
        by (auto simp: recover_external_run_def tx_simps)
      then have "sound ?d d'"
        by (blast intro: sound_trans obeysD [OF release_executor_sound] obeysD [OF append_event_tx_sound])
      moreover from r(2) have "sound d ?d" by (intro upd interrupt_row_sound)
      ultimately show ?thesis by (blast intro: sound_trans)
    next
      case False
      let ?f = "\<lambda>r. r\<lparr>run_lease_expires := Some (env_utc_now E + seconds n), run_updated := env_now E\<rparr>"
      let ?d = "d\<lparr>runs := update_where (\<lambda>x. run_id x = run_id r) ?f (runs d)\<rparr>"
      from run Cons False obtain e v where "append_event_tx E (run_id r) Ev_ExecutorHeartbeat v ?d = Inr (e, d')"
        by (auto simp: recover_external_run_def tx_simps Let_def)
      then have "sound ?d d'" by (rule obeysD [OF append_event_tx_sound])
      moreover from r(2) have "sound d ?d"
        by (intro upd) (auto simp: row_ok_def lease_coherent_def evolve_row_def lifecycle.stay)
      ultimately show ?thesis by (blast intro: sound_trans)
    qed
  qed
qed

lemma owns_lease_update_sound:
  assumes held: "r \<in> set (runs d)" "owns_lease i ex token r"
    and f: "row_ok r \<Longrightarrow> row_ok (f r) \<and> evolve_row r (f r)"
  shows "sound d (d\<lparr>runs := update_where (\<lambda>x. run_id x = i) f (runs d)\<rparr>)"
  using assms
  by (intro update_run_sound [of _ _ r]) (auto simp: consistent_def owns_lease_def intro: find_run_member)

lemma renew_lease_sound: "obeys sound (renew_lease E i ex token n)"
proof (rule obeysI)
  fix d x d' assume "renew_lease E i ex token n d = Inr (x, d')"
  then obtain r where r: "r \<in> set (runs d)" "owns_lease i ex token r" and
    d': "d' = d\<lparr>runs := update_where (\<lambda>x. run_id x = i)
      (\<lambda>r. r\<lparr>run_lease_expires := Some (env_now E + seconds n), run_updated := env_now E\<rparr>) (runs d)\<rparr>"
    by (auto simp: renew_lease_def tx_simps exists_row_iff)
  from r show "sound d d'"
    unfolding d'
    by (intro owns_lease_update_sound)
      (auto simp: owns_lease_def row_ok_def lease_coherent_def evolve_row_def lifecycle.stay)
qed

lemma verify_lease_Inr [tx_simps]:
  "verify_lease E i ex token d = Inr (r, d') \<longleftrightarrow>
     fetch_optional (\<lambda>r. owns_lease i ex token r \<and> expires_after (env_now E) r) (runs d) = Some r \<and> d' = d"
  by (auto simp: verify_lease_def tx_simps)

lemma verify_lease_unchanged: "obeys (\<lambda>d d'. d' = d) (verify_lease E i ex token)"
  by (rule obeysI) (simp add: tx_simps)

lemmas [sound_intros] = verify_lease_unchanged [THEN unchanged_core, THEN obeys_same_core_sound]

lemma append_new_leased_event_sound [sound_intros]: "obeys sound (append_new_leased_event E inp account)"
  unfolding append_new_leased_event_def
  by (auto intro!: sound_intros split: option.splits)

lemma append_leased_event_sound: "obeys sound (append_leased_event_with_accounting E inp account)"
  unfolding append_leased_event_with_accounting_def
  by (auto intro!: sound_intros split: option.splits)

lemma result_with_version_core [core_intros]: "obeys same_core (result_with_version E s outcome)"
  unfolding result_with_version_def by (auto intro!: core_intros split: option.splits)

lemma finish_leased_run_sound:
  assumes "\<not> holds_lease (out_state outcome)"
  shows "obeys sound (finish_leased_run E i ex token outcome)"
proof (rule obeysI)
  fix d x d' assume "finish_leased_run E i ex token outcome d = Inr (x, d')"
  then obtain r v d1 d2 where
    r: "fetch_optional (\<lambda>r. owns_lease i ex token r \<and> expires_after (env_now E) r) (runs d) = Some r"
    and ok: "can_transition_to (run_state r) (out_state outcome)"
    and v: "result_with_version E (run_spec r) outcome d = Inr (v, d1)"
    and d2: "d2 = d1\<lparr>runs := update_where (\<lambda>x. run_id x = i)
      (finish_row E (out_state outcome) v (out_error outcome)) (runs d1)\<rparr>"
    and rest: "bindT (release_executor E True ex) (\<lambda>_.
       bindT (append_event_tx E i (if out_state outcome = Completed then Ev_Completed else Ev_Failed)
         (outcome_payload v (out_error outcome))) (\<lambda>_.
       whenT (out_state outcome = Completed)
         (append_assistant_message_tx E i (unwrap_or Null v)))) d2 = Inr ((), d')"
    unfolding finish_leased_run_def by (auto simp: tx_simps)
  from v have d1: "same_core d d1" by (rule obeysD [OF result_with_version_core])
  from fetch_optional_Some [OF r] d1 have "r \<in> set (runs d1)" "owns_lease i ex token r"
    by (auto simp: same_core_tables)
  with ok assms have "sound d1 d2"
    unfolding d2 by (intro owns_lease_update_sound finish_row_sound) (auto simp: owns_lease_def)
  moreover from rest have "sound d2 d'"
    by (rule obeysD [rotated]) (intro sound_intros)
  ultimately show "sound d d'"
    using same_core_sound [OF d1] by (blast intro: sound_trans)
qed

lemma report_expired_sound: "obeys sound (report_expired E x)"
  unfolding report_expired_def
  by (cases x) (auto intro!: sound_intros split: option.splits)

lemma interrupt_expired_leases_sound: "obeys sound (interrupt_expired_leases E)"
proof (rule obeysI)
  fix d n d' assume run: "interrupt_expired_leases E d = Inr (n, d')"
  let ?d = "d\<lparr>runs := update_where (lease_expired E)
       (\<lambda>r. interrupt_row E (expiry_error (safe_to_resume d r)) r) (runs d)\<rparr>"
  from run have "for_each (map (\<lambda>r. (r, safe_to_resume d r)) (filter (lease_expired E) (runs d)))
      (report_expired E) ?d = Inr ((), d')"
    by (auto simp: interrupt_expired_leases_def tx_simps)
  then have "sound ?d d'"
    by (rule obeysD [OF sound.obeys_for_each [OF report_expired_sound]])
  moreover have "sound d ?d"
    by (intro update_runs_sound interrupt_row_sound) (auto simp: lease_expired_def)
  ultimately show "sound d d'" by (blast intro: sound_trans)
qed

lemma leased_outcomes_sound:
  "obeys sound (complete_leased_run E i ex token v m w)"
  "obeys sound (fail_leased_run E i ex token e)"
  "obeys sound (interrupt_leased_run E i ex token e)"
  unfolding complete_leased_run_def fail_leased_run_def interrupt_leased_run_def
  by (simp_all add: finish_leased_run_sound)

lemma leased_events_sound:
  "obeys sound (append_leased_event E inp)" "obeys sound (append_external_leased_event E inp)"
  unfolding append_leased_event_def append_external_leased_event_def
  by (rule append_leased_event_sound)+

end
