(* ===== verification/Workflow.thy ===== *)
theory Workflow
  imports Leases
begin

text \<open>
  The waiting points of a run (\<open>workflow.rs\<close>): approvals and input requests that an executor
  opens under its lease and a user answers, their expiry, and the checkpoints that decide
  whether an interrupted run may be resumed.
\<close>

section \<open>Expiry and access\<close>

definition minutes :: "int \<Rightarrow> time" where
  "minutes n = n * 60 * 1000000"

definition DEFAULT_WAIT_DAYS :: int where
  "DEFAULT_WAIT_DAYS = 7"

definition validated_expiry :: "env \<Rightarrow> time option \<Rightarrow> (api_error, time) result" where
  "validated_expiry E v =
     (let now = env_utc_now E; expires_at = unwrap_or (now + days DEFAULT_WAIT_DAYS) v in
      if expires_at \<le> now + minutes 1 \<or> expires_at > now + days DEFAULT_WAIT_DAYS
      then Inl (Unprocessable ''request expiry must be between one minute and seven days'')
      else Inr expires_at)"

definition ensure_executor_identity :: "uuid \<Rightarrow> uuid \<Rightarrow> (api_error, unit) result" where
  "ensure_executor_identity ex caller =
     ensure (caller = ex)
       (Unauthorized ''executor credential does not match the requested executor'')"

definition ensure_run_role :: "env \<Rightarrow> uuid \<Rightarrow> uuid \<Rightarrow> project_role \<Rightarrow> unit dbtx" where
  "ensure_run_role E u i role =
     bindT (readT (find_run i)) (\<lambda>row.
     bindT (liftT (ok_or row (run_not_found E i))) (\<lambda>r.
     bindT (ensure_thread_role E u (spec_project_id (run_spec r)) (run_thread r) role) (\<lambda>_.
     returnT ())))"

definition ensure_run_assigned_executor :: "uuid \<Rightarrow> uuid \<Rightarrow> unit dbtx" where
  "ensure_run_assigned_executor i ex =
     bindT (readT (\<lambda>d. exists_row (\<lambda>r. run_id r = i \<and> run_assigned r = Some ex) (runs d))) (\<lambda>assigned.
     ensureT assigned (Unauthorized ''the run is not assigned to this executor''))"

section \<open>Approvals\<close>

record create_approval_request =
  car_lease_token :: uuid
  car_requested_action :: json
  car_expires_at :: "time option"
  car_source_request_id :: "uuid option"

text \<open>\<open>UPDATE runs SET state = \<dots>, revision = revision + 1, updated_at = now()\<close>\<close>

definition set_run_state :: "env \<Rightarrow> run_state \<Rightarrow> run_row \<Rightarrow> run_row" where
  "set_run_state E st r =
     r\<lparr>run_state := st, run_revision := run_revision r + 1, run_updated := env_now E\<rparr>"

definition new_approval ::
    "env \<Rightarrow> uuid \<Rightarrow> uuid \<Rightarrow> json \<Rightarrow> time \<Rightarrow> uuid option \<Rightarrow> uuid option \<Rightarrow> approval_row" where
  "new_approval E i run action expires ex source =
     \<lparr>apr_id = i, apr_run_id = run, apr_revision = 1, apr_etag = version_etag E i 1,
      apr_action = action, apr_state = Pending, apr_requested = env_now E, apr_expires = expires,
      apr_resolved_by = None, apr_resolved = None, apr_executor = ex, apr_source = source\<rparr>"

text \<open>The unique constraints: the identifier, one pending approval per run, and the source
  request of a run.\<close>

definition approval_clash :: "approval_row \<Rightarrow> db \<Rightarrow> bool" where
  "approval_clash a d =
     exists_row (\<lambda>x. apr_id x = apr_id a
        \<or> (apr_run_id x = apr_run_id a
           \<and> (apr_state x = Pending \<or> (apr_source a \<noteq> None \<and> apr_source x = apr_source a)))) (approvals d)"

definition insert_approval :: "approval_row \<Rightarrow> unit dbtx" where
  "insert_approval a =
     bindT (readT (approval_clash a)) (\<lambda>clash.
     bindT (ensureT (\<not> clash) (unique_violation ''approval_requests'')) (\<lambda>_.
     writeT (\<lambda>d. d\<lparr>approvals := approvals d @ [a]\<rparr>)))"

definition open_approval :: "env \<Rightarrow> approval_row \<Rightarrow> unit dbtx" where
  "open_approval E a =
     bindT (insert_approval a) (\<lambda>_.
     bindT (update_run (apr_run_id a) (set_run_state E WaitingApproval)) (\<lambda>_.
     bindT (append_event_tx E (apr_run_id a) Ev_ApprovalRequested
       (json_object [(''approval_id'', String (env_uuid E (apr_id a))),
          (''requested_action'', apr_action a),
          (''expires_at'', String (env_time E (apr_expires a)))])) (\<lambda>_.
     bindT (append_event_tx E (apr_run_id a) Ev_StateChanged (state_changed Running WaitingApproval)) (\<lambda>_.
     returnT ()))))"

definition create_approval ::
    "env \<Rightarrow> uuid \<Rightarrow> uuid \<Rightarrow> uuid \<Rightarrow> create_approval_request \<Rightarrow> approval_row dbtx" where
  "create_approval E caller ex i rq =
     bindT (liftT (ensure_executor_identity ex caller)) (\<lambda>_.
     bindT (liftT (validated_expiry E (car_expires_at rq))) (\<lambda>expires_at.
     bindT (verify_lease E i ex (car_lease_token rq)) (\<lambda>run.
     bindT (readT (\<lambda>d. Option.bind (car_source_request_id rq) (\<lambda>s.
       fetch_optional (\<lambda>a. apr_run_id a = i \<and> apr_source a = Some s) (approvals d)))) (\<lambda>existing.
     case existing of
       Some a \<Rightarrow>
         if apr_action a \<noteq> car_requested_action rq \<or> \<bar>apr_expires a - expires_at\<bar> > 1
         then throwT (Conflict ''source_request_id was already used for a different approval'')
         else returnT a
     | None \<Rightarrow>
         bindT (ensureT (run_state run = Running)
           (Conflict ''a run can request approval only while running'')) (\<lambda>_.
         bindT (new_v4 E) (\<lambda>aid.
         let a = new_approval E aid i (car_requested_action rq) expires_at (Some ex)
                   (car_source_request_id rq) in
         bindT (open_approval E a) (\<lambda>_. returnT a)))))))"

definition list_approvals :: "env \<Rightarrow> uuid \<Rightarrow> uuid \<Rightarrow> approval_row list handler" where
  "list_approvals E u i =
     bindH (commit (ensure_run_role E u i Viewer)) (\<lambda>_.
     commit (readT (\<lambda>d. sort_key apr_requested (filter (\<lambda>a. apr_run_id a = i) (approvals d)))))"

definition find_approval :: "uuid \<Rightarrow> uuid \<Rightarrow> db \<Rightarrow> approval_row option" where
  "find_approval i aid d = fetch_optional (\<lambda>a. apr_id a = aid \<and> apr_run_id a = i) (approvals d)"

definition approval_not_found :: "env \<Rightarrow> uuid \<Rightarrow> api_error" where
  "approval_not_found E aid = NotFound (''approval '' @ env_uuid E aid @ '' was not found'')"

definition get_executor_approval :: "env \<Rightarrow> uuid \<Rightarrow> uuid \<Rightarrow> uuid \<Rightarrow> uuid \<Rightarrow> approval_row dbtx" where
  "get_executor_approval E caller ex i aid =
     bindT (liftT (ensure_executor_identity ex caller)) (\<lambda>_.
     bindT (ensure_run_assigned_executor i ex) (\<lambda>_.
     bindT (readT (find_approval i aid)) (\<lambda>row. liftT (ok_or row (approval_not_found E aid)))))"

section \<open>Resuming\<close>

definition waiting_error :: run_error where
  "waiting_error =
     interruption ''executor_lease_expired_while_waiting''
       ''The executor disconnected while the run was waiting.'' (Object [])"

definition resume_waiting_run :: "env \<Rightarrow> uuid \<Rightarrow> run_state \<Rightarrow> unit dbtx" where
  "resume_waiting_run E i expected =
     bindT (readT (find_run i)) (\<lambda>row.
     bindT (liftT (ok_or row (run_not_found E i))) (\<lambda>r.
     bindT (ensureT (run_state r = expected)
       (Conflict (''run is '' @ state_name (run_state r) @ '', expected '' @ state_name expected))) (\<lambda>_.
     if expires_after (env_utc_now E) r
     then
       bindT (update_run i (set_run_state E Running)) (\<lambda>_.
       bindT (append_event_tx E i Ev_StateChanged (state_changed expected Running)) (\<lambda>_.
       returnT ()))
     else
       bindT (update_run i (interrupt_row E waiting_error)) (\<lambda>_.
       bindT (case run_assigned r of None \<Rightarrow> returnT () | Some ex \<Rightarrow> release_executor E False ex) (\<lambda>_.
       bindT (append_event_tx E i Ev_StateChanged
         (json_object [(''from'', String (state_name expected)), (''to'', String ''interrupted''),
            (''reason'', String ''executor_lease_expired_while_waiting'')])) (\<lambda>_.
       returnT ()))))))"

datatype approval_decision = DecideApproved | DecideRejected

fun decision_name :: "approval_decision \<Rightarrow> string" where
  "decision_name DecideApproved = ''approved''"
| "decision_name DecideRejected = ''rejected''"

fun decided :: "approval_decision \<Rightarrow> approval_state" where
  "decided DecideApproved = Approved"
| "decided DecideRejected = Rejected"

definition resolve_approval_tx ::
    "env \<Rightarrow> uuid \<Rightarrow> uuid \<Rightarrow> uuid \<Rightarrow> int \<Rightarrow> approval_decision \<Rightarrow> approval_row dbtx" where
  "resolve_approval_tx E u i aid expected_revision decision =
     bindT (readT (find_approval i aid)) (\<lambda>row.
     bindT (liftT (ok_or row (approval_not_found E aid))) (\<lambda>existing.
     bindT (ensureT (apr_state existing = Pending) (Conflict ''approval is no longer pending'')) (\<lambda>_.
     bindT (ensureT (apr_revision existing = expected_revision)
       (Conflict ''approval revision changed; reload before resolving'')) (\<lambda>_.
     let f = (\<lambda>a. a\<lparr>apr_revision := apr_revision a + 1,
                   apr_etag := version_etag E aid (apr_revision existing + 1),
                   apr_state := decided decision, apr_resolved_by := Some u,
                   apr_resolved := Some (env_now E)\<rparr>) in
     bindT (writeT (\<lambda>d. d\<lparr>approvals := update_where (\<lambda>a. apr_id a = aid \<and> apr_run_id a = i) f
       (approvals d)\<rparr>)) (\<lambda>_.
     bindT (resume_waiting_run E i WaitingApproval) (\<lambda>_.
     bindT (append_event_tx E i Ev_ApprovalResolved
       (json_object [(''approval_id'', String (env_uuid E aid)),
          (''decision'', String (decision_name decision)),
          (''resolved_by_user_id'', String (env_uuid E u))])) (\<lambda>_.
     returnT (f existing))))))))"

text \<open>Deliberately \<open>Viewer\<close>: whoever can observe a run may answer its request.\<close>

definition resolve_approval ::
    "env \<Rightarrow> uuid \<Rightarrow> uuid \<Rightarrow> uuid \<Rightarrow> int \<Rightarrow> approval_decision \<Rightarrow> approval_row handler" where
  "resolve_approval E u i aid expected_revision decision =
     bindH (commit (ensure_run_role E u i Viewer)) (\<lambda>_.
     commit (resolve_approval_tx E u i aid expected_revision decision))"

section \<open>Input requests\<close>

record create_input_request_body =
  cir_lease_token :: uuid
  cir_prompt :: json
  cir_expires_at :: "time option"
  cir_source_request_id :: "uuid option"

definition new_input :: "env \<Rightarrow> uuid \<Rightarrow> uuid \<Rightarrow> json \<Rightarrow> time \<Rightarrow> uuid option \<Rightarrow> input_row" where
  "new_input E i run prompt expires source =
     \<lparr>inp_id = i, inp_run_id = run, inp_revision = 1, inp_etag = version_etag E i 1,
      inp_prompt = prompt, inp_state = InputPending, inp_response = None,
      inp_requested = env_now E, inp_expires = expires, inp_responded_by = None,
      inp_responded = None, inp_source = source\<rparr>"

definition input_clash :: "input_row \<Rightarrow> db \<Rightarrow> bool" where
  "input_clash a d =
     exists_row (\<lambda>x. inp_id x = inp_id a
        \<or> (inp_run_id x = inp_run_id a
           \<and> (inp_state x = InputPending \<or> (inp_source a \<noteq> None \<and> inp_source x = inp_source a)))) (inputs d)"

definition open_input :: "env \<Rightarrow> input_row \<Rightarrow> unit dbtx" where
  "open_input E a =
     bindT (readT (input_clash a)) (\<lambda>clash.
     bindT (ensureT (\<not> clash) (unique_violation ''run_input_requests'')) (\<lambda>_.
     bindT (writeT (\<lambda>d. d\<lparr>inputs := inputs d @ [a]\<rparr>)) (\<lambda>_.
     bindT (update_run (inp_run_id a) (set_run_state E WaitingInput)) (\<lambda>_.
     bindT (append_event_tx E (inp_run_id a) Ev_InputRequested
       (json_object [(''input_request_id'', String (env_uuid E (inp_id a))),
          (''prompt'', inp_prompt a),
          (''expires_at'', String (env_time E (inp_expires a)))])) (\<lambda>_.
     bindT (append_event_tx E (inp_run_id a) Ev_StateChanged (state_changed Running WaitingInput)) (\<lambda>_.
     returnT ()))))))"

definition create_input_request ::
    "env \<Rightarrow> uuid \<Rightarrow> uuid \<Rightarrow> uuid \<Rightarrow> create_input_request_body \<Rightarrow> input_row dbtx" where
  "create_input_request E caller ex i rq =
     bindT (liftT (ensure_executor_identity ex caller)) (\<lambda>_.
     bindT (liftT (validated_expiry E (cir_expires_at rq))) (\<lambda>expires_at.
     bindT (verify_lease E i ex (cir_lease_token rq)) (\<lambda>run.
     bindT (readT (\<lambda>d. Option.bind (cir_source_request_id rq) (\<lambda>s.
       fetch_optional (\<lambda>a. inp_run_id a = i \<and> inp_source a = Some s) (inputs d)))) (\<lambda>existing.
     case existing of
       Some a \<Rightarrow>
         if inp_prompt a \<noteq> cir_prompt rq \<or> \<bar>inp_expires a - expires_at\<bar> > 1
         then throwT (Conflict ''source_request_id was already used for a different input request'')
         else returnT a
     | None \<Rightarrow>
         bindT (ensureT (run_state run = Running)
           (Conflict ''a run can request input only while running'')) (\<lambda>_.
         bindT (new_v4 E) (\<lambda>iid.
         let a = new_input E iid i (cir_prompt rq) expires_at (cir_source_request_id rq) in
         bindT (open_input E a) (\<lambda>_. returnT a)))))))"

definition list_input_requests :: "env \<Rightarrow> uuid \<Rightarrow> uuid \<Rightarrow> input_row list handler" where
  "list_input_requests E u i =
     bindH (commit (ensure_run_role E u i Viewer)) (\<lambda>_.
     commit (readT (\<lambda>d. sort_key inp_requested (filter (\<lambda>a. inp_run_id a = i) (inputs d)))))"

definition find_input :: "uuid \<Rightarrow> uuid \<Rightarrow> db \<Rightarrow> input_row option" where
  "find_input i iid d = fetch_optional (\<lambda>a. inp_id a = iid \<and> inp_run_id a = i) (inputs d)"

definition input_not_found :: "env \<Rightarrow> uuid \<Rightarrow> api_error" where
  "input_not_found E iid = NotFound (''input request '' @ env_uuid E iid @ '' was not found'')"

definition get_executor_input_request :: "env \<Rightarrow> uuid \<Rightarrow> uuid \<Rightarrow> uuid \<Rightarrow> uuid \<Rightarrow> input_row dbtx" where
  "get_executor_input_request E caller ex i iid =
     bindT (liftT (ensure_executor_identity ex caller)) (\<lambda>_.
     bindT (ensure_run_assigned_executor i ex) (\<lambda>_.
     bindT (readT (find_input i iid)) (\<lambda>row. liftT (ok_or row (input_not_found E iid)))))"

definition submit_input_tx ::
    "env \<Rightarrow> uuid \<Rightarrow> uuid \<Rightarrow> uuid \<Rightarrow> int \<Rightarrow> json \<Rightarrow> input_row dbtx" where
  "submit_input_tx E u i iid expected_revision response =
     bindT (readT (find_input i iid)) (\<lambda>row.
     bindT (liftT (ok_or row (input_not_found E iid))) (\<lambda>existing.
     bindT (ensureT (inp_state existing = InputPending)
       (Conflict ''input request is no longer pending'')) (\<lambda>_.
     bindT (ensureT (inp_revision existing = expected_revision)
       (Conflict ''input request revision changed; reload before responding'')) (\<lambda>_.
     let f = (\<lambda>a. a\<lparr>inp_revision := inp_revision a + 1,
                   inp_etag := version_etag E iid (inp_revision existing + 1),
                   inp_state := InputSubmitted, inp_response := Some response,
                   inp_responded_by := Some u, inp_responded := Some (env_now E)\<rparr>) in
     bindT (writeT (\<lambda>d. d\<lparr>inputs := update_where (\<lambda>a. inp_id a = iid \<and> inp_run_id a = i) f
       (inputs d)\<rparr>)) (\<lambda>_.
     bindT (resume_waiting_run E i WaitingInput) (\<lambda>_.
     bindT (append_event_tx E i Ev_InputReceived
       (json_object [(''input_request_id'', String (env_uuid E iid)), (''response'', response),
          (''responded_by_user_id'', String (env_uuid E u))])) (\<lambda>_.
     returnT (f existing))))))))"

definition submit_input_response ::
    "env \<Rightarrow> uuid \<Rightarrow> uuid \<Rightarrow> uuid \<Rightarrow> int \<Rightarrow> json \<Rightarrow> input_row handler" where
  "submit_input_response E u i iid expected_revision response =
     bindH (commit (ensure_run_role E u i Viewer)) (\<lambda>_.
     commit (submit_input_tx E u i iid expected_revision response))"

section \<open>Checkpoints\<close>

record create_checkpoint_request =
  ccr_lease_token :: uuid
  ccr_safe_to_resume :: bool
  ccr_executor_state :: json
  ccr_source_checkpoint_id :: "uuid option"

definition max_sequence :: "uuid \<Rightarrow> db \<Rightarrow> int" where
  "max_sequence i d =
     (case map ck_sequence (filter (\<lambda>c. ck_run_id c = i) (checkpoints d)) of
        [] \<Rightarrow> 0 | x # xs \<Rightarrow> fold max xs x)"

definition insert_checkpoint :: "env \<Rightarrow> uuid \<Rightarrow> uuid \<Rightarrow> bool \<Rightarrow> json \<Rightarrow> checkpoint_row dbtx" where
  "insert_checkpoint E cid i safe state =
     bindT (readT (\<lambda>d. exists_row (\<lambda>c. ck_id c = cid) (checkpoints d))) (\<lambda>taken.
     bindT (ensureT (\<not> taken) (unique_violation ''run_checkpoints_pkey'')) (\<lambda>_.
     bindT (readT (max_sequence i)) (\<lambda>last.
     let c = \<lparr>ck_id = cid, ck_run_id = i, ck_sequence = last + 1, ck_safe = safe,
              ck_executor_state = state, ck_created = env_now E\<rparr> in
     bindT (writeT (\<lambda>d. d\<lparr>checkpoints := checkpoints d @ [c]\<rparr>)) (\<lambda>_.
     bindT (append_event_tx E i Ev_CheckpointCreated
       (json_object [(''checkpoint_id'', String (env_uuid E cid)),
          (''sequence'', Number (Integer (ck_sequence c))), (''safe_to_resume'', Bool safe)])) (\<lambda>_.
     returnT c)))))"

definition create_checkpoint ::
    "env \<Rightarrow> uuid \<Rightarrow> uuid \<Rightarrow> uuid \<Rightarrow> create_checkpoint_request \<Rightarrow> checkpoint_row dbtx" where
  "create_checkpoint E caller ex i rq =
     bindT (liftT (ensure_executor_identity ex caller)) (\<lambda>_.
     bindT (verify_lease E i ex (ccr_lease_token rq)) (\<lambda>_.
     bindT (readT (\<lambda>d. Option.bind (ccr_source_checkpoint_id rq) (\<lambda>s.
       fetch_optional (\<lambda>c. ck_id c = s) (checkpoints d)))) (\<lambda>existing.
     case existing of
       Some c \<Rightarrow>
         if ck_run_id c \<noteq> i \<or> ck_safe c \<noteq> ccr_safe_to_resume rq
            \<or> ck_executor_state c \<noteq> ccr_executor_state rq
         then throwT (Conflict
           ''source_checkpoint_id was already used for different checkpoint content'')
         else returnT c
     | None \<Rightarrow>
         bindT (case ccr_source_checkpoint_id rq of Some s \<Rightarrow> returnT s | None \<Rightarrow> new_v4 E) (\<lambda>cid.
         insert_checkpoint E cid i (ccr_safe_to_resume rq) (ccr_executor_state rq)))))"

definition list_checkpoints :: "env \<Rightarrow> uuid \<Rightarrow> uuid \<Rightarrow> checkpoint_row list handler" where
  "list_checkpoints E u i =
     bindH (commit (ensure_run_role E u i Viewer)) (\<lambda>_.
     commit (readT (\<lambda>d. sort_key ck_sequence (filter (\<lambda>c. ck_run_id c = i) (checkpoints d)))))"

section \<open>Expiry\<close>

definition expire_approvals :: "env \<Rightarrow> time \<Rightarrow> uuid list dbtx" where
  "expire_approvals E now =
     bindT (readT (\<lambda>d. map apr_run_id
       (filter (\<lambda>a. apr_state a = Pending \<and> apr_expires a \<le> now) (approvals d)))) (\<lambda>expired.
     bindT (writeT (\<lambda>d. d\<lparr>approvals := update_where (\<lambda>a. apr_state a = Pending \<and> apr_expires a \<le> now)
       (\<lambda>a. a\<lparr>apr_state := ApprovalExpired, apr_revision := apr_revision a + 1,
              apr_etag := version_etag E (apr_id a) (apr_revision a + 1)\<rparr>) (approvals d)\<rparr>)) (\<lambda>_.
     returnT expired))"

definition expire_inputs :: "env \<Rightarrow> time \<Rightarrow> uuid list dbtx" where
  "expire_inputs E now =
     bindT (readT (\<lambda>d. map inp_run_id
       (filter (\<lambda>a. inp_state a = InputPending \<and> inp_expires a \<le> now) (inputs d)))) (\<lambda>expired.
     bindT (writeT (\<lambda>d. d\<lparr>inputs := update_where (\<lambda>a. inp_state a = InputPending \<and> inp_expires a \<le> now)
       (\<lambda>a. a\<lparr>inp_state := InputExpired, inp_revision := inp_revision a + 1,
              inp_etag := version_etag E (inp_id a) (inp_revision a + 1)\<rparr>) (inputs d)\<rparr>)) (\<lambda>_.
     returnT expired))"

definition expire_waiting :: "env \<Rightarrow> run_state \<Rightarrow> uuid \<Rightarrow> unit handler" where
  "expire_waiting E st i = (\<lambda>d.
     case get_run E i d of
       Inr (r, _) \<Rightarrow> if rec_state r = st then ignoreH (transition_run E i Expired None None) d
                      else returnH () d
     | Inl _ \<Rightarrow> returnH () d)"

definition expire_pending_workflows :: "env \<Rightarrow> time \<Rightarrow> nat handler" where
  "expire_pending_workflows E now =
     bindH (commit (expire_approvals E now)) (\<lambda>as.
     bindH (commit (expire_inputs E now)) (\<lambda>is.
     bindH (for_eachH as (expire_waiting E WaitingApproval)) (\<lambda>_.
     bindH (for_eachH is (expire_waiting E WaitingInput)) (\<lambda>_.
     returnH (length as + length is)))))"

section \<open>The in-process worker\<close>

text \<open>\<open>await_worker_approval\<close> and \<open>await_worker_input\<close> open a request and then poll its row.\<close>

definition request_worker_approval ::
    "env \<Rightarrow> uuid \<Rightarrow> uuid \<Rightarrow> uuid \<Rightarrow> json \<Rightarrow> uuid dbtx" where
  "request_worker_approval E worker i token action =
     bindT (new_v4 E) (\<lambda>aid.
     bindT (verify_lease E i worker token) (\<lambda>run.
     bindT (ensureT (run_state run = Running)
       (Conflict ''run must be running before requesting approval'')) (\<lambda>_.
     bindT (open_approval E (new_approval E aid i action (env_utc_now E + days DEFAULT_WAIT_DAYS)
       None None)) (\<lambda>_.
     returnT aid))))"

definition poll_worker_approval :: "uuid \<Rightarrow> bool option dbtx" where
  "poll_worker_approval aid =
     bindT (readT (\<lambda>d. fetch_optional (\<lambda>a. apr_id a = aid) (approvals d))) (\<lambda>row.
     bindT (liftT (ok_or row (Conflict ''approval request disappeared''))) (\<lambda>a.
     returnT (case apr_state a of
       Approved \<Rightarrow> Some True | Rejected \<Rightarrow> Some False | ApprovalExpired \<Rightarrow> Some False | Pending \<Rightarrow> None)))"

definition request_worker_input :: "env \<Rightarrow> uuid \<Rightarrow> uuid \<Rightarrow> uuid \<Rightarrow> json \<Rightarrow> uuid dbtx" where
  "request_worker_input E worker i token prompt =
     bindT (new_v4 E) (\<lambda>iid.
     bindT (verify_lease E i worker token) (\<lambda>run.
     bindT (ensureT (run_state run = Running)
       (Conflict ''run must be running before requesting input'')) (\<lambda>_.
     bindT (open_input E (new_input E iid i prompt (env_utc_now E + days DEFAULT_WAIT_DAYS) None)) (\<lambda>_.
     returnT iid))))"

definition poll_worker_input :: "uuid \<Rightarrow> json option option dbtx" where
  "poll_worker_input iid =
     bindT (readT (\<lambda>d. fetch_optional (\<lambda>a. inp_id a = iid) (inputs d))) (\<lambda>row.
     bindT (liftT (ok_or row (Conflict ''input request disappeared''))) (\<lambda>a.
     returnT (case inp_state a of
       InputSubmitted \<Rightarrow> Some (inp_response a) | InputExpired \<Rightarrow> Some None | InputPending \<Rightarrow> None)))"

definition create_worker_checkpoint ::
    "env \<Rightarrow> uuid \<Rightarrow> uuid \<Rightarrow> uuid \<Rightarrow> bool \<Rightarrow> json \<Rightarrow> checkpoint_row dbtx" where
  "create_worker_checkpoint E worker i token safe state =
     bindT (verify_lease E i worker token) (\<lambda>_.
     bindT (new_v4 E) (\<lambda>cid.
     insert_checkpoint E cid i safe state))"

section \<open>Soundness\<close>

lemma set_run_state_sound:
  assumes "row_ok r" "holds_lease (run_state r)" "can_transition_to (run_state r) st" "holds_lease st"
  shows "row_ok (set_run_state E st r) \<and> evolve_row r (set_run_state E st r)"
  using assms lifecycle_step [OF assms(3)] holds_lease_not_terminal [OF assms(2)]
    holds_lease_not_terminal [OF assms(4)]
  by (auto simp: row_ok_def lease_coherent_def set_run_state_def evolve_row_def)

lemma member_update_sound:
  assumes "r \<in> set (runs d)" "runs d1 = runs d" "row_ok r \<Longrightarrow> row_ok (f r) \<and> evolve_row r (f r)"
  shows "sound d1 (d1\<lparr>runs := update_where (\<lambda>x. run_id x = run_id r) f (runs d1)\<rparr>)"
  using assms by (intro update_run_sound [of _ _ r]) (auto simp: consistent_def intro: find_run_member)

lemma insert_approval_core [core_intros]: "obeys same_core (insert_approval a)"
  unfolding insert_approval_def by (auto intro!: core_intros simp: core_def)

lemma open_approval_sound:
  assumes "r \<in> set (runs d)" "run_id r = apr_run_id a" "run_state r = Running"
    and "open_approval E a d = Inr (u, d')"
  shows "sound d d'"
proof -
  from assms(4) obtain d1 where d1: "insert_approval a d = Inr ((), d1)"
    and rest: "bindT (append_event_tx E (apr_run_id a) Ev_ApprovalRequested
       (json_object [(''approval_id'', String (env_uuid E (apr_id a))),
          (''requested_action'', apr_action a),
          (''expires_at'', String (env_time E (apr_expires a)))])) (\<lambda>_.
     bindT (append_event_tx E (apr_run_id a) Ev_StateChanged (state_changed Running WaitingApproval)) (\<lambda>_.
     returnT ())) (d1\<lparr>runs := update_where (\<lambda>x. run_id x = apr_run_id a)
       (set_run_state E WaitingApproval) (runs d1)\<rparr>) = Inr (u, d')"
    by (auto simp: open_approval_def tx_simps)
  from d1 have "same_core d d1" by (rule obeysD [OF insert_approval_core])
  moreover from this assms(1,3) have "sound d1 (d1\<lparr>runs := update_where (\<lambda>x. run_id x = apr_run_id a)
       (set_run_state E WaitingApproval) (runs d1)\<rparr>)" (is "sound d1 ?d")
    unfolding assms(2) [symmetric]
    by (intro member_update_sound set_run_state_sound) (auto simp: same_core_tables can_transition_to.simps)
  moreover from rest have "sound ?d d'" by (rule obeysD [rotated]) (intro sound_intros)
  ultimately show ?thesis by (blast intro: sound_trans same_core_sound)
qed

lemma open_input_sound:
  assumes "r \<in> set (runs d)" "run_id r = inp_run_id a" "run_state r = Running"
    and "open_input E a d = Inr (u, d')"
  shows "sound d d'"
proof -
  let ?d1 = "d\<lparr>inputs := inputs d @ [a]\<rparr>"
  let ?d2 = "?d1\<lparr>runs := update_where (\<lambda>x. run_id x = inp_run_id a)
    (set_run_state E WaitingInput) (runs ?d1)\<rparr>"
  from assms(4) have "bindT (append_event_tx E (inp_run_id a) Ev_InputRequested
       (json_object [(''input_request_id'', String (env_uuid E (inp_id a))),
          (''prompt'', inp_prompt a),
          (''expires_at'', String (env_time E (inp_expires a)))])) (\<lambda>_.
     bindT (append_event_tx E (inp_run_id a) Ev_StateChanged (state_changed Running WaitingInput)) (\<lambda>_.
     returnT ())) ?d2 = Inr (u, d')"
    by (auto simp: open_input_def tx_simps)
  then have "sound ?d2 d'" by (rule obeysD [rotated]) (intro sound_intros)
  moreover have "sound ?d1 ?d2"
    using assms(1,3) unfolding assms(2) [symmetric]
    by (intro member_update_sound set_run_state_sound) (auto simp: can_transition_to.simps)
  moreover have "sound d ?d1" by (intro same_core_sound) (simp add: same_core_tables)
  ultimately show ?thesis by (blast intro: sound_trans)
qed

lemma verified_run:
  "fetch_optional (\<lambda>r. owns_lease i ex token r \<and> expires_after t r) (runs d) = Some r \<Longrightarrow>
     r \<in> set (runs d) \<and> run_id r = i \<and> owns_lease i ex token r \<and> expires_after t r"
  by (auto simp: owns_lease_def dest: fetch_optional_Some)

lemma create_approval_cases:
  assumes "create_approval E caller ex i rq d = Inr (a, d')"
  obtains (replayed) "d' = d" "a \<in> set (approvals d)" "apr_run_id a = i"
      "car_source_request_id rq \<noteq> None" "apr_source a = car_source_request_id rq"
      "apr_action a = car_requested_action rq"
  | (opened) r t where "r \<in> set (runs d)" "run_id r = i" "owns_lease i ex (car_lease_token rq) r"
      "run_state r = Running" "expires_after (env_now E) r" "validated_expiry E (car_expires_at rq) = Inr t"
      "a = new_approval E (env_new_v4 E (draws d)) i (car_requested_action rq) t (Some ex)
             (car_source_request_id rq)"
      "open_approval E a (d\<lparr>draws := Suc (draws d)\<rparr>) = Inr ((), d')"
proof (cases "Option.bind (car_source_request_id rq) (\<lambda>s.
       fetch_optional (\<lambda>a. apr_run_id a = i \<and> apr_source a = Some s) (approvals d))")
  case None
  with assms show ?thesis
    by (auto simp: create_approval_def tx_simps Let_def dest!: verified_run intro: opened)
next
  case (Some a')
  with assms have "a' = a" "d' = d" "apr_action a' = car_requested_action rq"
    by (auto simp: create_approval_def tx_simps split: if_splits)
  with Some show ?thesis
    by (auto intro!: replayed dest: fetch_optional_Some split: bind_splits)
qed

lemma create_approval_sound: "obeys sound (create_approval E caller ex i rq)"
proof (rule obeysI)
  fix d a d' assume run: "create_approval E caller ex i rq d = Inr (a, d')"
  show "sound d d'"
  proof (cases rule: create_approval_cases [OF run])
    case 1
    then show ?thesis by (simp add: sound_refl)
  next
    case (2 r t)
    then have "sound (d\<lparr>draws := Suc (draws d)\<rparr>) d'"
      by (intro open_approval_sound [of r]) (simp_all add: new_approval_def)
    then show ?thesis
      by (rule sound_trans [OF same_core_sound, rotated]) (simp add: same_core_tables)
  qed
qed

lemma create_input_request_cases:
  assumes "create_input_request E caller ex i rq d = Inr (a, d')"
  obtains (replayed) "d' = d" "a \<in> set (inputs d)" "inp_run_id a = i"
      "cir_source_request_id rq \<noteq> None" "inp_source a = cir_source_request_id rq"
      "inp_prompt a = cir_prompt rq"
  | (opened) r t where "r \<in> set (runs d)" "run_id r = i" "owns_lease i ex (cir_lease_token rq) r"
      "run_state r = Running" "expires_after (env_now E) r" "validated_expiry E (cir_expires_at rq) = Inr t"
      "a = new_input E (env_new_v4 E (draws d)) i (cir_prompt rq) t (cir_source_request_id rq)"
      "open_input E a (d\<lparr>draws := Suc (draws d)\<rparr>) = Inr ((), d')"
proof (cases "Option.bind (cir_source_request_id rq) (\<lambda>s.
       fetch_optional (\<lambda>a. inp_run_id a = i \<and> inp_source a = Some s) (inputs d))")
  case None
  with assms show ?thesis
    by (auto simp: create_input_request_def tx_simps Let_def dest!: verified_run intro: opened)
next
  case (Some a')
  with assms have "a' = a" "d' = d" "inp_prompt a' = cir_prompt rq"
    by (auto simp: create_input_request_def tx_simps split: if_splits)
  with Some show ?thesis
    by (auto intro!: replayed dest: fetch_optional_Some split: bind_splits)
qed

lemma create_input_request_sound: "obeys sound (create_input_request E caller ex i rq)"
proof (rule obeysI)
  fix d a d' assume run: "create_input_request E caller ex i rq d = Inr (a, d')"
  show "sound d d'"
  proof (cases rule: create_input_request_cases [OF run])
    case 1
    then show ?thesis by (simp add: sound_refl)
  next
    case (2 r t)
    then have "sound (d\<lparr>draws := Suc (draws d)\<rparr>) d'"
      by (intro open_input_sound [of r]) (simp_all add: new_input_def)
    then show ?thesis
      by (rule sound_trans [OF same_core_sound, rotated]) (simp add: same_core_tables)
  qed
qed

lemma resume_waiting_run_sound [sound_intros]:
  assumes "holds_lease st" "st \<noteq> Running"
  shows "obeys sound (resume_waiting_run E i st)"
proof (rule obeysI)
  fix d x d' assume run: "resume_waiting_run E i st d = Inr (x, d')"
  then obtain r where r: "find_run i d = Some r" "run_state r = st"
    by (auto simp: resume_waiting_run_def tx_simps)
  from assms have go: "can_transition_to st Running" by (auto simp: can_transition_to.simps)
  have upd: "sound d (d\<lparr>runs := update_where (\<lambda>x. run_id x = i) f (runs d)\<rparr>)"
    if "row_ok r \<Longrightarrow> row_ok (f r) \<and> evolve_row r (f r)" for f
    using that r(1) by (intro update_run_sound [of _ _ r])
  show "sound d d'"
  proof (cases "expires_after (env_utc_now E) r")
    case True
    with run r obtain e where "append_event_tx E i Ev_StateChanged (state_changed st Running)
      (d\<lparr>runs := update_where (\<lambda>x. run_id x = i) (set_run_state E Running) (runs d)\<rparr>) = Inr (e, d')"
      by (auto simp: resume_waiting_run_def tx_simps)
    moreover have "sound d (d\<lparr>runs := update_where (\<lambda>x. run_id x = i) (set_run_state E Running) (runs d)\<rparr>)"
      using r assms go by (intro upd set_run_state_sound) simp_all
    ultimately show ?thesis by (blast intro: sound_trans obeysD [OF append_event_tx_sound])
  next
    case False
    with run r have "bindT (case run_assigned r of None \<Rightarrow> returnT () | Some ex \<Rightarrow> release_executor E False ex) (\<lambda>_.
       bindT (append_event_tx E i Ev_StateChanged
         (json_object [(''from'', String (state_name st)), (''to'', String ''interrupted''),
            (''reason'', String ''executor_lease_expired_while_waiting'')])) (\<lambda>_. returnT ()))
       (d\<lparr>runs := update_where (\<lambda>x. run_id x = i) (interrupt_row E waiting_error) (runs d)\<rparr>) = Inr ((), d')"
      by (auto simp: resume_waiting_run_def tx_simps)
    then have "sound (d\<lparr>runs := update_where (\<lambda>x. run_id x = i) (interrupt_row E waiting_error) (runs d)\<rparr>) d'"
      by (rule obeysD [rotated]) (auto intro!: sound_intros split: option.splits)
    moreover have "sound d (d\<lparr>runs := update_where (\<lambda>x. run_id x = i) (interrupt_row E waiting_error) (runs d)\<rparr>)"
      using r assms by (intro upd interrupt_row_sound) simp_all
    ultimately show ?thesis by (blast intro: sound_trans)
  qed
qed

lemma write_sound [sound_intros]: "(\<And>d. core (f d) = core d) \<Longrightarrow> obeys sound (writeT f)"
  by (intro obeys_same_core_sound writeT_core)

lemma ensure_run_role_core [core_intros]: "obeys same_core (ensure_run_role E u i role)"
  unfolding ensure_run_role_def by (intro core_intros)

lemmas [sound_intros] = ensure_run_role_core [THEN obeys_same_core_sound]

lemma resolve_approval_tx_sound [sound_intros]: "obeys sound (resolve_approval_tx E u i aid n dec)"
  unfolding resolve_approval_tx_def Let_def
  by (intro sound_intros) (simp_all add: core_def)

lemma resolve_approval_sound: "obeysH sound (resolve_approval E u i aid n dec)"
  unfolding resolve_approval_def by (intro sound.obeysH_rules sound_intros)

lemma submit_input_tx_sound [sound_intros]: "obeys sound (submit_input_tx E u i iid n v)"
  unfolding submit_input_tx_def Let_def
  by (intro sound_intros) (simp_all add: core_def)

lemma submit_input_response_sound: "obeysH sound (submit_input_response E u i iid n v)"
  unfolding submit_input_response_def by (intro sound.obeysH_rules sound_intros)

lemma insert_checkpoint_sound [sound_intros]: "obeys sound (insert_checkpoint E cid i safe v)"
  unfolding insert_checkpoint_def Let_def by (intro sound_intros) (simp_all add: core_def)

lemma create_checkpoint_sound: "obeys sound (create_checkpoint E caller ex i rq)"
  unfolding create_checkpoint_def by (auto intro!: sound_intros split: option.splits)

lemma create_worker_checkpoint_sound: "obeys sound (create_worker_checkpoint E w i token safe v)"
  unfolding create_worker_checkpoint_def by (intro sound_intros)

lemma expire_waiting_sound: "obeysH sound (expire_waiting E st i)"
proof -
  have "obeysH sound (ignoreH (transition_run E i Expired None None))"
    by (intro sound.obeysH_ignore end_run_sound) simp
  then show ?thesis
    by (auto simp: obeysH_def expire_waiting_def returnH_def sound_refl split: sum.splits)
qed

lemma expire_pending_workflows_sound: "obeysH sound (expire_pending_workflows E now)"
  unfolding expire_pending_workflows_def expire_approvals_def expire_inputs_def
  by (intro sound.obeysH_rules sound_intros expire_waiting_sound) (simp_all add: core_def)

lemma request_worker_approval_sound: "obeys sound (request_worker_approval E w i token action)"
proof (rule obeysI)
  fix d x d' assume "request_worker_approval E w i token action d = Inr (x, d')"
  then obtain r where r: "r \<in> set (runs d)" "run_id r = i" "run_state r = Running" and
    "open_approval E (new_approval E (env_new_v4 E (draws d)) i action
      (env_utc_now E + days DEFAULT_WAIT_DAYS) None None) (d\<lparr>draws := Suc (draws d)\<rparr>) = Inr ((), d')"
    by (auto simp: request_worker_approval_def tx_simps dest!: verified_run)
  then have "sound (d\<lparr>draws := Suc (draws d)\<rparr>) d'"
    by (intro open_approval_sound [of r]) (simp_all add: new_approval_def)
  then show "sound d d'"
    by (rule sound_trans [OF same_core_sound, rotated]) (simp add: same_core_tables)
qed

lemma request_worker_input_sound: "obeys sound (request_worker_input E w i token prompt)"
proof (rule obeysI)
  fix d x d' assume "request_worker_input E w i token prompt d = Inr (x, d')"
  then obtain r where r: "r \<in> set (runs d)" "run_id r = i" "run_state r = Running" and
    "open_input E (new_input E (env_new_v4 E (draws d)) i prompt
      (env_utc_now E + days DEFAULT_WAIT_DAYS) None) (d\<lparr>draws := Suc (draws d)\<rparr>) = Inr ((), d')"
    by (auto simp: request_worker_input_def tx_simps dest!: verified_run)
  then have "sound (d\<lparr>draws := Suc (draws d)\<rparr>) d'"
    by (intro open_input_sound [of r]) (simp_all add: new_input_def)
  then show "sound d d'"
    by (rule sound_trans [OF same_core_sound, rotated]) (simp add: same_core_tables)
qed

end
