(* ===== verification/Routes.thy ===== *)
theory Routes
  imports Workflow
begin

text \<open>
  The HTTP surface of runs and executors (\<open>routes.rs\<close>) over the operations of the store: request
  validation, the state a new run starts in, the reads behind the role checks, the registration
  of executors, the calls an executor makes under its own credential, and the continuation of
  runs that waited for a snapshot (\<open>storage.rs\<close>). The capabilities of the server's own worker
  are a parameter, as they come from its configuration.
\<close>

section \<open>Requests\<close>

record create_run_request =
  crr_thread_id :: uuid
  crr_project_id :: uuid
  crr_project_revision :: int
  crr_project_privacy :: project_privacy
  crr_task :: "frozen_reference option"
  crr_executor_target :: executor_target
  crr_required_capabilities :: "capability list"
  crr_input :: json
  crr_model_profile_id :: "uuid option"
  crr_snapshot_id :: "uuid option"
  crr_idempotency_key :: string

definition validate_create_run :: "create_run_request \<Rightarrow> (api_error, unit) result" where
  "validate_create_run rq =
     (if crr_project_revision rq < 1
      then Inl (Unprocessable ''project_revision must be at least one'')
      else if trim (crr_idempotency_key rq) = [] \<or> length (crr_idempotency_key rq) > 200
      then Inl (Unprocessable ''idempotency_key must contain 1 to 200 characters'')
      else if list_ex (\<lambda>c. trim c = [] \<or> length c > 100) (crr_required_capabilities rq)
      then Inl (Unprocessable ''capability names must contain 1 to 100 characters'')
      else Inr ())"

definition MAX_MESSAGE_BYTES :: nat where
  "MAX_MESSAGE_BYTES = 256 * 1024"

definition validate_message_content :: "env \<Rightarrow> json \<Rightarrow> (api_error, unit) result" where
  "validate_message_content E content =
     (if is_null content then Inl (Unprocessable ''message content must not be null'')
      else if json_len E content > MAX_MESSAGE_BYTES
      then Inl (Unprocessable (''message content must not exceed '' @ nat_text MAX_MESSAGE_BYTES @ '' bytes''))
      else Inr ())"

section \<open>The state a run starts in\<close>

definition server_has :: "capability list \<Rightarrow> capability list \<Rightarrow> bool" where
  "server_has server required = list_all (\<lambda>c. c \<in> set server) required"

definition initial_run_state ::
    "env \<Rightarrow> capability list \<Rightarrow> create_run_request \<Rightarrow> run_state dbtx" where
  "initial_run_state E server rq =
     bindT (case crr_snapshot_id rq of
              None \<Rightarrow> returnT True
            | Some snapshot \<Rightarrow>
                bindT (readT (\<lambda>d. fetch_optional
                  (\<lambda>m. man_id m = snapshot \<and> man_project_id m = crr_project_id rq) (manifests d))) (\<lambda>row.
                bindT (liftT (ok_or row (Unprocessable
                  ''snapshot_id must identify a snapshot from the selected project''))) (\<lambda>m.
                returnT (man_status m = Ready)))) (\<lambda>ready.
     if \<not> ready then returnT WaitingForSnapshot
     else if crr_project_privacy rq = PrivateLocal
             \<and> (case crr_executor_target rq of PersonalDevice _ \<Rightarrow> False | _ \<Rightarrow> True)
             \<and> crr_snapshot_id rq = None
     then returnT WaitingForSnapshot
     else case crr_executor_target rq of
       ServerLinux _ \<Rightarrow>
         returnT (if server_has server (crr_required_capabilities rq) then Queued else WaitingForExecutor)
     | target \<Rightarrow>
         bindT (target_has_executor E target (crr_required_capabilities rq) (crr_input rq)) (\<lambda>available.
         returnT (if available then Queued else WaitingForExecutor)))"

text \<open>Once a snapshot is ready, the runs that name it and wait for it go on.\<close>

definition resume_snapshot_run :: "env \<Rightarrow> capability list \<Rightarrow> uuid \<Rightarrow> unit handler" where
  "resume_snapshot_run E server i =
     bindH (commit (get_run E i)) (\<lambda>run.
     bindH (case spec_executor_target (rec_spec run) of
              ServerLinux _ \<Rightarrow> returnH (server_has server (spec_required_capabilities (rec_spec run)))
            | target \<Rightarrow> commit (target_has_executor E target (spec_required_capabilities (rec_spec run))
                (spec_input (rec_spec run)))) (\<lambda>available.
     bindH (commit (transition_run E i (if available then Queued else WaitingForExecutor) None None)) (\<lambda>_.
     returnH ())))"

definition waiting_for_manifest :: "uuid \<Rightarrow> db \<Rightarrow> uuid list" where
  "waiting_for_manifest m d =
     map run_id (filter (\<lambda>r. spec_snapshot_id (run_spec r) = Some m \<and> run_state r = WaitingForSnapshot)
       (runs d))"

definition resume_snapshot_runs :: "env \<Rightarrow> capability list \<Rightarrow> uuid \<Rightarrow> unit handler" where
  "resume_snapshot_runs E server m =
     bindH (commit (readT (waiting_for_manifest m))) (\<lambda>ids.
     for_eachH ids (resume_snapshot_run E server))"

section \<open>Reading\<close>

definition route_get_run :: "env \<Rightarrow> uuid \<Rightarrow> uuid \<Rightarrow> run_record handler" where
  "route_get_run E u i =
     bindH (commit (get_run E i)) (\<lambda>run.
     bindH (commit (ensure_thread_role E u (spec_project_id (rec_spec run))
       (spec_thread_id (rec_spec run)) Viewer)) (\<lambda>_.
     returnH run))"

definition route_list_runs :: "env \<Rightarrow> uuid \<Rightarrow> int option \<Rightarrow> run_record list handler" where
  "route_list_runs E u limit =
     bindH (commit (list_runs_for_user E u (unwrap_or 100 limit))) (\<lambda>items.
     bindH (for_eachH items (\<lambda>run.
       bindH (commit (ensure_thread_role E u (spec_project_id (rec_spec run))
         (spec_thread_id (rec_spec run)) Viewer)) (\<lambda>_. returnH ()))) (\<lambda>_.
     returnH items))"

definition route_list_thread_messages ::
    "env \<Rightarrow> uuid \<Rightarrow> uuid \<Rightarrow> int option \<Rightarrow> message_row list handler" where
  "route_list_thread_messages E u t limit =
     bindH (commit (\<lambda>d. liftT (ok_or (thread_project t d) (thread_not_found E t)) d)) (\<lambda>p.
     bindH (commit (ensure_thread_role E u p t Viewer)) (\<lambda>_.
     commit (list_thread_messages t (unwrap_or 100 limit))))"

section \<open>Executors\<close>

definition valid_pool :: "uuid \<Rightarrow> executor_kind \<Rightarrow> db \<Rightarrow> bool" where
  "valid_pool pl kind d =
     exists_row (\<lambda>p. pool_id p = pl \<and> pool_kind p = kind \<and> pool_deleted p = None) (pools d)"

definition personal_registration ::
    "uuid \<Rightarrow> executor_registration \<Rightarrow> (api_error, executor_registration) result" where
  "personal_registration u reg =
     (if reg_pool_id reg \<noteq> None
      then Inl (Unprocessable ''personal devices cannot belong to an executor pool'')
      else case reg_owner_user_id reg of
        Some owner \<Rightarrow>
          if owner \<noteq> u
          then Inl (Unauthorized ''a personal device can only be registered for the current user'')
          else Inr (reg\<lparr>reg_remote_control :=
                 Some (unwrap_or default_remote_control (reg_remote_control reg))\<rparr>)
      | None \<Rightarrow> Inr (reg\<lparr>reg_owner_user_id := Some u, reg_remote_control :=
                 Some (unwrap_or default_remote_control (reg_remote_control reg))\<rparr>))"

definition managed_registration ::
    "uuid \<Rightarrow> executor_registration \<Rightarrow> executor_registration dbtx" where
  "managed_registration u reg =
     bindT (readT (user_is_platform_admin u)) (\<lambda>admin.
     bindT (ensureT admin
       (Unauthorized ''only platform administrators can register managed executors'')) (\<lambda>_.
     bindT (ensureT (reg_remote_control reg = None)
       (Unprocessable ''personal_device_remote_control is only valid for personal devices'')) (\<lambda>_.
     bindT (liftT (ok_or (reg_pool_id reg) (Unprocessable ''managed executors require pool_id''))) (\<lambda>pl.
     bindT (readT (valid_pool pl (reg_kind reg))) (\<lambda>valid.
     bindT (ensureT valid (Unprocessable ''executor pool is missing or has the wrong kind'')) (\<lambda>_.
     bindT (ensureT (\<not> (reg_kind reg = KManagedWindows \<and> reg_max_concurrent_runs reg \<noteq> 1))
       (Unprocessable ''managed Windows executors support exactly one interactive run'')) (\<lambda>_.
     returnT reg)))))))"

definition route_register_executor :: "env \<Rightarrow> uuid \<Rightarrow> executor_registration \<Rightarrow> executor_record handler" where
  "route_register_executor E u reg =
     bindH (if reg_kind reg = KPersonalDevice then liftH (personal_registration u reg)
            else commit (managed_registration u reg)) (\<lambda>reg'.
     register_executor E reg')"

definition route_register_executor_agent ::
    "env \<Rightarrow> uuid \<Rightarrow> uuid \<Rightarrow> executor_registration \<Rightarrow> executor_record handler" where
  "route_register_executor_agent E caller ex reg =
     bindH (liftH (ensure_executor_identity ex caller)) (\<lambda>_. refresh_executor_registration E ex reg)"

definition route_heartbeat_executor ::
    "env \<Rightarrow> uuid \<Rightarrow> uuid \<Rightarrow> nat \<Rightarrow> uuid list \<Rightarrow> executor_record handler" where
  "route_heartbeat_executor E caller ex protocol_version active_run_ids =
     bindH (liftH (ensure_executor_identity ex caller)) (\<lambda>_.
     bindH (liftH (ensure_schema protocol_version)) (\<lambda>_.
     heartbeat_executor E ex (length active_run_ids)))"

definition route_claim_executor_run :: "env \<Rightarrow> int \<Rightarrow> uuid \<Rightarrow> uuid \<Rightarrow> run_lease option handler" where
  "route_claim_executor_run E lease_seconds caller ex =
     bindH (liftH (ensure_executor_identity ex caller)) (\<lambda>_. commit (claim_external_run E ex lease_seconds))"

definition route_renew_executor_lease ::
    "env \<Rightarrow> int \<Rightarrow> uuid \<Rightarrow> uuid \<Rightarrow> uuid \<Rightarrow> uuid \<Rightarrow> run_record handler" where
  "route_renew_executor_lease E lease_seconds caller ex i token =
     bindH (liftH (ensure_executor_identity ex caller)) (\<lambda>_. commit (renew_lease E i ex token lease_seconds))"

definition route_append_executor_event ::
    "env \<Rightarrow> uuid \<Rightarrow> leased_event_input \<Rightarrow> run_event handler" where
  "route_append_executor_event E caller inp =
     bindH (liftH (ensure_executor_identity (lei_executor_id inp) caller)) (\<lambda>_.
     commit (append_external_leased_event E inp))"

section \<open>The event stream\<close>

text \<open>
  \<open>run_events\<close> polls the log from the cursor of the client: each poll sends what it read in order
  and moves the cursor to the last number sent.
\<close>

definition poll_events :: "uuid \<Rightarrow> int \<Rightarrow> db \<Rightarrow> run_event list \<times> int" where
  "poll_events i cursor d =
     (case get_run_events i cursor 250 d of
        Inl _ \<Rightarrow> ([], cursor)
      | Inr (es, _) \<Rightarrow> (es, if es = [] then cursor else ev_sequence (last es)))"

fun poll_rounds :: "nat \<Rightarrow> uuid \<Rightarrow> int \<Rightarrow> db \<Rightarrow> run_event list" where
  "poll_rounds 0 i cursor d = []"
| "poll_rounds (Suc n) i cursor d =
     (case poll_events i cursor d of (es, c) \<Rightarrow> es @ poll_rounds n i c d)"

text \<open>The stream ends once the run is terminal and nothing is left after the cursor.\<close>

definition stream_done :: "env \<Rightarrow> uuid \<Rightarrow> int \<Rightarrow> db \<Rightarrow> bool" where
  "stream_done E i cursor d =
     (case get_run E i d of
        Inl _ \<Rightarrow> True
      | Inr (run, _) \<Rightarrow> is_terminal (rec_state run)
          \<and> (case get_run_events i cursor 1 d of Inl _ \<Rightarrow> False | Inr (es, _) \<Rightarrow> es = []))"

end
