(* ===== verification/ControlPlane.thy ===== *)
theory ControlPlane
  imports Routes
begin

text \<open>
  The control plane as a transition system. A step is one committed transaction of the modelled
  code on behalf of any caller, at any time and in any order; the environment (clock, drawn
  identifiers) is chosen afresh for each step. Transactions of the other modules (authentication,
  synchronisation, storage, desktop sessions) write runs, events and executors only through the
  operations below, so that they are the step \<open>elsewhere\<close>. Every step is sound, hence the
  invariant holds in every reachable state and any two states on an execution are related by
  \<open>evolves\<close>.
\<close>

section \<open>Steps\<close>

inductive control_step :: "db \<Rightarrow> db \<Rightarrow> bool" where
  create: "st \<in> {Queued, WaitingForExecutor, WaitingForSnapshot} \<Longrightarrow>
    create_run E s st d = Inr (x, d') \<Longrightarrow> control_step d d'"
| message: "st \<in> {Queued, WaitingForExecutor, WaitingForSnapshot} \<Longrightarrow>
    create_thread_message_run E s st v d = Inr (y, d') \<Longrightarrow> control_step d d'"
| cancel: "cancel_run E i d = Inr (x, d') \<Longrightarrow> control_step d d'"
| expire: "transition_run E i Expired None None d = Inr (x, d') \<Longrightarrow> control_step d d'"
| snapshot: "find_run i d = Some r \<Longrightarrow> spec_snapshot_id (run_spec r) \<noteq> None \<Longrightarrow>
    st \<in> {Queued, WaitingForExecutor} \<Longrightarrow>
    transition_run E i st None None d = Inr (x, d') \<Longrightarrow> control_step d d'"
| "register": "register_executor E reg d = (d', res) \<Longrightarrow> control_step d d'"
| refresh: "refresh_executor_registration E ex reg d = (d', res) \<Longrightarrow> control_step d d'"
| heartbeat: "heartbeat_executor E ex n d = (d', res) \<Longrightarrow> control_step d d'"
| claim_external: "claim_external_run E ex n d = Inr (l, d') \<Longrightarrow> control_step d d'"
| claim_server: "claim_server_run E ex n d = Inr (l, d') \<Longrightarrow> control_step d d'"
| recover: "recover_external_run E ex n d = Inr (l, d') \<Longrightarrow> control_step d d'"
| renew: "renew_lease E i ex token n d = Inr (x, d') \<Longrightarrow> control_step d d'"
| leased_event: "append_leased_event E inp d = Inr (e, d') \<Longrightarrow> control_step d d'"
| external_event: "append_external_leased_event E inp d = Inr (e, d') \<Longrightarrow> control_step d d'"
| complete: "complete_leased_run E i ex token v m w d = Inr (x, d') \<Longrightarrow> control_step d d'"
| fail: "fail_leased_run E i ex token err d = Inr (x, d') \<Longrightarrow> control_step d d'"
| interrupt: "interrupt_leased_run E i ex token err d = Inr (x, d') \<Longrightarrow> control_step d d'"
| sweep: "interrupt_expired_leases E d = Inr (n, d') \<Longrightarrow> control_step d d'"
| approval: "create_approval E caller ex i rq d = Inr (a, d') \<Longrightarrow> control_step d d'"
| resolve: "resolve_approval_tx E u i aid n dec d = Inr (a, d') \<Longrightarrow> control_step d d'"
| input: "create_input_request E caller ex i irq d = Inr (b, d') \<Longrightarrow> control_step d d'"
| submit: "submit_input_tx E u i iid n v d = Inr (b, d') \<Longrightarrow> control_step d d'"
| checkpoint: "create_checkpoint E caller ex i crq d = Inr (c, d') \<Longrightarrow> control_step d d'"
| worker_approval: "request_worker_approval E ex i token v d = Inr (aid, d') \<Longrightarrow> control_step d d'"
| worker_input: "request_worker_input E ex i token v d = Inr (iid, d') \<Longrightarrow> control_step d d'"
| worker_checkpoint: "create_worker_checkpoint E ex i token b v d = Inr (c, d') \<Longrightarrow> control_step d d'"
| expire_workflows: "expire_pending_workflows E now d = (d', cnt) \<Longrightarrow> control_step d d'"
| retention: "enforce_run_event_retention now limit d = Inr (k, d') \<Longrightarrow> control_step d d'"
| sessions: "enforce_auth_session_retention now limit d = Inr (k, d') \<Longrightarrow> control_step d d'"
| event: "append_event_tx E i kind v d = Inr (e, d') \<Longrightarrow> control_step d d'"
| source_event: "append_event_tx_with_id E i eid kind v d = Inr (e, d') \<Longrightarrow> control_step d d'"
| elsewhere: "same_core d d' \<Longrightarrow> control_step d d'"

inductive execution :: "db \<Rightarrow> db \<Rightarrow> bool" where
  start: "execution d d"
| step: "execution d d' \<Longrightarrow> control_step d' d'' \<Longrightarrow> execution d d''"

definition empty_db :: db where
  "empty_db =
     \<lparr>runs = [], events = [], executors = [], checkpoints = [], pushes = [], subscriptions = [],
      sessions = [], messages = [], threads = [], projects = [], users = [], team_members = [],
      project_members = [], grants = [], quota_limits = [], quota_usage = [], manifests = [],
      versions = [], approvals = [], inputs = [], sync_entities = [], sync_changes = [],
      materializations = [], audits = [], pools = [], pool_grants = [], teams = [],
      tasks = [], schedules = [], profiles = [], mcp_bindings = [],
      chunks = [], manifest_chunks = [], reservations = [], artifacts = [], sync_operations = [], device_cursors = [],
      draws = 0\<rparr>"

definition reachable :: "db \<Rightarrow> bool" where
  "reachable d = execution empty_db d"

section \<open>Every step is sound\<close>

lemma enforce_auth_session_retention_core:
  "obeys same_core (enforce_auth_session_retention now limit)"
  unfolding enforce_auth_session_retention_def by (auto intro!: core_intros simp: core_def)

lemmas step_sound = cancel_run_sound [THEN obeysD]
  end_run_sound [of Expired, simplified, THEN obeysD] register_executor_sound [THEN obeysHD]
  refresh_executor_sound [THEN obeysHD] heartbeat_executor_sound [THEN obeysHD]
  claim_external_run_sound [THEN obeysD] claim_server_run_sound [THEN obeysD]
  recover_external_run_sound [THEN obeysD] renew_lease_sound [THEN obeysD]
  leased_events_sound [THEN obeysD] leased_outcomes_sound [THEN obeysD]
  interrupt_expired_leases_sound [THEN obeysD] create_approval_sound [THEN obeysD]
  resolve_approval_tx_sound [THEN obeysD] create_input_request_sound [THEN obeysD]
  submit_input_tx_sound [THEN obeysD] create_checkpoint_sound [THEN obeysD]
  request_worker_approval_sound [THEN obeysD] request_worker_input_sound [THEN obeysD]
  create_worker_checkpoint_sound [THEN obeysD] expire_pending_workflows_sound [THEN obeysHD]
  retention_sound [THEN obeysD]
  enforce_auth_session_retention_core [THEN obeys_same_core_sound, THEN obeysD]
  append_event_tx_sound [THEN obeysD] append_event_sound [THEN obeysD] same_core_sound

lemma control_step_sound: "control_step d d' \<Longrightarrow> sound d d'"
proof (induction rule: control_step.induct)
  case (create st E s d x d')
  then show ?case by (intro obeysD [OF create_run_sound [of st E s], of d x d']) auto
next
  case (message st E s v d y d')
  then show ?case by (intro obeysD [OF create_thread_message_run_sound [of st E s v], of d y d']) auto
next
  case (snapshot i d r st E x d')
  show ?case by (rule transition_run_step [OF _ _ snapshot(4)]) (use snapshot in auto)
qed (erule step_sound)+

lemma execution_sound: "execution d d' \<Longrightarrow> sound d d'"
  by (induction rule: execution.induct) (auto intro: sound_refl sound_trans control_step_sound)

lemma execution_trans: "execution d' d'' \<Longrightarrow> execution d d' \<Longrightarrow> execution d d''"
  by (induction rule: execution.induct) (auto intro: execution.step)

lemma consistent_empty_db: "consistent empty_db"
  by (simp add: consistent_def empty_db_def runs_ok_def log_ok_def executors_ok_def)

lemma reachable_consistent: "reachable d \<Longrightarrow> consistent d"
  using execution_sound [of empty_db d] consistent_empty_db by (simp add: reachable_def sound_def)

lemma reachable_runs_ok: "reachable d \<Longrightarrow> runs_ok d"
  by (drule reachable_consistent) (simp add: consistent_def)

lemma execution_reachable: "reachable d \<Longrightarrow> execution d d' \<Longrightarrow> reachable d'"
  unfolding reachable_def by (rule execution_trans)

lemma execution_evolves: "consistent d \<Longrightarrow> execution d d' \<Longrightarrow> consistent d' \<and> evolves d d'"
  using execution_sound [of d d'] by (simp add: sound_def)

lemma evolves_find_run:
  assumes "consistent d" "consistent d'" "evolves d d'" "find_run i d = Some r"
  obtains r' where "find_run i d' = Some r'" "evolve_row r r'"
proof -
  from assms(4) have r: "r \<in> set (runs d)" "run_id r = i" by (auto dest: find_run_Some)
  from assms(3) have "runs_evolve d d'" by (simp add: evolves_def)
  from this r(1) obtain r' where r': "r' \<in> set (runs d')" "evolve_row r r'"
    by (rule runs_evolve_member)
  with assms(2) have "find_run (run_id r') d' = Some r'"
    by (auto simp: consistent_def intro: find_run_member)
  with r' r(2) show ?thesis by (intro that) (auto dest: evolve_row_id)
qed

lemma execution_run:
  assumes "reachable d" "execution d d'" "find_run i d = Some r"
  shows "\<exists>r'. find_run i d' = Some r' \<and> evolve_row r r'"
proof -
  from assms(1) have ok: "consistent d" by (rule reachable_consistent)
  with assms(2) have "consistent d'" "evolves d d'" by (auto dest: execution_evolves)
  from ok this assms(3) show ?thesis by (rule evolves_find_run) blast
qed

end
