(* ===== verification/Examples.thy ===== *)
theory Examples
  imports ControlPlane
begin

text \<open>
  A small database on which the properties are instantiated: a project of user 7 in team 5 with
  a thread, a run of that thread created and claimed by the server worker, and a second one for a
  personal device. The states are computed from the operations.
\<close>

definition demo_env :: env where
  "demo_env =
     \<lparr>env_now = 1000, env_utc_now = 1000, env_new_v4 = (\<lambda>n. 20 + n), env_uuid = (\<lambda>_. ''u''),
      env_time = (\<lambda>_. ''t''), env_json = (\<lambda>_. ''{}''), env_column_size = (\<lambda>_. 2),
      env_month = (\<lambda>_. 0), env_date = (\<lambda>_. ''m''),
      env_parse_uuid = (\<lambda>_. None), env_parse_url = (\<lambda>_. None), env_timezone = Some,
      env_cron_error = (\<lambda>_. None), env_cron_next = (\<lambda>_ _ t. Some (t + 60000000)), env_debug = id\<rparr>"

definition demo_project :: project_row where
  "demo_project =
     \<lparr>prj_id = 1, prj_revision = 1, prj_etag = [], prj_owner = 7, prj_team = Some 5, prj_privacy = TeamManaged,
      prj_name = ''demo'', prj_description = [], prj_preferred_target = None, prj_current_version = None,
      prj_policy = Object [], prj_created = 0, prj_updated = 0, prj_deleted = None\<rparr>"

definition demo_thread :: thread_row where
  "demo_thread =
     \<lparr>thr_id = 2, thr_revision = 1, thr_etag = [], thr_project_id = 1, thr_created_by = 7,
      thr_forked_thread = None, thr_forked_message = None, thr_title = ''chat'',
      thr_created = 0, thr_updated = 0, thr_deleted = None\<rparr>"

definition demo_user :: "uuid \<Rightarrow> bool \<Rightarrow> user_row" where
  "demo_user i admin = \<lparr>usr_id = i, usr_platform_admin = admin, usr_deleted = None\<rparr>"

definition demo_db :: db where
  "demo_db = empty_db\<lparr>projects := [demo_project], threads := [demo_thread],
     users := [demo_user 7 False, demo_user 8 True],
     quota_limits := [\<lparr>ql_scope = ScopeUser, ql_scope_id = 7, ql_storage_bytes = None,
       ql_concurrent_runs = Some 2, ql_monthly_tokens = Some 100, ql_monthly_cost = None,
       ql_hard_cost_limit = True, ql_updated = 0\<rparr>]\<rparr>"

definition demo_spec :: "uuid \<Rightarrow> executor_target \<Rightarrow> uuid option \<Rightarrow> string \<Rightarrow> run_spec" where
  "demo_spec i target snapshot key =
     \<lparr>spec_schema_version = 2, spec_id = i, spec_thread_id = 2, spec_project_id = 1,
      spec_project = \<lparr>ref_id = 1, ref_revision = 1\<rparr>, spec_project_privacy = TeamManaged,
      spec_task = None, spec_creator_user_id = 7, spec_executor_target = target,
      spec_required_capabilities = [], spec_input = Null, spec_model_profile_id = None,
      spec_snapshot_id = snapshot, spec_idempotency_key = key, spec_created_at = int i\<rparr>"

definition state_of :: "(api_error, 'a \<times> db) result \<Rightarrow> db" where
  "state_of x = (case x of Inl _ \<Rightarrow> empty_db | Inr (_, d) \<Rightarrow> d)"

definition demo_created :: db where
  "demo_created = state_of (create_run demo_env (demo_spec 10 (ServerLinux None) None ''first'')
     Queued demo_db)"

definition demo_running :: db where
  "demo_running = state_of (claim_server_run demo_env 9 60 demo_created)"

lemma is_ok_state_of: "is_ok x \<Longrightarrow> \<exists>y. x = Inr (y, state_of x)"
  by (auto simp: is_ok_def state_of_def split: sum.splits)

lemma demo_created_ok:
  "is_ok (create_run demo_env (demo_spec 10 (ServerLinux None) None ''first'') Queued demo_db)"
  by code_simp

lemma demo_running_ok: "is_ok (claim_server_run demo_env 9 60 demo_created)"
  by code_simp

lemma demo_db_reachable: "reachable demo_db"
  unfolding reachable_def
  by (rule execution.step [OF execution.start control_step.elsewhere])
    (simp add: same_core_tables demo_db_def)

lemma demo_created_execution: "execution demo_db demo_created"
  using is_ok_state_of [OF demo_created_ok] unfolding demo_created_def
  by (auto intro: execution.step [OF execution.start control_step.create])

lemma demo_running_execution: "execution demo_created demo_running"
  using is_ok_state_of [OF demo_running_ok] unfolding demo_running_def
  by (auto intro: execution.step [OF execution.start control_step.claim_server])

lemma demo_created_reachable: "reachable demo_created"
  using demo_db_reachable demo_created_execution by (rule execution_reachable)

lemma demo_running_reachable: "reachable demo_running"
  using demo_created_reachable demo_running_execution by (rule execution_reachable)

section \<open>A personal device\<close>

definition demo_registration :: executor_registration where
  "demo_registration =
     \<lparr>reg_schema_version = 2, reg_executor_id = 3, reg_kind = KPersonalDevice, reg_pool_id = None,
      reg_owner_user_id = Some 7, reg_display_name = ''laptop'', reg_protocol_version = 1,
      reg_capabilities = [], reg_labels = [], reg_remote_control = None,
      reg_max_concurrent_runs = 1\<rparr>"

definition demo_registered :: db where
  "demo_registered = fst (register_executor demo_env demo_registration demo_running)"

definition demo_waiting :: db where
  "demo_waiting = state_of (create_run demo_env
     ((demo_spec 11 (PersonalDevice 3) None ''second'')\<lparr>spec_thread_id := 4\<rparr>) WaitingForExecutor demo_registered)"

definition demo_leased :: db where
  "demo_leased = state_of (claim_external_run demo_env 3 60 demo_waiting)"

lemma demo_waiting_ok: "is_ok (create_run demo_env
    ((demo_spec 11 (PersonalDevice 3) None ''second'')\<lparr>spec_thread_id := 4\<rparr>) WaitingForExecutor demo_registered)"
  by code_simp

lemma demo_leased_ok:
  "case claim_external_run demo_env 3 60 demo_waiting of Inr (Some _, _) \<Rightarrow> True | _ \<Rightarrow> False"
  by code_simp

lemma demo_leased_claim: "\<exists>l. claim_external_run demo_env 3 60 demo_waiting = Inr (Some l, demo_leased)"
  using demo_leased_ok by (auto simp: demo_leased_def state_of_def split: sum.splits option.splits)

lemma demo_registered_execution: "execution demo_running demo_registered"
  unfolding demo_registered_def
  by (rule execution.step [OF execution.start control_step.register [OF prod.collapse [symmetric]]])

lemma demo_waiting_execution: "execution demo_registered demo_waiting"
  using is_ok_state_of [OF demo_waiting_ok] unfolding demo_waiting_def
  by (auto intro: execution.step [OF execution.start control_step.create])

lemma demo_leased_execution: "execution demo_waiting demo_leased"
  using demo_leased_claim by (auto intro: execution.step [OF execution.start control_step.claim_external])

lemma demo_waiting_reachable: "reachable demo_waiting"
  using demo_running_reachable demo_registered_execution demo_waiting_execution
  by (blast intro: execution_reachable)

lemma demo_leased_reachable: "reachable demo_leased"
  using demo_waiting_reachable demo_leased_execution by (rule execution_reachable)

end
