(* ===== verification/RunProperties.thy ===== *)
theory RunProperties
  imports Examples
begin

text \<open>
  What holds of runs and their event logs in every reachable state and along every execution of
  the control plane.
\<close>

section \<open>Invariants\<close>

text \<open>C1: In every reachable state a run holds a complete lease exactly while it is running or
  waiting for an answer: then its owner is the executor it is assigned to, it has a token and an
  expiry, and its start is recorded. In every other state all three lease columns are empty, and a
  terminal run has its finish time.\<close>

theorem lease_iff_active:
  assumes "reachable d" "r \<in> set (runs d)"
  shows "if holds_lease (run_state r)
         then \<exists>ex token t. run_lease_owner r = Some ex \<and> run_assigned r = Some ex
                \<and> run_lease_token r = Some token \<and> run_lease_expires r = Some t \<and> run_started r \<noteq> None
         else run_lease_owner r = None \<and> run_lease_token r = None \<and> run_lease_expires r = None
                \<and> (is_terminal (run_state r) \<longrightarrow> run_finished r \<noteq> None)"
proof -
  from assms have "row_ok r" by (auto simp: consistent_def runs_ok_def dest: reachable_consistent)
  then show ?thesis by (auto simp: row_ok_def lease_coherent_def split: if_splits)
qed

theorem lease_iff_active_witness:
  "\<exists>r \<in> set (runs demo_running). run_state r = Running \<and> run_lease_owner r = Some 9
     \<and> (\<exists>ex token t. run_lease_owner r = Some ex \<and> run_assigned r = Some ex
          \<and> run_lease_token r = Some token \<and> run_lease_expires r = Some t \<and> run_started r \<noteq> None)"
proof -
  have "list_ex (\<lambda>r. run_state r = Running \<and> run_lease_owner r = Some 9) (runs demo_running)"
    by code_simp
  then obtain r where "r \<in> set (runs demo_running)" "run_state r = Running" "run_lease_owner r = Some 9"
    by (auto simp: list_ex_iff)
  with lease_iff_active [OF demo_running_reachable, of r] show ?thesis by auto
qed



section \<open>The event log\<close>

text \<open>C3: The number of an event is never given to another event: when two states of an execution
  hold events of one run with the same number, they are the same event, also when the retention
  deleted the row in between. Within one state no two events share their number or identifier.\<close>

theorem event_numbers_unique:
  assumes "reachable d" "execution d d'"
    and "e \<in> set (events d)" "e' \<in> set (events d')"
    and "ev_run_id e' = ev_run_id e" "ev_sequence e' = ev_sequence e"
  shows "e' = e"
proof -
  from assms(1) have ok: "consistent d" by (rule reachable_consistent)
  with assms(2) have fresh: "events_fresh d d'" by (auto simp: evolves_def dest: execution_evolves)
  from ok assms(3) obtain r where r: "r \<in> set (runs d)" "run_id r = ev_run_id e"
    "ev_sequence e < run_next_sequence r"
    by (auto simp: consistent_def log_ok_def)
  from fresh assms(4) consider "e' \<in> set (events d)"
    | "\<And>r. r \<in> set (runs d) \<Longrightarrow> run_id r = ev_run_id e' \<Longrightarrow> run_next_sequence r \<le> ev_sequence e'"
    unfolding events_fresh_def by blast
  then show ?thesis
  proof cases
    case 1
    from ok have "inj_on event_key (set (events d))"
      by (simp add: consistent_def log_ok_def distinct_map)
    with 1 assms(3,5,6) show ?thesis
      by (intro inj_onD [of event_key "set (events d)"]) (simp_all add: event_key_def)
  next
    case 2
    from 2 [OF r(1)] r(2,3) assms(5,6) show ?thesis by simp
  qed
qed

theorem event_numbers_unique_witness:
  "\<exists>e \<in> set (events demo_created). \<exists>e' \<in> set (events demo_running).
     ev_run_id e' = ev_run_id e \<and> ev_sequence e' = ev_sequence e \<and> e' = e"
proof -
  have "list_ex (\<lambda>e. list_ex (\<lambda>e'. ev_run_id e' = ev_run_id e \<and> ev_sequence e' = ev_sequence e)
      (events demo_running)) (events demo_created)"
    by code_simp
  then obtain e e' where "e \<in> set (events demo_created)" "e' \<in> set (events demo_running)"
    "ev_run_id e' = ev_run_id e" "ev_sequence e' = ev_sequence e"
    by (auto simp: list_ex_iff)
  with event_numbers_unique [OF demo_created_reachable demo_running_execution, of e e'] show ?thesis
    by blast
qed

section \<open>Creation\<close>

text \<open>C4: Creating a run is idempotent for ever: at any later point of an execution, a second request
  of the same user with the same key changes nothing and answers with the run the first one created,
  whatever else the second request says.\<close>

theorem create_run_idempotent:
  assumes "reachable d" "st \<in> {Queued, WaitingForExecutor, WaitingForSnapshot}"
    and "create_run E s st d = Inr (x, d1)" "execution d1 d2"
    and "spec_creator_user_id s' = spec_creator_user_id s"
      "spec_idempotency_key s' = spec_idempotency_key s"
  shows "\<exists>y. create_run E' s' st' d2 = Inr (y, d2) \<and> rec_spec y = rec_spec x"
proof -
  from assms(1-3) have d1: "reachable d1"
    unfolding reachable_def by (blast intro: execution.step control_step.create)
  from assms(3) obtain b where "create_run_tx E s st d = Inr ((x, b), d1)"
    by (auto simp: create_run_def tx_simps split: prod.splits)
  then obtain r where r: "r \<in> set (runs d1)" "run_spec r = rec_spec x"
    "idempotency r = (spec_creator_user_id s, spec_idempotency_key s)"
    by (blast dest: create_run_tx_present)
  from reachable_runs_ok [OF d1] r(1) have "find_run (run_id r) d1 = Some r" by (rule find_run_member)
  from execution_run [OF d1 assms(4) this] obtain r' where
    r': "find_run (run_id r) d2 = Some r'" "run_spec r' = run_spec r"
    by (auto simp: evolve_row_def)
  from d1 assms(4) have "runs_ok d2" by (blast intro: reachable_runs_ok execution_reachable)
  with r r' assms(5,6) have "find_idempotent s' d2 = Some r'"
    by (intro find_idempotent_member) (auto dest: find_run_Some)
  with r(2) r'(2) show ?thesis
    by (simp add: create_run_def create_run_tx_def tx_defs row_to_run_def)
qed

theorem create_run_idempotent_witness:
  "\<exists>y. create_run demo_env (demo_spec 11 (PersonalDevice 3) None ''first'') WaitingForExecutor demo_running
     = Inr (y, demo_running) \<and> spec_id (rec_spec y) = 10"
proof -
  from is_ok_state_of [OF demo_created_ok] obtain x where
    x: "create_run demo_env (demo_spec 10 (ServerLinux None) None ''first'') Queued demo_db = Inr (x, demo_created)"
    unfolding demo_created_def by blast
  have "(case create_run demo_env (demo_spec 10 (ServerLinux None) None ''first'') Queued demo_db of
      Inl _ \<Rightarrow> False | Inr (x, _) \<Rightarrow> spec_id (rec_spec x) = 10)"
    by code_simp
  with x have "spec_id (rec_spec x) = 10" by simp
  with create_run_idempotent [OF demo_db_reachable _ x demo_running_execution,
      of "demo_spec 11 (PersonalDevice 3) None ''first''" demo_env WaitingForExecutor]
  show ?thesis by (auto simp: demo_spec_def)
qed

text \<open>C5: Admission respects the concurrency quotas: when a creation inserts a run, the runs that are
  not terminal, counted for its creator and for the team of its project, are within the limits set for
  them.\<close>

theorem create_run_within_quota:
  assumes "create_run_tx E s st d = Inr ((x, True), d')" "find_project (spec_project_id s) d = Some p"
    and "(sc, i) \<in> set (scopes_of (spec_creator_user_id s) (prj_team p))"
    and "quota_row sc i d = Some q" "ql_concurrent_runs q = Some l"
  shows "running_count sc i d' \<le> l"
  using assms by (intro create_run_tx_quota [OF assms(1-3)]) simp

theorem create_run_within_quota_witness:
  "running_count ScopeUser 7 demo_created \<le> 2"
proof -
  have ok: "(case create_run_tx demo_env (demo_spec 10 (ServerLinux None) None ''first'') Queued demo_db of
      Inl _ \<Rightarrow> False | Inr ((x, b), d) \<Rightarrow> b)"
    by code_simp
  then obtain x d' where run:
    "create_run_tx demo_env (demo_spec 10 (ServerLinux None) None ''first'') Queued demo_db = Inr ((x, True), d')"
    by (auto split: sum.splits)
  then have "demo_created = d'"
    by (simp add: demo_created_def state_of_def create_run_def tx_defs)
  moreover have "find_project 1 demo_db = Some demo_project"
    by (simp add: find_project_def demo_db_def demo_project_def fetch_optional_def)
  moreover have "(ScopeUser, 7) \<in> set (scopes_of 7 (prj_team demo_project))"
    by (simp add: scopes_of_def)
  moreover have "quota_row ScopeUser 7 demo_db = Some \<lparr>ql_scope = ScopeUser, ql_scope_id = 7,
      ql_storage_bytes = None, ql_concurrent_runs = Some 2, ql_monthly_tokens = Some 100,
      ql_monthly_cost = None, ql_hard_cost_limit = True, ql_updated = 0\<rparr>"
    by (simp add: quota_row_def demo_db_def fetch_optional_def)
  ultimately show ?thesis
    using create_run_within_quota [OF run, of demo_project ScopeUser 7 _ 2]
    by (simp add: demo_spec_def)
qed

end
