(* ===== verification/LeaseFacts.thy ===== *)
theory LeaseFacts
  imports Examples
begin

text \<open>
  Facts the properties of the lease protocol share: what a transaction that only writes the log of
  one run leaves of the runs and executors, and that an append succeeds when the identifiers drawn
  for it are new.
\<close>

section \<open>Transactions that only write the log of one run\<close>

definition bump :: "int \<Rightarrow> run_row \<Rightarrow> run_row" where
  "bump k r = r\<lparr>run_next_sequence := run_next_sequence r + k\<rparr>"

definition logged :: "uuid \<Rightarrow> db \<Rightarrow> db \<Rightarrow> bool" where
  "logged i d d' =
     (executors d' = executors d
      \<and> (\<exists>k. runs d' = update_where (\<lambda>r. run_id r = i) (bump k) (runs d)))"

lemma bump_simps [simp]:
  "bump 0 r = r" "bump k (bump l r) = bump (l + k) r" "run_spec (bump k r) = run_spec r"
  "run_state (bump k r) = run_state r" "run_revision (bump k r) = run_revision r"
  "run_assigned (bump k r) = run_assigned r" "run_lease_owner (bump k r) = run_lease_owner r"
  "run_lease_token (bump k r) = run_lease_token r" "run_lease_expires (bump k r) = run_lease_expires r"
  "run_error (bump k r) = run_error r" "run_result (bump k r) = run_result r"
  "run_finished (bump k r) = run_finished r"
  by (simp_all add: bump_def)

interpretation logged: state_preorder "logged i" for i
proof
  show "logged i d d" for d
    unfolding logged_def by (auto intro!: exI [of _ 0] map_idI [symmetric] simp: update_where_def)
  show "logged i d d''" if d: "logged i d d'" "logged i d' d''" for d d' d''
  proof -
    from d obtain k l where "runs d' = update_where (\<lambda>r. run_id r = i) (bump k) (runs d)"
      "runs d'' = update_where (\<lambda>r. run_id r = i) (bump l) (runs d')" "executors d'' = executors d"
      unfolding logged_def by metis
    then show ?thesis
      unfolding logged_def by (intro conjI exI [of _ "k + l"]) (auto simp: update_where_def)
  qed
qed

lemma append_event_logged: "obeys (logged i) (append_event_tx_with_id E i event_id kind payload)"
proof (rule obeysI)
  fix d e d' assume run: "append_event_tx_with_id E i event_id kind payload d = Inr (e, d')"
  show "logged i d d'"
  proof (cases rule: append_event_cases [OF run])
    case 1
    then show ?thesis by (simp add: logged.R_refl)
  next
    case (2 r)
    then show ?thesis
      unfolding logged_def by (intro conjI exI [of _ 1]) (auto simp: core_def bump_def [abs_def])
  qed
qed

lemma new_v4_logged: "obeys (logged i) (new_v4 E)"
  using logged.R_refl [of i] by (intro obeysI) (auto simp: tx_simps logged_def)

lemma append_event_tx_logged: "obeys (logged i) (append_event_tx E i kind payload)"
  unfolding append_event_tx_def by (intro logged.obeys_bind new_v4_logged append_event_logged)

lemma lease_events_logged: "obeys (logged i) (lease_events E i ex expires from)"
  unfolding lease_events_def by (intro logged.obeys_rules append_event_tx_logged)

lemma find_run_update_where:
  assumes "\<And>r. run_spec (f r) = run_spec r"
  shows "find_run j (d\<lparr>runs := update_where (\<lambda>r. run_id r = i) f (runs d)\<rparr>) =
    map_option (\<lambda>r. if j = i then f r else r) (find_run j d)"
  unfolding find_run_def using assms by (simp, intro fetch_update_where) auto

lemma logged_find_run:
  assumes "logged i d d'"
  obtains k where "\<And>j. find_run j d' = map_option (\<lambda>r. if j = i then bump k r else r) (find_run j d)"
proof -
  from assms obtain k where "runs d' = update_where (\<lambda>r. run_id r = i) (bump k) (runs d)"
    by (auto simp: logged_def)
  then have "find_run j d' = map_option (\<lambda>r. if j = i then bump k r else r) (find_run j d)" for j
    using find_run_update_where [where f = "bump k" and j = j and d = d and i = i] by (simp add: find_run_def)
  then show ?thesis by (rule that)
qed

lemma logged_executors: "logged i d d' \<Longrightarrow> find_executor j d' = find_executor j d"
  by (simp add: logged_def find_executor_def)

lemma find_executor_update:
  assumes "\<And>e. exec_registration (f e) = exec_registration e"
  shows "find_executor j (d\<lparr>executors := update_where (\<lambda>e. exec_id e = i) f (executors d)\<rparr>) =
    map_option (\<lambda>e. if j = i then f e else e) (find_executor j d)"
  unfolding find_executor_def using assms by (simp, intro fetch_update_where) auto

section \<open>Appends succeed on new identifiers\<close>

text \<open>The draws of \<open>Uuid::new_v4\<close> are new: no two of them agree, and the ones to come name no event.\<close>

definition fresh_ids :: "env \<Rightarrow> db \<Rightarrow> bool" where
  "fresh_ids E d =
     (inj (env_new_v4 E) \<and> (\<forall>k \<ge> draws d. env_new_v4 E k \<notin> ev_event_id ` set (events d)))"

lemma queue_push_total:
  "\<exists>d'. queue_push E r e d = Inr ((), d') \<and> draws d' = Suc (draws d) \<and> events d' = events d"
  by (simp add: queue_push_def bindT_def new_v4_def writeT_def Let_def)

lemma next_number_free:
  assumes "consistent d" "find_run i d = Some r"
  shows "\<not> exists_row (\<lambda>e. ev_run_id e = i \<and> ev_sequence e = run_next_sequence r) (events d)"
proof
  assume "exists_row (\<lambda>e. ev_run_id e = i \<and> ev_sequence e = run_next_sequence r) (events d)"
  then obtain e where e: "e \<in> set (events d)" "ev_run_id e = i" "ev_sequence e = run_next_sequence r"
    by (auto simp: exists_row_iff)
  with assms(1) obtain x where "x \<in> set (runs d)" "run_id x = i" "ev_sequence e < run_next_sequence x"
    by (auto simp: consistent_def log_ok_def)
  moreover from this(1,2) assms have "x = r"
    using find_run_member [of d x] by (simp add: consistent_def)
  ultimately show False using e(3) by simp
qed

lemma append_event_total:
  assumes "consistent d" "find_run i d = Some r" "find_event eid d = None"
  shows "\<exists>d'. append_event_tx_with_id E i eid kind payload d = Inr (new_event E r eid kind payload, d')
    \<and> draws d \<le> draws d' \<and> events d' = events d @ [new_event E r eid kind payload]"
proof -
  let ?e = "new_event E r eid kind payload"
  let ?d = "d\<lparr>runs := update_where (\<lambda>r. run_id r = i)
      (\<lambda>r. r\<lparr>run_next_sequence := run_next_sequence r + 1\<rparr>) (runs d), events := events d @ [?e]\<rparr>"
  from queue_push_total [of E r ?e ?d] obtain d' where
    push: "whenT (should_push kind) (queue_push E r ?e) ?d = Inr ((), d')" "draws d \<le> draws d'"
      "events d' = events d @ [?e]"
    by (cases "should_push kind") (auto simp: whenT_def returnT_def)
  from assms(2) have [simp]: "run_id r = i" by (auto dest: find_run_Some)
  have "append_event_tx_with_id E i eid kind payload d = Inr (?e, d')"
    using assms(2,3) next_number_free [OF assms(1,2)] push(1)
    by (simp add: append_event_tx_with_id_def tx_simps new_event_def Let_def ex_bool_eq)
  with push(2,3) show ?thesis by blast
qed

lemma append_event_tx_total:
  assumes "consistent d" "find_run i d = Some r" "fresh_ids E d"
  shows "\<exists>e d'. append_event_tx E i kind payload d = Inr (e, d') \<and> fresh_ids E d'"
proof -
  let ?i = "env_new_v4 E (draws d)" and ?d = "d\<lparr>draws := Suc (draws d)\<rparr>"
  have "consistent ?d" using assms(1) by (simp add: consistent_def runs_ok_def log_ok_def executors_ok_def)
  moreover have "find_run i ?d = Some r" using assms(2) by (simp add: find_run_def)
  moreover from assms(3) have "?i \<notin> ev_event_id ` set (events d)" by (simp add: fresh_ids_def)
  then have "find_event ?i ?d = None" by (force simp: find_event_def fetch_optional_None)
  ultimately obtain d' where d': "append_event_tx_with_id E i ?i kind payload ?d = Inr (new_event E r ?i kind payload, d')"
    "draws ?d \<le> draws d'" "events d' = events ?d @ [new_event E r ?i kind payload]"
    using append_event_total [of ?d i r ?i] by blast
  have "fresh_ids E d'"
    unfolding fresh_ids_def
  proof (intro conjI allI impI)
    show inj: "inj (env_new_v4 E)" using assms(3) by (simp add: fresh_ids_def)
    fix k assume "draws d' \<le> k"
    with d'(2) have "draws d < k" by simp
    with assms(3) inj d'(3) show "env_new_v4 E k \<notin> ev_event_id ` set (events d')"
      by (auto simp: fresh_ids_def new_event_def dest: injD)
  qed
  with d'(1) show ?thesis unfolding append_event_tx_split by blast
qed

lemma release_executor_total:
  "\<exists>d'. release_executor E seen ex d = Inr ((), d') \<and> runs d' = runs d \<and> events d' = events d \<and> draws d' = draws d"
  by (simp add: release_executor_def update_executor_def writeT_def)

interpretation same_essence: state_preorder "\<lambda>d d'. map run_essence (runs d') = map run_essence (runs d)"
  by unfold_locales simp_all

lemma essence_statements:
  "obeys (\<lambda>d d'. map run_essence (runs d') = map run_essence (runs d)) (append_event_tx E i kind payload)"
  "obeys (\<lambda>d d'. map run_essence (runs d') = map run_essence (runs d)) (release_executor E seen ex)"
  by (auto intro!: obeysI dest: append_event_tx_essence(1) release_executor_runs)

lemma report_expired_essence:
  "obeys (\<lambda>d d'. map run_essence (runs d') = map run_essence (runs d)) (report_expired E x)"
  unfolding report_expired_def
  by (cases x) (auto intro!: same_essence.obeys_rules essence_statements split: option.splits)

lemma essence_find_None:
  "map run_essence (runs d') = map run_essence (runs d) \<Longrightarrow> find_run i d' = None \<longleftrightarrow> find_run i d = None"
  using essence_find_run [of d' d i] by (cases "find_run i d"; cases "find_run i d'") simp_all

lemma report_expired_total:
  assumes "consistent d" "fresh_ids E d" "find_run (run_id r) d \<noteq> None"
  shows "\<exists>d'. report_expired E (r, safe) d = Inr ((), d') \<and> fresh_ids E d'"
proof -
  let ?m = "case run_assigned r of None \<Rightarrow> returnT () | Some ex \<Rightarrow> release_executor E False ex"
  obtain d1 where d1: "?m d = Inr ((), d1)" "runs d1 = runs d" "events d1 = events d" "draws d1 = draws d"
    using release_executor_total [of E False _ d]
    by (cases "run_assigned r") (auto simp: returnT_def)
  have "obeys sound ?m" by (auto intro!: sound_intros split: option.splits)
  then have "sound d d1" using d1(1) by (rule obeysD)
  with assms(1) have "consistent d1" by (simp add: sound_def)
  moreover from assms(3) d1(2) obtain r' where "find_run (run_id r) d1 = Some r'"
    by (auto simp: find_run_def)
  moreover from assms(2) d1 have "fresh_ids E d1" by (simp add: fresh_ids_def)
  ultimately show ?thesis
    using append_event_tx_total [of d1 "run_id r" r' E] d1(1)
    unfolding report_expired_def by (fastforce simp: tx_simps)
qed

lemma report_all_total:
  assumes "consistent d" "fresh_ids E d" "\<forall>(r, safe) \<in> set xs. find_run (run_id r) d \<noteq> None"
  shows "\<exists>d'. for_each xs (report_expired E) d = Inr ((), d')"
  using assms
proof (induction xs arbitrary: d)
  case Nil
  then show ?case by (simp add: returnT_def)
next
  case (Cons x xs)
  obtain r safe where x: "x = (r, safe)" by (cases x)
  with Cons.prems obtain d1 where d1: "report_expired E x d = Inr ((), d1)" "fresh_ids E d1"
    using report_expired_total [of d E r safe] by auto
  from d1(1) have "sound d d1" by (rule obeysD [OF report_expired_sound])
  with Cons.prems(1) have "consistent d1" by (simp add: sound_def)
  moreover have "find_run i d1 = None \<longleftrightarrow> find_run i d = None" for i
    by (rule essence_find_None [OF obeysD [OF report_expired_essence d1(1)]])
  ultimately obtain d' where "for_each xs (report_expired E) d1 = Inr ((), d')"
    using Cons.IH [of d1] Cons.prems(3) d1(2) by auto
  with d1(1) show ?case by (auto simp: tx_simps)
qed

end
