(* ===== verification/LeaseProperties.thy ===== *)
theory LeaseProperties
  imports LeaseFacts
begin

text \<open>
  What the lease protocol guarantees: who may claim which run, that calls under a lost lease are
  refused, what the sweep of expired leases does, and that replayed events are free.
\<close>

section \<open>Claiming\<close>

text \<open>C6: A run that an external executor is given was waiting for an executor, is addressed to it
  and supported by it, and no earlier run of its thread is open; the executor is not draining and
  has room. After the claim the run is leased to the executor under the token it was told, the
  executor counts one more run, and every other run is as it was.\<close>

theorem claim_external_run_correct:
  assumes "reachable d" "claim_external_run E ex n d = Inr (Some l, d')"
  shows "\<exists>e r r'. find_executor ex d = Some e \<and> \<not> exec_draining e
           \<and> exec_active_runs e < reg_max_concurrent_runs (exec_registration e)
           \<and> find_run (run_id r) d = Some r \<and> run_state r \<in> {Queued, WaitingForExecutor}
           \<and> target_matches (exec_registration e) (spec_executor_target (run_spec r))
           \<and> supports_run (exec_registration e) (spec_required_capabilities (run_spec r)) (spec_input (run_spec r))
           \<and> no_open_predecessor d r
           \<and> find_run (run_id r) d' = Some r' \<and> run_state r' = Running
           \<and> owns_lease (run_id r) ex (lease_lease_token l) r'
           \<and> run_lease_expires r' = Some (lease_lease_expires_at l)
           \<and> (\<exists>e'. find_executor ex d' = Some e' \<and> exec_active_runs e' = exec_active_runs e + 1)
           \<and> (\<forall>j. j \<noteq> run_id r \<longrightarrow> find_run j d' = find_run j d)"
proof (cases rule: claim_external_run_cases [OF assms(2)])
  case (2 e r d2)
  let ?f = "lease_row E ex (env_new_v4 E (draws d)) (env_utc_now E + seconds n)"
  let ?g = "\<lambda>e. e\<lparr>exec_active_runs := exec_active_runs e + 1, exec_last_seen := env_now E\<rparr>"
  let ?d3 = "d2\<lparr>executors := update_where (\<lambda>e. exec_id e = ex) ?g (executors d2)\<rparr>"
  from 2(4) have r: "r \<in> set (external_candidates (exec_registration e) d)"
    "supports_run (exec_registration e) (spec_required_capabilities (run_spec r)) (spec_input (run_spec r))"
    by (auto dest: find_member)
  note cand = external_candidates_member [OF r(1)]
  with assms(1) have row: "find_run (run_id r) d = Some r" by (blast intro: find_run_member reachable_runs_ok)
  from 2(6) have "logged (run_id r) ?d3 d'"
    by (auto simp: tx_simps intro: obeysD [OF lease_events_logged])
  then obtain k where k: "\<And>j. find_run j d' = map_option (\<lambda>x. if j = run_id r then bump k x else x) (find_run j ?d3)"
    and execs: "find_executor ex d' = find_executor ex ?d3"
    by (rule logged_find_run) (use \<open>logged (run_id r) ?d3 d'\<close> logged_executors in blast)
  have "find_run j ?d3 = find_run j (d\<lparr>runs := update_where (\<lambda>x. run_id x = run_id r) ?f (runs d)\<rparr>)" for j
    by (simp add: 2(5) find_run_def)
  then have runs: "find_run j d' = map_option (\<lambda>x. if j = run_id r then bump k (?f x) else x) (find_run j d)" for j
    unfolding k
    by (cases "j = run_id r") (simp_all add: find_run_update_where lease_row_def option.map_comp comp_def)
  have "find_executor ex d2 = find_executor ex d" by (simp add: 2(5) find_executor_def)
  then have "find_executor ex ?d3 = map_option ?g (find_executor ex d)"
    by (subst find_executor_update) simp_all
  with 2(1) execs have "\<exists>e'. find_executor ex d' = Some e' \<and> exec_active_runs e' = exec_active_runs e + 1"
    by simp
  moreover have "find_run (run_id r) d' = Some (bump k (?f r))" using row by (simp add: runs)
  moreover have "find_run j d' = find_run j d" if "j \<noteq> run_id r" for j
    using that by (simp add: runs option.map_ident)
  ultimately show ?thesis
    using 2(1-3,7) r(2) cand row
    by (intro exI [of _ e] exI [of _ r] exI [of _ "bump k (?f r)"])
      (auto simp: owns_lease_def lease_row_def)
qed simp

theorem claim_external_run_correct_witness:
  "\<exists>r (l :: run_lease). find_run 11 demo_leased = Some r \<and> run_state r = Running
     \<and> owns_lease 11 3 (lease_lease_token l) r \<and> find_run 10 demo_leased = find_run 10 demo_waiting"
proof -
  obtain l where l: "claim_external_run demo_env 3 60 demo_waiting = Inr (Some l, demo_leased)"
    using demo_leased_claim by blast
  have only: "list_all (\<lambda>r. run_id r = 11 \<or> run_state r \<notin> {Queued, WaitingForExecutor}) (runs demo_waiting)"
    by code_simp
  from claim_external_run_correct [OF demo_waiting_reachable l] obtain r r' where
    r: "find_run (run_id r) demo_waiting = Some r" "run_state r \<in> {Queued, WaitingForExecutor}"
      "find_run (run_id r) demo_leased = Some r'" "run_state r' = Running"
      "owns_lease (run_id r) 3 (lease_lease_token l) r'"
      "\<forall>j. j \<noteq> run_id r \<longrightarrow> find_run j demo_leased = find_run j demo_waiting"
    by blast
  from only r(1,2) have "run_id r = 11"
    by (auto simp: list_all_iff dest!: find_run_Some)
  with r show ?thesis by (intro exI [of _ r'] exI [of _ l]) simp
qed

section \<open>Fencing\<close>

text \<open>Every call that an executor makes under a lease, for any content, is refused.\<close>

definition fenced :: "env \<Rightarrow> uuid \<Rightarrow> uuid \<Rightarrow> uuid \<Rightarrow> db \<Rightarrow> bool" where
  "fenced E i ex token d =
     ((\<forall>v m w. complete_leased_run E i ex token v m w d = Inl invalid_lease)
      \<and> (\<forall>e. fail_leased_run E i ex token e d = Inl invalid_lease)
      \<and> (\<forall>e. interrupt_leased_run E i ex token e d = Inl invalid_lease)
      \<and> (\<forall>n. renew_lease E i ex token n d = Inl invalid_lease)
      \<and> (\<forall>src kind v. append_leased_event E \<lparr>lei_run_id = i, lei_executor_id = ex, lei_lease_token = token,
             lei_source_event_id = src, lei_kind = kind, lei_payload = v\<rparr> d = Inl invalid_lease)
      \<and> (\<forall>src kind v. append_external_leased_event E \<lparr>lei_run_id = i, lei_executor_id = ex,
             lei_lease_token = token, lei_source_event_id = Some src, lei_kind = kind, lei_payload = v\<rparr> d
             = Inl invalid_lease)
      \<and> (\<forall>rq. car_lease_token rq = token \<longrightarrow> \<not> is_ok (create_approval E ex ex i rq d))
      \<and> (\<forall>rq. cir_lease_token rq = token \<longrightarrow> \<not> is_ok (create_input_request E ex ex i rq d))
      \<and> (\<forall>rq. ccr_lease_token rq = token \<longrightarrow> create_checkpoint E ex ex i rq d = Inl invalid_lease)
      \<and> (\<forall>v. request_worker_approval E ex i token v d = Inl invalid_lease)
      \<and> (\<forall>v. request_worker_input E ex i token v d = Inl invalid_lease)
      \<and> (\<forall>safe v. create_worker_checkpoint E ex i token safe v d = Inl invalid_lease))"

lemma verify_lease_refuses:
  assumes "\<forall>r \<in> set (runs d). \<not> owns_lease i ex token r"
  shows "verify_lease E i ex token d = Inl invalid_lease"
proof -
  from assms have "fetch_optional (\<lambda>r. owns_lease i ex token r \<and> expires_after (env_now E) r) (runs d) = None"
    by (simp add: fetch_optional_None)
  then show ?thesis by (simp add: verify_lease_def tx_defs)
qed

lemma bindT_Inl: "m s = Inl e \<Longrightarrow> bindT m f s = Inl e"
  by (simp add: bindT_def)

lemma not_held_fenced:
  assumes "\<forall>r \<in> set (runs d). \<not> owns_lease i ex token r"
  shows "fenced E i ex token d"
proof -
  note [simp] = verify_lease_refuses [OF assms]
    verify_lease_refuses [of "d\<lparr>draws := Suc (draws d)\<rparr>", simplified, OF assms]
  have finish: "finish_leased_run E i ex token out d = Inl invalid_lease" for out
    unfolding finish_leased_run_def by (simp add: bindT_Inl)
  have "\<not> exists_row (owns_lease i ex token) (runs d)" using assms by (simp add: exists_row_iff)
  then have renew: "renew_lease E i ex token n d = Inl invalid_lease" for n
    by (simp add: renew_lease_def tx_defs)
  have approval: "\<not> is_ok (create_approval E ex ex i rq d)" if "car_lease_token rq = token" for rq
    using that by (auto simp: is_ok_def create_approval_def bindT_def liftT_def split: sum.splits)
  have input: "\<not> is_ok (create_input_request E ex ex i rq d)" if "cir_lease_token rq = token" for rq
    using that by (auto simp: is_ok_def create_input_request_def bindT_def liftT_def split: sum.splits)
  have worker: "request_worker_approval E ex i token v d = Inl invalid_lease"
    "request_worker_input E ex i token v d = Inl invalid_lease" for v
    by (simp_all add: request_worker_approval_def request_worker_input_def bindT_def new_v4_def)
  show ?thesis
    unfolding fenced_def
    by (intro conjI allI impI approval input worker renew)
      (simp_all add: complete_leased_run_def fail_leased_run_def interrupt_leased_run_def finish
        append_leased_event_def append_external_leased_event_def append_leased_event_with_accounting_def
        create_checkpoint_def create_worker_checkpoint_def ensure_executor_identity_def tx_defs)
qed

text \<open>C7: A finished run is closed to its executors for ever: once a run has completed, failed, been
  canceled or expired, every later call under any lease of it is refused, in any state the control
  plane moves to.\<close>

theorem finished_run_fenced:
  assumes "reachable d" "find_run i d = Some r" "is_terminal (run_state r)" "execution d d'"
  shows "fenced E i ex token d'"
proof (rule not_held_fenced, intro ballI)
  fix x assume x: "x \<in> set (runs d')"
  from execution_run [OF assms(1,4,2)] obtain r' where r': "find_run i d' = Some r'" "evolve_row r r'"
    by blast
  with assms(3) have "is_terminal (run_state r')" by (simp add: evolve_row_terminal)
  moreover have "x = r'" if "run_id x = i"
    using find_run_member [OF reachable_runs_ok [OF execution_reachable [OF assms(1,4)]] x] that r'(1) by simp
  ultimately show "\<not> owns_lease i ex token x"
    by (auto simp: owns_lease_def dest: terminal_not_holds_lease)
qed

definition demo_canceled :: db where
  "demo_canceled = state_of (cancel_run demo_env 11 demo_leased)"

theorem finished_run_fenced_witness: "fenced demo_env 11 3 25 demo_canceled"
proof -
  have "is_ok (cancel_run demo_env 11 demo_leased)" by code_simp
  then have "execution demo_leased demo_canceled"
    using is_ok_state_of unfolding demo_canceled_def
    by (metis execution.start execution.step control_step.cancel)
  with demo_leased_reachable have reach: "reachable demo_canceled" by (rule execution_reachable)
  have "case find_run 11 demo_canceled of None \<Rightarrow> False | Some r \<Rightarrow> is_terminal (run_state r)" by code_simp
  then obtain r where "find_run 11 demo_canceled = Some r" "is_terminal (run_state r)"
    by (auto split: option.splits)
  with reach show ?thesis by (intro finished_run_fenced [OF reach _ _ execution.start])
qed

section \<open>The sweep\<close>

lemma sweep_runs:
  assumes "interrupt_expired_leases E d = Inr (n, d')"
  shows "map run_essence (runs d') = map run_essence (update_where (lease_expired E)
    (\<lambda>r. interrupt_row E (expiry_error (safe_to_resume d r)) r) (runs d))"
proof -
  from assms have "for_each (map (\<lambda>r. (r, safe_to_resume d r)) (filter (lease_expired E) (runs d)))
      (report_expired E) (d\<lparr>runs := update_where (lease_expired E)
        (\<lambda>r. interrupt_row E (expiry_error (safe_to_resume d r)) r) (runs d)\<rparr>) = Inr ((), d')"
    by (auto simp: interrupt_expired_leases_def tx_simps)
  from obeysD [OF same_essence.obeys_for_each [OF report_expired_essence] this] show ?thesis by simp
qed

lemma find_run_update_all:
  assumes "\<And>r. run_spec (f r) = run_spec r"
  shows "find_run i (d\<lparr>runs := update_where p f (runs d)\<rparr>) = map_option (\<lambda>r. if p r then f r else r) (find_run i d)"
proof -
  have "List.find (\<lambda>r. run_id r = i) (map (\<lambda>r. if p r then f r else r) rs) =
      map_option (\<lambda>r. if p r then f r else r) (List.find (\<lambda>r. run_id r = i) rs)" for rs
    using assms by (induction rs) auto
  then show ?thesis by (simp add: find_run_def fetch_optional_def update_where_def)
qed

lemma sweep_total:
  assumes "consistent d" "fresh_ids E d"
  shows "\<exists>d'. interrupt_expired_leases E d = Inr (length (filter (lease_expired E) (runs d)), d')"
proof -
  let ?f = "\<lambda>r. interrupt_row E (expiry_error (safe_to_resume d r)) r"
  let ?d = "d\<lparr>runs := update_where (lease_expired E) ?f (runs d)\<rparr>"
  let ?xs = "map (\<lambda>r. (r, safe_to_resume d r)) (filter (lease_expired E) (runs d))"
  have "sound d ?d" by (intro update_runs_sound interrupt_row_sound) (auto simp: lease_expired_def)
  with assms(1) have "consistent ?d" by (simp add: sound_def)
  moreover from assms(2) have "fresh_ids E ?d" by (simp add: fresh_ids_def)
  moreover have "find_run (run_id r) ?d \<noteq> None" if "r \<in> set (runs d)" for r
    using that assms(1) find_run_member [of d r]
    by (simp add: find_run_update_all interrupt_row_def clear_lease_def consistent_def)
  ultimately obtain d' where "for_each ?xs (report_expired E) ?d = Inr ((), d')"
    using report_all_total [of ?d E ?xs] by auto
  then show ?thesis by (auto simp: interrupt_expired_leases_def tx_simps)
qed

text \<open>C8: The sweep always succeeds when the identifiers drawn for its events are new, counts the
  expired leases, and interrupts exactly the runs whose lease has expired: such a run is
  interrupted with an error that says whether its last checkpoint allows resuming, and the executor
  that held it is fenced; every other run keeps all its columns but the counter of its log.\<close>

theorem sweep_interrupts_expired:
  assumes "reachable d" "fresh_ids E d"
  shows "\<exists>d'. interrupt_expired_leases E d = Inr (length (filter (lease_expired E) (runs d)), d')
    \<and> (\<forall>i r. find_run i d = Some r \<longrightarrow> (\<exists>r'. find_run i d' = Some r'
         \<and> (if lease_expired E r
            then run_essence r' = run_essence (interrupt_row E (expiry_error (safe_to_resume d r)) r)
                 \<and> (\<forall>E' ex token. fenced E' i ex token d')
            else run_essence r' = run_essence r)))"
proof -
  let ?f = "\<lambda>r. interrupt_row E (expiry_error (safe_to_resume d r)) r"
  from assms have ok: "consistent d" by (blast dest: reachable_consistent)
  with assms(2) obtain d' where d': "interrupt_expired_leases E d = Inr (length (filter (lease_expired E) (runs d)), d')"
    using sweep_total by blast
  have row: "\<exists>r'. find_run i d' = Some r' \<and> run_essence r' = run_essence (if lease_expired E r then ?f r else r)"
    if "find_run i d = Some r" for i r
  proof -
    have "map_option run_essence (find_run i d') =
        map_option run_essence (find_run i (d\<lparr>runs := update_where (lease_expired E) ?f (runs d)\<rparr>))"
      by (rule essence_find_run) (simp add: sweep_runs [OF d'])
    with that show ?thesis
      by (cases "lease_expired E r") (simp_all add: find_run_update_all interrupt_row_def clear_lease_def)
  qed
  have ok': "runs_ok d'"
    using obeysD [OF interrupt_expired_leases_sound d'] ok by (simp add: sound_def consistent_def)
  have "fenced E' i ex token d'" if r: "find_run i d = Some r" "lease_expired E r" for E' i r ex token
  proof (rule not_held_fenced, intro ballI)
    fix x assume x: "x \<in> set (runs d')"
    from row [OF r(1)] r(2) obtain r' where r': "find_run i d' = Some r'" "run_essence r' = run_essence (?f r)"
      by auto
    from arg_cong [OF r'(2), of run_state] have "run_state r' = Interrupted"
      by (simp add: run_essence_def interrupt_row_def clear_lease_def)
    moreover from find_run_member [OF ok' x] r'(1) have "x = r'" if "run_id x = i" using that by simp
    ultimately show "\<not> owns_lease i ex token x" by (auto simp: owns_lease_def)
  qed
  with d' row show ?thesis by (intro exI [of _ d']) force
qed

definition demo_late :: env where
  "demo_late = demo_env\<lparr>env_now := 70000000, env_utc_now := 70000000\<rparr>"

theorem sweep_interrupts_expired_witness:
  "\<exists>d' r. interrupt_expired_leases demo_late demo_leased = Inr (2, d')
     \<and> find_run 11 d' = Some r \<and> run_state r = Interrupted \<and> fenced demo_env 11 3 25 d'"
proof -
  have "list_all (\<lambda>e. ev_event_id e < 20 + draws demo_leased) (events demo_leased)" by code_simp
  then have fresh: "fresh_ids demo_late demo_leased"
    by (auto simp: fresh_ids_def demo_late_def demo_env_def list_all_iff inj_def)
  have two: "length (filter (lease_expired demo_late) (runs demo_leased)) = 2" by code_simp
  have "case find_run 11 demo_leased of None \<Rightarrow> False | Some r \<Rightarrow> lease_expired demo_late r" by code_simp
  then obtain r where r: "find_run 11 demo_leased = Some r" "lease_expired demo_late r"
    by (auto split: option.splits)
  from sweep_interrupts_expired [OF demo_leased_reachable fresh] r obtain d' r' where
    d': "interrupt_expired_leases demo_late demo_leased = Inr (2, d')" "find_run 11 d' = Some r'"
      "run_essence r' = run_essence (interrupt_row demo_late (expiry_error (safe_to_resume demo_leased r)) r)"
      "fenced demo_env 11 3 25 d'"
    unfolding two by (metis (full_types))
  from arg_cong [OF d'(3), of run_state] have "run_state r' = Interrupted"
    by (simp add: run_essence_def interrupt_row_def clear_lease_def)
  with d' show ?thesis by blast
qed

section \<open>Events under a lease\<close>

lemma append_event_present:
  assumes "append_event_tx_with_id E i eid kind payload d = Inr (e, d')"
  shows "e \<in> set (events d') \<and> ev_event_id e = eid \<and> ev_run_id e = i \<and> ev_kind e = kind \<and> ev_payload e = payload"
proof (cases rule: append_event_cases [OF assms])
  case 1
  then show ?thesis by (auto simp: find_event_def dest: fetch_optional_Some)
next
  case (2 r)
  then show ?thesis by (auto simp: core_def new_event_def dest: find_run_Some)
qed

lemma append_leased_event_present:
  assumes "append_leased_event_with_accounting E inp acc d = Inr (e, d')" "lei_source_event_id inp = Some s"
  shows "e \<in> set (events d') \<and> ev_event_id e = s \<and> ev_run_id e = lei_run_id inp
    \<and> ev_kind e = lei_kind inp \<and> ev_payload e = lei_payload inp"
proof (cases "find_event s d")
  case None
  with assms have "append_new_leased_event E inp acc d = Inr (e, d')"
    by (auto simp: append_leased_event_with_accounting_def tx_simps)
  with assms(2) obtain u d1 d2 where
    d2: "append_event_tx_with_id E (lei_run_id inp) s (lei_kind inp) (lei_payload inp) d1 = Inr (e, d2)"
      "(case u of None \<Rightarrow> returnT () | Some t \<Rightarrow> record_model_usage_for_run_tx E (lei_run_id inp) t 0) d2 = Inr ((), d')"
    by (auto simp: append_new_leased_event_def tx_simps)
  have "obeys same_core (case u of None \<Rightarrow> returnT () | Some t \<Rightarrow> record_model_usage_for_run_tx E (lei_run_id inp) t 0)"
    by (auto intro!: core_intros record_model_usage_core split: option.splits)
  from obeysD [OF this d2(2)] have "events d' = events d2" by (simp add: same_core_tables)
  with append_event_present [OF d2(1)] show ?thesis by simp
next
  case (Some x)
  with assms show ?thesis
    by (auto simp: append_leased_event_with_accounting_def tx_simps find_event_def
        split: if_splits dest: fetch_optional_Some)
qed

lemma leased_event_step:
  assumes "append_leased_event_with_accounting E inp acc d = Inr (e, d')"
  shows "control_step d d'"
  using assms
  by (cases acc) (auto intro: control_step.leased_event control_step.external_event
      simp: append_leased_event_def append_external_leased_event_def)

text \<open>C9: An executor that did not see the answer may send an event again: while its lease lasts, the
  same event under the same source identifier is answered with the event first stored and changes
  nothing, so that model usage is charged once, however much happened in between.\<close>

theorem leased_event_replay:
  assumes "reachable d" "append_leased_event_with_accounting E inp acc d = Inr (e, d1)"
    and "lei_source_event_id inp = Some s" "execution d1 d2"
    and "r \<in> set (runs d2)" "owns_lease (lei_run_id inp) (lei_executor_id inp) (lei_lease_token inp) r"
      "expires_after (env_now E') r"
  shows "append_leased_event_with_accounting E' inp acc d2 = Inr (e, d2)"
proof -
  note e = append_leased_event_present [OF assms(2,3)]
  have d1: "reachable d1"
    using assms(1) leased_event_step [OF assms(2)]
    by (blast intro: execution_reachable execution.step execution.start)
  have d2: "consistent d2" "events_kept d1 d2"
    using execution_evolves [OF reachable_consistent [OF d1] assms(4)] by (simp_all add: evolves_def)
  have "x = r" if "x \<in> set (runs d2)" "run_id x = ev_run_id e" for x
    using d2(1) that e assms(5,6) find_run_member [of d2 x] find_run_member [of d2 r]
    by (simp add: consistent_def owns_lease_def)
  with d2(2) e assms(6) have "e \<in> set (events d2)"
    unfolding events_kept_def owns_lease_def by (blast dest: holds_lease_not_terminal)
  moreover from d2(1) have "distinct (map ev_event_id (events d2))" by (simp add: consistent_def log_ok_def)
  ultimately have found: "find_event s d2 = Some e"
    unfolding find_event_def using fetch_optional_unique [of ev_event_id "events d2" e] e by simp
  obtain x where "fetch_optional (\<lambda>r. owns_lease (lei_run_id inp) (lei_executor_id inp) (lei_lease_token inp) r
      \<and> expires_after (env_now E') r) (runs d2) = Some x"
    using assms(5-7) by (cases "fetch_optional (\<lambda>r. owns_lease (lei_run_id inp) (lei_executor_id inp)
      (lei_lease_token inp) r \<and> expires_after (env_now E') r) (runs d2)") (auto simp: fetch_optional_None)
  with found e assms(3) show ?thesis
    by (auto simp: append_leased_event_with_accounting_def tx_simps)
qed

definition demo_usage :: leased_event_input where
  "demo_usage =
     \<lparr>lei_run_id = 11, lei_executor_id = 3, lei_lease_token = 25, lei_source_event_id = Some 6,
      lei_kind = Ev_ModelCompleted,
      lei_payload = json_object [(''usage'', json_object [(''total_tokens'', Number (Integer 5))])]\<rparr>"

definition demo_used :: db where
  "demo_used = state_of (append_leased_event_with_accounting demo_env demo_usage True demo_leased)"

theorem leased_event_replay_witness:
  "\<exists>e. append_leased_event_with_accounting demo_env demo_usage True demo_leased = Inr (e, demo_used)
     \<and> append_leased_event_with_accounting demo_env demo_usage True demo_used = Inr (e, demo_used)"
proof -
  have "is_ok (append_leased_event_with_accounting demo_env demo_usage True demo_leased)" by code_simp
  then obtain e where e: "append_leased_event_with_accounting demo_env demo_usage True demo_leased = Inr (e, demo_used)"
    using is_ok_state_of unfolding demo_used_def by blast
  have "list_ex (\<lambda>r. owns_lease 11 3 25 r \<and> expires_after (env_now demo_env) r) (runs demo_used)"
    by code_simp
  then obtain r where "r \<in> set (runs demo_used)" "owns_lease 11 3 25 r" "expires_after (env_now demo_env) r"
    by (auto simp: list_ex_iff)
  with e show ?thesis
    by (intro exI [of _ e] conjI leased_event_replay [OF demo_leased_reachable e _ execution.start])
      (simp_all add: demo_usage_def)
qed

end
