(* ===== verification/Utf8.thy ===== *)
theory Utf8
  imports Prelude
begin

text \<open>
  UTF-8 as the standard library decodes it: \<open>String::from_utf8_lossy\<close>, which replaces each maximal
  prefix of an ill-formed sequence by U+FFFD, and \<open>chars().take(n)\<close> on well-formed strings.
\<close>

section \<open>Well-formed sequences\<close>

text \<open>The length a lead byte announces, and the range its second byte must be in.\<close>

definition char_width :: "char \<Rightarrow> nat" where
  "char_width c =
     (let b = byte c in
      if b < 0x80 then 1 else if b < 0xC2 then 0 else if b < 0xE0 then 2
      else if b < 0xF0 then 3 else if b < 0xF5 then 4 else 0)"

definition second_ok :: "char \<Rightarrow> char \<Rightarrow> bool" where
  "second_ok c d =
     (let b = byte c; x = byte d in
      if b = 0xE0 then 0xA0 \<le> x \<and> x < 0xC0
      else if b = 0xED then 0x80 \<le> x \<and> x < 0xA0
      else if b = 0xF0 then 0x90 \<le> x \<and> x < 0xC0
      else if b = 0xF4 then 0x80 \<le> x \<and> x < 0x90
      else 0x80 \<le> x \<and> x < 0xC0)"

text \<open>How many bytes at the start of a string a decoder reads: the whole character, or the part of
  it before the first byte that cannot continue it. The flag tells the two apart.\<close>

fun scan_char :: "string \<Rightarrow> nat \<times> bool" where
  "scan_char [] = (0, False)"
| "scan_char (c # cs) =
     (let w = char_width c in
      if w = 0 then (1, False)
      else if w = 1 then (1, True)
      else case cs of
        [] \<Rightarrow> (1, False)
      | d # ds \<Rightarrow>
          if \<not> second_ok c d then (1, False)
          else if w = 2 then (2, True)
          else case ds of
            [] \<Rightarrow> (2, False)
          | e # es \<Rightarrow>
              if \<not> is_continuation e then (2, False)
              else if w = 3 then (3, True)
              else case es of
                [] \<Rightarrow> (3, False)
              | f # _ \<Rightarrow> if is_continuation f then (4, True) else (3, False))"

lemma scan_char_progress: "s \<noteq> [] \<Longrightarrow> 0 < fst (scan_char s)"
  by (cases s) (auto simp: Let_def split: list.splits)

lemma scan_char_decreases: "s \<noteq> [] \<Longrightarrow> scan_char s = (n, ok) \<Longrightarrow> length (drop n s) < length s"
  using scan_char_progress [of s] by (cases s) auto

lemma scan_char_length: "fst (scan_char s) \<le> length s"
  by (cases s) (auto simp: Let_def split: list.splits)

definition replacement_char :: string where
  "replacement_char = [CHR 0xEF, CHR 0xBF, CHR 0xBD]"

function from_utf8_lossy :: "string \<Rightarrow> string" where
  "from_utf8_lossy s =
     (if s = [] then []
      else let (n, ok) = scan_char s in
        (if ok then take n s else replacement_char) @ from_utf8_lossy (drop n s))"
  by auto
termination
proof (relation "measure length")
  fix s x n ok assume "s \<noteq> []" "x = scan_char s" "(n, ok) = x"
  then show "(drop n s, s) \<in> measure length" using scan_char_decreases [of s n ok] by simp
qed simp

declare from_utf8_lossy.simps [simp del]

function utf8 :: "string \<Rightarrow> bool" where
  "utf8 s =
     (if s = [] then True else let (n, ok) = scan_char s in ok \<and> utf8 (drop n s))"
  by auto
termination
proof (relation "measure length")
  fix s x n ok assume "s \<noteq> []" "x = scan_char s" "(n, ok) = x"
  then show "(drop n s, s) \<in> measure length" using scan_char_decreases [of s n ok] by simp
qed simp

declare utf8.simps [simp del]

fun take_chars :: "nat \<Rightarrow> string \<Rightarrow> string" where
  "take_chars n [] = []"
| "take_chars n (c # cs) =
     (if is_continuation c then c # take_chars n cs
      else if n = 0 then [] else c # take_chars (n - 1) cs)"

section \<open>Decoding\<close>

lemma scan_char_cases:
  assumes "snd (scan_char s)"
  obtains c cs where "s = c # cs" "char_width c = 1" "fst (scan_char s) = 1"
  | c d cs where "s = c # d # cs" "char_width c = 2" "second_ok c d" "fst (scan_char s) = 2"
  | c d e cs where "s = c # d # e # cs" "char_width c = 3" "second_ok c d" "is_continuation e"
      "fst (scan_char s) = 3"
  | c d e f cs where "s = c # d # e # f # cs" "char_width c \<notin> {0, 1, 2, 3}" "second_ok c d"
      "is_continuation e" "is_continuation f" "fst (scan_char s) = 4"
  using assms by (cases s) (simp_all add: Let_def split: if_splits list.splits)

lemma scan_char_take:
  assumes "snd (scan_char s)"
  shows "scan_char (take (fst (scan_char s)) s @ t) = scan_char s"
  using assms by (cases rule: scan_char_cases) (simp_all add: Let_def)

lemma utf8_Nil [simp]: "utf8 []"
  by (simp add: utf8.simps)

lemma utf8_step: "snd (scan_char s) \<Longrightarrow> utf8 t \<Longrightarrow> utf8 (take (fst (scan_char s)) s @ t)"
  by (subst utf8.simps) (auto simp: scan_char_take scan_char_length split: prod.splits)

lemma utf8_replacement: "utf8 t \<Longrightarrow> utf8 (replacement_char @ t)"
  by (subst utf8.simps) (simp add: replacement_char_def char_width_def second_ok_def is_continuation_def)

lemma from_utf8_lossy_utf8: "utf8 (from_utf8_lossy s)"
proof (induction s rule: from_utf8_lossy.induct)
  case (1 s)
  show ?case
  proof (cases "s = []")
    case False
    obtain n ok where sc: "scan_char s = (n, ok)" by (cases "scan_char s")
    with 1 False have "utf8 (from_utf8_lossy (drop n s))" by simp
    with False sc show ?thesis
      using utf8_step [of s "from_utf8_lossy (drop n s)"]
      by (subst from_utf8_lossy.simps) (auto simp: utf8_replacement)
  qed (simp add: from_utf8_lossy.simps)
qed

lemma from_utf8_lossy_id: "utf8 s \<Longrightarrow> from_utf8_lossy s = s"
proof (induction s rule: utf8.induct)
  case (1 s)
  show ?case
  proof (cases "s = []")
    case False
    obtain n ok where sc: "scan_char s = (n, ok)" by (cases "scan_char s")
    with 1(2) False have "ok" "utf8 (drop n s)" by (auto simp: utf8.simps [of s])
    with 1(1) False sc have "from_utf8_lossy (drop n s) = drop n s" by simp
    with False sc \<open>ok\<close> show ?thesis by (subst from_utf8_lossy.simps) simp
  qed (simp add: from_utf8_lossy.simps)
qed

lemma take_chars_prefix: "\<exists>t. s = take_chars n s @ t"
  by (induction s arbitrary: n) auto

lemma take_chars_count: "chars_count (take_chars n s) \<le> n"
proof (induction s arbitrary: n)
  case (Cons c cs)
  from Cons [of n] Cons [of "n - 1"] show ?case by (auto simp: chars_count_def)
qed (simp add: chars_count_def)

lemma take_chars_all: "chars_count s \<le> n \<Longrightarrow> take_chars n s = s"
  by (induction s arbitrary: n) (auto simp: chars_count_def split: if_splits)

end
