(* ===== verification/AgentProtocol.thy ===== *)
theory AgentProtocol
  imports AgentRuntime
begin

text \<open>
  What the agent loop does to its host and to the model, as a protocol: an automaton over the calls
  it makes. A host and a client that record their calls behave like the ones they wrap, so that the
  statements about the record hold of every host.
\<close>

section \<open>Recording\<close>

datatype host_call =
    Emitted run_event_kind json
  | Asked chat_completion_request
  | Executed tool_invocation "(anyhow, tool_output) result"
  | Checkpointed json bool

definition recording ::
    "(('e, 'a) result \<Rightarrow> host_call) \<Rightarrow> ('h, 'e, 'a) hx \<Rightarrow> (host_call list \<times> 'h, 'e, 'a) hx" where
  "recording f m = (\<lambda>(l, s). case m s of (t, r) \<Rightarrow> ((l @ [f r], t), r))"

definition recorded_host :: "'h runtime_host \<Rightarrow> (host_call list \<times> 'h) runtime_host" where
  "recorded_host H =
     \<lparr>rh_tools = rh_tools H,
      rh_emit = (\<lambda>k v. recording (\<lambda>_. Emitted k v) (rh_emit H k v)),
      rh_execute_tool = (\<lambda>iv. recording (Executed iv) (rh_execute_tool H iv)),
      rh_checkpoint = (\<lambda>v b. recording (\<lambda>_. Checkpointed v b) (rh_checkpoint H v b))\<rparr>"

definition recorded_client :: "'h model_client \<Rightarrow> (host_call list \<times> 'h) model_client" where
  "recorded_client C =
     \<lparr>mcl_post = (\<lambda>url key rq. recording (\<lambda>_. Asked rq) (mcl_post C url key rq)),
      mcl_completion = mcl_completion C, mcl_from_str = mcl_from_str C, mcl_to_string = mcl_to_string C\<rparr>"

lemma recorded_simps [simp]:
  "rh_tools (recorded_host H) = rh_tools H"
  "rh_emit (recorded_host H) k v = recording (\<lambda>_. Emitted k v) (rh_emit H k v)"
  "rh_execute_tool (recorded_host H) iv = recording (Executed iv) (rh_execute_tool H iv)"
  "rh_checkpoint (recorded_host H) w b = recording (\<lambda>_. Checkpointed w b) (rh_checkpoint H w b)"
  "mcl_post (recorded_client C) url key rq = recording (\<lambda>_. Asked rq) (mcl_post C url key rq)"
  "mcl_completion (recorded_client C) = mcl_completion C"
  "mcl_from_str (recorded_client C) = mcl_from_str C"
  "mcl_to_string (recorded_client C) = mcl_to_string C"
  by (simp_all add: recorded_host_def recorded_client_def)

subsection \<open>Recording changes nothing else\<close>

definition simulates :: "(host_call list \<times> 'h, 'e, 'a) hx \<Rightarrow> ('h, 'e, 'a) hx \<Rightarrow> bool" where
  "simulates m' m = (\<forall>l s. \<exists>l'. m' (l, s) = ((l', fst (m s)), snd (m s)))"

named_theorems sim_intros \<open>handlers over a recording host simulate the plain ones\<close>

lemma sim_recording [sim_intros]: "simulates (recording f m) m"
  by (auto simp: simulates_def recording_def split: prod.splits)

lemma sim_pure [sim_intros]:
  "simulates (returnH x) (returnH x)" "simulates (throwH e) (throwH e)" "simulates (liftH r) (liftH r)"
  by (auto simp: simulates_def returnH_def throwH_def liftH_def)

lemma sim_bind [sim_intros]:
  assumes "simulates m' m" "\<And>x. simulates (f' x) (f x)"
  shows "simulates (bindH m' f') (bindH m f)"
  unfolding simulates_def
proof (intro allI)
  fix l s
  from assms(1) obtain l1 where 1: "m' (l, s) = ((l1, fst (m s)), snd (m s))"
    unfolding simulates_def by blast
  obtain t r where m: "m s = (t, r)" by fastforce
  show "\<exists>l'. bindH m' f' (l, s) = ((l', fst (bindH m f s)), snd (bindH m f s))"
  proof (cases r)
    case (Inl e)
    with 1 m show ?thesis by (auto simp: bindH_def)
  next
    case (Inr x)
    from assms(2) [of x] obtain l2 where "f' x (l1, t) = ((l2, fst (f x t)), snd (f x t))"
      unfolding simulates_def by blast
    with 1 m Inr show ?thesis by (auto simp: bindH_def)
  qed
qed

lemma sim_map:
  "simulates m' m \<Longrightarrow> simulates (\<lambda>s. case m' s of (t, r) \<Rightarrow> (t, f r)) (\<lambda>s. case m s of (t, r) \<Rightarrow> (t, f r))"
  unfolding simulates_def case_prod_beta by (metis fst_conv snd_conv)

lemma sim_wrap [sim_intros]:
  "simulates m' m \<Longrightarrow> simulates (contextH c m') (contextH c m)"
  "simulates n' n \<Longrightarrow> simulates (attemptH n') (attemptH n)"
  unfolding contextH_def attemptH_def by (erule sim_map)+

lemma tool_arguments_recorded: "tool_arguments (recorded_client C) s = tool_arguments C s"
  unfolding tool_arguments_def by (simp split: sum.splits)

lemma read_response_recorded: "read_response (recorded_client C) = read_response C"
  by (rule ext) (simp add: read_response_def)

lemma call_tool_sim [sim_intros]:
  "simulates (call_tool (recorded_client C) (recorded_host H) step call def ms) (call_tool C H step call def ms)"
  unfolding call_tool_def Let_def
  by (auto intro!: sim_intros simp: tool_arguments_recorded)

lemma call_tools_sim [sim_intros]:
  "simulates (call_tools (recorded_client C) (recorded_host H) step calls ms) (call_tools C H step calls ms)"
  by (induction calls arbitrary: ms) (auto intro!: sim_intros split: option.splits)

lemma complete_sim [sim_intros]:
  "simulates (complete (recorded_client C) cfg ms tools) (complete C cfg ms tools)"
  unfolding complete_def by (auto intro!: sim_intros simp: read_response_recorded)

lemma agent_steps_sim [sim_intros]:
  "simulates (agent_steps (recorded_client C) (recorded_host H) cfg n step ms p c) (agent_steps C H cfg n step ms p c)"
  by (induction n arbitrary: step ms p c) (auto intro!: sim_intros simp: Let_def)

lemma agent_execute_sim:
  "simulates (agent_execute (recorded_client C) cfg run (recorded_host H)) (agent_execute C cfg run H)"
  unfolding agent_execute_def by (auto intro!: sim_intros)

section \<open>The protocol\<close>

datatype phase =
    Idle | Asking | Answering | Acting | Calling json | Reporting tool_output | Saving bool | Halted

definition protocol_step :: "tool_definition list \<Rightarrow> phase \<Rightarrow> host_call \<Rightarrow> phase option" where
  "protocol_step tools ph c =
     (case c of
        Emitted k v \<Rightarrow>
          if (ph = Idle \<or> ph = Acting) \<and> k = Ev_ModelStarted then Some Asking
          else if ph = Answering \<and> k = Ev_ModelCompleted then Some Acting
          else if ph = Acting \<and> k = Ev_ToolStarted then Some (Calling v)
          else (case ph of
                  Reporting out \<Rightarrow>
                    if k = (if to_is_error out then Ev_ToolFailed else Ev_ToolCompleted)
                       \<and> get ''safe_to_resume'' v = Some (Bool (to_safe_to_resume out))
                    then Some (Saving (to_safe_to_resume out)) else None
                | _ \<Rightarrow> None)
      | Asked rq \<Rightarrow> if ph = Asking \<and> crq_tools rq = tools then Some Answering else None
      | Executed iv r \<Rightarrow>
          (case ph of
             Calling v \<Rightarrow>
               if get ''tool_call_id'' v = Some (String (ti_id iv)) \<and> get ''tool'' v = Some (String (ti_name iv))
                  \<and> get ''arguments'' v = Some (ti_arguments iv) \<and> is_object (ti_arguments iv)
                  \<and> ti_name iv \<in> set (map td_name tools)
               then Some (Reporting (tool_result r)) else None
           | _ \<Rightarrow> None)
      | Checkpointed _ b \<Rightarrow>
          (case ph of
             Saving safe \<Rightarrow> if b = safe then Some (if safe then Acting else Halted) else None
           | _ \<Rightarrow> None))"

fun protocol :: "tool_definition list \<Rightarrow> phase \<Rightarrow> host_call list \<Rightarrow> phase option" where
  "protocol tools ph [] = Some ph"
| "protocol tools ph (c # cs) = Option.bind (protocol_step tools ph c) (\<lambda>ph'. protocol tools ph' cs)"

definition asked :: "host_call list \<Rightarrow> nat" where
  "asked l = length (filter (\<lambda>c. case c of Asked _ \<Rightarrow> True | _ \<Rightarrow> False) l)"

lemma protocol_snoc: "protocol tools ph (l @ [c]) = Option.bind (protocol tools ph l) (\<lambda>p. protocol_step tools p c)"
  by (induction l arbitrary: ph) (auto split: bind_splits)

lemma asked_snoc: "asked (l @ [c]) = asked l + (case c of Asked _ \<Rightarrow> 1 | _ \<Rightarrow> 0)"
  by (simp add: asked_def split: host_call.splits)

subsection \<open>Triples\<close>

definition triple ::
    "('s \<Rightarrow> bool) \<Rightarrow> ('s, 'e, 'a) hx \<Rightarrow> ('a \<Rightarrow> 's \<Rightarrow> bool) \<Rightarrow> ('s \<Rightarrow> bool) \<Rightarrow> bool" where
  "triple P m Q R = (\<forall>s. P s \<longrightarrow> (case m s of (t, Inr x) \<Rightarrow> Q x t | (t, Inl e) \<Rightarrow> R t))"

lemma tripleD: "triple P m Q R \<Longrightarrow> P s \<Longrightarrow> case m s of (t, Inr x) \<Rightarrow> Q x t | (t, Inl e) \<Rightarrow> R t"
  by (simp add: triple_def)

lemma triple_bind:
  assumes "triple P m Q R" "\<And>x. triple (Q x) (f x) Q' R"
  shows "triple P (bindH m f) Q' R"
  unfolding triple_def
proof (intro allI impI)
  fix s assume "P s"
  with assms(1) have "case m s of (t, Inr x) \<Rightarrow> Q x t | (t, Inl e) \<Rightarrow> R t" by (simp add: triple_def)
  moreover have "case f x t of (u, Inr y) \<Rightarrow> Q' y u | (u, Inl e) \<Rightarrow> R u" if "Q x t" for x t
    using assms(2) [of x] that by (simp add: triple_def)
  ultimately show "case bindH m f s of (t, Inr x) \<Rightarrow> Q' x t | (t, Inl e) \<Rightarrow> R t"
    by (cases "m s"; cases "snd (m s)") (auto simp: bindH_def)
qed

lemma triple_return: "(\<And>s. P s \<Longrightarrow> Q x s) \<Longrightarrow> triple P (returnH x) Q R"
  by (simp add: triple_def returnH_def)

lemma triple_throw: "(\<And>s. P s \<Longrightarrow> R s) \<Longrightarrow> triple P (throwH e) Q R"
  by (simp add: triple_def throwH_def)

lemma triple_lift: "(\<And>s x. P s \<Longrightarrow> r = Inr x \<Longrightarrow> Q x s) \<Longrightarrow> (\<And>s. P s \<Longrightarrow> R s) \<Longrightarrow> triple P (liftH r) Q R"
  by (cases r) (auto simp: triple_def liftH_def)

lemma triple_weaken:
  assumes "triple P m Q R" "\<And>s. P' s \<Longrightarrow> P s" "\<And>x s. Q x s \<Longrightarrow> Q' x s" "\<And>s. R s \<Longrightarrow> R' s"
  shows "triple P' m Q' R'"
  unfolding triple_def
proof (intro allI impI)
  fix s assume "P' s"
  with assms(1,2) have "case m s of (t, Inr x) \<Rightarrow> Q x t | (t, Inl e) \<Rightarrow> R t" by (simp add: triple_def)
  with assms(3,4) show "case m s of (t, Inr x) \<Rightarrow> Q' x t | (t, Inl e) \<Rightarrow> R' t"
    by (auto split: prod.splits sum.splits)
qed

subsection \<open>The loop follows the protocol\<close>

definition at :: "tool_definition list \<Rightarrow> phase \<Rightarrow> nat \<Rightarrow> host_call list \<times> 'h \<Rightarrow> bool" where
  "at tools ph n = (\<lambda>(l, _). protocol tools Idle l = Some ph \<and> asked l = n)"

definition within :: "tool_definition list \<Rightarrow> nat \<Rightarrow> host_call list \<times> 'h \<Rightarrow> bool" where
  "within tools n = (\<lambda>(l, _). (\<exists>ph. protocol tools Idle l = Some ph) \<and> asked l \<le> n)"

lemma at_within: "at tools ph n s \<Longrightarrow> n \<le> m \<Longrightarrow> within tools m s"
  by (auto simp: at_def within_def)

lemma recording_triple:
  fixes h :: "('h, 'e, 'a) hx"
  assumes "\<And>r. protocol_step tools ph (f r) = Some (g r)"
    and "\<And>r. k r = (case f r of Asked _ \<Rightarrow> Suc n | _ \<Rightarrow> n)"
    and "\<And>r. k r \<le> m"
  shows "triple (at tools ph n) (recording f h) (\<lambda>x. at tools (g (Inr x)) (k (Inr x))) (within tools m)"
  unfolding triple_def
proof (intro allI impI)
  fix s :: "host_call list \<times> 'h" assume s: "at tools ph n s"
  obtain l u where su: "s = (l, u)" by (cases s)
  obtain t r where h: "h u = (t, r)" by fastforce
  from s su assms(1) [of r] assms(2) [of r]
  have "at tools (g r) (k r) (l @ [f r], t)"
    by (auto simp: at_def protocol_snoc asked_snoc split: host_call.splits)
  with assms(3) [of r] su h show "case recording f h s of (t, Inr x) \<Rightarrow> at tools (g (Inr x)) (k (Inr x)) t
      | (t, Inl e) \<Rightarrow> within tools m t"
    by (auto simp: recording_def at_within split: sum.splits)
qed

lemma emit_triple:
  assumes "protocol_step tools ph (Emitted k v) = Some ph'" "n \<le> m"
  shows "triple (at tools ph n) (recording (\<lambda>_. Emitted k v) h) (\<lambda>_. at tools ph' n) (within tools m)"
  using assms recording_triple [of tools ph "\<lambda>_. Emitted k v" "\<lambda>_. ph'" "\<lambda>_. n" n m h] by simp

lemma attempt_triple:
  fixes h :: "('h, anyhow, tool_output) hx"
  assumes "\<And>r. protocol_step tools ph (Executed iv r) = Some (Reporting (tool_result r))" "n \<le> m"
  shows "triple (at tools ph n) (attemptH (recording (Executed iv) h))
    (\<lambda>out. at tools (Reporting out) n) (within tools m)"
  unfolding triple_def
proof (intro allI impI)
  fix s :: "host_call list \<times> 'h" assume s: "at tools ph n s"
  obtain l u where su: "s = (l, u)" by (cases s)
  obtain t r where h: "h u = (t, r)" by fastforce
  from s su assms(1) [of r] have "at tools (Reporting (tool_result r)) n (l @ [Executed iv r], t)"
    by (simp add: at_def protocol_snoc asked_snoc)
  with su h show "case attemptH (recording (Executed iv) h) s of (t, Inr x) \<Rightarrow> at tools (Reporting x) n t
      | (t, Inl e) \<Rightarrow> within tools m t"
    by (simp add: attemptH_def recording_def)
qed

lemma advertised_Some: "advertised ts n = Some def \<Longrightarrow> def \<in> set ts \<and> td_name def = n"
  by (auto simp: advertised_def dest!: map_of_SomeD)

lemma tool_arguments_object: "is_object (tool_arguments C s)"
  by (auto simp: tool_arguments_def is_object_def json_object_def split: sum.splits json.splits)

lemma call_tool_triple:
  assumes "advertised (rh_tools H) (mfc_name (mtc_function call)) = Some def" "n \<le> m"
  shows "triple (at (rh_tools H) Acting n) (call_tool (recorded_client C) (recorded_host H) step call def ms)
    (\<lambda>_. at (rh_tools H) Acting n) (within (rh_tools H) m)"
proof -
  let ?T = "rh_tools H" and ?args = "tool_arguments C (mfc_arguments (mtc_function call))"
  let ?iv = "\<lparr>ti_id = mtc_id call, ti_name = mfc_name (mtc_function call), ti_arguments = ?args\<rparr>"
  from assms(1) have def: "def \<in> set ?T" "td_name def = mfc_name (mtc_function call)"
    by (auto dest: advertised_Some)
  have calling: "protocol_step ?T (Calling (started_payload call def ?args)) (Executed ?iv r)
      = Some (Reporting (tool_result r))" for r
    using def(1) tool_arguments_object [of C] unfolding def(2) [symmetric]
    by (auto simp: protocol_step_def started_payload_def get_json_object)
  have report: "protocol_step ?T (Reporting out) (Emitted (if to_is_error out then Ev_ToolFailed
      else Ev_ToolCompleted) (finished_payload call def out)) = Some (Saving (to_safe_to_resume out))" for out
    by (simp add: protocol_step_def finished_payload_def get_json_object)
  have save: "triple (at ?T (Saving (to_safe_to_resume out)) n)
      (recording (\<lambda>_. Checkpointed v (to_safe_to_resume out)) h)
      (\<lambda>_. at ?T (if to_safe_to_resume out then Acting else Halted) n) (within ?T m)" for out v h
    using assms(2) recording_triple [of ?T "Saving (to_safe_to_resume out)" "\<lambda>_. Checkpointed v (to_safe_to_resume out)"
        "\<lambda>_. if to_safe_to_resume out then Acting else Halted" "\<lambda>_. n" n m h]
    by (simp add: protocol_step_def)
  have start: "protocol_step ?T Acting (Emitted Ev_ToolStarted v) = Some (Calling v)" for v
    by (simp add: protocol_step_def)
  have end_call: "triple (at ?T (if to_safe_to_resume out then Acting else Halted) n)
      (if to_safe_to_resume out then returnH ms' else throwH e) (\<lambda>_. at ?T Acting n) (within ?T m)" for out ms' e
    using assms(2) by (auto intro!: triple_return triple_throw intro: at_within)
  show ?thesis
    unfolding call_tool_def Let_def recorded_simps tool_arguments_recorded
    by (intro triple_bind [OF emit_triple [OF start assms(2)]] triple_bind [OF attempt_triple [OF calling assms(2)]]
        triple_bind [OF emit_triple [OF report assms(2)]] triple_bind [OF save end_call])
qed

lemma call_tools_triple:
  assumes "n \<le> m"
  shows "triple (at (rh_tools H) Acting n) (call_tools (recorded_client C) (recorded_host H) step calls ms)
    (\<lambda>_. at (rh_tools H) Acting n) (within (rh_tools H) m)"
proof (induction calls arbitrary: ms)
  case Nil
  show ?case by (auto intro: triple_return)
next
  case (Cons call calls)
  show ?case
  proof (cases "advertised (rh_tools H) (mfc_name (mtc_function call))")
    case None
    with Cons.IH show ?thesis by simp
  next
    case (Some def)
    with triple_bind [OF call_tool_triple [OF Some assms] Cons.IH] show ?thesis by simp
  qed
qed

lemma complete_triple:
  assumes "Suc n \<le> m"
  shows "triple (at tools Asking n) (complete (recorded_client C) cfg ms tools)
    (\<lambda>_. at tools Answering (Suc n)) (within tools m)"
proof -
  have ask: "triple (at tools Asking n) (contextH c (recording (\<lambda>_. Asked rq) h))
      (\<lambda>_. at tools Answering (Suc n)) (within tools m)" if "crq_tools rq = tools" for c rq h
    using that assms
    by (auto simp: triple_def contextH_def recording_def at_def within_def protocol_snoc asked_snoc
        protocol_step_def context_of_def split: prod.splits sum.splits)
  show ?thesis
    unfolding complete_def recorded_simps
    by (rule triple_bind [OF ask]) (auto intro!: triple_lift at_within [OF _ assms])
qed

lemma agent_steps_triple:
  assumes "ph = Idle \<or> ph = Acting"
  shows "triple (at (rh_tools H) ph k)
    (agent_steps (recorded_client C) (recorded_host H) cfg n (Suc k) ms p c)
    (\<lambda>x s. at (rh_tools H) Acting (ar_steps x) s \<and> ar_steps x \<le> k + n) (within (rh_tools H) (k + n))"
  using assms
proof (induction n arbitrary: k ms p c ph)
  case 0
  show ?case by (simp, rule triple_throw) (auto simp: at_def within_def)
next
  case (Suc n)
  let ?T = "rh_tools H"
  from Suc.prems have start: "protocol_step ?T ph (Emitted Ev_ModelStarted v) = Some Asking" for v
    by (auto simp: protocol_step_def)
  have answered: "protocol_step ?T Answering (Emitted Ev_ModelCompleted v) = Some Acting" for v
    by (simp add: protocol_step_def)
  have next_step: "triple (at ?T Acting (Suc k))
      (agent_steps (recorded_client C) (recorded_host H) cfg n (Suc (Suc k)) ms' p' c')
      (\<lambda>x s. at ?T Acting (ar_steps x) s \<and> ar_steps x \<le> k + Suc n) (within ?T (k + Suc n))" for ms' p' c'
    using Suc.IH [of Acting "Suc k" ms' p' c'] by simp
  have choice: "triple (at ?T Answering (Suc k)) (liftH (first_choice r)) (\<lambda>_. at ?T Answering (Suc k))
      (within ?T (k + Suc n))" for r
    by (rule triple_lift) (auto intro: at_within)
  have finish: "triple (at ?T Acting (Suc k)) (returnH x)
      (\<lambda>x s. at ?T Acting (ar_steps x) s \<and> ar_steps x \<le> k + Suc n) (within ?T (k + Suc n))"
    if "ar_steps x = Suc k" for x
    using that by (intro triple_return) simp
  have le: "k \<le> k + Suc n" "Suc k \<le> k + Suc n" by simp_all
  show ?case
    unfolding agent_steps.simps Let_def recorded_simps
    by (intro triple_bind [OF emit_triple [OF start le(1)]] triple_bind [OF complete_triple [OF le(2)]]
        triple_bind [OF choice] triple_bind [OF emit_triple [OF answered le(2)]])
      (simp only: split: if_splits, intro conjI impI finish triple_bind [OF call_tools_triple [OF le(2)] next_step], simp)
qed

end
