(* ===== verification/Crew.thy ===== *)
theory Crew
  imports AgentRuntime
begin

text \<open>
  Crew requests (\<open>crates/cowork-runtime/src/crew.rs\<close>): the tools an agent of a crew may use and the
  capabilities they need, and the preparation of the frozen definition for the pinned runtime. The
  parameter \<open>dbg\<close> renders a string with \<open>{:?}\<close> in error messages and \<open>uuid_text\<close> an identifier.
\<close>

section \<open>Tools\<close>

definition crew_protocol_run_event_kind :: "json \<Rightarrow> run_event_kind" where
  "crew_protocol_run_event_kind event =
     (case get_str ''localAiCoworkEvent'' event of
        None \<Rightarrow> Ev_ModelDelta
      | Some n \<Rightarrow> if n = ''tool_started'' then Ev_ToolStarted
                 else if n = ''tool_completed'' then Ev_ToolCompleted else Ev_ModelDelta)"

definition canonical_crew_tool_id :: "string \<Rightarrow> string" where
  "canonical_crew_tool_id value =
     (let n = replace_char (CHR ''-'') (CHR ''_'') (to_ascii_lowercase (trim value)) in
      if n \<in> {''shell'', ''bashtool''} then ''bash''
      else if n \<in> {''read'', ''filereadtool''} then ''read_file''
      else if n \<in> {''edit'', ''write'', ''fileedittool''} then ''edit_file''
      else if n = ''webfetch'' then ''web_fetch''
      else if n = ''websearch'' then ''web_search''
      else if n = ''mcp_call'' then ''mcp''
      else if n \<in> {''generate_office_workflow'', ''pptx_template_workflow'', ''docx_template_workflow''}
      then ''office_workflow''
      else if n \<in> {''microsoftoffice'', ''office_microsoft''} then ''microsoft_office''
      else n)"

definition crew_tool_capability :: "(string \<Rightarrow> string) \<Rightarrow> string \<Rightarrow> (anyhow, capability option) result" where
  "crew_tool_capability dbg tool =
     (if tool \<in> {''todo'', ''delegate_task'', ''mcp''} then Inr None
      else if tool \<in> {''read_file'', ''edit_file'', ''create_directory'', ''move_path'', ''copy_path'', ''glob'', ''grep''}
      then Inr (Some ''files'')
      else if tool = ''bash'' then Inr (Some ''shell'')
      else if tool \<in> {''web_fetch'', ''web_search''} then Inr (Some ''web.fetch'')
      else if tool = ''office_workflow'' then Inr (Some ''office.ooxml'')
      else if tool = ''microsoft_office'' then Inr (Some ''office.microsoft'')
      else Inl [''Crew tool '' @ dbg tool @ '' is not supported by the pinned runtime''])"

fun collect_tool_ids :: "string list \<Rightarrow> json list \<Rightarrow> (anyhow, string list) result" where
  "collect_tool_ids out [] = Inr out"
| "collect_tool_ids out (v # vs) =
     (case filter_opt (\<lambda>t. t \<noteq> [] \<and> length t \<le> 100) (map_option canonical_crew_tool_id (as_str v)) of
        None \<Rightarrow> Inl [''Crew agent tool names must be strings of at most 100 characters'']
      | Some tool \<Rightarrow> collect_tool_ids (push_unseen out tool) vs)"

definition crew_agent_tool_ids :: "jmap \<Rightarrow> (anyhow, string list) result" where
  "crew_agent_tool_ids agent =
     (case obj_get ''tools'' agent of
        None \<Rightarrow> Inr []
      | Some tools \<Rightarrow>
          bindE (ok_or (as_array tools) [''Crew agent tools must be an array'']) (\<lambda>tools.
          if length tools > 64 then Inl [''Crew agents may select at most 64 tools'']
          else collect_tool_ids [] tools))"

fun allowed_tools ::
    "(string \<Rightarrow> string) \<Rightarrow> (capability \<Rightarrow> bool) \<Rightarrow> string list \<Rightarrow> (anyhow, string list) result" where
  "allowed_tools dbg has [] = Inr []"
| "allowed_tools dbg has (tool # tools) =
     (if tool = ''delegate_task'' \<or> tool = ''mcp'' then allowed_tools dbg has tools
      else bindE (crew_tool_capability dbg tool) (\<lambda>required.
           bindE (case required of
                    None \<Rightarrow> Inr ()
                  | Some c \<Rightarrow> ensure (has c) [''Crew tool '' @ dbg tool @ '' requires executor capability '' @ dbg c]) (\<lambda>_.
           bindE (allowed_tools dbg has tools) (\<lambda>rest. Inr (tool # rest)))))"

definition apply_crew_agent_tool_policy ::
    "(string \<Rightarrow> string) \<Rightarrow> jmap \<Rightarrow> (capability \<Rightarrow> bool) \<Rightarrow> (anyhow, jmap \<times> string list) result" where
  "apply_crew_agent_tool_policy dbg agent has =
     (let agent' = obj_insert ''allowDelegation'' (Bool False) agent in
      bindE (crew_agent_tool_ids agent') (\<lambda>tools.
      bindE (allowed_tools dbg has tools) (\<lambda>allowed. Inr (agent', allowed))))"

fun tool_capabilities ::
    "(string \<Rightarrow> string) \<Rightarrow> capability list \<Rightarrow> string list \<Rightarrow> (anyhow, capability list) result" where
  "tool_capabilities dbg out [] = Inr out"
| "tool_capabilities dbg out (tool # tools) =
     bindE (crew_tool_capability dbg tool) (\<lambda>c.
     tool_capabilities dbg (case c of None \<Rightarrow> out | Some c \<Rightarrow> push_unseen out c) tools)"

definition agent_enabled :: "json \<Rightarrow> bool" where
  "agent_enabled agent = (Option.bind (get ''enabled'' agent) as_bool \<noteq> Some False)"

fun agents_capabilities ::
    "(string \<Rightarrow> string) \<Rightarrow> capability list \<Rightarrow> json list \<Rightarrow> (anyhow, capability list) result" where
  "agents_capabilities dbg out [] = Inr out"
| "agents_capabilities dbg out (agent # agents) =
     (if \<not> agent_enabled agent then agents_capabilities dbg out agents
      else bindE (ok_or (as_object agent) [''Crew agents must be objects'']) (\<lambda>m.
           bindE (crew_agent_tool_ids m) (\<lambda>tools.
           bindE (tool_capabilities dbg out tools) (\<lambda>out'. agents_capabilities dbg out' agents))))"

definition no_agents :: anyhow where
  "no_agents = [''the frozen Crew definition must contain agents'']"

definition required_crew_tool_capabilities ::
    "(string \<Rightarrow> string) \<Rightarrow> json \<Rightarrow> (anyhow, capability list) result" where
  "required_crew_tool_capabilities dbg definition =
     bindE (ok_or (Option.bind (get ''agents'' definition) as_array) no_agents) (\<lambda>agents.
     agents_capabilities dbg [] agents)"

section \<open>Requests\<close>

record crew_model_config =
  cmc_base_url :: string
  cmc_api_key :: "string option"
  cmc_model :: string
  cmc_timeout_ms :: nat
  cmc_verify_tls_certificates :: bool

definition required_string :: "jmap \<Rightarrow> string \<Rightarrow> (anyhow, string) result" where
  "required_string m key =
     bindE (ok_or (trimmed_str (obj_get key m)) [''the frozen Crew definition requires '' @ key]) (\<lambda>v.
     if length v > 4096 then Inl [''the frozen Crew definition '' @ key @ '' exceeds 4096 characters'']
     else Inr v)"

definition task_config_value :: "json \<Rightarrow> string \<Rightarrow> json option" where
  "task_config_value input key =
     Option.bind (get ''task_config'' input) (\<lambda>config.
     or_else (filter_opt (\<lambda>v. \<not> is_null v) (get key config))
       (Option.bind (Option.bind (get ''sync_metadata'' config) as_object) (obj_get key)))"

definition crew_backend_selection ::
    "(string \<Rightarrow> string) \<Rightarrow> json option \<Rightarrow> (anyhow, string option \<times> string option) result" where
  "crew_backend_selection dbg selection =
     (case selection of
        None \<Rightarrow> Inr (None, None)
      | Some v \<Rightarrow>
          bindE (ok_or (as_object v) [''Crew backendSelection must be an object'']) (\<lambda>m.
          let backend = unwrap_or ''openai-compatible'' (map_option trim (Option.bind (obj_get ''backend'' m) as_str)) in
          if backend \<noteq> ''openai-compatible''
          then Inl [''Crew backend '' @ dbg backend @ '' is unavailable to this executor'']
          else
            bindE (required_string m ''profileId'') (\<lambda>profile.
            case trimmed_str (obj_get ''model'' m) of
              None \<Rightarrow> Inr (Some profile, None)
            | Some model \<Rightarrow>
                if length model > 4096 then Inl [''Crew backendSelection model exceeds 4096 characters'']
                else Inr (Some profile, Some model))))"

definition timeout_json :: "crew_model_config \<Rightarrow> json" where
  "timeout_json m = Number (Integer (int (min u64_max (cmc_timeout_ms m))))"

definition crew_provider_json :: "crew_model_config \<Rightarrow> json" where
  "crew_provider_json m =
     json_object [(''baseUrl'', String (cmc_base_url m)),
       (''apiKey'', String (unwrap_or ''localai-cowork'' (cmc_api_key m))),
       (''model'', String (cmc_model m)), (''models'', Array [String (cmc_model m)]),
       (''timeoutMs'', timeout_json m), (''verifyTlsCertificates'', Bool (cmc_verify_tls_certificates m))]"

definition prepare_agent ::
    "(string \<Rightarrow> string) \<Rightarrow> bool \<Rightarrow> json option \<Rightarrow> crew_model_config \<Rightarrow> (string \<times> crew_model_config) list
      \<Rightarrow> json \<Rightarrow> (anyhow, string \<times> json) result" where
  "prepare_agent dbg honor default_selection model profiles agent =
     bindE (ok_or (as_object agent) [''Crew agents must be objects'']) (\<lambda>m.
     bindE (required_string m ''id'') (\<lambda>i.
     let agent_selection = obj_get ''backendSelection'' m;
         m = obj_remove ''backendSelection'' m;
         selection = (if honor then or_else agent_selection default_selection else None) in
     bindE (crew_backend_selection dbg selection) (\<lambda>(profile_id, selected_model).
     bindE (case profile_id of
              None \<Rightarrow> Inr None
            | Some p \<Rightarrow> bindE (ok_or (map_of profiles p)
                [''Crew provider profile '' @ p @ '' was not resolved before dispatch'']) (\<lambda>c. Inr (Some c)))
       (\<lambda>selected_config.
     let existing_model = (if honor then trimmed_str (obj_get ''modelOverride'' m) else None);
         effective_model = unwrap_or (cmc_model (unwrap_or model selected_config))
           (or_else selected_model existing_model);
         m = obj_insert ''providerKind'' (String ''openai-compatible'') m;
         m = obj_insert ''modelOverride'' (String effective_model) m;
         m = (case profile_id of
                Some p \<Rightarrow> obj_insert ''providerProfileId'' (String p) m
              | None \<Rightarrow> obj_remove ''providerProfileId'' m)
     in Inr (i, Object m)))))"

definition task_assigned :: "string list \<Rightarrow> json \<Rightarrow> bool" where
  "task_assigned ids task = (case get_str ''agentId'' task of None \<Rightarrow> False | Some i \<Rightarrow> i \<in> set ids)"

text \<open>\<open>retain\<close> on the dependencies, where they are an array.\<close>

definition prepare_task :: "string list \<Rightarrow> json \<Rightarrow> (anyhow, json) result" where
  "prepare_task task_ids task =
     bindE (ok_or (as_object task) [''Crew tasks must be objects'']) (\<lambda>m.
     bindE (required_string m ''id'') (\<lambda>_.
     Inr (Object (case Option.bind (obj_get ''dependencies'' m) as_array of
       None \<Rightarrow> m
     | Some ds \<Rightarrow> obj_insert ''dependencies'' (Array (filter (\<lambda>d.
         case as_str d of None \<Rightarrow> False | Some i \<Rightarrow> i \<in> set task_ids) ds)) m))))"

definition work_guidelines :: "json \<Rightarrow> jmap \<Rightarrow> jmap" where
  "work_guidelines input request =
     (case trimmed_str (or_else (get ''prompt'' input) (get ''task_instructions'' input)) of
        None \<Rightarrow> request
      | Some prompt \<Rightarrow>
          let existing = unwrap_or [] (trimmed_str (obj_get ''executionGuidelines'' request));
              expected = trimmed_str (task_config_value input ''expected_output'');
              text = existing @ (if existing = [] then [] else blank_line)
                @ ''Work task request:'' @ newline @ prompt
                @ (case expected of
                     None \<Rightarrow> []
                   | Some e \<Rightarrow> blank_line @ ''Expected overall result:'' @ newline @ e)
          in obj_insert ''executionGuidelines'' (String text) request)"

definition context_guidelines :: "json \<Rightarrow> jmap \<Rightarrow> jmap" where
  "context_guidelines input request =
     (case frozen_runtime_context_text input of
        None \<Rightarrow> request
      | Some ctx \<Rightarrow>
          obj_insert ''executionGuidelines'' (String
            (case trimmed_str (obj_get ''executionGuidelines'' request) of
               None \<Rightarrow> ctx
             | Some existing \<Rightarrow> existing @ blank_line @ ctx)) request)"

definition run_fields ::
    "(uuid \<Rightarrow> string) \<Rightarrow> run_spec \<Rightarrow> crew_model_config \<Rightarrow> (string \<times> crew_model_config) list
      \<Rightarrow> (string \<times> json) list" where
  "run_fields uuid_text run model profiles =
     [(''providerConfigs'', json_object [(''openAICompatible'', crew_provider_json model),
         (''byProfile'', json_object (map (\<lambda>(p, m). (p, crew_provider_json m)) profiles))]),
      (''config'', json_object [(''baseUrl'', String (cmc_base_url model)), (''model'', String (cmc_model model)),
         (''timeoutMs'', timeout_json model),
         (''verifyTlsCertificates'', Bool (cmc_verify_tls_certificates model))]),
      (''runId'', String (uuid_text (spec_id run))),
      (''streamId'', String (''server-crew-'' @ uuid_text (spec_id run))),
      (''cwd'', String ''/workspace'')]"

definition prepare_crew_request_internal ::
    "(string \<Rightarrow> string) \<Rightarrow> (uuid \<Rightarrow> string) \<Rightarrow> json \<Rightarrow> run_spec \<Rightarrow> crew_model_config
      \<Rightarrow> (string \<times> crew_model_config) list \<Rightarrow> bool \<Rightarrow> (anyhow, json) result" where
  "prepare_crew_request_internal dbg uuid_text definition run model profiles honor =
     bindE (ok_or (as_object definition) [''the frozen Crew definition must be an object'']) (\<lambda>request.
     bindE (required_string request ''id'') (\<lambda>crew_id.
     bindE (required_string request ''name'') (\<lambda>_.
     let default_selection = obj_get ''defaultBackendSelection'' request;
         request = obj_remove ''defaultBackendSelection'' request in
     bindE (ok_or (Option.bind (obj_get ''agents'' request) as_array) no_agents) (\<lambda>agents.
     bindE (collectE (prepare_agent dbg honor default_selection model profiles) (filter agent_enabled agents))
       (\<lambda>prepared.
     let active_agent_ids = map fst prepared;
         request = obj_insert ''agents'' (Array (map snd prepared)) request in
     bindE (ensure (active_agent_ids \<noteq> []) [''the frozen Crew definition has no enabled agents'']) (\<lambda>_.
     bindE (ok_or (Option.bind (obj_get ''tasks'' request) as_array)
       [''the frozen Crew definition must contain tasks'']) (\<lambda>tasks.
     let assigned = filter (task_assigned active_agent_ids) tasks;
         active_task_ids = List.map_filter (get_str ''id'') assigned in
     bindE (collectE (prepare_task active_task_ids) assigned) (\<lambda>tasks.
     bindE (ensure (tasks \<noteq> []) [''the frozen Crew definition has no tasks assigned to enabled agents'']) (\<lambda>_.
     let request = obj_insert ''tasks'' (Array tasks) request;
         request = fold (\<lambda>(k, v) m. obj_insert k v m) (run_fields uuid_text run model profiles) request;
         request = context_guidelines (spec_input run) (work_guidelines (spec_input run) request);
         request = obj_insert ''id'' (String crew_id) request
     in Inr (Object request))))))))))"

definition prepare_crew_request where
  "prepare_crew_request dbg uuid_text definition run model =
     prepare_crew_request_internal dbg uuid_text definition run model [] False"

definition prepare_crew_request_with_agent_models where
  "prepare_crew_request_with_agent_models dbg uuid_text definition run model profiles =
     prepare_crew_request_internal dbg uuid_text definition run model profiles True"

end
