(* ===== verification/AgentProperties.thy ===== *)
theory AgentProperties
  imports AgentProtocol Crew
begin

text \<open>
  What the agent loop guarantees to every host and model endpoint, and what the tool policy and the
  preparation of crew requests guarantee to the runtime that executes them.
\<close>

section \<open>The agent loop\<close>

text \<open>C10: For every host, model endpoint and run, the agent loop only makes the calls its protocol
  allows: it asks the model at most the configured number of times, offers it exactly the host's
  tools, executes only advertised tools with object arguments, each announced before and reported
  after by an event that carries its identifier and outcome, and checkpoints every outcome with its
  resume flag; after an unsafe one it makes no further call. When it returns, the steps it reports
  are the model calls it made. Recording the calls changes neither the host nor the answer.\<close>

theorem agent_follows_protocol:
  "\<exists>calls ph. agent_execute (recorded_client C) cfg run (recorded_host H) ([], s) =
       ((calls, fst (agent_execute C cfg run H s)), snd (agent_execute C cfg run H s))
     \<and> protocol (rh_tools H) Idle calls = Some ph \<and> asked calls \<le> mc_max_steps cfg
     \<and> (case snd (agent_execute C cfg run H s) of
          Inr x \<Rightarrow> ph = Acting \<and> ar_steps x = asked calls
        | Inl _ \<Rightarrow> True)"
proof -
  obtain calls where sim: "agent_execute (recorded_client C) cfg run (recorded_host H) ([], s) =
      ((calls, fst (agent_execute C cfg run H s)), snd (agent_execute C cfg run H s))"
    using agent_execute_sim [of C cfg run H] unfolding simulates_def by blast
  have start: "at (rh_tools H) Idle 0 ([], s)" by (simp add: at_def asked_def)
  let ?n = "mc_max_steps cfg"
  have "triple (at (rh_tools H) Idle 0) (agent_execute (recorded_client C) cfg run (recorded_host H))
      (\<lambda>x s. at (rh_tools H) Acting (ar_steps x) s \<and> ar_steps x \<le> ?n) (within (rh_tools H) ?n)"
    unfolding agent_execute_def recorded_simps
    using agent_steps_triple [of Idle H 0 C cfg ?n]
    by (intro triple_bind [OF triple_lift [of _ _ "\<lambda>_. at (rh_tools H) Idle 0"]])
      (auto intro: at_within)
  from tripleD [OF this start] sim show ?thesis
    by (cases "snd (agent_execute C cfg run H s)") (auto simp: at_def within_def)
qed

lemma validate_tools_from_iff:
  "validate_tools_from seen ts = Inr () \<longleftrightarrow>
     list_all (\<lambda>t. valid_tool_name (td_name t) \<and> is_object (td_input_schema t)) ts
     \<and> distinct (map td_name ts) \<and> set (map td_name ts) \<inter> set seen = {}"
  by (induction ts arbitrary: seen) auto


section \<open>Crews\<close>

lemma collect_tool_ids_ok:
  "collect_tool_ids out vs = Inr ids \<Longrightarrow> distinct out \<Longrightarrow> distinct ids \<and> set out \<subseteq> set ids"
  by (induction vs arbitrary: out) (fastforce simp: distinct_push_unseen split: option.splits)+

text \<open>A capability of a tool that the agents of a definition need is among those required of the
  executor.\<close>

definition covered :: "(string \<Rightarrow> string) \<Rightarrow> capability set \<Rightarrow> string list \<Rightarrow> bool" where
  "covered dbg caps tools =
     (\<forall>t \<in> set tools. \<exists>c. crew_tool_capability dbg t = Inr c \<and> set_option c \<subseteq> caps)"

lemma covered_mono: "covered dbg A tools \<Longrightarrow> A \<subseteq> B \<Longrightarrow> covered dbg B tools"
  unfolding covered_def by blast

lemma tool_capabilities_covered:
  "tool_capabilities dbg out tools = Inr caps \<Longrightarrow> covered dbg (set caps) tools \<and> set out \<subseteq> set caps"
proof (induction tools arbitrary: out)
  case Nil
  then show ?case by (simp add: covered_def)
next
  case (Cons t ts)
  then obtain c where c: "crew_tool_capability dbg t = Inr c"
    and rest: "tool_capabilities dbg (case c of None \<Rightarrow> out | Some c \<Rightarrow> push_unseen out c) ts = Inr caps"
    by (auto simp: tx_simps)
  from Cons.IH [OF rest] c show ?case by (auto simp: covered_def split: option.splits)
qed

lemma agents_capabilities_covered:
  assumes "agents_capabilities dbg out agents = Inr caps"
  shows "set out \<subseteq> set caps \<and> (\<forall>m. Object m \<in> set agents \<and> agent_enabled (Object m) \<longrightarrow>
    (\<exists>tools. crew_agent_tool_ids m = Inr tools \<and> covered dbg (set caps) tools))"
  using assms
proof (induction agents arbitrary: out)
  case (Cons a as)
  show ?case
  proof (cases "agent_enabled a")
    case False
    with Cons show ?thesis by auto
  next
    case True
    with Cons.prems obtain m tools out' where m: "a = Object m" "crew_agent_tool_ids m = Inr tools"
      "tool_capabilities dbg out tools = Inr out'" "agents_capabilities dbg out' as = Inr caps"
      by (cases a) (auto simp: tx_simps)
    from Cons.IH [OF m(4)] tool_capabilities_covered [OF m(3)] have
      "set out \<subseteq> set caps" "covered dbg (set caps) tools"
      by (auto intro: covered_mono)
    with Cons.IH [OF m(4)] m show ?thesis by auto
  qed
qed simp

lemma allowed_tools_covered:
  assumes "covered dbg caps tools" "\<And>c. c \<in> caps \<Longrightarrow> has c"
  shows "allowed_tools dbg has tools = Inr (filter (\<lambda>t. t \<noteq> ''delegate_task'' \<and> t \<noteq> ''mcp'') tools)"
  using assms(1)
proof (induction tools)
  case (Cons t ts)
  then obtain c where "crew_tool_capability dbg t = Inr c" "set_option c \<subseteq> caps" "covered dbg caps ts"
    by (auto simp: covered_def)
  with Cons.IH assms(2) show ?case by (auto simp: ensure_def split: option.splits)
qed simp

text \<open>C12: The capabilities computed when a crew run is scheduled are those its dispatch asks for: an
  executor that has them all passes the tool policy of every enabled agent, which allows exactly the
  tools the agent selects apart from delegation and MCP, forbids delegation and changes nothing else
  of the agent.\<close>

theorem crew_policy_meets_requirements:
  assumes "required_crew_tool_capabilities dbg definition = Inr caps"
    and "get ''agents'' definition = Some (Array agents)"
    and "Object m \<in> set agents" "agent_enabled (Object m)" "list_all has caps"
  shows "\<exists>tools. crew_agent_tool_ids m = Inr tools
    \<and> apply_crew_agent_tool_policy dbg m has =
        Inr (obj_insert ''allowDelegation'' (Bool False) m,
             filter (\<lambda>t. t \<noteq> ''delegate_task'' \<and> t \<noteq> ''mcp'') tools)"
proof -
  from assms(1,2) have "agents_capabilities dbg [] agents = Inr caps"
    by (simp add: required_crew_tool_capabilities_def ok_or_def)
  from agents_capabilities_covered [OF this] assms(3,4) obtain tools where
    tools: "crew_agent_tool_ids m = Inr tools" "covered dbg (set caps) tools" by blast
  have "crew_agent_tool_ids (obj_insert ''allowDelegation'' (Bool False) m) = crew_agent_tool_ids m"
    by (simp add: crew_agent_tool_ids_def)
  moreover from assms(5) have "allowed_tools dbg has tools =
      Inr (filter (\<lambda>t. t \<noteq> ''delegate_task'' \<and> t \<noteq> ''mcp'') tools)"
    by (intro allowed_tools_covered [OF tools(2)]) (auto simp: list_all_iff)
  ultimately show ?thesis using tools(1) by (simp add: apply_crew_agent_tool_policy_def)
qed

definition demo_agent :: jmap where
  "demo_agent = [(''id'', String ''a''), (''tools'', Array [String ''Shell'', String ''read'', String ''mcp''])]"

theorem crew_policy_meets_requirements_witness:
  "apply_crew_agent_tool_policy id demo_agent (\<lambda>c. c \<in> {''shell'', ''files''}) =
     Inr (obj_insert ''allowDelegation'' (Bool False) demo_agent, [''bash'', ''read_file''])"
proof -
  let ?d = "json_object [(''agents'', Array [Object demo_agent])]"
  have 1: "required_crew_tool_capabilities id ?d = Inr [''shell'', ''files'']" by code_simp
  have 2: "get ''agents'' ?d = Some (Array [Object demo_agent])" by code_simp
  have 3: "crew_agent_tool_ids demo_agent = Inr [''bash'', ''read_file'', ''mcp'']" by code_simp
  have 4: "agent_enabled (Object demo_agent)" by code_simp
  from crew_policy_meets_requirements [OF 1 2 _ 4, of "\<lambda>c. c \<in> {''shell'', ''files''}"] 3
  show ?thesis by simp
qed

section \<open>Crew requests\<close>

lemma prepare_agent_ok:
  assumes "prepare_agent dbg honor sel model profiles agent = Inr (i, a)" "agent_enabled agent"
  shows "agent_enabled a \<and> get_str ''providerKind'' a = Some ''openai-compatible''
    \<and> get ''backendSelection'' a = None \<and> trimmed_str (get ''id'' a) = Some i"
proof -
  from assms(1) obtain m where m: "agent = Object m" by (cases agent) (auto simp: prepare_agent_def tx_simps)
  with assms(1) have "trimmed_str (obj_get ''id'' m) = Some i"
    by (auto simp: prepare_agent_def required_string_def tx_simps Let_def split: if_splits prod.splits)
  with assms m show ?thesis
    by (auto simp: prepare_agent_def tx_simps Let_def agent_enabled_def get_str_def
        split: prod.splits option.splits)
qed

definition dependencies_within :: "string list \<Rightarrow> json \<Rightarrow> bool" where
  "dependencies_within ids task =
     (case Option.bind (get ''dependencies'' task) as_array of
        None \<Rightarrow> True
      | Some ds \<Rightarrow> list_all (\<lambda>d. case as_str d of None \<Rightarrow> False | Some i \<Rightarrow> i \<in> set ids) ds)"

lemma prepare_task_ok:
  assumes "prepare_task ids task = Inr t"
  shows "get_str ''agentId'' t = get_str ''agentId'' task \<and> get_str ''id'' t = get_str ''id'' task
    \<and> dependencies_within ids t"
proof -
  from assms obtain m where m: "task = Object m" by (cases task) (auto simp: prepare_task_def tx_simps)
  with assms show ?thesis
    by (cases "Option.bind (obj_get ''dependencies'' m) as_array")
      (auto simp: prepare_task_def tx_simps get_str_def dependencies_within_def list_all_iff)
qed

lemma prepare_tasks_ids:
  assumes "collectE (prepare_task ids) tasks = Inr ts"
  shows "List.map_filter (get_str ''id'') ts = List.map_filter (get_str ''id'') tasks"
  using collectE_Inr [OF assms]
  by (induction rule: list_all2_induct) (auto simp: map_filter_simps prepare_task_ok split: option.splits)

lemma guidelines_get:
  "k \<noteq> ''executionGuidelines'' \<Longrightarrow>
     obj_get k (context_guidelines input (work_guidelines input' request)) = obj_get k request"
  by (auto simp: context_guidelines_def work_guidelines_def Let_def split: option.splits)

text \<open>C13: A prepared crew request is closed: it has at least one agent and one task, every agent is
  enabled, uses the executor's provider and carries no backend selection of its own, every task is
  assigned to one of these agents, and the dependencies of a task name tasks of the request.\<close>

theorem crew_request_closed:
  assumes "prepare_crew_request_internal dbg uuid_text definition run model profiles honor = Inr v"
  shows "\<exists>agents tasks. get ''agents'' v = Some (Array agents) \<and> agents \<noteq> []
    \<and> get ''tasks'' v = Some (Array tasks) \<and> tasks \<noteq> []
    \<and> list_all (\<lambda>a. agent_enabled a \<and> get_str ''providerKind'' a = Some ''openai-compatible''
        \<and> get ''backendSelection'' a = None) agents
    \<and> list_all (\<lambda>t. task_assigned (List.map_filter (\<lambda>a. trimmed_str (get ''id'' a)) agents) t
        \<and> dependencies_within (List.map_filter (get_str ''id'') tasks) t) tasks"
proof -
  let ?tasks_of = "\<lambda>req prepared. filter (task_assigned (map fst prepared)) req"
  from assms obtain sel crew_id request agents prepared all tasks where
    pa: "collectE (prepare_agent dbg honor sel model profiles) (filter agent_enabled agents) = Inr prepared"
    and ne: "prepared \<noteq> []" "tasks \<noteq> []"
    and pt: "collectE (prepare_task (List.map_filter (get_str ''id'') (?tasks_of all prepared))) (?tasks_of all prepared) = Inr tasks"
    and v: "v = Object (obj_insert ''id'' (String crew_id) (context_guidelines (spec_input run) (work_guidelines (spec_input run)
       (fold (\<lambda>(k, v) m. obj_insert k v m) (run_fields uuid_text run model profiles)
         (obj_insert ''tasks'' (Array tasks) (obj_insert ''agents'' (Array (map snd prepared)) request))))))"
    unfolding prepare_crew_request_internal_def by (auto simp: tx_simps Let_def)
  have agent: "agent_enabled a \<and> get_str ''providerKind'' a = Some ''openai-compatible''
      \<and> get ''backendSelection'' a = None \<and> trimmed_str (get ''id'' a) = Some i"
    if "(i, a) \<in> set prepared" for i a
    by (rule collectE_member [OF pa that], rule prepare_agent_ok) auto
  then have ids: "List.map_filter (\<lambda>a. trimmed_str (get ''id'' a)) (map snd prepared) = map fst prepared"
    by (induction prepared) (force simp: map_filter_simps)+
  have task: "task_assigned (map fst prepared) t
      \<and> dependencies_within (List.map_filter (get_str ''id'') tasks) t" if "t \<in> set tasks" for t
    by (rule collectE_member [OF pt that])
      (auto dest!: prepare_task_ok simp: prepare_tasks_ids [OF pt] task_assigned_def)
  have "get ''agents'' v = Some (Array (map snd prepared))" "get ''tasks'' v = Some (Array tasks)"
    by (simp_all add: v guidelines_get run_fields_def)
  with ne ids agent task show ?thesis
    by (intro exI [of _ "map snd prepared"] exI [of _ tasks]) (auto simp: list_all_iff)
qed

definition demo_crew :: json where
  "demo_crew = json_object [(''id'', String ''c''), (''name'', String ''crew''),
     (''agents'', Array [Object demo_agent]),
     (''tasks'', Array [json_object [(''id'', String ''t''), (''agentId'', String ''a''),
        (''dependencies'', Array [String ''t'', String ''gone''])]])]"

definition demo_crew_run :: run_spec where
  "demo_crew_run =
     \<lparr>spec_schema_version = 2, spec_id = 10, spec_thread_id = 2, spec_project_id = 1,
      spec_project = \<lparr>ref_id = 1, ref_revision = 1\<rparr>, spec_project_privacy = TeamManaged,
      spec_task = None, spec_creator_user_id = 7, spec_executor_target = ServerLinux None,
      spec_required_capabilities = [], spec_input = json_object [(''prompt'', String ''go'')],
      spec_model_profile_id = None, spec_snapshot_id = None, spec_idempotency_key = ''k'',
      spec_created_at = 0\<rparr>"

definition demo_crew_model :: crew_model_config where
  "demo_crew_model = \<lparr>cmc_base_url = ''u'', cmc_api_key = None, cmc_model = ''m'', cmc_timeout_ms = 5,
     cmc_verify_tls_certificates = True\<rparr>"

theorem crew_request_closed_witness:
  "\<exists>v agents tasks. prepare_crew_request_internal id (\<lambda>_. ''u'') demo_crew demo_crew_run demo_crew_model [] False = Inr v
     \<and> get ''agents'' v = Some (Array agents) \<and> agents \<noteq> [] \<and> get ''tasks'' v = Some (Array tasks) \<and> tasks \<noteq> []"
proof -
  have "is_ok (prepare_crew_request_internal id (\<lambda>_. ''u'') demo_crew demo_crew_run demo_crew_model [] False)"
    by code_simp
  then obtain v where "prepare_crew_request_internal id (\<lambda>_. ''u'') demo_crew demo_crew_run demo_crew_model [] False = Inr v"
    by (auto simp: is_ok_def split: sum.splits)
  with crew_request_closed [OF this] show ?thesis by blast
qed

end
