(* ===== verification/SyncCatalog.thy ===== *)
theory SyncCatalog
  imports SyncPublish
begin

text \<open>
  The projections of tasks, schedules and provider profiles into the synchronisation log
  (\<open>sync.rs\<close>): a private project publishes its tasks and schedules to its owner, a profile is
  published to its owner or to every member of its team, and a deleted or lost record leaves a
  tombstone.
\<close>

section \<open>Definitions\<close>

definition executor_target_json :: "env \<Rightarrow> executor_target \<Rightarrow> json" where
  "executor_target_json E target =
     (case target of
        ServerLinux pl \<Rightarrow> json_object [(''kind'', String ''server_linux''), (''pool_id'', optional_uuid E pl)]
      | ManagedWindowsPool pl \<Rightarrow>
          json_object [(''kind'', String ''managed_windows_pool''), (''pool_id'', String (env_uuid E pl))]
      | PersonalDevice dev \<Rightarrow>
          json_object [(''kind'', String ''personal_device''), (''device_id'', String (env_uuid E dev))])"

definition optional_time :: "env \<Rightarrow> time option \<Rightarrow> json" where
  "optional_time E t = (case t of None \<Rightarrow> Null | Some x \<Rightarrow> String (env_time E x))"

definition optional_text :: "string option \<Rightarrow> json" where
  "optional_text t = (case t of None \<Rightarrow> Null | Some x \<Rightarrow> String x)"

text \<open>The newest revision of a task that is not deleted, with its project that is not deleted.\<close>

definition current_task :: "uuid \<Rightarrow> db \<Rightarrow> task_row option" where
  "current_task i d =
     (case order_limit (\<lambda>t. - tsk_revision t) 1 (filter (\<lambda>t. tsk_id t = i \<and> tsk_deleted t = None) (tasks d)) of
        [] \<Rightarrow> None | t # _ \<Rightarrow> Some t)"

definition live_task :: "uuid \<Rightarrow> db \<Rightarrow> (task_row \<times> project_row) option" where
  "live_task i d =
     (case order_limit (\<lambda>t. - tsk_revision t) 1 (filter (\<lambda>t. tsk_id t = i \<and> tsk_deleted t = None
             \<and> find_project (tsk_project_id t) d \<noteq> None) (tasks d)) of
        [] \<Rightarrow> None
      | t # _ \<Rightarrow> map_option (\<lambda>pr. (t, pr)) (find_project (tsk_project_id t) d))"

definition sync_metadata :: "json \<Rightarrow> jmap option" where
  "sync_metadata config = Option.bind (get ''sync_metadata'' config) as_object"

definition metadata_value :: "jmap option \<Rightarrow> string \<Rightarrow> json" where
  "metadata_value metadata key = unwrap_or Null (Option.bind metadata (obj_get key))"

definition metadata_text :: "jmap option \<Rightarrow> string \<Rightarrow> string \<Rightarrow> string" where
  "metadata_text metadata key fallback =
     unwrap_or fallback (Option.bind (Option.bind metadata (obj_get key)) as_str)"

definition task_payload :: "env \<Rightarrow> task_row \<Rightarrow> json" where
  "task_payload E t =
     (let metadata = sync_metadata (tsk_config t) in
      json_object
        [(''task_kind'', String (metadata_text metadata ''task_kind'' ''work'')),
         (''title'', String (tsk_name t)),
         (''description'', String (tsk_instructions t)),
         (''expected_output'', metadata_value metadata ''expected_output''),
         (''project_id'', String (env_uuid E (tsk_project_id t))),
         (''thread_id'', metadata_value metadata ''thread_id''),
         (''runner'', String (metadata_text metadata ''runner'' ''model'')),
         (''crew_id'', metadata_value metadata ''crew_id''),
         (''model'', metadata_value metadata ''model''),
         (''backend_selection'', metadata_value metadata ''backend_selection''),
         (''schedule_expression'', metadata_value metadata ''schedule_expression''),
         (''schedule_enabled'', metadata_value metadata ''schedule_enabled''),
         (''status'', metadata_value metadata ''status''),
         (''note'', metadata_value metadata ''note''),
         (''required_capabilities'', Array (map String (tsk_required_capabilities t))),
         (''default_executor_target'', case tsk_default_target t of None \<Rightarrow> Null | Some x \<Rightarrow> executor_target_json E x),
         (''released'', Bool (tsk_released t)),
         (''canonical_revision'', Number (Integer (tsk_revision t))),
         (''created_at'', String (env_time E (tsk_created t))),
         (''source'', String ''server'')])"

definition publish_canonical_task_tx :: "env \<Rightarrow> uuid \<Rightarrow> bool dbtx" where
  "publish_canonical_task_tx E i =
     bindT (readT (live_task i)) (\<lambda>row.
     case row of
       None \<Rightarrow> returnT False
     | Some (t, pr) \<Rightarrow>
       if prj_privacy pr \<noteq> PrivateLocal then returnT False
       else
         bindT (publish_server_entity_tx E (prj_owner pr) ''task'' i (task_payload E t)) (\<lambda>_.
         bindT (remember_materialization (prj_owner pr) ''task'' i) (\<lambda>_. returnT True)))"

definition live_schedule :: "uuid \<Rightarrow> db \<Rightarrow> (schedule_row \<times> project_row) option" where
  "live_schedule i d =
     Option.bind (fetch_optional (\<lambda>s. sch_id s = i \<and> sch_deleted s = None) (schedules d)) (\<lambda>s.
     map_option (\<lambda>pr. (s, pr)) (find_project (sch_project_id s) d))"

definition schedule_payload :: "env \<Rightarrow> schedule_row \<Rightarrow> json" where
  "schedule_payload E s =
     json_object
       [(''task_id'', String (env_uuid E (sch_task_id s))),
        (''project_id'', String (env_uuid E (sch_project_id s))),
        (''thread_id'', String (env_uuid E (sch_thread_id s))),
        (''cron'', String (sch_cron s)),
        (''timezone'', String (sch_timezone s)),
        (''executor_target'', executor_target_json E (sch_target s)),
        (''input'', sch_input s),
        (''model_profile_id'', optional_uuid E (sch_model_profile s)),
        (''enabled'', Bool (sch_enabled s)),
        (''next_run_at'', optional_time E (sch_next_run s)),
        (''last_triggered_at'', optional_time E (sch_last_triggered s)),
        (''blocked_reason'', optional_text (sch_blocked s)),
        (''canonical_revision'', Number (Integer (sch_revision s))),
        (''created_at'', String (env_time E (sch_created s))),
        (''updated_at'', String (env_time E (sch_updated s))),
        (''source'', String ''server'')]"

definition publish_canonical_schedule_tx :: "env \<Rightarrow> uuid \<Rightarrow> bool dbtx" where
  "publish_canonical_schedule_tx E i =
     bindT (readT (live_schedule i)) (\<lambda>row.
     case row of
       None \<Rightarrow> returnT False
     | Some (s, pr) \<Rightarrow>
       if prj_privacy pr \<noteq> PrivateLocal then returnT False
       else
         bindT (publish_server_entity_tx E (prj_owner pr) ''schedule'' i (schedule_payload E s)) (\<lambda>_.
         bindT (remember_materialization (prj_owner pr) ''schedule'' i) (\<lambda>_. returnT True)))"

definition provider_profile_sync_payload :: "profile_row \<Rightarrow> json" where
  "provider_profile_sync_payload pp =
     (let v = (\<lambda>key. unwrap_or Null (get key (pp_defaults pp))) in
      json_object
        [(''name'', String (pp_name pp)),
         (''provider'', String ''openai-compatible''),
         (''provider_kind'', String (pp_kind pp)),
         (''preset'', v ''preset''),
         (''auth_mode'', v ''auth_mode''),
         (''model'', v ''model''),
         (''timeout_ms'', v ''timeout_ms''),
         (''verify_tls_certificates'', v ''verify_tls_certificates''),
         (''context_window'', v ''context_window''),
         (''temperature'', v ''temperature''),
         (''endpoint_binding'', v ''endpoint_binding''),
         (''has_api_key'', Bool (pp_secret pp \<noteq> None)),
         (''canonical_revision'', Number (Integer (pp_revision pp))),
         (''source'', String ''server'')])"

definition find_profile :: "uuid \<Rightarrow> db \<Rightarrow> profile_row option" where
  "find_profile i d = fetch_optional (\<lambda>p. pp_id p = i \<and> pp_deleted p = None) (profiles d)"

definition members_of :: "uuid \<Rightarrow> db \<Rightarrow> uuid list" where
  "members_of t d = sort (map (\<lambda>(_, u, _). u) (filter (\<lambda>(tm, _, _). tm = t) (team_members d)))"

definition team_profiles :: "uuid \<Rightarrow> db \<Rightarrow> profile_row list" where
  "team_profiles t d = sort_key pp_id (filter (\<lambda>p. pp_team p = Some t \<and> pp_deleted p = None) (profiles d))"

definition publish_canonical_provider_profile_tx :: "env \<Rightarrow> uuid \<Rightarrow> bool dbtx" where
  "publish_canonical_provider_profile_tx E i =
     bindT (readT (find_profile i)) (\<lambda>row.
     case row of
       None \<Rightarrow> returnT False
     | Some pp \<Rightarrow>
       let payload = provider_profile_sync_payload pp in
       bindT (case pp_owner pp of
           Some u \<Rightarrow>
             bindT (publish_server_entity_tx E u ''provider_profile'' i payload) (\<lambda>_.
             remember_materialization u ''provider_profile'' i)
         | None \<Rightarrow>
             (case pp_team pp of
                None \<Rightarrow> returnT ()
              | Some t \<Rightarrow>
                  bindT (readT (members_of t)) (\<lambda>members.
                  for_each members (\<lambda>u. publish_server_entity_tx E u ''provider_profile'' i payload))))
         (\<lambda>_. returnT True))"

definition publish_team_provider_profiles_for_user_tx :: "env \<Rightarrow> uuid \<Rightarrow> uuid \<Rightarrow> unit dbtx" where
  "publish_team_provider_profiles_for_user_tx E t u =
     bindT (readT (team_profiles t)) (\<lambda>rows.
     for_each rows (\<lambda>pp. publish_server_entity_tx E u ''provider_profile'' (pp_id pp)
       (provider_profile_sync_payload pp)))"

definition publish_team_provider_profile_tombstones_for_user_tx :: "env \<Rightarrow> uuid \<Rightarrow> uuid \<Rightarrow> unit dbtx" where
  "publish_team_provider_profile_tombstones_for_user_tx E t u =
     bindT (readT (team_profiles t)) (\<lambda>rows.
     for_each rows (\<lambda>pp. publish_server_tombstone_tx E u ''provider_profile'' (pp_id pp)))"

definition publish_provider_profile_tombstones_tx :: "env \<Rightarrow> uuid \<Rightarrow> uuid option \<Rightarrow> uuid option \<Rightarrow> unit dbtx" where
  "publish_provider_profile_tombstones_tx E i owner team =
     (case owner of
        Some u \<Rightarrow> publish_server_tombstone_tx E u ''provider_profile'' i
      | None \<Rightarrow>
          (case team of
             None \<Rightarrow> returnT ()
           | Some t \<Rightarrow>
               bindT (readT (members_of t)) (\<lambda>members.
               for_each members (\<lambda>u. publish_server_tombstone_tx E u ''provider_profile'' i))))"

section \<open>Frames\<close>

text \<open>
  A projection writes only the synchronisation tables (and, through the quota check, nothing):
  \<open>only_sync\<close> says that the rest of the database is as it was.
\<close>

definition only_sync :: "db \<Rightarrow> db \<Rightarrow> bool" where
  "only_sync d d' =
     (\<exists>es cs ms. d' = d\<lparr>sync_entities := es, sync_changes := cs, materializations := ms\<rparr>)"

interpretation only_sync: state_preorder only_sync
proof
  fix d :: db
  show "only_sync d d"
    unfolding only_sync_def
    by (rule exI [of _ "sync_entities d"], rule exI [of _ "sync_changes d"],
      rule exI [of _ "materializations d"]) simp
qed (auto simp: only_sync_def, blast)

named_theorems sync_intros \<open>transactions that only write the synchronisation tables\<close>

lemmas [sync_intros] = only_sync.obeys_rules

lemma only_syncI: "d' = d\<lparr>sync_entities := es, sync_changes := cs, materializations := ms\<rparr> \<Longrightarrow> only_sync d d'"
  by (auto simp: only_sync_def)

lemma unchanged_only_sync: "obeys (\<lambda>d d'. d' = d) m \<Longrightarrow> obeys only_sync m"
  using only_sync.R_refl by (auto simp: obeys_def)

lemmas [sync_intros] = enforce_storage_quota_unchanged [THEN unchanged_only_sync]

lemma upsert_entity_sync [sync_intros]: "obeys only_sync (writeT (upsert_entity E e))"
proof (rule obeysI)
  fix d x d' assume "writeT (upsert_entity E e) d = Inr (x, d')"
  then have "d' = d\<lparr>sync_entities := sync_entities d', sync_changes := sync_changes d,
      materializations := materializations d\<rparr>"
    by (auto simp: tx_simps upsert_entity_def split: option.splits)
  then show "only_sync d d'" by (rule only_syncI)
qed

lemma append_change_sync [sync_intros]: "obeys only_sync (writeT (append_change u ty i n b v))"
proof (rule obeysI)
  fix d x d' assume "writeT (append_change u ty i n b v) d = Inr (x, d')"
  then have "d' = d\<lparr>sync_entities := sync_entities d, sync_changes := sync_changes d',
      materializations := materializations d\<rparr>"
    by (auto simp: tx_simps append_change_def)
  then show "only_sync d d'" by (rule only_syncI)
qed

lemma remember_materialization_sync [sync_intros]: "obeys only_sync (remember_materialization u ty i)"
proof (rule obeysI)
  fix d x d' assume "remember_materialization u ty i d = Inr (x, d')"
  then have "d' = d\<lparr>sync_entities := sync_entities d, sync_changes := sync_changes d,
      materializations := materializations d'\<rparr>"
    by (auto simp: tx_simps remember_materialization_def)
  then show "only_sync d d'" by (rule only_syncI)
qed

lemma publish_server_entity_sync [sync_intros]: "obeys only_sync (publish_server_entity_tx E u ty i v)"
  unfolding publish_server_entity_tx_def Let_def by (auto intro!: sync_intros)

lemma publish_server_tombstone_sync [sync_intros]: "obeys only_sync (publish_server_tombstone_tx E u ty i)"
  unfolding publish_server_tombstone_tx_def Let_def by (auto intro!: sync_intros)

lemma publish_canonical_project_sync [sync_intros]: "obeys only_sync (publish_canonical_project_tx E p)"
  unfolding publish_canonical_project_tx_def by (auto intro!: sync_intros split: option.splits)

lemma publish_canonical_thread_sync [sync_intros]: "obeys only_sync (publish_canonical_thread_tx E t)"
  unfolding publish_canonical_thread_tx_def
  by (auto intro!: sync_intros split: option.splits prod.splits)

lemma publish_canonical_task_sync [sync_intros]: "obeys only_sync (publish_canonical_task_tx E i)"
  unfolding publish_canonical_task_tx_def by (auto intro!: sync_intros split: option.splits prod.splits)

lemma publish_canonical_schedule_sync [sync_intros]: "obeys only_sync (publish_canonical_schedule_tx E i)"
  unfolding publish_canonical_schedule_tx_def
  by (auto intro!: sync_intros split: option.splits prod.splits)

lemma publish_canonical_provider_profile_sync [sync_intros]:
  "obeys only_sync (publish_canonical_provider_profile_tx E i)"
  unfolding publish_canonical_provider_profile_tx_def Let_def
  by (auto intro!: sync_intros split: option.splits)

lemma publish_team_provider_profiles_sync [sync_intros]:
  "obeys only_sync (publish_team_provider_profiles_for_user_tx E t u)"
  "obeys only_sync (publish_team_provider_profile_tombstones_for_user_tx E t u)"
  "obeys only_sync (publish_provider_profile_tombstones_tx E i owner team)"
  unfolding publish_team_provider_profiles_for_user_tx_def
    publish_team_provider_profile_tombstones_for_user_tx_def publish_provider_profile_tombstones_tx_def
  by (auto intro!: sync_intros split: option.splits)

lemma only_sync_core: "obeys only_sync m \<Longrightarrow> obeys same_core m"
  unfolding obeys_def only_sync_def same_core_def core_def by fastforce

end
