(* ===== verification/Text.thy ===== *)
theory Text
  imports Prelude "HOL-Library.Sublist"
begin

text \<open>
  The operations of \<open>str\<close> that the validation and redaction code uses: \<open>starts_with\<close>,
  \<open>contains\<close>, \<open>split\<close> at a character, \<open>replace\<close> and \<open>lines\<close>. On UTF-8 bytes a substring search
  is the search of the encoded characters, as no encoding is inside another.
\<close>

definition starts_with :: "string \<Rightarrow> string \<Rightarrow> bool" where
  "starts_with p s = prefix p s"

definition ends_with :: "string \<Rightarrow> string \<Rightarrow> bool" where
  "ends_with p s = suffix p s"

definition contains :: "string \<Rightarrow> string \<Rightarrow> bool" where
  "contains p s = sublist p s"

fun split_on :: "char \<Rightarrow> string \<Rightarrow> string list" where
  "split_on c [] = [[]]"
| "split_on c (x # xs) =
     (if x = c then [] # split_on c xs
      else (case split_on c xs of [] \<Rightarrow> [[x]] | w # ws \<Rightarrow> (x # w) # ws))"

text \<open>\<open>chars().any(char::is_control)\<close>: U+0000 to U+001F, U+007F, and U+0080 to U+009F in two bytes.\<close>

fun has_control :: "string \<Rightarrow> bool" where
  "has_control [] = False"
| "has_control (c # s) =
     (byte c < 0x20 \<or> byte c = 0x7F
      \<or> (byte c = 0xC2 \<and> (case s of [] \<Rightarrow> False | x # _ \<Rightarrow> 0x80 \<le> byte x \<and> byte x < 0xA0))
      \<or> has_control s)"

text \<open>\<open>split_whitespace().count()\<close>\<close>

fun count_fields :: "bool \<Rightarrow> string \<Rightarrow> nat" where
  "count_fields inside [] = 0"
| "count_fields inside (a # s) =
     (if white1 (byte a) then count_fields False s
      else if (case s of b # _ \<Rightarrow> white2 (byte a) (byte b) | [] \<Rightarrow> False)
      then count_fields False (tl s)
      else if (case s of b # c # _ \<Rightarrow> white3 (byte a) (byte b) (byte c) | _ \<Rightarrow> False)
      then count_fields False (tl (tl s))
      else (if inside then 0 else 1) + count_fields True s)"

text \<open>\<open>str::split\<close> and \<open>str::replace\<close> with a non-empty pattern: matches from the left, without overlap.\<close>

function split_str :: "string \<Rightarrow> string \<Rightarrow> string list" where
  "split_str p s =
     (if p = [] then [s]
      else if prefix p s then [] # split_str p (drop (length p) s)
      else case s of
        [] \<Rightarrow> [[]]
      | c # cs \<Rightarrow> (case split_str p cs of [] \<Rightarrow> [[c]] | w # ws \<Rightarrow> (c # w) # ws))"
  by pat_completeness auto
termination
proof (relation "measure (\<lambda>(p, s). length s)", goal_cases)
  case (2 p s)
  then have "length p \<le> length s" by (simp add: prefix_length_le)
  with 2 show ?case by (cases p; cases s) simp_all
qed simp_all

declare split_str.simps [simp del]

definition replace_str :: "string \<Rightarrow> string \<Rightarrow> string \<Rightarrow> string" where
  "replace_str p r s = join r (split_str p s)"

section \<open>Splitting\<close>

lemma split_on_ne [simp]: "split_on c s \<noteq> []"
  by (cases s) (auto split: list.splits)

lemma join_Cons: "ws \<noteq> [] \<Longrightarrow> join sep (w # ws) = w @ sep @ join sep ws"
  by (cases ws) simp_all

lemma join_head: "join sep ((x # w) # ws) = x # join sep (w # ws)"
  by (cases ws) simp_all

lemma join_split_on: "join [c] (split_on c s) = s"
proof (induction s)
  case (Cons x xs)
  show ?case
  proof (cases "x = c")
    case True
    with Cons show ?thesis by (simp add: join_Cons)
  next
    case False
    obtain w ws where "split_on c xs = w # ws" by (cases "split_on c xs") auto
    with False Cons show ?thesis by (simp add: join_head)
  qed
qed simp

lemma split_on_free: "w \<in> set (split_on c s) \<Longrightarrow> c \<notin> set w"
proof (induction s arbitrary: w)
  case (Cons x xs)
  then show ?case by (cases "split_on c xs") (auto split: if_splits)
qed simp

lemma split_str_ne [simp]: "split_str p s \<noteq> []"
  by (subst split_str.simps) (auto split: list.splits)

text \<open>\<open>split\<close> is undone by joining with the pattern, and no piece contains it.\<close>

lemma join_split_str: "p \<noteq> [] \<Longrightarrow> join p (split_str p s) = s"
proof (induction p s rule: split_str.induct)
  case (1 p s)
  show ?case
  proof (cases "prefix p s")
    case True
    then have "p @ drop (length p) s = s" by (auto simp: prefix_def)
    with True 1 show ?thesis by (subst split_str.simps) (simp add: join_Cons)
  next
    case False
    show ?thesis
    proof (cases s)
      case Nil
      with 1 False show ?thesis by (simp add: split_str.simps)
    next
      case (Cons c cs)
      obtain w ws where "split_str p cs = w # ws" by (cases "split_str p cs") auto
      with False 1 Cons show ?thesis by (subst split_str.simps) (simp add: join_head)
    qed
  qed
qed

lemma head_prefix: "ws \<noteq> [] \<Longrightarrow> prefix (hd ws) (join p ws)"
  by (cases ws; cases "tl ws") auto

lemma split_str_free:
  "p \<noteq> [] \<Longrightarrow> w \<in> set (split_str p s) \<Longrightarrow> \<not> sublist p w"
proof (induction p s arbitrary: w rule: split_str.induct)
  case (1 p s)
  show ?case
  proof (cases "prefix p s")
    case True
    with 1 show ?thesis by (auto simp: split_str.simps [of p s])
  next
    case False
    show ?thesis
    proof (cases s)
      case Nil
      with 1 False show ?thesis by (simp add: split_str.simps)
    next
      case (Cons c cs)
      obtain v vs where split: "split_str p cs = v # vs" by (cases "split_str p cs") auto
      have free: "\<not> sublist p u" if "u \<in> set (v # vs)" for u
        using 1 False Cons that split by auto
      have "prefix (c # v) s"
        using head_prefix [of "v # vs" p] join_split_str [OF 1(3), of cs] split Cons by simp
      with False have "\<not> prefix p (c # v)" by (meson prefix_order.order_trans)
      with free have "\<not> sublist p (c # v)" by (simp add: sublist_Cons_right)
      with free 1(3,4) False Cons split show ?thesis
        by (auto simp: split_str.simps [of p "c # cs"])
    qed
  qed
qed

section \<open>Replacing\<close>

text \<open>
  A pattern clashes with a replacement when an occurrence of it may use part of an inserted
  replacement: an end of one is a beginning of the other, or one contains the other.
\<close>

definition overlaps :: "string \<Rightarrow> string \<Rightarrow> bool" where
  "overlaps a b = (\<exists>n \<in> {1..length a}. prefix (drop (length a - n) a) b)"

definition clashes :: "string \<Rightarrow> string \<Rightarrow> bool" where
  "clashes p r = (overlaps p r \<or> overlaps r p \<or> sublist p r \<or> sublist r p)"

lemma overlapsI: "a = u @ v \<Longrightarrow> b = v @ w \<Longrightarrow> v \<noteq> [] \<Longrightarrow> overlaps a b"
  unfolding overlaps_def by (rule bexI [of _ "length v"]) (auto simp: Suc_le_eq)

lemma sublist_append_no_overlap:
  assumes "sublist p (x @ y)" "\<not> sublist p x" "\<not> sublist p y"
  obtains a b where "p = a @ b" "a \<noteq> []" "b \<noteq> []" "suffix a x" "prefix b y"
proof -
  from assms have "\<exists>a b. p = a @ b \<and> suffix a x \<and> prefix b y" by (simp add: sublist_append)
  then obtain a b where p: "p = a @ b" "suffix a x" "prefix b y" by blast
  with assms have "a \<noteq> []" "b \<noteq> []" by auto
  with p that show ?thesis by blast
qed

lemma sublist_across:
  assumes "sublist p (x @ r @ y)" "\<not> clashes p r"
  shows "sublist p x \<or> sublist p y"
proof (rule ccontr)
  assume no: "\<not> ?thesis"
  have r: "\<not> sublist p r" "\<not> sublist r p" "\<not> overlaps p r" "\<not> overlaps r p"
    using assms(2) by (auto simp: clashes_def)
  have tail: "\<not> sublist p (r @ y)"
  proof
    assume "sublist p (r @ y)"
    from this r(1) obtain a b where "p = a @ b" "a \<noteq> []" "suffix a r"
      using no by (elim sublist_append_no_overlap) auto
    then show False using r(4) by (auto simp: suffix_def intro: overlapsI)
  qed
  from assms(1) no tail obtain a b where p: "p = a @ b" "b \<noteq> []" "prefix b (r @ y)"
    by (elim sublist_append_no_overlap) auto
  then consider "prefix b r" | c where "b = r @ c" by (auto simp: prefix_append)
  then show False
  proof cases
    case 1
    with p r(3) show ?thesis by (auto simp: prefix_def intro: overlapsI)
  next
    case 2
    with p r(2) show ?thesis by (auto simp: sublist_def)
  qed
qed

lemma sublist_join:
  "sublist p (join r ws) \<Longrightarrow> \<not> clashes p r \<Longrightarrow> p \<noteq> [] \<Longrightarrow> \<exists>w \<in> set ws. sublist p w"
proof (induction ws)
  case (Cons w ws)
  show ?case
  proof (cases "ws = []")
    case False
    with Cons have "sublist p w \<or> sublist p (join r ws)"
      by (intro sublist_across [of p w r]) (simp_all add: join_Cons)
    with Cons show ?thesis by auto
  qed (use Cons in simp)
qed simp

lemma piece_sublist: "w \<in> set ws \<Longrightarrow> sublist w (join p ws)"
proof (induction ws)
  case (Cons v ws)
  show ?case
  proof (cases "ws = []")
    case False
    with Cons show ?thesis
      by (auto simp: join_Cons intro: sublist_append_rightI sublist_appendI
        dest: sublist_order.order_trans [OF _ sublist_append_leftI])
  qed (use Cons in simp)
qed simp

text \<open>
  Replacing removes every occurrence of a pattern that does not clash with the replacement, and
  brings no other such text into being.
\<close>

lemma replace_removes:
  "p \<noteq> [] \<Longrightarrow> \<not> clashes p r \<Longrightarrow> \<not> contains p (replace_str p r s)"
  unfolding contains_def replace_str_def by (blast dest: sublist_join split_str_free)

lemma replace_adds_nothing:
  assumes "contains q (replace_str p r s)" "\<not> clashes q r" "q \<noteq> []" "p \<noteq> []"
  shows "contains q s"
proof -
  from assms obtain w where "w \<in> set (split_str p s)" "sublist q w"
    unfolding contains_def replace_str_def by (blast dest: sublist_join)
  then have "sublist q (join p (split_str p s))"
    using piece_sublist sublist_order.order_trans by blast
  with assms(4) show ?thesis by (simp add: contains_def join_split_str)
qed

section \<open>Lines\<close>

text \<open>\<open>str::lines\<close>: the pieces between line feeds without a trailing empty one, each without a
  carriage return at its end.\<close>

definition strip_cr :: "string \<Rightarrow> string" where
  "strip_cr l = (if l \<noteq> [] \<and> last l = CHR 0x0D then butlast l else l)"

definition lines :: "string \<Rightarrow> string list" where
  "lines s =
     (let ls = split_on (CHR 0x0A) s in map strip_cr (if last ls = [] then butlast ls else ls))"

end
