(* ===== verification/IpAddr.thy ===== *)
theory IpAddr
  imports Text "HOL-Library.Word"
begin

text \<open>
  Addresses of \<open>std::net\<close> as words of their width, their octets and segments, and the parser
  behind \<open>str::parse::<IpAddr>\<close>: dotted decimal without leading zeros, and colon-separated
  hexadecimal groups with at most one \<open>::\<close> and an optional dotted tail.
\<close>

unbundle bit_operations_syntax

type_synonym ipv4 = "32 word"
type_synonym ipv6 = "128 word"

datatype ip_addr = V4 ipv4 | V6 ipv6

definition octet :: "nat \<Rightarrow> ipv4 \<Rightarrow> 8 word" where
  "octet i a = ucast (drop_bit (8 * (3 - i)) a)"

definition ipv4_new :: "8 word \<Rightarrow> 8 word \<Rightarrow> 8 word \<Rightarrow> 8 word \<Rightarrow> ipv4" where
  "ipv4_new a b c d =
     push_bit 24 (ucast a) OR push_bit 16 (ucast b) OR push_bit 8 (ucast c) OR ucast d"

definition segment :: "nat \<Rightarrow> ipv6 \<Rightarrow> 16 word" where
  "segment i a = ucast (drop_bit (16 * (7 - i)) a)"

definition ipv6_new :: "16 word list \<Rightarrow> ipv6" where
  "ipv6_new gs = foldl (\<lambda>a g. push_bit 16 a OR ucast g) 0 gs"

section \<open>Parsing\<close>

definition digit :: "nat \<Rightarrow> char \<Rightarrow> nat option" where
  "digit radix c =
     (let n = byte c;
          v = (if 48 \<le> n \<and> n \<le> 57 then Some (n - 48)
               else if 97 \<le> n \<and> n \<le> 122 then Some (n - 87)
               else if 65 \<le> n \<and> n \<le> 90 then Some (n - 55) else None)
      in case v of None \<Rightarrow> None | Some d \<Rightarrow> if d < radix then Some d else None)"

text \<open>The digits are read greedily; too many of them, or a value beyond the type, fail.\<close>

definition read_number :: "nat \<Rightarrow> nat \<Rightarrow> nat \<Rightarrow> bool \<Rightarrow> string \<Rightarrow> (nat \<times> string) option" where
  "read_number radix bound max_digits zero_prefix s =
     (let ds = takeWhile (\<lambda>c. digit radix c \<noteq> None) s;
          v = foldl (\<lambda>n c. n * radix + the (digit radix c)) 0 ds in
      if ds = [] \<or> length ds > max_digits \<or> v > bound
         \<or> (\<not> zero_prefix \<and> hd ds = CHR ''0'' \<and> length ds > 1)
      then None else Some (v, drop (length ds) s))"

definition read_given_char :: "char \<Rightarrow> string \<Rightarrow> string option" where
  "read_given_char c s = (case s of [] \<Rightarrow> None | x # xs \<Rightarrow> if x = c then Some xs else None)"

definition read_separator :: "char \<Rightarrow> nat \<Rightarrow> (string \<Rightarrow> ('a \<times> string) option) \<Rightarrow> string \<Rightarrow> ('a \<times> string) option" where
  "read_separator sep index p s =
     (if index = 0 then p s else Option.bind (read_given_char sep s) p)"

fun read_octets :: "nat \<Rightarrow> nat \<Rightarrow> string \<Rightarrow> (nat list \<times> string) option" where
  "read_octets i 0 s = Some ([], s)"
| "read_octets i (Suc n) s =
     (case read_separator (CHR ''.'') i (read_number 10 255 3 False) s of
        None \<Rightarrow> None
      | Some (v, t) \<Rightarrow> map_option (\<lambda>(vs, u). (v # vs, u)) (read_octets (Suc i) n t))"

definition read_ipv4_addr :: "string \<Rightarrow> (ipv4 \<times> string) option" where
  "read_ipv4_addr s =
     (case read_octets 0 4 s of
        Some ([a, b, c, d], t) \<Rightarrow>
          Some (ipv4_new (of_nat a) (of_nat b) (of_nat c) (of_nat d), t)
      | _ \<Rightarrow> None)"

text \<open>
  \<open>read_groups\<close>: up to \<open>n\<close> groups, the last two of them possibly written as an embedded address;
  what was read, whether an embedded address ended it, and the rest.
\<close>

fun read_groups :: "nat \<Rightarrow> nat \<Rightarrow> string \<Rightarrow> 16 word list \<times> bool \<times> string" where
  "read_groups i 0 s = ([], False, s)"
| "read_groups i (Suc n) s =
     (case (if n > 0 then read_separator (CHR '':'') i read_ipv4_addr s else None) of
        Some (a, t) \<Rightarrow>
          ([ucast (drop_bit 16 a), ucast a], True, t)
      | None \<Rightarrow>
          (case read_separator (CHR '':'') i (read_number 16 65535 4 True) s of
             None \<Rightarrow> ([], False, s)
           | Some (g, t) \<Rightarrow>
               (case read_groups (Suc i) n t of (gs, v4, u) \<Rightarrow> (of_nat g # gs, v4, u))))"

definition read_ipv6_addr :: "string \<Rightarrow> (ipv6 \<times> string) option" where
  "read_ipv6_addr s =
     (case read_groups 0 8 s of (front, v4, t) \<Rightarrow>
        if length front = 8 then Some (ipv6_new front, t)
        else if v4 then None
        else Option.bind (read_given_char (CHR '':'') t) (\<lambda>t.
             Option.bind (read_given_char (CHR '':'') t) (\<lambda>t.
             case read_groups 0 (8 - (length front + 1)) t of (back, _, u) \<Rightarrow>
               Some (ipv6_new (front @ replicate (8 - length front - length back) 0 @ back), u))))"

definition parse_ip :: "string \<Rightarrow> ip_addr option" where
  "parse_ip s =
     (case (case read_ipv4_addr s of
              Some (a, t) \<Rightarrow> Some (V4 a, t)
            | None \<Rightarrow> map_option (\<lambda>(a, t). (V6 a, t)) (read_ipv6_addr s)) of
        Some (a, []) \<Rightarrow> Some a
      | _ \<Rightarrow> None)"

definition is_ip :: "string \<Rightarrow> bool" where
  "is_ip s = (parse_ip s \<noteq> None)"

section \<open>Octets of an address\<close>

lemma octet_nat:
  "unat (octet 0 a) = unat a div 16777216"
  "unat (octet 1 a) = unat a div 65536 mod 256"
  "unat (octet 2 a) = unat a div 256 mod 256"
  "unat (octet 3 a) = unat a mod 256"
  using unsigned_less [of a, where ?'a = nat]
  by (simp_all add: octet_def unsigned_ucast_eq drop_bit_eq_div take_bit_eq_mod unat_div_distrib
    less_mult_imp_div_less)

text \<open>An address in brackets, as \<open>Url::host_str\<close> gives an IPv6 host, is not an address.\<close>

lemma bracket_not_ip: "\<not> is_ip (CHR ''['' # s)"
proof -
  have digits: "digit 10 (CHR ''['') = None" "digit 16 (CHR ''['') = None"
    by (simp_all add: digit_def)
  have sizes: "(4::nat) = Suc 3" "(8::nat) = Suc 7" by simp_all
  have four: "read_ipv4_addr (CHR ''['' # s) = None"
    unfolding read_ipv4_addr_def sizes read_octets.simps
    by (simp add: digits read_separator_def read_number_def)
  have "read_groups 0 8 (CHR ''['' # s) = ([], False, CHR ''['' # s)"
    unfolding sizes read_groups.simps
    by (simp add: digits four read_separator_def read_number_def)
  with four show ?thesis
    by (simp add: is_ip_def parse_ip_def read_ipv6_addr_def read_given_char_def)
qed

end
