(* ===== verification/McpBindings.thy ===== *)
theory McpBindings
  imports SyncPublish AgentRuntime IpAddr
begin

text \<open>
  Bindings of synchronised MCP servers to the Linux executor (\<open>mcp_bindings.rs\<close>): what a binding may
  contain, its sealed row per project, the match between the servers a run selects and the
  bindings of its project, and the resolution of a run's bindings for the sandbox.

  The envelope encryption of the object store and the encoding of a binding by \<open>serde_json\<close> are
  parameters; a \<open>BTreeMap\<close> is the list of its entries in the order of their keys.
\<close>

section \<open>Errors\<close>

text \<open>\<open>Display\<close> of an \<open>ApiError\<close>, and the chain it becomes inside an \<open>anyhow::Error\<close>.\<close>

fun api_error_text :: "api_error \<Rightarrow> string" where
  "api_error_text (BadRequest m) = m"
| "api_error_text (Unauthorized m) = m"
| "api_error_text (NotFound m) = m"
| "api_error_text (Conflict m) = m"
| "api_error_text (Unprocessable m) = m"
| "api_error_text (Quota m) = m"
| "api_error_text (DatabaseError m) = m"
| "api_error_text (JsonError m) = m"
| "api_error_text (Internal m) = ''internal server error''"

definition api_chain :: "api_error \<Rightarrow> anyhow" where
  "api_chain e = (case e of Internal m \<Rightarrow> [''internal server error'', m] | _ \<Rightarrow> [api_error_text e])"

definition map_err :: "('e \<Rightarrow> 'f) \<Rightarrow> ('e, 'a) result \<Rightarrow> ('f, 'a) result" where
  "map_err f r = (case r of Inl e \<Rightarrow> Inl (f e) | Inr x \<Rightarrow> Inr x)"

definition map_errH :: "('e \<Rightarrow> 'f) \<Rightarrow> ('s, 'e, 'a) hx \<Rightarrow> ('s, 'f, 'a) hx" where
  "map_errH f h = (\<lambda>s. case h s of (t, r) \<Rightarrow> (t, map_err f r))"

section \<open>Data\<close>

definition MAX_NAME_BYTES :: nat where "MAX_NAME_BYTES = 256"
definition MAX_COMMAND_BYTES :: nat where "MAX_COMMAND_BYTES = 32 * 1024"
definition MAX_ARGUMENTS :: nat where "MAX_ARGUMENTS = 256"
definition MAX_ARGUMENT_BYTES :: nat where "MAX_ARGUMENT_BYTES = 64 * 1024"
definition MAX_ENVIRONMENT :: nat where "MAX_ENVIRONMENT = 64"
definition MAX_ENVIRONMENT_KEY_BYTES :: nat where "MAX_ENVIRONMENT_KEY_BYTES = 256"
definition MAX_ENVIRONMENT_VALUE_BYTES :: nat where "MAX_ENVIRONMENT_VALUE_BYTES = 64 * 1024"
definition MAX_HEADERS :: nat where "MAX_HEADERS = 64"
definition MAX_HEADER_KEY_BYTES :: nat where "MAX_HEADER_KEY_BYTES = 256"
definition MAX_HEADER_VALUE_BYTES :: nat where "MAX_HEADER_VALUE_BYTES = 64 * 1024"
definition MAX_ENCODED_BINDING_BYTES :: nat where "MAX_ENCODED_BINDING_BYTES = 512 * 1024"
definition MAX_CREW_MCP_SERVERS :: nat where "MAX_CREW_MCP_SERVERS = 64"

datatype mcp_transport = Stdio | StreamableHttp | Sse

fun transport_name :: "mcp_transport \<Rightarrow> string" where
  "transport_name Stdio = ''stdio''"
| "transport_name StreamableHttp = ''streamable_http''"
| "transport_name Sse = ''sse''"

type_synonym text_map = "(string \<times> string) list"

record stored_binding =
  sb_name :: string
  sb_transport :: mcp_transport
  sb_command :: string
  sb_args :: "string list"
  sb_environment :: text_map
  sb_url :: string
  sb_headers :: text_map

record resolved_binding =
  rb_name :: string
  rb_transport :: string
  rb_command :: string
  rb_args :: "string list"
  rb_environment :: text_map
  rb_url :: string
  rb_headers :: text_map

record set_binding_request =
  sbr_name :: string
  sbr_transport :: string
  sbr_command :: string
  sbr_args :: "string list"
  sbr_environment :: text_map
  sbr_url :: string
  sbr_headers :: text_map
  sbr_expected_revision :: "int option"

record frozen_mcp_reference =
  fmr_entity_id :: uuid
  fmr_name :: string

record object_store =
  os_seal_for_user :: "uuid \<Rightarrow> string \<Rightarrow> (api_error, sealed_value) result"
  os_seal_for_team :: "uuid \<Rightarrow> string \<Rightarrow> (api_error, sealed_value) result"
  os_open_for_user :: "uuid \<Rightarrow> sealed_value \<Rightarrow> (api_error, string) result"
  os_open_for_team :: "uuid \<Rightarrow> sealed_value \<Rightarrow> (api_error, string) result"

record binding_codec =
  bc_encode :: "stored_binding \<Rightarrow> string"
  bc_decode :: "string \<Rightarrow> (string, stored_binding) result"

definition remote_transport :: "resolved_binding \<Rightarrow> bool" where
  "remote_transport b = (rb_transport b = ''streamable_http'' \<or> rb_transport b = ''sse'')"

definition secret_values :: "resolved_binding \<Rightarrow> string list" where
  "secret_values b =
     filter (\<lambda>v. v \<noteq> []) (map snd (if remote_transport b then rb_headers b else rb_environment b))"

definition text_map_json :: "text_map \<Rightarrow> json" where
  "text_map_json m = Object (map (\<lambda>(k, v). (k, String v)) m)"

definition sandbox_value :: "resolved_binding \<Rightarrow> json" where
  "sandbox_value b =
     (if remote_transport b then
        json_object [(''name'', String (rb_name b)), (''transport'', String (rb_transport b)),
          (''url'', String (rb_url b)), (''headers'', text_map_json (rb_headers b))]
      else
        json_object [(''name'', String (rb_name b)), (''transport'', String ''stdio''),
          (''command'', String (rb_command b)), (''args'', Array (map String (rb_args b))),
          (''environment'', text_map_json (rb_environment b))])"

section \<open>What a binding may contain\<close>

definition to_ascii_uppercase :: "string \<Rightarrow> string" where
  "to_ascii_uppercase s =
     map (\<lambda>c. if 97 \<le> byte c \<and> byte c \<le> 122 then char_of (byte c - 32) else c) s"

abbreviation NUL :: char where "NUL \<equiv> CHR 0x00"

definition environment_entry_bad :: "string \<times> string \<Rightarrow> bool" where
  "environment_entry_bad kv =
     (case kv of (key, value) \<Rightarrow>
        key = [] \<or> length key > MAX_ENVIRONMENT_KEY_BYTES
        \<or> to_ascii_uppercase key \<in> set [''HTTP_PROXY'', ''HTTPS_PROXY'', ''ALL_PROXY'', ''NO_PROXY'']
        \<or> CHR ''='' \<in> set key \<or> NUL \<in> set key \<or> has_control key
        \<or> length value > MAX_ENVIRONMENT_VALUE_BYTES \<or> NUL \<in> set value)"

definition validate_stdio_binding :: "stored_binding \<Rightarrow> (api_error, unit) result" where
  "validate_stdio_binding b =
     (if sb_url b \<noteq> [] \<or> sb_headers b \<noteq> []
      then Inl (Unprocessable ''stdio MCP bindings may not contain an HTTP URL or headers'')
      else if sb_command b = [] \<or> length (sb_command b) > MAX_COMMAND_BYTES \<or> NUL \<in> set (sb_command b)
      then Inl (Unprocessable ''MCP command is missing or invalid'')
      else if length (sb_args b) > MAX_ARGUMENTS
        \<or> list_ex (\<lambda>a. length a > MAX_ARGUMENT_BYTES \<or> NUL \<in> set a) (sb_args b)
      then Inl (Unprocessable ''MCP arguments exceed the server safety limits'')
      else if length (sb_environment b) > MAX_ENVIRONMENT \<or> list_ex environment_entry_bad (sb_environment b)
      then Inl (Unprocessable ''MCP environment exceeds the server safety limits'')
      else Inr ())"

definition is_http_token_byte :: "char \<Rightarrow> bool" where
  "is_http_token_byte c =
     (is_ascii_alphanumeric c
      \<or> byte c \<in> {33, 35, 36, 37, 38, 39, 42, 43, 45, 46, 94, 95, 96, 124, 126})"

definition is_reserved_mcp_header :: "string \<Rightarrow> bool" where
  "is_reserved_mcp_header n =
     (n \<in> set [''accept'', ''connection'', ''content-length'', ''content-type'', ''host'', ''http-proxy'',
        ''https-proxy'', ''mcp-protocol-version'', ''mcp-session-id'', ''origin'',
        ''proxy-authorization'', ''te'', ''trailer'', ''transfer-encoding'', ''upgrade''])"

text \<open>\<open>any\<close> over the headers, with the set of the lower-case names met so far.\<close>

fun headers_bad :: "string list \<Rightarrow> text_map \<Rightarrow> bool" where
  "headers_bad seen [] = False"
| "headers_bad seen ((n, v) # hs) =
     (n = [] \<or> length n > MAX_HEADER_KEY_BYTES \<or> \<not> list_all is_http_token_byte n
      \<or> to_ascii_lowercase n \<in> set seen \<or> is_reserved_mcp_header (to_ascii_lowercase n)
      \<or> length v > MAX_HEADER_VALUE_BYTES
      \<or> \<not> list_all (\<lambda>c. byte c = 9 \<or> (0x20 \<le> byte c \<and> byte c \<le> 0x7E)) v
      \<or> headers_bad (to_ascii_lowercase n # seen) hs)"

definition local_host :: "string \<Rightarrow> bool" where
  "local_host host =
     (let lower = to_ascii_lowercase host in
      is_ip host \<or> lower = ''localhost'' \<or> lower = ''localhost.localdomain''
      \<or> list_ex (\<lambda>suffix. ends_with suffix lower) [''.localhost'', ''.local'', ''.internal'', ''.home.arpa''])"

definition validate_http_binding :: "env \<Rightarrow> stored_binding \<Rightarrow> (api_error, unit) result" where
  "validate_http_binding E b =
     (if sb_command b \<noteq> [] \<or> sb_args b \<noteq> [] \<or> sb_environment b \<noteq> []
      then Inl (Unprocessable ''remote HTTP MCP bindings may not contain stdio command fields'')
      else
        bindE (ok_or (env_parse_url E (sb_url b)) (Unprocessable ''MCP endpoint URL is invalid'')) (\<lambda>url.
        if url_scheme url \<noteq> ''https'' \<or> url_host_str url = None \<or> url_port_or_known_default url \<noteq> Some 443
           \<or> url_username url \<noteq> [] \<or> url_password url \<noteq> None \<or> url_query url \<noteq> None
           \<or> url_fragment url \<noteq> None
        then Inl (Unprocessable
          ''remote HTTP MCP endpoints require HTTPS port 443 without userinfo, query, or fragment'')
        else if local_host (trim_end_matches (CHR ''.'') (unwrap_or [] (url_host_str url)))
        then Inl (Unprocessable ''remote HTTP MCP endpoints must use a public DNS hostname'')
        else if length (sb_headers b) > MAX_HEADERS \<or> headers_bad [] (sb_headers b)
        then Inl (Unprocessable
          ''MCP HTTP headers exceed the safety limits or override protocol headers'')
        else Inr ()))"

definition validate_stored_binding :: "env \<Rightarrow> stored_binding \<Rightarrow> (api_error, unit) result" where
  "validate_stored_binding E b =
     (if sb_name b = [] \<or> length (sb_name b) > MAX_NAME_BYTES
      then Inl (Unprocessable (''MCP binding name must contain 1 to '' @ nat_text MAX_NAME_BYTES @ '' bytes''))
      else case sb_transport b of
        Stdio \<Rightarrow> validate_stdio_binding b
      | StreamableHttp \<Rightarrow> validate_http_binding E b
      | Sse \<Rightarrow> validate_http_binding E b)"

definition parse_transport :: "string \<Rightarrow> (api_error, mcp_transport) result" where
  "parse_transport s =
     (if s = [] \<or> s = ''stdio'' then Inr Stdio
      else if s = ''streamable_http'' then Inr StreamableHttp
      else if s = ''sse'' then Inr Sse
      else Inl (Unprocessable ''MCP transport must be stdio, streamable_http, or sse''))"

definition validated_binding :: "env \<Rightarrow> set_binding_request \<Rightarrow> (api_error, stored_binding) result" where
  "validated_binding E rq =
     bindE (parse_transport (trim (sbr_transport rq))) (\<lambda>transport.
     let b = \<lparr>sb_name = trim (sbr_name rq), sb_transport = transport,
              sb_command = trim (sbr_command rq), sb_args = sbr_args rq,
              sb_environment = sbr_environment rq, sb_url = trim (sbr_url rq),
              sb_headers = sbr_headers rq\<rparr> in
     bindE (validate_stored_binding E b) (\<lambda>_. Inr b))"

text \<open>\<open>rsplit(['/', '\'])\<close> up to its first piece.\<close>

definition binding_hint :: "stored_binding \<Rightarrow> string" where
  "binding_hint b =
     (case sb_transport b of
        Stdio \<Rightarrow> rev (takeWhile (\<lambda>c. c \<noteq> CHR ''/'' \<and> c \<noteq> CHR 0x5C) (rev (sb_command b)))
      | StreamableHttp \<Rightarrow> ''HTTPS endpoint''
      | Sse \<Rightarrow> ''HTTPS SSE endpoint'')"

definition binding_secret_keys :: "stored_binding \<Rightarrow> text_map" where
  "binding_secret_keys b =
     (case sb_transport b of
        Stdio \<Rightarrow> sb_environment b | StreamableHttp \<Rightarrow> sb_headers b | Sse \<Rightarrow> sb_headers b)"

definition binding_etag :: "env \<Rightarrow> uuid \<Rightarrow> uuid \<Rightarrow> int \<Rightarrow> string" where
  "binding_etag E p i revision =
     ''W/'' @ [CHR 0x22] @ env_uuid E p @ '':'' @ env_uuid E i @ '':'' @ int_text revision @ [CHR 0x22]"

section \<open>The servers a run selects\<close>

definition mcp_metadata_array :: "json \<Rightarrow> json list option" where
  "mcp_metadata_array input =
     Option.bind (get ''frozen_runtime_context'' input) (\<lambda>c. Option.bind (get ''mcp_metadata'' c) as_array)"

definition frozen_reference_of :: "env \<Rightarrow> json \<Rightarrow> (api_error, frozen_mcp_reference) result" where
  "frozen_reference_of E v =
     bindE (ok_or (get_str ''entity_id'' v) (Unprocessable ''frozen MCP metadata is missing its entity_id'')) (\<lambda>s.
     bindE (ok_or (env_parse_uuid E s)
       (Unprocessable ''frozen MCP metadata contains an invalid entity_id'')) (\<lambda>i.
     bindE (ok_or (trimmed_str (Option.bind (get ''definition'' v) (get ''name'')))
       (Unprocessable ''frozen MCP metadata is missing its name'')) (\<lambda>n.
     Inr \<lparr>fmr_entity_id = i, fmr_name = n\<rparr>)))"

definition frozen_mcp_references :: "env \<Rightarrow> json \<Rightarrow> (api_error, frozen_mcp_reference list) result" where
  "frozen_mcp_references E input =
     (case mcp_metadata_array input of
        None \<Rightarrow> Inr []
      | Some values \<Rightarrow> collectE (frozen_reference_of E) values)"

definition run_selects_mcp :: "json \<Rightarrow> bool" where
  "run_selects_mcp input = (case mcp_metadata_array input of None \<Rightarrow> False | Some vs \<Rightarrow> vs \<noteq> [])"

text \<open>Insertion into a \<open>BTreeSet\<close>, the list of its elements in order.\<close>

definition btree_insert :: "'a::linorder \<Rightarrow> 'a list \<Rightarrow> 'a list" where
  "btree_insert x xs = (if x \<in> set xs then xs else insort x xs)"

definition valid_server_name :: "string \<Rightarrow> bool" where
  "valid_server_name n = (n \<noteq> [] \<and> length n \<le> MAX_NAME_BYTES \<and> \<not> has_control n)"

fun requested_names :: "string list \<Rightarrow> json list \<Rightarrow> (api_error, string list) result" where
  "requested_names names [] = Inr names"
| "requested_names names (v # vs) =
     bindE (ok_or (filter_opt valid_server_name (map_option trim (as_str v)))
       (Unprocessable ''Crew agent mcpServerNames contains an invalid name'')) (\<lambda>n.
     let names' = btree_insert n names in
     if length names' > MAX_CREW_MCP_SERVERS
     then Inl (Unprocessable (''Crew definitions may reference at most ''
       @ nat_text MAX_CREW_MCP_SERVERS @ '' MCP servers''))
     else requested_names names' vs)"

fun agents_names :: "string list \<Rightarrow> json list \<Rightarrow> (api_error, string list) result" where
  "agents_names names [] = Inr names"
| "agents_names names (a # as) =
     (if Option.bind (get ''enabled'' a) as_bool = Some False then agents_names names as
      else case get ''mcpServerNames'' a of
        None \<Rightarrow> agents_names names as
      | Some v \<Rightarrow>
          bindE (ok_or (as_array v) (Unprocessable ''Crew agent mcpServerNames must be an array'')) (\<lambda>vs.
          bindE (requested_names names vs) (\<lambda>names'. agents_names names' as)))"

definition crew_requested_mcp_names :: "json \<Rightarrow> (api_error, string list) result" where
  "crew_requested_mcp_names input =
     (if get_str ''task_runner'' input \<noteq> Some ''crew'' then Inr []
      else
        bindE (ok_or (Option.bind (Option.bind (get ''crew_definition'' input) (get ''agents'')) as_array)
          (Unprocessable ''the frozen Crew definition must contain an agents array'')) (\<lambda>agents.
        agents_names [] agents))"

definition display_names :: "env \<Rightarrow> string list \<Rightarrow> string" where
  "display_names E names = (if names = [] then ''none'' else join '', '' (map (env_debug E) names))"

definition ensure_crew_mcp_selection :: "env \<Rightarrow> json \<Rightarrow> (api_error, unit) result" where
  "ensure_crew_mcp_selection E input =
     (if get_str ''task_runner'' input \<noteq> Some ''crew'' then Inr ()
      else
        bindE (crew_requested_mcp_names input) (\<lambda>requested.
        bindE (frozen_mcp_references E input) (\<lambda>references.
        let selected = fold btree_insert (map fmr_name references) [] in
        if requested = selected then Inr ()
        else Inl (Unprocessable (''Crew MCP selection must exactly match enabled agent mcpServerNames; ''
          @ ''missing selections: '' @ display_names E (filter (\<lambda>n. n \<notin> set selected) requested)
          @ ''; selected but unused: '' @ display_names E (filter (\<lambda>n. n \<notin> set requested) selected))))))"

section \<open>Rows\<close>

definition find_binding :: "uuid \<Rightarrow> uuid \<Rightarrow> db \<Rightarrow> mcp_binding_row option" where
  "find_binding p i d = fetch_optional (\<lambda>b. mb_project_id b = p \<and> mb_entity_id b = i) (mcp_bindings d)"

definition list_bindings :: "env \<Rightarrow> uuid \<Rightarrow> uuid \<Rightarrow> mcp_binding_row list handler" where
  "list_bindings E u p =
     bindH (commit (ensure_project_role E u p Viewer)) (\<lambda>_.
     commit (readT (\<lambda>d. sort_key (\<lambda>b. (mb_name b, mb_entity_id b))
       (filter (\<lambda>b. mb_project_id b = p) (mcp_bindings d)))))"

definition ensure_owned_mcp_metadata :: "env \<Rightarrow> uuid \<Rightarrow> uuid \<Rightarrow> string \<Rightarrow> unit dbtx" where
  "ensure_owned_mcp_metadata E u i requested_name =
     bindT (readT (\<lambda>d. fetch_optional (\<lambda>e. se_user e = u \<and> se_type e = ''mcp_metadata''
       \<and> se_entity e = i \<and> \<not> se_tombstone e) (sync_entities d))) (\<lambda>row.
     bindT (liftT (ok_or row (Unprocessable (''MCP metadata '' @ env_uuid E i
       @ '' is unavailable or deleted for the current user'')))) (\<lambda>e.
     let metadata_name = unwrap_or [] (map_option trim (Option.bind (se_payload e) (get_str ''name''))) in
     ensureT (\<not> (metadata_name = [] \<or> metadata_name \<noteq> trim requested_name))
       (Unprocessable ''MCP binding name must exactly match the synchronized metadata name'')))"

definition project_key_scope :: "env \<Rightarrow> uuid \<Rightarrow> (uuid \<times> uuid option) dbtx" where
  "project_key_scope E p =
     bindT (readT (find_project p)) (\<lambda>row.
     bindT (liftT (ok_or row (NotFound (''project '' @ env_uuid E p @ '' was not found'')))) (\<lambda>pr.
     returnT (prj_owner pr, prj_team pr)))"

definition next_binding_revision :: "int option \<Rightarrow> int option \<Rightarrow> (api_error, int) result" where
  "next_binding_revision current expected =
     (case (current, expected) of
        (None, None) \<Rightarrow> Inr 1
      | (None, Some _) \<Rightarrow> Inl (Conflict ''MCP binding does not exist; create it without expected_revision'')
      | (Some _, None) \<Rightarrow> Inl (Conflict ''MCP binding already exists; reload it before updating'')
      | (Some c, Some e) \<Rightarrow>
          if c = e then Inr (c + 1)
          else Inl (Conflict ''MCP binding revision changed; reload before updating''))"

definition write_binding :: "env \<Rightarrow> mcp_binding_row \<Rightarrow> int option \<Rightarrow> mcp_binding_row dbtx" where
  "write_binding E new expected =
     bindT (readT (\<lambda>d. exists_row (\<lambda>b. mb_project_id b = mb_project_id new \<and> mb_name b = mb_name new
       \<and> mb_entity_id b \<noteq> mb_entity_id new) (mcp_bindings d))) (\<lambda>duplicate.
     bindT (ensureT (\<not> duplicate) (Conflict (''another MCP binding in this project already uses the name ''
       @ env_debug E (mb_name new)))) (\<lambda>_.
     bindT (readT (find_binding (mb_project_id new) (mb_entity_id new))) (\<lambda>current.
     bindT (liftT (next_binding_revision (map_option mb_revision current) expected)) (\<lambda>revision.
     let row = new\<lparr>mb_revision := revision,
       mb_etag := binding_etag E (mb_project_id new) (mb_entity_id new) revision,
       mb_created := (case current of None \<Rightarrow> env_now E | Some b \<Rightarrow> mb_created b),
       mb_updated := env_now E\<rparr> in
     bindT (writeT (\<lambda>d. d\<lparr>mcp_bindings := (case current of
         None \<Rightarrow> mcp_bindings d @ [row]
       | Some _ \<Rightarrow> update_where (\<lambda>b. mb_project_id b = mb_project_id new \<and> mb_entity_id b = mb_entity_id new)
           (\<lambda>_. row) (mcp_bindings d))\<rparr>)) (\<lambda>_. returnT row)))))"

definition set_binding ::
    "env \<Rightarrow> binding_codec \<Rightarrow> object_store option \<Rightarrow> uuid \<Rightarrow> uuid \<Rightarrow> uuid \<Rightarrow> set_binding_request
      \<Rightarrow> mcp_binding_row handler" where
  "set_binding E C store u p i rq =
     bindH (commit (ensure_project_role E u p Editor)) (\<lambda>_.
     bindH (commit (ensure_owned_mcp_metadata E u i (sbr_name rq))) (\<lambda>_.
     bindH (liftH (validated_binding E rq)) (\<lambda>b.
     let encoded = bc_encode C b in
     bindH (liftH (ensure (length encoded \<le> MAX_ENCODED_BINDING_BYTES)
       (Unprocessable (''MCP binding exceeds '' @ nat_text MAX_ENCODED_BINDING_BYTES @ '' encoded bytes'')))) (\<lambda>_.
     bindH (commit (project_key_scope E p)) (\<lambda>(owner, team).
     bindH (liftH (ok_or store (Conflict ''encrypted MCP binding storage is not configured''))) (\<lambda>S.
     bindH (liftH (case team of Some t \<Rightarrow> os_seal_for_team S t encoded
                              | None \<Rightarrow> os_seal_for_user S owner encoded)) (\<lambda>sealed.
     commit (write_binding E \<lparr>mb_project_id = p, mb_entity_id = i, mb_revision = 1, mb_etag = [],
       mb_owner = owner, mb_team = team, mb_name = sb_name b,
       mb_transport = transport_name (sb_transport b), mb_hint = binding_hint b,
       mb_argument_count = int (length (sb_args b)),
       mb_environment_keys = Array (map (String \<circ> fst) (binding_secret_keys b)),
       mb_sealed = sealed, mb_created = env_now E, mb_updated = env_now E\<rparr>
       (sbr_expected_revision rq)))))))))"

definition delete_binding :: "env \<Rightarrow> uuid \<Rightarrow> uuid \<Rightarrow> uuid \<Rightarrow> int \<Rightarrow> unit handler" where
  "delete_binding E u p i expected =
     bindH (commit (ensure_project_role E u p Editor)) (\<lambda>_.
     commit (
       let hit = (\<lambda>b. mb_project_id b = p \<and> mb_entity_id b = i \<and> mb_revision b = expected) in
       bindT (readT (\<lambda>d. exists_row hit (mcp_bindings d))) (\<lambda>deleted.
       bindT (writeT (\<lambda>d. d\<lparr>mcp_bindings := filter (\<lambda>b. \<not> hit b) (mcp_bindings d)\<rparr>)) (\<lambda>_.
       ensureT deleted (Conflict ''MCP binding revision changed or the binding no longer exists'')))))"

section \<open>Bindings of a run\<close>

fun check_references :: "env \<Rightarrow> (uuid \<times> string) list \<Rightarrow> frozen_mcp_reference list \<Rightarrow> (api_error, unit) result" where
  "check_references E bound [] = Inr ()"
| "check_references E bound (r # rs) =
     (case map_of (rev bound) (fmr_entity_id r) of
        None \<Rightarrow> Inl (Unprocessable (''MCP metadata '' @ env_uuid E (fmr_entity_id r)
          @ '' has no encrypted Linux server binding for this project''))
      | Some name \<Rightarrow>
          if name \<noteq> fmr_name r
          then Inl (Unprocessable (''MCP metadata '' @ env_uuid E (fmr_entity_id r)
            @ '' was renamed; replace its Linux server binding before running it''))
          else check_references E bound rs)"

definition bindings_for :: "uuid \<Rightarrow> frozen_mcp_reference list \<Rightarrow> db \<Rightarrow> mcp_binding_row list" where
  "bindings_for p references d =
     filter (\<lambda>b. mb_project_id b = p \<and> mb_entity_id b \<in> set (map fmr_entity_id references)) (mcp_bindings d)"

definition ensure_server_bindings_for_run :: "env \<Rightarrow> uuid \<Rightarrow> json \<Rightarrow> unit dbtx" where
  "ensure_server_bindings_for_run E p input =
     bindT (liftT (frozen_mcp_references E input)) (\<lambda>references.
     if references = [] then returnT ()
     else
       bindT (readT (\<lambda>d. map (\<lambda>b. (mb_entity_id b, mb_name b)) (bindings_for p references d))) (\<lambda>bound.
       liftT (check_references E bound references)))"

definition open_binding ::
    "env \<Rightarrow> binding_codec \<Rightarrow> object_store \<Rightarrow> frozen_mcp_reference list \<Rightarrow> mcp_binding_row
      \<Rightarrow> (anyhow, uuid \<times> resolved_binding) result" where
  "open_binding E C S references row =
     bindE (map_err api_chain (case mb_team row of
         Some t \<Rightarrow> os_open_for_team S t (mb_sealed row)
       | None \<Rightarrow> os_open_for_user S (mb_owner row) (mb_sealed row))) (\<lambda>plaintext.
     bindE (map_err (\<lambda>e. [e]) (bc_decode C plaintext)) (\<lambda>b.
     bindE (map_err (\<lambda>e. [api_error_text e]) (validate_stored_binding E b)) (\<lambda>_.
     bindE (ok_or (List.find (\<lambda>r. fmr_entity_id r = mb_entity_id row) references)
       [''unexpected MCP binding '' @ env_uuid E (mb_entity_id row)]) (\<lambda>r.
     bindE (ensure (sb_name b = fmr_name r)
       [''MCP metadata '' @ env_uuid E (mb_entity_id row)
         @ '' was renamed after its Linux binding was created'']) (\<lambda>_.
     Inr (mb_entity_id row,
       \<lparr>rb_name = sb_name b, rb_transport = transport_name (sb_transport b), rb_command = sb_command b,
        rb_args = sb_args b, rb_environment = sb_environment b, rb_url = sb_url b,
        rb_headers = sb_headers b\<rparr>))))))"

text \<open>\<open>HashMap::remove\<close> per reference: a second reference to the same entity finds nothing.\<close>

fun take_resolved ::
    "env \<Rightarrow> (uuid \<times> resolved_binding) list \<Rightarrow> frozen_mcp_reference list \<Rightarrow> (anyhow, resolved_binding list) result" where
  "take_resolved E resolved [] = Inr []"
| "take_resolved E resolved (r # rs) =
     bindE (ok_or (map_of (rev resolved) (fmr_entity_id r))
       [''MCP metadata '' @ env_uuid E (fmr_entity_id r) @ '' has no encrypted Linux server binding'']) (\<lambda>b.
     bindE (take_resolved E (filter (\<lambda>(i, _). i \<noteq> fmr_entity_id r) resolved) rs) (\<lambda>bs. Inr (b # bs)))"

definition resolve_server_bindings_for_run ::
    "env \<Rightarrow> binding_codec \<Rightarrow> object_store option \<Rightarrow> uuid \<Rightarrow> json \<Rightarrow> db \<Rightarrow> (anyhow, resolved_binding list) result" where
  "resolve_server_bindings_for_run E C store p input d =
     bindE (map_err api_chain (frozen_mcp_references E input)) (\<lambda>references.
     if references = [] then Inr []
     else
       bindE (ok_or store [''encrypted MCP binding storage is unavailable'']) (\<lambda>S.
       bindE (collectE (open_binding E C S references) (bindings_for p references d)) (\<lambda>resolved.
       take_resolved E resolved references)))"

end
