(* ===== verification/Providers.thy ===== *)
theory Providers
  imports SyncCatalog McpBindings
begin

text \<open>
  Provider profiles (\<open>providers.rs\<close>): validation of their defaults, the sealed API key, the
  administrator and project checks, the profiles a crew selects, and the resolution of a profile
  for the server.
\<close>

definition MAX_PROFILE_NAME :: nat where "MAX_PROFILE_NAME = 200"
definition MAX_API_KEY_BYTES :: nat where "MAX_API_KEY_BYTES = 32 * 1024"
definition MAX_TIMEOUT_MS :: nat where "MAX_TIMEOUT_MS = 24 * 60 * 60 * 1000"
definition MAX_MODEL_STEPS :: nat where "MAX_MODEL_STEPS = 256"

record resolved_provider =
  rp_base_url :: string
  rp_api_key :: "string option"
  rp_model :: string
  rp_timeout_ms :: nat
  rp_max_steps :: nat
  rp_verify_tls :: bool

record profile_request =
  pr_team :: "uuid option"
  pr_name :: string
  pr_kind :: string
  pr_defaults :: json
  pr_api_key :: "string option"

section \<open>Validation\<close>

definition profile_name :: "string \<Rightarrow> (api_error, string) result" where
  "profile_name s =
     (let v = trim s in
      if v = [] \<or> length v > MAX_PROFILE_NAME
      then Inl (Unprocessable (''provider profile name must contain 1 to '' @ nat_text MAX_PROFILE_NAME
        @ '' characters''))
      else Inr v)"

definition normalized_provider_kind :: "string \<Rightarrow> (api_error, string) result" where
  "normalized_provider_kind s =
     (let v = trim s in
      if v = ''openai-compatible'' \<or> v = ''openai_compatible'' then Inr ''openai_compatible''
      else Inl (Unprocessable (''unsupported provider_kind '' @ v @ ''; expected openai_compatible'')))"

definition required_string_api :: "jmap \<Rightarrow> string \<Rightarrow> (api_error, string) result" where
  "required_string_api m key =
     (let v = trim (unwrap_or [] (Option.bind (obj_get key m) as_str)) in
      if v = [] \<or> length v > 4096
      then Inl (Unprocessable (''model_defaults.'' @ key @ '' must contain 1 to 4096 characters''))
      else Inr v)"

definition required_default :: "jmap \<Rightarrow> string \<Rightarrow> (anyhow, string) result" where
  "required_default m key =
     (let v = trim (unwrap_or [] (Option.bind (obj_get key m) as_str)) in
      if v = [] then Inl [''provider profile model_defaults.'' @ key @ '' is missing''] else Inr v)"

fun contains_secret_field :: "json \<Rightarrow> bool" where
  "contains_secret_field (Object m) =
     list_ex (\<lambda>(k, v). to_ascii_lowercase k \<in> set [''api_key'', ''access_token'', ''refresh_token'',
       ''password'', ''secret'', ''client_secret'', ''authorization''] \<or> contains_secret_field v) m"
| "contains_secret_field (Array xs) = list_ex contains_secret_field xs"
| "contains_secret_field _ = False"

definition nat_json :: "nat \<Rightarrow> json" where
  "nat_json n = Number (Integer (int n))"

definition or_insert :: "string \<Rightarrow> json \<Rightarrow> jmap \<Rightarrow> jmap" where
  "or_insert k v m = (case obj_get k m of None \<Rightarrow> obj_insert k v m | Some _ \<Rightarrow> m)"

definition normalized_server_defaults :: "env \<Rightarrow> json \<Rightarrow> (api_error, json) result" where
  "normalized_server_defaults E v =
     bindE (ok_or (as_object v) (Unprocessable ''model_defaults must be a JSON object'')) (\<lambda>m.
     bindE (ensure (\<not> contains_secret_field (Object m))
       (Unprocessable ''model_defaults must not contain cleartext credentials'')) (\<lambda>_.
     bindE (required_string_api m ''base_url'') (\<lambda>base_url.
     bindE (ok_or (env_parse_url E base_url) (Unprocessable ''base_url must be a valid URL'')) (\<lambda>url.
     bindE (ensure (\<not> ((url_scheme url \<noteq> ''http'' \<and> url_scheme url \<noteq> ''https'') \<or> url_host_str url = None
         \<or> url_username url \<noteq> [] \<or> url_password url \<noteq> None))
       (Unprocessable ''base_url must be an HTTP(S) URL without embedded credentials'')) (\<lambda>_.
     bindE (required_string_api m ''model'') (\<lambda>model.
     let timeout_ms = unwrap_or (20 * 60 * 1000) (Option.bind (obj_get ''timeout_ms'' m) as_u64) in
     bindE (ensure (1000 \<le> timeout_ms \<and> timeout_ms \<le> MAX_TIMEOUT_MS)
       (Unprocessable (''timeout_ms must be between 1000 and '' @ nat_text MAX_TIMEOUT_MS))) (\<lambda>_.
     let max_steps = unwrap_or 64 (Option.bind (obj_get ''max_steps'' m) as_u64) in
     bindE (ensure (1 \<le> max_steps \<and> max_steps \<le> MAX_MODEL_STEPS)
       (Unprocessable (''max_steps must be between 1 and '' @ nat_text MAX_MODEL_STEPS))) (\<lambda>_.
     let auth_mode = unwrap_or ''bearer'' (Option.bind (obj_get ''auth_mode'' m) as_str) in
     bindE (ensure (auth_mode = ''none'' \<or> auth_mode = ''bearer'')
       (Unprocessable ''auth_mode must be none or bearer'')) (\<lambda>_.
     Inr (Object (or_insert ''verify_tls_certificates'' (Bool True)
       (fold (\<lambda>(k, v) m. obj_insert k v m)
         [(''base_url'', String base_url), (''model'', String model), (''timeout_ms'', nat_json timeout_ms),
          (''max_steps'', nat_json max_steps), (''auth_mode'', String auth_mode),
          (''endpoint_binding'', String ''server''), (''source'', String ''server'')] m))))))))))))"

definition normalized_synced_profile :: "json \<Rightarrow> (api_error, string \<times> string \<times> json) result" where
  "normalized_synced_profile payload =
     bindE (ok_or (as_object payload) (Unprocessable ''provider profile sync payload must be an object'')) (\<lambda>m.
     bindE (profile_name (unwrap_or [] (Option.bind (obj_get ''name'' m) as_str))) (\<lambda>name.
     bindE (normalized_provider_kind (unwrap_or ''openai-compatible''
       (Option.bind (or_else (obj_get ''provider'' m) (obj_get ''provider_kind'' m)) as_str))) (\<lambda>kind.
     Inr (name, kind, Object (
       obj_insert ''source'' (String ''desktop'')
       (obj_insert ''endpoint_binding'' (String ''per_device'')
       (fold obj_remove [''_cowork_local_entity_id'', ''name'', ''provider'', ''provider_kind''] m)))))))"

definition seal_optional_secret ::
    "object_store option \<Rightarrow> uuid \<Rightarrow> uuid option \<Rightarrow> string option \<Rightarrow> (api_error, sealed_value option) result" where
  "seal_optional_secret store owner team api_key =
     (case api_key of
        None \<Rightarrow> Inr None
      | Some key \<Rightarrow>
          let key = trim key in
          if key = [] \<or> length key > MAX_API_KEY_BYTES
          then Inl (Unprocessable (''api_key must contain 1 to '' @ nat_text MAX_API_KEY_BYTES @ '' bytes''))
          else
            bindE (ok_or store (Conflict ''encrypted secret storage is not configured'')) (\<lambda>S.
            bindE (case team of Some t \<Rightarrow> os_seal_for_team S t key | None \<Rightarrow> os_seal_for_user S owner key)
              (\<lambda>sealed. Inr (Some sealed))))"

section \<open>Who may manage a profile\<close>

definition profile_scope :: "env \<Rightarrow> uuid \<Rightarrow> (uuid option \<times> uuid option) dbtx" where
  "profile_scope E i =
     bindT (readT (find_profile i)) (\<lambda>row.
     bindT (liftT (ok_or row (NotFound (''provider profile '' @ env_uuid E i @ '' was not found'')))) (\<lambda>pp.
     returnT (pp_owner pp, pp_team pp)))"

definition ensure_profile_admin :: "uuid \<Rightarrow> uuid option \<times> uuid option \<Rightarrow> unit dbtx" where
  "ensure_profile_admin u scope =
     (if fst scope = Some u then returnT ()
      else case snd scope of
        Some t \<Rightarrow> ensure_team_admin u t
      | None \<Rightarrow> throwT (Unauthorized ''the current user cannot manage this provider profile''))"

section \<open>Operations\<close>

definition create_profile ::
    "env \<Rightarrow> object_store option \<Rightarrow> uuid \<Rightarrow> profile_request \<Rightarrow> profile_row handler" where
  "create_profile E store u rq =
     bindH (commit (case pr_team rq of None \<Rightarrow> returnT () | Some t \<Rightarrow> ensure_team_admin u t)) (\<lambda>_.
     bindH (liftH (profile_name (pr_name rq))) (\<lambda>name.
     bindH (liftH (normalized_provider_kind (pr_kind rq))) (\<lambda>kind.
     bindH (liftH (normalized_server_defaults E (pr_defaults rq))) (\<lambda>defaults.
     bindH (liftH (seal_optional_secret store u (pr_team rq) (pr_api_key rq))) (\<lambda>sealed.
     commit (
       bindT (new_v4 E) (\<lambda>i.
       let row = \<lparr>pp_id = i, pp_revision = 1, pp_etag = version_etag E i 1,
         pp_owner = (if pr_team rq = None then Some u else None), pp_team = pr_team rq,
         pp_name = name, pp_kind = kind, pp_defaults = defaults, pp_secret = sealed,
         pp_created = env_now E, pp_updated = env_now E, pp_deleted = None\<rparr> in
       bindT (writeT (\<lambda>d. d\<lparr>profiles := profiles d @ [row]\<rparr>)) (\<lambda>_.
       bindT (publish_canonical_provider_profile_tx E i) (\<lambda>_. returnT row)))))))))"

definition profile_visible :: "uuid \<Rightarrow> db \<Rightarrow> profile_row \<Rightarrow> bool" where
  "profile_visible u d pp =
     (pp_deleted pp = None \<and> (pp_owner pp = Some u
       \<or> exists_row (\<lambda>(t, m, _). Some t = pp_team pp \<and> m = u) (team_members d)))"

definition list_profiles :: "uuid \<Rightarrow> profile_row list dbtx" where
  "list_profiles u =
     readT (\<lambda>d. sort_key (\<lambda>pp. (pp_name pp, pp_id pp)) (filter (profile_visible u d) (profiles d)))"

text \<open>\<open>UPDATE \<dots> WHERE id AND revision AND deleted_at IS NULL RETURNING *\<close>\<close>

definition update_profile_row ::
    "uuid \<Rightarrow> int \<Rightarrow> (profile_row \<Rightarrow> profile_row) \<Rightarrow> string \<Rightarrow> profile_row dbtx" where
  "update_profile_row i expected f message =
     (let hit = (\<lambda>pp. pp_id pp = i \<and> pp_revision pp = expected \<and> pp_deleted pp = None) in
      bindT (readT (\<lambda>d. fetch_optional hit (profiles d))) (\<lambda>row.
      bindT (liftT (ok_or row (Conflict message))) (\<lambda>pp.
      bindT (writeT (\<lambda>d. d\<lparr>profiles := update_where hit f (profiles d)\<rparr>)) (\<lambda>_.
      returnT (f pp)))))"

definition stale_profile :: string where
  "stale_profile = ''provider profile revision changed; reload before updating''"

definition update_profile :: "env \<Rightarrow> uuid \<Rightarrow> uuid \<Rightarrow> int \<Rightarrow> profile_request \<Rightarrow> profile_row handler" where
  "update_profile E u i expected rq =
     bindH (commit (profile_scope E i)) (\<lambda>scope.
     bindH (commit (ensure_profile_admin u scope)) (\<lambda>_.
     bindH (liftH (profile_name (pr_name rq))) (\<lambda>name.
     bindH (liftH (normalized_provider_kind (pr_kind rq))) (\<lambda>kind.
     bindH (liftH (normalized_server_defaults E (pr_defaults rq))) (\<lambda>defaults.
     commit (
       bindT (update_profile_row i expected (\<lambda>pp. pp\<lparr>pp_revision := pp_revision pp + 1,
         pp_etag := version_etag E i (expected + 1), pp_name := name, pp_kind := kind,
         pp_defaults := defaults, pp_updated := env_now E\<rparr>) stale_profile) (\<lambda>row.
       bindT (publish_canonical_provider_profile_tx E i) (\<lambda>_. returnT row))))))))"

definition set_secret ::
    "env \<Rightarrow> object_store option \<Rightarrow> uuid \<Rightarrow> uuid \<Rightarrow> int \<Rightarrow> string option \<Rightarrow> profile_row handler" where
  "set_secret E store u i expected api_key =
     bindH (commit (profile_scope E i)) (\<lambda>scope.
     bindH (commit (ensure_profile_admin u scope)) (\<lambda>_.
     bindH (liftH (seal_optional_secret store (unwrap_or u (fst scope)) (snd scope) api_key)) (\<lambda>sealed.
     commit (
       bindT (update_profile_row i expected (\<lambda>pp. pp\<lparr>pp_revision := pp_revision pp + 1,
         pp_etag := version_etag E i (expected + 1), pp_secret := sealed,
         pp_updated := env_now E\<rparr>) stale_profile) (\<lambda>row.
       bindT (publish_canonical_provider_profile_tx E i) (\<lambda>_. returnT row))))))"

text \<open>A schedule that lost what it needs: disabled, without a next run and with the reason.\<close>

definition block_schedule :: "env \<Rightarrow> string \<Rightarrow> schedule_row \<Rightarrow> schedule_row" where
  "block_schedule E reason s =
     s\<lparr>sch_revision := sch_revision s + 1, sch_etag := version_etag E (sch_id s) (sch_revision s + 1),
       sch_enabled := False, sch_next_run := None, sch_blocked := Some reason, sch_updated := env_now E\<rparr>"

definition schedule_ids :: "(schedule_row \<Rightarrow> bool) \<Rightarrow> db \<Rightarrow> uuid list" where
  "schedule_ids p d = sort (map sch_id (filter (\<lambda>s. p s \<and> sch_deleted s = None) (schedules d)))"

definition delete_profile :: "env \<Rightarrow> uuid \<Rightarrow> uuid \<Rightarrow> int \<Rightarrow> unit handler" where
  "delete_profile E u i expected =
     bindH (commit (profile_scope E i)) (\<lambda>scope.
     bindH (commit (ensure_profile_admin u scope)) (\<lambda>_.
     commit (
       bindT (readT (schedule_ids (\<lambda>s. sch_model_profile s = Some i))) (\<lambda>ids.
       bindT (update_profile_row i expected (\<lambda>pp. pp\<lparr>pp_revision := pp_revision pp + 1,
         pp_etag := version_etag E i (pp_revision pp + 1), pp_secret := None,
         pp_deleted := Some (env_now E), pp_updated := env_now E\<rparr>)
         ''provider profile revision changed; reload before deleting'') (\<lambda>row.
       bindT (writeT (\<lambda>d. d\<lparr>schedules := update_where
         (\<lambda>s. sch_model_profile s = Some i \<and> sch_deleted s = None)
         (block_schedule E ''model profile was deleted'') (schedules d)\<rparr>)) (\<lambda>_.
       bindT (publish_provider_profile_tombstones_tx E i (pp_owner row) (pp_team row)) (\<lambda>_.
       for_each ids (\<lambda>s. bindT (publish_canonical_schedule_tx E s) (\<lambda>_. returnT ())))))))))"

section \<open>Profiles of a run\<close>

definition profile_accessible :: "uuid \<Rightarrow> project_row \<Rightarrow> db \<Rightarrow> profile_row \<Rightarrow> bool" where
  "profile_accessible u project d pp =
     (pp_owner pp = Some u
      \<or> (pp_team pp \<noteq> None \<and> pp_team pp = prj_team project
         \<and> exists_row (\<lambda>(t, m, _). Some t = pp_team pp \<and> m = u) (team_members d)))"

definition accessible_profile :: "env \<Rightarrow> uuid \<Rightarrow> uuid \<Rightarrow> uuid \<Rightarrow> profile_row dbtx" where
  "accessible_profile E u p i =
     bindT (readT (\<lambda>d. Option.bind (find_project p d) (\<lambda>project.
       fetch_optional (\<lambda>pp. pp_id pp = i \<and> pp_deleted pp = None \<and> profile_accessible u project d pp)
         (profiles d)))) (\<lambda>row.
     liftT (ok_or row (Unprocessable (''model profile '' @ env_uuid E i
       @ '' is unavailable to the selected project''))))"

definition endpoint_binding :: "json \<Rightarrow> string" where
  "endpoint_binding defaults = unwrap_or ''server'' (get_str ''endpoint_binding'' defaults)"

definition expected_binding :: "executor_target \<Rightarrow> string" where
  "expected_binding target = (case target of PersonalDevice _ \<Rightarrow> ''per_device'' | _ \<Rightarrow> ''server'')"

definition ensure_profile_for_target ::
    "env \<Rightarrow> uuid \<Rightarrow> uuid \<Rightarrow> uuid option \<Rightarrow> executor_target \<Rightarrow> unit dbtx" where
  "ensure_profile_for_target E u p profile target =
     (case profile of
        None \<Rightarrow> returnT ()
      | Some i \<Rightarrow>
          bindT (accessible_profile E u p i) (\<lambda>pp.
          let binding = endpoint_binding (pp_defaults pp); expected = expected_binding target in
          ensureT (binding = expected) (Unprocessable (''model profile '' @ env_uuid E i @ '' is bound to ''
            @ binding @ '', but the selected executor requires '' @ expected))))"

fun crew_profile_ids :: "env \<Rightarrow> json option \<Rightarrow> uuid list \<Rightarrow> json list \<Rightarrow> (api_error, uuid list) result" where
  "crew_profile_ids E default_selection out [] = Inr out"
| "crew_profile_ids E default_selection out (agent # agents) =
     (if Option.bind (get ''enabled'' agent) as_bool = Some False
      then crew_profile_ids E default_selection out agents
      else case or_else (get ''backendSelection'' agent) default_selection of
        None \<Rightarrow> crew_profile_ids E default_selection out agents
      | Some selection \<Rightarrow>
          let backend = unwrap_or ''openai-compatible'' (get_str ''backend'' selection) in
          bindE (ensure (backend = ''openai-compatible'')
            (Unprocessable (''Crew backend '' @ backend @ '' is unavailable to Linux server executors''))) (\<lambda>_.
          bindE (ok_or (get_str ''profileId'' selection)
            (Unprocessable ''an OpenAI-compatible Crew backend is missing profileId'')) (\<lambda>s.
          bindE (ok_or (env_parse_uuid E s)
            (Unprocessable ''Crew provider profile references must be canonical UUIDs'')) (\<lambda>i.
          crew_profile_ids E default_selection (push_unseen out i) agents))))"

definition crew_profile_ids_for_server :: "env \<Rightarrow> json \<Rightarrow> (api_error, uuid list) result" where
  "crew_profile_ids_for_server E input =
     (case get ''crew_definition'' input of
        None \<Rightarrow> Inr []
      | Some definition \<Rightarrow>
          bindE (ok_or (Option.bind (get ''agents'' definition) as_array)
            (Unprocessable ''the frozen Crew definition requires agents'')) (\<lambda>agents.
          crew_profile_ids E (get ''defaultBackendSelection'' definition) [] agents))"

definition ensure_crew_profiles_for_target ::
    "env \<Rightarrow> uuid \<Rightarrow> uuid \<Rightarrow> json \<Rightarrow> executor_target \<Rightarrow> unit dbtx" where
  "ensure_crew_profiles_for_target E u p input target =
     (case target of
        ServerLinux _ \<Rightarrow>
          bindT (liftT (crew_profile_ids_for_server E input)) (\<lambda>ids.
          for_each ids (\<lambda>i. ensure_profile_for_target E u p (Some i) target))
      | _ \<Rightarrow> returnT ())"

text \<open>\<open>String::from_utf8\<close>: the bytes that the lossy decoding leaves as they are.\<close>

definition from_utf8 :: "string \<Rightarrow> string option" where
  "from_utf8 s = (if from_utf8_lossy s = s then Some s else None)"

definition open_profile_secret :: "object_store option \<Rightarrow> profile_row \<Rightarrow> (anyhow, string option) result" where
  "open_profile_secret store pp =
     (case pp_secret pp of
        None \<Rightarrow> Inr None
      | Some sealed \<Rightarrow>
          bindE (ok_or store [''encrypted provider secret storage is unavailable'']) (\<lambda>S.
          bindE (case pp_owner pp of
              Some u \<Rightarrow> map_err api_chain (os_open_for_user S u sealed)
            | None \<Rightarrow>
                bindE (ok_or (pp_team pp) [''provider profile has no key scope'']) (\<lambda>t.
                map_err api_chain (os_open_for_team S t sealed))) (\<lambda>plaintext.
          bindE (ok_or (from_utf8 plaintext) [''provider profile secret is not valid UTF-8'']) (\<lambda>key.
          Inr (Some key)))))"

definition resolve_profile :: "object_store option \<Rightarrow> profile_row \<Rightarrow> (anyhow, resolved_provider) result" where
  "resolve_profile store pp =
     bindE (ok_or (as_object (pp_defaults pp)) [''provider profile model_defaults is not an object'']) (\<lambda>m.
     bindE (ensure (endpoint_binding (Object m) = ''server'')
       [''the selected provider profile is bound to a personal device'']) (\<lambda>_.
     bindE (required_default m ''base_url'') (\<lambda>base_url.
     bindE (required_default m ''model'') (\<lambda>model.
     let timeout_ms = max 1000 (min MAX_TIMEOUT_MS
           (unwrap_or (20 * 60 * 1000) (Option.bind (obj_get ''timeout_ms'' m) as_u64)));
         max_steps = max 1 (min MAX_MODEL_STEPS
           (unwrap_or 64 (Option.bind (obj_get ''max_steps'' m) as_u64))) in
     bindE (open_profile_secret store pp) (\<lambda>api_key.
     bindE (ensure (\<not> (Option.bind (obj_get ''auth_mode'' m) as_str = Some ''bearer''
         \<and> (case api_key of None \<Rightarrow> True | Some k \<Rightarrow> k = [])))
       [''the selected provider profile requires an API key'']) (\<lambda>_.
     Inr \<lparr>rp_base_url = base_url, rp_api_key = api_key, rp_model = model, rp_timeout_ms = timeout_ms,
          rp_max_steps = max_steps, rp_verify_tls = unwrap_or True
            (Option.bind (obj_get ''verify_tls_certificates'' m) as_bool)\<rparr>))))))"

definition resolve_server_provider ::
    "env \<Rightarrow> object_store option \<Rightarrow> uuid \<Rightarrow> uuid \<Rightarrow> uuid \<Rightarrow> (db, anyhow, resolved_provider) hx" where
  "resolve_server_provider E store u p i =
     bindH (map_errH api_chain (commit (accessible_profile E u p i))) (\<lambda>pp.
     liftH (resolve_profile store pp))"

end
