(* ===== verification/ServerTools.thy ===== *)
theory ServerTools
  imports McpBindings
begin

text \<open>
  The tools of the server worker (\<open>worker.rs\<close>): what the host advertises, which of them change the
  workspace, how the arguments of a call become a sandbox job, and what a workspace path or a
  glob pattern may be. \<open>base64\<close> is a parameter.
\<close>

section \<open>Sandbox jobs\<close>

datatype sandbox_image = Core | Gui | CrewImage

datatype sandbox_network = NetworkNone | FilteredEgress

record sandbox_limits =
  sl_memory_bytes :: nat
  sl_cpu_nanos :: nat
  sl_pids :: nat
  sl_timeout_seconds :: nat
  sl_tmpfs_bytes :: nat
  sl_output_bytes :: nat

definition default_limits :: sandbox_limits where
  "default_limits =
     \<lparr>sl_memory_bytes = 2 * 1024 * 1024 * 1024, sl_cpu_nanos = 2000000000, sl_pids = 256,
      sl_timeout_seconds = 15 * 60, sl_tmpfs_bytes = 512 * 1024 * 1024, sl_output_bytes = 4 * 1024 * 1024\<rparr>"

record sandbox_run_spec =
  srs_schema_version :: nat
  srs_run_id :: uuid
  srs_image :: sandbox_image
  srs_argv :: "string list"
  srs_environment :: text_map
  srs_stdin_base64 :: "string option"
  srs_network :: sandbox_network
  srs_limits :: sandbox_limits

record sandbox_run_result =
  srr_schema_version :: nat
  srr_run_id :: uuid
  srr_container_name :: string
  srr_workspace_volume :: string
  srr_exit_code :: "int option"
  srr_timed_out :: bool
  srr_stdout :: string
  srr_stderr :: string
  srr_output_truncated :: bool

definition sandbox_result_json :: "env \<Rightarrow> sandbox_run_result \<Rightarrow> json" where
  "sandbox_result_json E r =
     json_object [(''schema_version'', Number (Integer (int (srr_schema_version r)))),
       (''run_id'', String (env_uuid E (srr_run_id r))),
       (''container_name'', String (srr_container_name r)),
       (''workspace_volume'', String (srr_workspace_volume r)),
       (''exit_code'', case srr_exit_code r of None \<Rightarrow> Null | Some c \<Rightarrow> Number (Integer c)),
       (''timed_out'', Bool (srr_timed_out r)),
       (''stdout'', String (srr_stdout r)), (''stderr'', String (srr_stderr r)),
       (''output_truncated'', Bool (srr_output_truncated r))]"

section \<open>The advertised tools\<close>

definition tool_def :: "string \<Rightarrow> string \<Rightarrow> json \<Rightarrow> capability option \<Rightarrow> bool \<Rightarrow> tool_definition" where
  "tool_def name description schema capability mutating =
     \<lparr>td_name = name, td_description = description, td_input_schema = schema,
      td_required_capability = capability, td_mutating = mutating\<rparr>"

definition typed :: "string \<Rightarrow> json" where
  "typed ty = json_object [(''type'', String ty)]"

definition bounded_integer :: "int \<Rightarrow> int \<Rightarrow> json" where
  "bounded_integer lo hi =
     json_object [(''type'', String ''integer''), (''minimum'', Number (Integer lo)),
       (''maximum'', Number (Integer hi))]"

definition object_schema :: "(string \<times> json) list \<Rightarrow> string list option \<Rightarrow> bool \<Rightarrow> json" where
  "object_schema properties required additional =
     json_object ([(''type'', String ''object''), (''properties'', json_object properties)]
       @ (case required of None \<Rightarrow> [] | Some rs \<Rightarrow> [(''required'', Array (map String rs))])
       @ [(''additionalProperties'', Bool additional)])"

definition base_tools :: "tool_definition list" where
  "base_tools =
     [tool_def ''Think''
        ''Record private reasoning or a short plan without changing the workspace.'' (object_schema
        [(''thought'', typed ''string'')] (Some [''thought'']) False) None False,
      tool_def ''AskUser''
        ''Pause the durable run and ask the user a structured question.'' (object_schema
        [(''question'', typed ''string'')] (Some [''question'']) True) None False]"

definition workspace_tools :: "tool_definition list" where
  "workspace_tools =
     [tool_def ''Read'' ''Read a UTF-8 text file from the run workspace.''
        (object_schema [(''path'', typed ''string''), (''offset'', json_object [(''type'', String
        ''integer''), (''minimum'', Number (Integer 1))]), (''limit'', bounded_integer 1 20000)]
        (Some [''path'']) False) (Some ''files'') False,
      tool_def ''Write'' ''Create or replace a file in the run workspace.''
        (object_schema [(''path'', typed ''string''), (''content'', typed ''string'')] (Some
        [''path'', ''content'']) False) (Some ''files'') True,
      tool_def ''Edit'' ''Replace an exact string in a UTF-8 workspace file.''
        (object_schema [(''path'', typed ''string''), (''old_string'', typed ''string''),
        (''new_string'', typed ''string''), (''replace_all'', typed ''boolean'')] (Some [''path'',
        ''old_string'', ''new_string'']) False) (Some ''files'') True,
      tool_def ''ListDir'' ''List directory entries and basic metadata.'' (object_schema
        [(''path'', typed ''string'')] None False) (Some ''files'') False,
      tool_def ''Glob'' ''Find workspace paths matching a glob pattern.'' (object_schema
        [(''pattern'', typed ''string''), (''path'', typed ''string'')] (Some [''pattern'']) False)
        (Some ''files'') False,
      tool_def ''Grep'' ''Search workspace text with ripgrep.'' (object_schema
        [(''pattern'', typed ''string''), (''path'', typed ''string''), (''case_sensitive'', typed
        ''boolean'')] (Some [''pattern'']) False) (Some ''files'') False,
      tool_def ''Bash''
        ''Run a shell command inside the isolated persistent run workspace.'' (object_schema
        [(''command'', typed ''string''), (''timeout_seconds'', bounded_integer 1 3600)] (Some
        [''command'']) False) (Some ''shell'') True,
      tool_def ''WebFetch''
        ''Fetch an HTTP(S) URL through the sandbox filtered-egress network.'' (object_schema
        [(''url'', typed ''string'')] (Some [''url'']) False) (Some ''web.fetch'') False]"

definition browser_tools :: "tool_definition list" where
  "browser_tools =
     [tool_def ''BrowserNavigate''
        ''Navigate Chromium to an HTTP(S) URL. The profile, cookies and last URL persist for this run.''
        (object_schema [(''url'', typed ''string''), (''visible'', typed ''boolean''),
        (''wait_until'', json_object [(''type'', String ''string''), (''enum'', Array (map String
        [''load'', ''domcontentloaded'', ''networkidle'', ''commit'']))]), (''timeout_ms'',
        bounded_integer 1 120000), (''record_video'', typed ''boolean'')] (Some [''url'']) False)
        (Some ''browser.headless'') False,
      tool_def ''BrowserClick''
        ''Click the first element matching a Playwright selector; optionally capture a download.''
        (object_schema [(''selector'', typed ''string''), (''expect_download'', typed ''boolean''),
        (''download_path'', typed ''string''), (''visible'', typed ''boolean''), (''timeout_ms'',
        bounded_integer 1 120000), (''wait_ms'', bounded_integer 0 30000), (''record_video'', typed
        ''boolean'')] (Some [''selector'']) False) (Some ''browser.headless'') True,
      tool_def ''BrowserFill'' ''Fill the first input matching a Playwright selector.''
        (object_schema [(''selector'', typed ''string''), (''value'', typed ''string''),
        (''visible'', typed ''boolean''), (''timeout_ms'', bounded_integer 1 120000),
        (''record_video'', typed ''boolean'')] (Some [''selector'', ''value'']) False) (Some
        ''browser.headless'') True,
      tool_def ''BrowserUpload''
        ''Attach one or more run-workspace files to a file input.'' (object_schema [(''selector'',
        typed ''string''), (''path'', typed ''string''), (''paths'', json_object [(''type'', String
        ''array''), (''items'', typed ''string''), (''maxItems'', Number (Integer 50))]),
        (''visible'', typed ''boolean''), (''timeout_ms'', bounded_integer 1 120000),
        (''record_video'', typed ''boolean'')] (Some [''selector'']) False) (Some
        ''browser.headless'') True,
      tool_def ''BrowserScreenshot''
        ''Capture the current Chromium page as a PNG artifact.'' (object_schema [(''path'', typed
        ''string''), (''full_page'', typed ''boolean''), (''visible'', typed ''boolean''),
        (''record_video'', typed ''boolean'')] None False) (Some ''browser.headless'') False,
      tool_def ''BrowserInspect''
        ''Return page title, visible body text and links from the current Chromium page.''
        (object_schema [(''max_chars'', bounded_integer 1 200000), (''visible'', typed
        ''boolean''), (''timeout_ms'', bounded_integer 1 120000), (''record_video'', typed
        ''boolean'')] None False) (Some ''browser.headless'') False,
      tool_def ''BrowserTabs''
        ''List the Chromium pages active during this browser operation.'' (object_schema
        [(''visible'', typed ''boolean''), (''record_video'', typed ''boolean'')] None False) (Some
        ''browser.headless'') False]"

definition office_tools :: "tool_definition list" where
  "office_tools =
     [tool_def ''OfficeInspect''
        ''Inspect DOC/DOCX, XLS/XLSX, PPT/PPTX or PDF structure and text without executing active content.''
        (object_schema [(''path'', typed ''string'')] (Some [''path'']) False) (Some
        ''office.ooxml'') False,
      tool_def ''OfficeReplaceText''
        ''Deterministically replace text in DOCX, XLSX or PPTX. Macro-enabled formats are rejected.''
        (object_schema [(''path'', typed ''string''), (''output_path'', typed ''string''),
        (''old_text'', typed ''string''), (''new_text'', typed ''string''), (''replace_all'', typed
        ''boolean'')] (Some [''path'', ''old_text'', ''new_text'']) False) (Some ''office.ooxml'')
        True,
      tool_def ''OfficeExportPdf''
        ''Render an Office document to a PDF artifact with LibreOffice in safe mode.''
        (object_schema [(''path'', typed ''string''), (''output_path'', typed ''string'')] (Some
        [''path'']) False) (Some ''office.libreoffice'') False,
      tool_def ''OfficePreview''
        ''Render the first page or all pages of an Office document/PDF to PNG review artifacts.''
        (object_schema [(''path'', typed ''string''), (''all_pages'', typed ''boolean''), (''dpi'',
        bounded_integer 72 200)] (Some [''path'']) False) (Some ''office.libreoffice'') False,
      tool_def ''DesktopOpenOffice''
        ''Open an Office document in the persistent visible LibreOffice desktop for observation or manual takeover.''
        (object_schema [(''path'', typed ''string'')] (Some [''path'']) False) (Some
        ''desktop.linux'') False]"

definition mcp_tool :: "string \<Rightarrow> tool_definition" where
  "mcp_tool names =
      tool_def ''MCPTool''
        (''Call a tool on an encrypted project-bound Linux MCP server. Available servers: '' @ names)
        (object_schema [(''server_name'', typed ''string''), (''tool_name'', typed ''string''),
        (''arguments'', typed ''object'')] (Some [''server_name'', ''tool_name'']) False) (Some
        ''tool.mcp.invoke'') True"

definition server_tools :: "bool \<Rightarrow> resolved_binding list \<Rightarrow> tool_definition list" where
  "server_tools runner bindings =
     base_tools @
     (if runner then
        workspace_tools @ browser_tools @ office_tools
        @ (if bindings \<noteq> [] then [mcp_tool (join '', '' (map rb_name bindings))] else [])
      else [])"

definition mutating_tool :: "string \<Rightarrow> bool" where
  "mutating_tool name =
     (name \<in> set [''Write'', ''Edit'', ''Bash'', ''OfficeReplaceText'', ''BrowserClick'', ''BrowserFill'',
        ''BrowserUpload'', ''MCPTool''])"

section \<open>Paths\<close>

definition validated_workspace_path :: "string \<Rightarrow> (anyhow, string) result" where
  "validated_workspace_path path =
     (if path = [] \<or> length path > 4096 \<or> starts_with ''/'' path \<or> CHR 0x5C \<in> set path
         \<or> NUL \<in> set path
         \<or> list_ex (\<lambda>component. component = [] \<or> component = ''..'') (split_on (CHR ''/'') path)
      then Inl [''workspace path must be a normalized relative POSIX path'']
      else Inr path)"

definition validated_glob_pattern :: "string \<Rightarrow> (anyhow, string) result" where
  "validated_glob_pattern pattern =
     (if pattern = [] \<or> length pattern > 4096 \<or> starts_with ''/'' pattern \<or> CHR 0x5C \<in> set pattern
         \<or> list_ex (\<lambda>component. component = ''..'') (split_on (CHR ''/'') pattern)
      then Inl [''glob pattern must stay inside the run workspace'']
      else Inr pattern)"

section \<open>From a call to a job\<close>

definition READ_SCRIPT :: string where
  "READ_SCRIPT =
     ''import pathlib,sys; p=pathlib.Path(sys.argv[1]); lines=p.read_text(encoding='utf-8').splitlines(True); start=max(int(sys.argv[2])-1,0); sys.stdout.write(''
     @ [CHR 0x27, CHR 0x27]
     @ ''.join(lines[start:start+int(sys.argv[3])]))''"

definition WRITE_SCRIPT :: string where
  "WRITE_SCRIPT =
     ''import pathlib,sys; p=pathlib.Path(sys.argv[1]); p.parent.mkdir(parents=True,exist_ok=True); p.write_bytes(sys.stdin.buffer.read()); print(p)''"

definition EDIT_SCRIPT :: string where
  "EDIT_SCRIPT =
     ''import json,pathlib,sys; p=pathlib.Path(sys.argv[1]); s=p.read_text(encoding='utf-8'); q=json.load(sys.stdin); n=s.count(q['old']); assert n>0,'old_string not found'; assert q['all'] or n==1,f'old_string occurs {n} times'; p.write_text(s.replace(q['old'],q['new']) if q['all'] else s.replace(q['old'],q['new'],1),encoding='utf-8'); print(f'replacements={n if q[''
     @ [CHR 0x22]
     @ ''all''
     @ [CHR 0x22]
     @ ''] else 1}')''"

definition LIST_SCRIPT :: string where
  "LIST_SCRIPT =
     ''import json,pathlib,sys; p=pathlib.Path(sys.argv[1]); print(json.dumps([{'name':x.name,'type':'dir' if x.is_dir() else 'file','size':x.stat().st_size if x.is_file() else None} for x in sorted(p.iterdir())]))''"

definition GLOB_SCRIPT :: string where
  "GLOB_SCRIPT =
     ''import pathlib,sys; p=pathlib.Path(sys.argv[1]); print(''
     @ [CHR 0x27]
     @ [CHR 0x5C]
     @ ''n'.join(str(x) for x in sorted(p.glob(sys.argv[2])))[:4000000])''"

definition OPEN_OFFICE_SCRIPT :: string where
  "OPEN_OFFICE_SCRIPT =
     ''import subprocess,sys; subprocess.Popen(['libreoffice','--nologo','--nodefault','--nofirststartwizard',sys.argv[1]],stdin=subprocess.DEVNULL,stdout=subprocess.DEVNULL,stderr=subprocess.DEVNULL,start_new_session=True); print(sys.argv[1])''"

text \<open>What \<open>execute_sandbox_tool\<close> derives from a call before it reaches the runner.\<close>

record sandbox_plan =
  pl_image :: sandbox_image
  pl_argv :: "string list"
  pl_stdin :: "string option"
  pl_network :: sandbox_network
  pl_limits :: sandbox_limits
  pl_redactions :: "string list"
  pl_desktop :: bool

definition core_plan :: "string list \<Rightarrow> sandbox_plan" where
  "core_plan argv =
     \<lparr>pl_image = Core, pl_argv = argv, pl_stdin = None, pl_network = NetworkNone,
      pl_limits = default_limits, pl_redactions = [], pl_desktop = False\<rparr>"

definition argument :: "tool_invocation \<Rightarrow> string \<Rightarrow> (anyhow, string) result" where
  "argument call name =
     ok_or (get_str name (ti_arguments call)) [ti_name call @ '' requires string argument '' @ name]"

definition path_argument :: "tool_invocation \<Rightarrow> (anyhow, string) result" where
  "path_argument call = bindE (argument call ''path'') validated_workspace_path"

definition path_or_root :: "tool_invocation \<Rightarrow> (anyhow, string) result" where
  "path_or_root call = validated_workspace_path (unwrap_or ''.'' (get_str ''path'' (ti_arguments call)))"

definition u64_argument :: "tool_invocation \<Rightarrow> string \<Rightarrow> nat \<Rightarrow> nat" where
  "u64_argument call name fallback = unwrap_or fallback (Option.bind (get name (ti_arguments call)) as_u64)"

definition bool_argument :: "tool_invocation \<Rightarrow> string \<Rightarrow> bool \<Rightarrow> bool" where
  "bool_argument call name fallback = unwrap_or fallback (Option.bind (get name (ti_arguments call)) as_bool)"

definition read_plan :: "tool_invocation \<Rightarrow> (anyhow, sandbox_plan) result" where
  "read_plan call =
     bindE (path_argument call) (\<lambda>path.
     Inr (core_plan [''python3'', ''-c'', READ_SCRIPT, path, nat_text (u64_argument call ''offset'' 1),
       nat_text (min 20000 (u64_argument call ''limit'' 2000))]))"

definition write_plan :: "(string \<Rightarrow> string) \<Rightarrow> tool_invocation \<Rightarrow> (anyhow, sandbox_plan) result" where
  "write_plan base64 call =
     bindE (path_argument call) (\<lambda>path.
     bindE (argument call ''content'') (\<lambda>content.
     Inr ((core_plan [''python3'', ''-c'', WRITE_SCRIPT, path])\<lparr>pl_stdin := Some (base64 content)\<rparr>)))"

definition edit_plan :: "env \<Rightarrow> (string \<Rightarrow> string) \<Rightarrow> tool_invocation \<Rightarrow> (anyhow, sandbox_plan) result" where
  "edit_plan E base64 call =
     bindE (path_argument call) (\<lambda>path.
     bindE (argument call ''old_string'') (\<lambda>old.
     bindE (argument call ''new_string'') (\<lambda>new.
     Inr ((core_plan [''python3'', ''-c'', EDIT_SCRIPT, path])\<lparr>pl_stdin := Some (base64 (env_json E
       (json_object [(''old'', String old), (''new'', String new),
         (''all'', Bool (bool_argument call ''replace_all'' False))])))\<rparr>))))"

definition list_plan :: "tool_invocation \<Rightarrow> (anyhow, sandbox_plan) result" where
  "list_plan call =
     bindE (path_or_root call) (\<lambda>path. Inr (core_plan [''python3'', ''-c'', LIST_SCRIPT, path]))"

definition glob_plan :: "tool_invocation \<Rightarrow> (anyhow, sandbox_plan) result" where
  "glob_plan call =
     bindE (path_or_root call) (\<lambda>path.
     bindE (bindE (argument call ''pattern'') validated_glob_pattern) (\<lambda>pattern.
     Inr (core_plan [''python3'', ''-c'', GLOB_SCRIPT, path, pattern])))"

definition grep_plan :: "tool_invocation \<Rightarrow> (anyhow, sandbox_plan) result" where
  "grep_plan call =
     bindE (path_or_root call) (\<lambda>path.
     bindE (argument call ''pattern'') (\<lambda>pattern.
     Inr (core_plan ([''rg'', ''--line-number'', ''--no-heading'', ''--color=never'']
       @ (if bool_argument call ''case_sensitive'' True then [] else [''--ignore-case''])
       @ [''--'', pattern, path]))))"

definition bash_plan :: "tool_invocation \<Rightarrow> (anyhow, sandbox_plan) result" where
  "bash_plan call =
     bindE (argument call ''command'') (\<lambda>command.
     Inr ((core_plan [''/bin/bash'', ''-lc'', command])\<lparr>pl_limits := default_limits\<lparr>sl_timeout_seconds :=
       max 1 (min 3600 (u64_argument call ''timeout_seconds'' 900))\<rparr>\<rparr>))"

definition web_fetch_plan :: "tool_invocation \<Rightarrow> (anyhow, sandbox_plan) result" where
  "web_fetch_plan call =
     bindE (argument call ''url'') (\<lambda>url.
     bindE (ensure (starts_with ''https://'' url \<or> starts_with ''http://'' url)
       [''WebFetch only accepts HTTP(S) URLs'']) (\<lambda>_.
     Inr ((core_plan [''curl'', ''--fail-with-body'', ''--location'', ''--max-redirs'', ''5'', ''--max-time'',
         ''120'', ''--silent'', ''--show-error'', url])
       \<lparr>pl_network := FilteredEgress, pl_limits := default_limits\<lparr>sl_timeout_seconds := 120\<rparr>\<rparr>)))"

definition mcp_plan ::
    "env \<Rightarrow> (string \<Rightarrow> string) \<Rightarrow> resolved_binding list \<Rightarrow> tool_invocation \<Rightarrow> (anyhow, sandbox_plan) result" where
  "mcp_plan E base64 bindings call =
     bindE (argument call ''server_name'') (\<lambda>server_name.
     bindE (argument call ''tool_name'') (\<lambda>tool_name.
     bindE (ensure (\<not> (trim tool_name = [] \<or> length tool_name > 1024 \<or> has_control tool_name))
       [''MCP tool name is missing or invalid'']) (\<lambda>_.
     bindE (ok_or (List.find (\<lambda>b. rb_name b = server_name) bindings)
       [''MCP server '' @ env_debug E server_name @ '' is not bound to this Linux executor'']) (\<lambda>b.
     let arguments = unwrap_or (Object []) (get ''arguments'' (ti_arguments call)) in
     bindE (ensure (is_object arguments) [''MCPTool arguments must be an object'']) (\<lambda>_.
     Inr ((core_plan [''python3'', ''/opt/cowork/mcp-tool.py''])
       \<lparr>pl_stdin := Some (base64 (env_json E (json_object [(''server'', sandbox_value b),
          (''tool_name'', String tool_name), (''arguments'', arguments),
          (''timeout_seconds'', Number (Integer 120))]))),
        pl_redactions := secret_values b, pl_network := FilteredEgress,
        pl_limits := default_limits\<lparr>sl_timeout_seconds := 150, sl_output_bytes := 8 * 1024 * 1024\<rparr>\<rparr>))))))"

definition browser_action :: "string \<Rightarrow> (anyhow, string) result" where
  "browser_action name =
     ok_or (map_of [(''BrowserNavigate'', ''navigate''), (''BrowserClick'', ''click''),
       (''BrowserFill'', ''fill''), (''BrowserUpload'', ''upload''), (''BrowserScreenshot'', ''screenshot''),
       (''BrowserInspect'', ''inspect''), (''BrowserTabs'', ''tabs'')] name)
       [''unsupported browser tool '' @ name]"

definition browser_plan ::
    "env \<Rightarrow> (string \<Rightarrow> string) \<Rightarrow> capability list \<Rightarrow> tool_invocation \<Rightarrow> (anyhow, sandbox_plan) result" where
  "browser_plan E base64 required call =
     bindE (browser_action (ti_name call)) (\<lambda>action.
     bindE (ok_or (as_object (ti_arguments call)) [''browser tool arguments must be an object'']) (\<lambda>m.
     let m = obj_insert ''action'' (String action) m;
         m = (if obj_get ''visible'' m = None \<and> ''browser.visible'' \<in> set required
              then obj_insert ''visible'' (Bool True) m else m);
         visible = unwrap_or False (Option.bind (obj_get ''visible'' m) as_bool);
         timeout_ms = unwrap_or 30000 (Option.bind (obj_get ''timeout_ms'' m) as_u64) in
     Inr ((core_plan [''node'', ''/opt/cowork/browser-tool.mjs''])
       \<lparr>pl_image := Gui, pl_stdin := Some (base64 (env_json E (Object m))), pl_network := FilteredEgress,
        pl_limits := default_limits\<lparr>sl_timeout_seconds :=
          max 30 (min 300 (saturating_add_u64 ((timeout_ms + 999) div 1000) 30))\<rparr>,
        pl_desktop := visible\<rparr>)))"

definition office_action :: "string \<Rightarrow> (anyhow, string) result" where
  "office_action name =
     ok_or (map_of [(''OfficeInspect'', ''inspect''), (''OfficeReplaceText'', ''replace_text''),
       (''OfficeExportPdf'', ''export_pdf''), (''OfficePreview'', ''preview'')] name)
       [''unsupported Office tool '' @ name]"

definition office_plan :: "env \<Rightarrow> (string \<Rightarrow> string) \<Rightarrow> tool_invocation \<Rightarrow> (anyhow, sandbox_plan) result" where
  "office_plan E base64 call =
     bindE (office_action (ti_name call)) (\<lambda>action.
     bindE (ok_or (as_object (ti_arguments call)) [''Office tool arguments must be an object'']) (\<lambda>m.
     Inr ((core_plan [''/opt/cowork/office-venv/bin/python'', ''/opt/cowork/office-tool.py''])
       \<lparr>pl_image := Gui,
        pl_stdin := Some (base64 (env_json E (Object (obj_insert ''action'' (String action) m)))),
        pl_limits := default_limits\<lparr>sl_timeout_seconds := 300\<rparr>\<rparr>)))"

definition open_office_plan :: "tool_invocation \<Rightarrow> (anyhow, sandbox_plan) result" where
  "open_office_plan call =
     bindE (path_argument call) (\<lambda>path.
     Inr ((core_plan [''/opt/cowork/office-venv/bin/python'', ''-c'', OPEN_OFFICE_SCRIPT, path])
       \<lparr>pl_image := Gui, pl_limits := default_limits\<lparr>sl_timeout_seconds := 30\<rparr>, pl_desktop := True\<rparr>))"

definition sandbox_plan_of ::
    "env \<Rightarrow> (string \<Rightarrow> string) \<Rightarrow> resolved_binding list \<Rightarrow> capability list \<Rightarrow> tool_invocation
      \<Rightarrow> (anyhow, sandbox_plan) result" where
  "sandbox_plan_of E base64 bindings required call =
     (let name = ti_name call in
      if name = ''Read'' then read_plan call
      else if name = ''Write'' then write_plan base64 call
      else if name = ''Edit'' then edit_plan E base64 call
      else if name = ''ListDir'' then list_plan call
      else if name = ''Glob'' then glob_plan call
      else if name = ''Grep'' then grep_plan call
      else if name = ''Bash'' then bash_plan call
      else if name = ''WebFetch'' then web_fetch_plan call
      else if name = ''MCPTool'' then mcp_plan E base64 bindings call
      else if starts_with ''Browser'' name then browser_plan E base64 required call
      else if starts_with ''Office'' name then office_plan E base64 call
      else if name = ''DesktopOpenOffice'' then open_office_plan call
      else Inl [''unsupported server tool '' @ name])"

end
