(* ===== verification/Redaction.thy ===== *)
theory Redaction
  imports Json Text
begin

text \<open>
  How the server worker removes secrets from what a sandbox printed (\<open>redact_secrets\<close> and
  \<open>redact_secret_values\<close> of \<open>worker.rs\<close>): every secret is replaced by a marker, longer secrets
  first, in a text or in all string values of a JSON document.
\<close>

definition REDACTED :: string where
  "REDACTED = ''[REDACTED]''"

text \<open>\<open>sort_by_key(Reverse(len))\<close>: stable, by decreasing length.\<close>

definition longest_first :: "string list \<Rightarrow> string list" where
  "longest_first ss = rev (sort_key length (rev ss))"

definition redact_secrets :: "string \<Rightarrow> string list \<Rightarrow> string" where
  "redact_secrets v secrets =
     fold (\<lambda>secret redacted. replace_str secret REDACTED redacted)
       (longest_first (filter (\<lambda>s. s \<noteq> []) secrets)) v"

fun redact_secret_values :: "string list \<Rightarrow> json \<Rightarrow> json" where
  "redact_secret_values secrets (String s) = String (redact_secrets s secrets)"
| "redact_secret_values secrets (Array xs) = Array (map (redact_secret_values secrets) xs)"
| "redact_secret_values secrets (Object m) =
     Object (map (\<lambda>(k, v). (k, redact_secret_values secrets v)) m)"
| "redact_secret_values secrets v = v"

text \<open>The string values of a document, at any depth; keys are not values.\<close>

fun string_values :: "json \<Rightarrow> string list" where
  "string_values (String s) = [s]"
| "string_values (Array xs) = concat (map string_values xs)"
| "string_values (Object m) = concat (map (\<lambda>(k, v). string_values v) m)"
| "string_values v = []"

section \<open>Completeness\<close>

lemma set_longest_first [simp]: "set (longest_first ss) = set ss"
  by (simp add: longest_first_def)

lemma redact_keeps_absent:
  assumes "\<not> clashes q REDACTED" "q \<noteq> []" "\<forall>s \<in> set ss. s \<noteq> []"
    and "contains q (fold (\<lambda>secret. replace_str secret REDACTED) ss v)"
  shows "contains q v"
  using assms(3,4)
proof (induction ss arbitrary: v)
  case (Cons s ss)
  then have "contains q (replace_str s REDACTED v)" by simp
  with Cons.prems assms(1,2) show ?case by (auto dest: replace_adds_nothing)
qed simp

lemma redact_secrets_complete:
  assumes "s \<in> set secrets" "s \<noteq> []" "\<not> clashes s REDACTED"
  shows "\<not> contains s (redact_secrets v secrets)"
proof
  assume hit: "contains s (redact_secrets v secrets)"
  let ?ss = "longest_first (filter (\<lambda>s. s \<noteq> []) secrets)"
  have "s \<in> set ?ss" using assms by simp
  then obtain before after where ss: "?ss = before @ s # after" by (meson split_list)
  have nonempty: "\<forall>t \<in> set (before @ s # after). t \<noteq> []"
    unfolding ss [symmetric] by simp
  let ?mid = "fold (\<lambda>secret. replace_str secret REDACTED) before v"
  have "contains s (replace_str s REDACTED ?mid)"
    by (rule redact_keeps_absent [OF assms(3,2), of after]) (use nonempty hit in \<open>simp_all add: redact_secrets_def ss\<close>)
  with assms(2,3) show False by (simp add: replace_removes)
qed

lemma string_values_redacted:
  "set (string_values (redact_secret_values ss v)) = (\<lambda>s. redact_secrets s ss) ` set (string_values v)"
  by (induction ss v rule: redact_secret_values.induct) (force simp: image_UN image_iff)+

end
