(* ===== verification/Worker.thy ===== *)
theory Worker
  imports Workflow Providers ServerTools Redaction Crew
begin

text \<open>
  The in-process executor of the server (\<open>worker.rs\<close>): the host it gives the agent runtime, the
  sandbox, crew and agent runs, and how a run's outcome becomes its final state.

  Every transaction is taken at the environment of the state it starts in (\<open>clock\<close>), so that
  time passes and identifiers are drawn between the calls of a run. \<open>worker_services\<close> stands for
  what is outside the modelled code: the HTTP calls to the runner with their signature, the
  desktop sessions and the artifact store, \<open>base64\<close> and \<open>serde_json\<close>, and the two waits for an
  answer of a person, during which any other part of the system may act on the database; the
  polls of these waits are \<open>poll_worker_approval\<close> and \<open>poll_worker_input\<close>. The periodic renewal
  of the lease is one more such actor.
\<close>

section \<open>Configuration\<close>

record model_pricing =
  mp_input :: nat
  mp_output :: nat

record crew_usage =
  cu_prompt_tokens :: nat
  cu_completion_tokens :: nat
  cu_total_tokens :: nat

record worker_runtime =
  wr_agent :: "model_config option"
  wr_default_crew_model :: "crew_model_config option"
  wr_runner :: bool
  wr_desktop_runner :: bool
  wr_object_store :: "object_store option"
  wr_model_pricing :: "model_pricing option"
  wr_server_capabilities :: "capability list"

type_synonym 'a work = "(db, anyhow, 'a) hx"

record worker_services =
  ws_sign :: "(anyhow, unit) result"
  ws_post_job :: "sandbox_run_spec \<Rightarrow> http_response work"
  ws_parse_result :: "string \<Rightarrow> (anyhow, sandbox_run_result) result"
  ws_parse_spec :: "json \<Rightarrow> (anyhow, sandbox_run_spec) result"
  ws_get_file :: "uuid \<Rightarrow> string \<Rightarrow> http_response work"
  ws_persist_artifact :: "run_spec \<Rightarrow> string \<Rightarrow> string \<Rightarrow> string \<Rightarrow> json work"
  ws_desktop_session :: "uuid \<Rightarrow> uuid \<Rightarrow> unit work"
  ws_end_sessions :: "uuid \<Rightarrow> unit work"
  ws_wait_approval :: "uuid \<Rightarrow> bool work"
  ws_wait_input :: "uuid \<Rightarrow> json option work"
  ws_base64 :: "string \<Rightarrow> string"
  ws_from_str :: "string \<Rightarrow> (string, json) result"
  ws_pretty :: "json \<Rightarrow> string"
  ws_codec :: binding_codec
  ws_client :: "db model_client"
  ws_build :: "nat \<Rightarrow> bool \<Rightarrow> (anyhow, unit) result"

definition at_clock :: "(db \<Rightarrow> env) \<Rightarrow> (env \<Rightarrow> 'a dbtx) \<Rightarrow> 'a work" where
  "at_clock clock m = (\<lambda>s. map_errH api_chain (commit (m (clock s))) s)"

section \<open>The runner\<close>

definition read_runner_response ::
    "worker_services \<Rightarrow> http_response \<Rightarrow> (anyhow, sandbox_run_result) result" where
  "read_runner_response V r =
     bindE (http_bytes r) (\<lambda>body.
     bindE (ensure (http_success r)
       [''sandbox runner returned '' @ http_status r @ '': '' @ take_chars 2000 body]) (\<lambda>_.
     context_of ''invalid sandbox runner response'' (ws_parse_result V body)))"

definition no_runner :: anyhow where
  "no_runner = [''the Docker sandbox runner is not configured'']"

definition send_runner_job ::
    "worker_runtime \<Rightarrow> worker_services \<Rightarrow> sandbox_run_spec \<Rightarrow> sandbox_run_result work" where
  "send_runner_job R V spec =
     bindH (liftH (ensure (wr_runner R) no_runner)) (\<lambda>_.
     bindH (liftH (ws_sign V)) (\<lambda>_.
     bindH (contextH ''runner request failed'' (ws_post_job V spec)) (\<lambda>r.
     liftH (read_runner_response V r))))"

definition MAX_ARTIFACT_BYTES :: nat where
  "MAX_ARTIFACT_BYTES = 64 * 1024 * 1024"

definition artifact_too_large :: anyhow where
  "artifact_too_large = [''runner artifact exceeds the 64 MiB transfer limit'']"

definition fetch_runner_file ::
    "worker_runtime \<Rightarrow> worker_services \<Rightarrow> uuid \<Rightarrow> string \<Rightarrow> string work" where
  "fetch_runner_file R V i path =
     bindH (liftH (ensure (wr_runner R) no_runner)) (\<lambda>_.
     bindH (liftH (ws_sign V)) (\<lambda>_.
     bindH (contextH ''runner artifact request failed'' (ws_get_file V i path)) (\<lambda>r.
     liftH (
       bindE (ensure (\<not> (case http_content_length r of None \<Rightarrow> False | Some n \<Rightarrow> n > MAX_ARTIFACT_BYTES))
         artifact_too_large) (\<lambda>_.
       bindE (http_bytes r) (\<lambda>bytes.
       bindE (ensure (http_success r)
         [''sandbox runner returned '' @ http_status r @ '' for artifact: ''
           @ take_chars 2000 (from_utf8_lossy bytes)]) (\<lambda>_.
       bindE (ensure (length bytes \<le> MAX_ARTIFACT_BYTES) artifact_too_large) (\<lambda>_. Inr bytes))))))))"

section \<open>The host\<close>

text \<open>
  \<open>u128\<close> arithmetic: the products fit, their sum wraps in a release build.
\<close>

definition model_cost_micros :: "model_pricing \<Rightarrow> nat \<Rightarrow> nat \<Rightarrow> nat" where
  "model_cost_micros pricing prompt_tokens completion_tokens =
     (let input = prompt_tokens * mp_input pricing;
          output = completion_tokens * mp_output pricing in
      min u64_max (((input + output) mod 2 ^ 128 + 999999) div 1000000))"

definition run_cost :: "worker_runtime \<Rightarrow> nat \<Rightarrow> nat \<Rightarrow> nat" where
  "run_cost R p c = (case wr_model_pricing R of None \<Rightarrow> 0 | Some pricing \<Rightarrow> model_cost_micros pricing p c)"

definition lease_id :: "run_lease \<Rightarrow> uuid" where
  "lease_id l = spec_id (rec_spec (lease_run l))"

definition leased_event ::
    "uuid \<Rightarrow> run_lease \<Rightarrow> run_event_kind \<Rightarrow> json \<Rightarrow> leased_event_input" where
  "leased_event worker l kind payload =
     \<lparr>lei_run_id = lease_id l, lei_executor_id = worker, lei_lease_token = lease_lease_token l,
      lei_source_event_id = None, lei_kind = kind, lei_payload = payload\<rparr>"

definition append_worker_event ::
    "(db \<Rightarrow> env) \<Rightarrow> uuid \<Rightarrow> run_lease \<Rightarrow> run_event_kind \<Rightarrow> json \<Rightarrow> unit work" where
  "append_worker_event clock worker l kind payload =
     at_clock clock (\<lambda>E. bindT (append_leased_event E (leased_event worker l kind payload)) (\<lambda>_. returnT ()))"

definition worker_checkpoint :: "(db \<Rightarrow> env) \<Rightarrow> uuid \<Rightarrow> run_lease \<Rightarrow> bool \<Rightarrow> json \<Rightarrow> unit work" where
  "worker_checkpoint clock worker l safe state =
     at_clock clock (\<lambda>E. bindT (create_worker_checkpoint E worker (lease_id l) (lease_lease_token l) safe state)
       (\<lambda>_. returnT ()))"

definition payload_usage :: "run_event_kind \<Rightarrow> json \<Rightarrow> (nat \<times> nat) option" where
  "payload_usage kind payload =
     (if kind = Ev_ModelCompleted then
        map_option (\<lambda>u. (unwrap_or 0 (Option.bind (get ''prompt_tokens'' u) as_u64),
                         unwrap_or 0 (Option.bind (get ''completion_tokens'' u) as_u64)))
          (get ''usage'' payload)
      else None)"

definition host_emit ::
    "(db \<Rightarrow> env) \<Rightarrow> worker_runtime \<Rightarrow> uuid \<Rightarrow> run_lease \<Rightarrow> run_event_kind \<Rightarrow> json \<Rightarrow> unit work" where
  "host_emit clock R worker l kind payload =
     bindH (if kind = Ev_ModelStarted
            then at_clock clock (\<lambda>E. ensure_model_quota_for_run_tx E (lease_id l)) else returnH ()) (\<lambda>_.
     bindH (append_worker_event clock worker l kind payload) (\<lambda>_.
     case payload_usage kind payload of
       None \<Rightarrow> returnH ()
     | Some (p, c) \<Rightarrow>
         at_clock clock (\<lambda>E. record_model_usage_for_run_tx E (lease_id l) (saturating_add_u64 p c) (run_cost R p c))))"

definition tool_policy :: "run_spec \<Rightarrow> string dbtx" where
  "tool_policy spec =
     (case get_str ''tool_policy'' (spec_input spec) of
        Some policy \<Rightarrow> returnT policy
      | None \<Rightarrow>
          bindT (readT (\<lambda>d. unwrap_or Null (map_option prj_policy (find_project (spec_project_id spec) d)))) (\<lambda>v.
          returnT (unwrap_or ''autonomous'' (get_str ''tool_policy'' v))))"

text \<open>Artifacts are persisted and announced one by one, also those of a failed call.\<close>

definition announce_artifact ::
    "(db \<Rightarrow> env) \<Rightarrow> worker_runtime \<Rightarrow> worker_services \<Rightarrow> uuid \<Rightarrow> run_lease \<Rightarrow> string \<Rightarrow> string \<Rightarrow> unit work" where
  "announce_artifact clock R V worker l tool path =
     bindH (case wr_object_store R of
         Some _ \<Rightarrow>
           bindH (fetch_runner_file R V (lease_id l) path) (\<lambda>bytes.
           ws_persist_artifact V (rec_spec (lease_run l)) path tool bytes)
       | None \<Rightarrow> returnH (json_object [(''path'', String path), (''source'', String tool),
           (''storage'', String ''run_workspace'')])) (\<lambda>payload.
     host_emit clock R worker l Ev_ArtifactCreated payload)"

definition structured_tool :: "string \<Rightarrow> bool" where
  "structured_tool name = (starts_with ''Browser'' name \<or> starts_with ''Office'' name \<or> name = ''MCPTool'')"

definition structured_output :: "worker_services \<Rightarrow> string \<Rightarrow> string \<Rightarrow> json" where
  "structured_output V name stdout =
     (if structured_tool name then (case ws_from_str V stdout of Inr v \<Rightarrow> v | Inl _ \<Rightarrow> Null) else Null)"

definition tool_failed :: "string \<Rightarrow> sandbox_run_result \<Rightarrow> json \<Rightarrow> bool" where
  "tool_failed name r structured =
     (srr_timed_out r \<or> srr_exit_code r \<noteq> Some 0
      \<or> (name = ''MCPTool'' \<and> Option.bind (get ''success'' structured) as_bool \<noteq> Some True))"

definition tool_content :: "worker_services \<Rightarrow> string \<Rightarrow> bool \<Rightarrow> json \<Rightarrow> string \<Rightarrow> string \<Rightarrow> string" where
  "tool_content V name failed structured stdout stderr =
     (if failed then ''stdout:'' @ newline @ stdout @ newline @ ''stderr:'' @ newline @ stderr
      else if name = ''MCPTool'' then ws_pretty V (unwrap_or structured (get ''result'' structured))
      else if stderr = [] then stdout
      else stdout @ newline @ ''[stderr]'' @ newline @ stderr)"

definition artifact_paths :: "json \<Rightarrow> string list" where
  "artifact_paths structured =
     (case Option.bind (get ''artifacts'' structured) as_array of
        None \<Rightarrow> [] | Some vs \<Rightarrow> List.map_filter as_str vs)"

definition execute_sandbox_tool ::
    "(db \<Rightarrow> env) \<Rightarrow> worker_runtime \<Rightarrow> worker_services \<Rightarrow> uuid \<Rightarrow> run_lease \<Rightarrow> resolved_binding list
      \<Rightarrow> tool_invocation \<Rightarrow> tool_output work" where
  "execute_sandbox_tool clock R V worker l bindings call = (\<lambda>s0.
     (let E = clock s0; name = ti_name call in
      bindH (liftH (sandbox_plan_of E (ws_base64 V) bindings
        (spec_required_capabilities (rec_spec (lease_run l))) call)) (\<lambda>plan.
      bindH (if pl_desktop plan then
               bindH (liftH (ensure (wr_desktop_runner R) [''the desktop runner is not configured''])) (\<lambda>_.
               ws_desktop_session V (lease_id l) worker)
             else returnH ()) (\<lambda>_.
      bindH (send_runner_job R V \<lparr>srs_schema_version = SCHEMA_VERSION, srs_run_id = lease_id l,
        srs_image = pl_image plan, srs_argv = pl_argv plan, srs_environment = [],
        srs_stdin_base64 = pl_stdin plan, srs_network = pl_network plan, srs_limits = pl_limits plan\<rparr>) (\<lambda>r.
      let stdout = redact_secrets (srr_stdout r) (pl_redactions plan);
          stderr = redact_secrets (srr_stderr r) (pl_redactions plan);
          structured = structured_output V name stdout;
          failed = tool_failed name r structured in
      bindH (for_eachH (artifact_paths structured) (announce_artifact clock R V worker l name)) (\<lambda>_.
      returnH \<lparr>to_content = tool_content V name failed structured stdout stderr, to_is_error = failed,
        to_safe_to_resume = \<not> failed,
        to_metadata = json_object [(''sandbox'', sandbox_result_json E r), (''output'', structured)]\<rparr>))))) s0)"

definition think_output :: "tool_invocation \<Rightarrow> tool_output" where
  "think_output call =
     \<lparr>to_content = unwrap_or ''Thought recorded.'' (get_str ''thought'' (ti_arguments call)),
      to_is_error = False, to_safe_to_resume = True, to_metadata = Null\<rparr>"

definition await_worker_input ::
    "(db \<Rightarrow> env) \<Rightarrow> worker_services \<Rightarrow> uuid \<Rightarrow> run_lease \<Rightarrow> json \<Rightarrow> json option work" where
  "await_worker_input clock V worker l prompt =
     bindH (at_clock clock (\<lambda>E. request_worker_input E worker (lease_id l) (lease_lease_token l) prompt)) (\<lambda>i.
     ws_wait_input V i)"

definition await_worker_approval ::
    "(db \<Rightarrow> env) \<Rightarrow> worker_services \<Rightarrow> uuid \<Rightarrow> run_lease \<Rightarrow> json \<Rightarrow> bool work" where
  "await_worker_approval clock V worker l action =
     bindH (at_clock clock (\<lambda>E. request_worker_approval E worker (lease_id l) (lease_lease_token l) action)) (\<lambda>i.
     ws_wait_approval V i)"

definition denied_output :: tool_output where
  "denied_output =
     \<lparr>to_content = ''Denied by the project's read-only tool policy.'', to_is_error = True,
      to_safe_to_resume = True, to_metadata = json_object [(''policy'', String ''read_only'')]\<rparr>"

definition rejected_output :: tool_output where
  "rejected_output =
     \<lparr>to_content = ''The user rejected or did not answer the approval request.'', to_is_error = True,
      to_safe_to_resume = True, to_metadata = json_object [(''approval'', String ''rejected'')]\<rparr>"

definition dispatched_state :: "tool_invocation \<Rightarrow> json" where
  "dispatched_state call =
     json_object [(''phase'', String ''tool_dispatched''), (''tool_call_id'', String (ti_id call)),
       (''tool'', String (ti_name call)), (''arguments'', ti_arguments call)]"

definition requested_action :: "tool_invocation \<Rightarrow> json" where
  "requested_action call =
     json_object [(''tool'', String (ti_name call)), (''arguments'', ti_arguments call),
       (''tool_call_id'', String (ti_id call))]"

definition dispatch_tool ::
    "(db \<Rightarrow> env) \<Rightarrow> worker_runtime \<Rightarrow> worker_services \<Rightarrow> uuid \<Rightarrow> run_lease \<Rightarrow> resolved_binding list
      \<Rightarrow> tool_invocation \<Rightarrow> tool_output work" where
  "dispatch_tool clock R V worker l bindings call =
     bindH (if mutating_tool (ti_name call)
            then worker_checkpoint clock worker l False (dispatched_state call) else returnH ()) (\<lambda>_.
     execute_sandbox_tool clock R V worker l bindings call)"

definition host_execute_tool ::
    "(db \<Rightarrow> env) \<Rightarrow> worker_runtime \<Rightarrow> worker_services \<Rightarrow> uuid \<Rightarrow> run_lease \<Rightarrow> resolved_binding list
      \<Rightarrow> tool_invocation \<Rightarrow> tool_output work" where
  "host_execute_tool clock R V worker l bindings call =
     (let name = ti_name call; mutating = mutating_tool name in
      if name = ''Think'' then returnH (think_output call)
      else if name = ''AskUser'' then
        bindH (await_worker_input clock V worker l (ti_arguments call)) (\<lambda>response.
        \<lambda>s. returnH \<lparr>to_content = (case response of Some v \<Rightarrow> env_json (clock s) v | None \<Rightarrow> ''The input request expired.''),
          to_is_error = (response = None), to_safe_to_resume = True, to_metadata = Null\<rparr> s)
      else
        bindH (at_clock clock (\<lambda>E. tool_policy (rec_spec (lease_run l)))) (\<lambda>policy.
        if mutating \<and> policy = ''read_only'' then returnH denied_output
        else if mutating \<and> policy = ''confirm_mutations'' then
          bindH (await_worker_approval clock V worker l (requested_action call)) (\<lambda>approved.
          if \<not> approved then returnH rejected_output
          else dispatch_tool clock R V worker l bindings call)
        else dispatch_tool clock R V worker l bindings call))"

definition server_host ::
    "(db \<Rightarrow> env) \<Rightarrow> worker_runtime \<Rightarrow> worker_services \<Rightarrow> uuid \<Rightarrow> run_lease \<Rightarrow> resolved_binding list
      \<Rightarrow> db runtime_host" where
  "server_host clock R V worker l bindings =
     \<lparr>rh_tools = server_tools (wr_runner R) bindings,
      rh_emit = host_emit clock R worker l,
      rh_execute_tool = host_execute_tool clock R V worker l bindings,
      rh_checkpoint = (\<lambda>state safe. worker_checkpoint clock worker l safe state)\<rparr>"

end
