(* ===== verification/WorkerRuns.thy ===== *)
theory WorkerRuns
  imports Worker
begin

text \<open>
  The runs of the server worker (\<open>worker.rs\<close>): an agent run over the host, a crew run in the
  sandbox with its protocol of output lines, a plain sandbox run, and \<open>execute_run\<close>, which turns
  the outcome of any of them into the final state of the leased run.
\<close>

section \<open>Agent runs\<close>

definition agent_config_of :: "resolved_provider \<Rightarrow> model_config" where
  "agent_config_of rp =
     \<lparr>mc_base_url = rp_base_url rp, mc_api_key = rp_api_key rp, mc_model = rp_model rp,
      mc_timeout_ms = rp_timeout_ms rp, mc_max_steps = rp_max_steps rp,
      mc_verify_tls_certificates = rp_verify_tls rp\<rparr>"

definition resolve_provider_at ::
    "(db \<Rightarrow> env) \<Rightarrow> worker_runtime \<Rightarrow> run_spec \<Rightarrow> uuid \<Rightarrow> resolved_provider work" where
  "resolve_provider_at clock R spec i =
     (\<lambda>s. resolve_server_provider (clock s) (wr_object_store R) (spec_creator_user_id spec)
        (spec_project_id spec) i s)"

definition resolve_bindings_at ::
    "(db \<Rightarrow> env) \<Rightarrow> worker_runtime \<Rightarrow> worker_services \<Rightarrow> run_spec \<Rightarrow> resolved_binding list work" where
  "resolve_bindings_at clock R V spec =
     (\<lambda>s. (s, resolve_server_bindings_for_run (clock s) (ws_codec V) (wr_object_store R)
        (spec_project_id spec) (spec_input spec) s))"

definition agent_result_json :: "agent_result \<Rightarrow> json" where
  "agent_result_json r =
     json_object [(''content'', String (ar_content r)), (''steps'', nat_json (ar_steps r)),
       (''prompt_tokens'', nat_json (ar_prompt_tokens r)),
       (''completion_tokens'', nat_json (ar_completion_tokens r))]"

definition select_agent ::
    "(db \<Rightarrow> env) \<Rightarrow> worker_runtime \<Rightarrow> worker_services \<Rightarrow> run_spec \<Rightarrow> model_config work" where
  "select_agent clock R V spec =
     (case spec_model_profile_id spec of
        Some i \<Rightarrow>
          bindH (resolve_provider_at clock R spec i) (\<lambda>rp.
          liftH (agent_new (ws_build V) (agent_config_of rp)))
      | None \<Rightarrow> liftH (ok_or (wr_agent R) [''the server model provider is not configured'']))"

definition execute_agent_run ::
    "(db \<Rightarrow> env) \<Rightarrow> worker_runtime \<Rightarrow> worker_services \<Rightarrow> uuid \<Rightarrow> run_lease \<Rightarrow> json work" where
  "execute_agent_run clock R V worker l =
     (let spec = rec_spec (lease_run l) in
      bindH (select_agent clock R V spec) (\<lambda>cfg.
      bindH (resolve_bindings_at clock R V spec) (\<lambda>bindings.
      bindH (agent_execute (ws_client V) cfg spec (server_host clock R V worker l bindings)) (\<lambda>result.
      returnH (agent_result_json result)))))"

section \<open>Crew runs\<close>

definition crew_usage_of :: "json \<Rightarrow> crew_usage option" where
  "crew_usage_of response =
     Option.bind (Option.bind (get ''usage'' response) as_object) (\<lambda>usage.
     let prompt = Option.bind (obj_get ''prompt_tokens'' usage) as_u64;
         completion = Option.bind (obj_get ''completion_tokens'' usage) as_u64;
         total = Option.bind (obj_get ''total_tokens'' usage) as_u64 in
     if prompt = None \<and> completion = None \<and> total = None then None
     else Some \<lparr>cu_prompt_tokens = unwrap_or 0 prompt, cu_completion_tokens = unwrap_or 0 completion,
       cu_total_tokens = max (unwrap_or 0 total)
         (saturating_add_u64 (unwrap_or 0 prompt) (unwrap_or 0 completion))\<rparr>)"

fun agent_server_names :: "string list \<Rightarrow> json list \<Rightarrow> (anyhow, string list) result" where
  "agent_server_names names [] = Inr names"
| "agent_server_names names (v # vs) =
     bindE (ok_or (trimmed_str (Some v)) [''prepared Crew agent MCP names must be strings'']) (\<lambda>n.
     agent_server_names (btree_insert n names) vs)"

definition crew_agent_access :: "string \<Rightarrow> string list \<Rightarrow> string list \<Rightarrow> json" where
  "crew_agent_access i tools names =
     json_object [(''agentId'', String i), (''allowedTools'', Array (map String tools)),
       (''blockedTools'', Array []), (''allowedMcpServerNames'', Array (map String names)),
       (''blockedMcpServerNames'', Array []), (''delegationAllowed'', Bool False), (''gatewayHints'', Array [])]"

definition inject_agent ::
    "env \<Rightarrow> capability list \<Rightarrow> json \<Rightarrow> (anyhow, json \<times> json \<times> string list) result" where
  "inject_agent E capabilities agent =
     bindE (ok_or (as_object agent) [''prepared Crew agents must be objects'']) (\<lambda>m.
     bindE (ok_or (trimmed_str (obj_get ''id'' m)) [''prepared Crew agents require an id'']) (\<lambda>i.
     bindE (apply_crew_agent_tool_policy (env_debug E) m (\<lambda>c. c \<in> set capabilities)) (\<lambda>(m, tools).
     bindE (case obj_get ''mcpServerNames'' m of
         None \<Rightarrow> Inr []
       | Some v \<Rightarrow>
           bindE (ok_or (as_array v) [''prepared Crew agent mcpServerNames must be an array'']) (\<lambda>vs.
           agent_server_names [] vs)) (\<lambda>names.
     Inr (Object m, crew_agent_access i tools names, names)))))"

definition inject_crew_mcp_context ::
    "env \<Rightarrow> json \<Rightarrow> resolved_binding list \<Rightarrow> uuid \<Rightarrow> capability list \<Rightarrow> (anyhow, json \<times> string list) result" where
  "inject_crew_mcp_context E request bindings creator capabilities =
     bindE (ok_or (as_object request) [''the prepared Crew request must contain agents'']) (\<lambda>m.
     bindE (ok_or (Option.bind (obj_get ''agents'' m) as_array)
       [''the prepared Crew request must contain agents'']) (\<lambda>agents.
     bindE (collectE (inject_agent E capabilities) agents) (\<lambda>injected.
     let m = obj_insert ''agents'' (Array (map fst injected)) m;
         requested = fold btree_insert (concat (map (snd \<circ> snd) injected)) [];
         by_name = (\<lambda>n. map_of (rev (map (\<lambda>b. (rb_name b, b)) bindings)) n);
         resolved = fold btree_insert (map rb_name bindings) [] in
     bindE (ensure (requested = resolved)
       [''resolved Crew MCP bindings do not match the prepared agent allowlists'']) (\<lambda>_.
     bindE (collectE (\<lambda>n. ok_or (by_name n)
       [''Crew MCP binding '' @ env_debug E n @ '' was not resolved'']) requested) (\<lambda>bs.
     Inr (Object (obj_insert ''governance'' (json_object
           [(''subject'', String (''server-run:'' @ env_uuid E creator)),
            (''subjectRoles'', Array [String ''runner'']), (''policyStrict'', Bool True),
            (''denyRules'', Array []), (''pendingApprovalTypes'', Array []),
            (''agentAccess'', Array (map (fst \<circ> snd) injected))])
         (obj_insert ''executorMcpBindings'' (Array (map sandbox_value bs)) m)),
       concat (map secret_values bs)))))))"

definition crew_config_of :: "resolved_provider \<Rightarrow> crew_model_config" where
  "crew_config_of rp =
     \<lparr>cmc_base_url = rp_base_url rp, cmc_api_key = rp_api_key rp, cmc_model = rp_model rp,
      cmc_timeout_ms = rp_timeout_ms rp, cmc_verify_tls_certificates = rp_verify_tls rp\<rparr>"

definition select_crew_model :: "(db \<Rightarrow> env) \<Rightarrow> worker_runtime \<Rightarrow> run_spec \<Rightarrow> crew_model_config work" where
  "select_crew_model clock R spec =
     (case spec_model_profile_id spec of
        Some i \<Rightarrow> bindH (resolve_provider_at clock R spec i) (\<lambda>rp. returnH (crew_config_of rp))
      | None \<Rightarrow> liftH (ok_or (wr_default_crew_model R) [''the server Crew model provider is not configured'']))"

fun resolve_profiles ::
    "(db \<Rightarrow> env) \<Rightarrow> worker_runtime \<Rightarrow> run_spec \<Rightarrow> uuid list \<Rightarrow> (uuid \<times> crew_model_config) list work" where
  "resolve_profiles clock R spec [] = returnH []"
| "resolve_profiles clock R spec (i # is) =
     bindH (resolve_provider_at clock R spec i) (\<lambda>rp.
     bindH (resolve_profiles clock R spec is) (\<lambda>rest. returnH ((i, crew_config_of rp) # rest)))"

definition profile_secrets :: "(uuid \<times> crew_model_config) list \<Rightarrow> string list" where
  "profile_secrets ps = List.map_filter (\<lambda>(_, c). filter_opt (\<lambda>k. k \<noteq> []) (cmc_api_key c)) ps"

definition crew_timeout_seconds :: "crew_model_config \<Rightarrow> (uuid \<times> crew_model_config) list \<Rightarrow> nat" where
  "crew_timeout_seconds model ps =
     (let longest = foldl max (cmc_timeout_ms model) (map (cmc_timeout_ms \<circ> snd) ps) in
      max 60 (min (24 * 60 * 60) (saturating_add_u64 (longest div 1000) 60)))"

definition crew_job :: "env \<Rightarrow> worker_services \<Rightarrow> uuid \<Rightarrow> json \<Rightarrow> nat \<Rightarrow> sandbox_run_spec" where
  "crew_job E V i request timeout =
     \<lparr>srs_schema_version = SCHEMA_VERSION, srs_run_id = i, srs_image = CrewImage,
      srs_argv = [''python3'', ''/opt/cowork/crew-runtime/main.py'', ''execute''], srs_environment = [],
      srs_stdin_base64 = Some (ws_base64 V (env_json E request)), srs_network = FilteredEgress,
      srs_limits = \<lparr>sl_memory_bytes = 4 * 1024 * 1024 * 1024, sl_cpu_nanos = 2000000000, sl_pids = 512,
        sl_timeout_seconds = timeout, sl_tmpfs_bytes = 1024 * 1024 * 1024,
        sl_output_bytes = 32 * 1024 * 1024\<rparr>\<rparr>"

definition exit_code_debug :: "int option \<Rightarrow> string" where
  "exit_code_debug c = (case c of None \<Rightarrow> ''None'' | Some n \<Rightarrow> ''Some('' @ int_text n @ '')'')"

text \<open>
  The output lines: events are recorded, at most a thousand and none above a mebibyte, and exactly
  one other line is the response.
\<close>

fun crew_lines ::
    "(db \<Rightarrow> env) \<Rightarrow> worker_services \<Rightarrow> uuid \<Rightarrow> run_lease \<Rightarrow> string list \<Rightarrow> json option \<Rightarrow> nat
      \<Rightarrow> string list \<Rightarrow> (json option \<times> nat) work" where
  "crew_lines clock V worker l secrets response emitted [] = returnH (response, emitted)"
| "crew_lines clock V worker l secrets response emitted (line # ls) =
     bindH (liftH (context_of ''Crew runtime returned invalid JSON'' (map_err (\<lambda>e. [e]) (ws_from_str V line)))) (\<lambda>v.
     let v = redact_secret_values secrets v in
     if get ''localAiCoworkEvent'' v \<noteq> None then
       (\<lambda>s. if emitted < 1000 \<and> json_len (clock s) v \<le> 1024 * 1024 then
          bindH (append_worker_event clock worker l (crew_protocol_run_event_kind v)
            (json_object [(''adapter'', String ''crewai''), (''crew_event'', v)])) (\<lambda>_.
          crew_lines clock V worker l secrets response (Suc emitted) ls) s
        else crew_lines clock V worker l secrets response emitted ls s)
     else case response of
       Some _ \<Rightarrow> throwH [''Crew runtime returned more than one response'']
     | None \<Rightarrow> crew_lines clock V worker l secrets (Some v) emitted ls)"

definition crew_content :: "json \<Rightarrow> string" where
  "crew_content response =
     join blank_line (filter (\<lambda>v. trim v \<noteq> [])
       (List.map_filter (get_str ''output'')
         (unwrap_or [] (Option.bind (or_else (get ''taskResults'' response) (get ''task_results'' response))
           as_array))))"

definition finish_crew_run ::
    "(db \<Rightarrow> env) \<Rightarrow> worker_runtime \<Rightarrow> uuid \<Rightarrow> run_lease \<Rightarrow> json \<Rightarrow> nat \<Rightarrow> json work" where
  "finish_crew_run clock R worker l response emitted =
     (let status = unwrap_or ''failed'' (get_str ''status'' response);
          usage = crew_usage_of response;
          usage_value = unwrap_or Null (get ''usage'' response) in
      bindH (case usage of
          None \<Rightarrow> returnH ()
        | Some u \<Rightarrow> at_clock clock (\<lambda>E. record_model_usage_for_run_tx E (lease_id l) (cu_total_tokens u)
            (run_cost R (cu_prompt_tokens u) (cu_completion_tokens u)))) (\<lambda>_.
      if status \<noteq> ''completed'' then
        bindH (if usage \<noteq> None then
            append_worker_event clock worker l Ev_Warning (json_object
              [(''code'', String ''crew_usage_recorded_after_failure''), (''adapter'', String ''crewai''),
               (''status'', String status), (''usage'', usage_value)])
          else returnH ()) (\<lambda>_.
        throwH [''Crew runtime ended in state '' @ status @ '': ''
          @ unwrap_or ''unknown CrewAI error'' (get_str ''error'' response)])
      else
        let content = crew_content response in
        bindH (append_worker_event clock worker l Ev_ModelCompleted (json_object
          [(''adapter'', String ''crewai''), (''content'', String content),
           (''task_count'', nat_json (case Option.bind (get ''taskResults'' response) as_array of
              None \<Rightarrow> 0 | Some ts \<Rightarrow> length ts)),
           (''event_count'', nat_json emitted), (''usage'', usage_value)])) (\<lambda>_.
        returnH (json_object [(''content'', String content), (''crew_response'', response)]))))"

definition run_crew_job ::
    "(db \<Rightarrow> env) \<Rightarrow> worker_runtime \<Rightarrow> worker_services \<Rightarrow> uuid \<Rightarrow> run_lease \<Rightarrow> crew_model_config
      \<Rightarrow> string list \<Rightarrow> json \<Rightarrow> nat \<Rightarrow> json work" where
  "run_crew_job clock R V worker l model secrets request timeout =
     (\<lambda>s0. let spec = crew_job (clock s0) V (lease_id l) request timeout;
               input = spec_input (rec_spec (lease_run l));
               field = (\<lambda>k. unwrap_or Null (get k input)) in
      bindH (at_clock clock (\<lambda>E. ensure_model_quota_for_run_tx E (lease_id l))) (\<lambda>_.
      bindH (worker_checkpoint clock worker l False (json_object [(''phase'', String ''crew_dispatched''),
        (''adapter'', String ''crewai''), (''crew_id'', field ''crew_id''),
        (''crew_revision'', field ''crew_revision'')])) (\<lambda>_.
      bindH (append_worker_event clock worker l Ev_ModelStarted (json_object [(''adapter'', String ''crewai''),
        (''runtime'', String ''sandbox''), (''model'', String (cmc_model model))])) (\<lambda>_.
      bindH (send_runner_job R V spec) (\<lambda>r.
      let stderr = redact_secrets (srr_stderr r) secrets in
      bindH (liftH (ensure (\<not> srr_timed_out r) [''Crew runtime exceeded its configured timeout''])) (\<lambda>_.
      bindH (liftH (ensure (srr_exit_code r = Some 0) [''Crew runtime failed with exit code ''
        @ exit_code_debug (srr_exit_code r) @ '': '' @ take_chars 8000 (trim stderr)])) (\<lambda>_.
      bindH (crew_lines clock V worker l secrets None 0
        (filter (\<lambda>line. trim line \<noteq> []) (lines (srr_stdout r)))) (\<lambda>(response, emitted).
      bindH (liftH (ok_or response [''Crew runtime returned no response''])) (\<lambda>v.
      finish_crew_run clock R worker l v emitted)))))))) s0)"

definition execute_crew_run ::
    "(db \<Rightarrow> env) \<Rightarrow> worker_runtime \<Rightarrow> worker_services \<Rightarrow> uuid \<Rightarrow> run_lease \<Rightarrow> json work" where
  "execute_crew_run clock R V worker l =
     (let spec = rec_spec (lease_run l) in
      bindH (select_crew_model clock R spec) (\<lambda>model.
      bindH (liftH (ok_or (get ''crew_definition'' (spec_input spec))
        [''the Crew run has no frozen crew_definition''])) (\<lambda>definition.
      bindH (\<lambda>s. (s, map_err api_chain (crew_profile_ids_for_server (clock s) (spec_input spec)))) (\<lambda>ids.
      bindH (resolve_profiles clock R spec ids) (\<lambda>ps.
      bindH (resolve_bindings_at clock R V spec) (\<lambda>bindings.
      bindH (\<lambda>s. (s, prepare_crew_request_with_agent_models (env_debug (clock s)) (env_uuid (clock s)) definition
        spec model (map (\<lambda>(i, c). (env_uuid (clock s) i, c)) ps))) (\<lambda>request.
      bindH (\<lambda>s. (s, inject_crew_mcp_context (clock s) request bindings (spec_creator_user_id spec)
        (wr_server_capabilities R))) (\<lambda>(request, binding_secrets).
      run_crew_job clock R V worker l model
        ((case cmc_api_key model of None \<Rightarrow> [] | Some k \<Rightarrow> [k]) @ profile_secrets ps @ binding_secrets)
        request (crew_timeout_seconds model ps)))))))))"

section \<open>Sandbox runs\<close>

fun sandbox_image_name :: "sandbox_image \<Rightarrow> string" where
  "sandbox_image_name Core = ''core''"
| "sandbox_image_name Gui = ''gui''"
| "sandbox_image_name CrewImage = ''crew''"

fun sandbox_network_name :: "sandbox_network \<Rightarrow> string" where
  "sandbox_network_name NetworkNone = ''none''"
| "sandbox_network_name FilteredEgress = ''filtered_egress''"

definition sandbox_spec_of ::
    "worker_services \<Rightarrow> run_spec \<Rightarrow> (anyhow, sandbox_run_spec) result" where
  "sandbox_spec_of V spec =
     bindE (ok_or (get ''sandbox'' (spec_input spec)) [''sandbox input is missing'']) (\<lambda>v.
     bindE (context_of ''invalid sandbox input'' (ws_parse_spec V v)) (\<lambda>s.
     Inr (s\<lparr>srs_run_id := spec_id spec, srs_schema_version := SCHEMA_VERSION\<rparr>)))"

definition finish_sandbox_run ::
    "(db \<Rightarrow> env) \<Rightarrow> uuid \<Rightarrow> run_lease \<Rightarrow> sandbox_run_result \<Rightarrow> json work" where
  "finish_sandbox_run clock worker l r = (\<lambda>s0.
     (let payload = sandbox_result_json (clock s0) r in
      if srr_timed_out r \<or> srr_exit_code r \<noteq> Some 0 then
        bindH (append_worker_event clock worker l Ev_ToolFailed payload) (\<lambda>_.
        throwH [''sandbox command failed with exit code '' @ exit_code_debug (srr_exit_code r)
          @ (if srr_timed_out r then '' after timeout'' else [])])
      else
        bindH (append_worker_event clock worker l Ev_ToolCompleted payload) (\<lambda>_.
        bindH (worker_checkpoint clock worker l True
          (json_object [(''phase'', String ''sandbox_completed''), (''result'', payload)])) (\<lambda>_.
        returnH (json_object [(''sandbox'', payload)])))) s0)"

definition execute_sandbox_run ::
    "(db \<Rightarrow> env) \<Rightarrow> worker_runtime \<Rightarrow> worker_services \<Rightarrow> uuid \<Rightarrow> run_lease \<Rightarrow> json work" where
  "execute_sandbox_run clock R V worker l =
     bindH (liftH (ensure (wr_runner R) no_runner)) (\<lambda>_.
     bindH (liftH (sandbox_spec_of V (rec_spec (lease_run l)))) (\<lambda>spec.
     bindH (liftH (ws_sign V)) (\<lambda>_.
     bindH (worker_checkpoint clock worker l False (json_object [(''phase'', String ''sandbox_dispatched''),
       (''image'', String (sandbox_image_name (srs_image spec))), (''argv'', Array (map String (srs_argv spec))),
       (''network'', String (sandbox_network_name (srs_network spec)))])) (\<lambda>_.
     bindH (append_worker_event clock worker l Ev_ToolStarted (json_object [(''tool'', String ''sandbox''),
       (''image'', String (sandbox_image_name (srs_image spec))),
       (''network'', String (sandbox_network_name (srs_network spec)))])) (\<lambda>_.
     bindH (contextH ''runner request failed'' (ws_post_job V spec)) (\<lambda>response.
     bindH (liftH (read_runner_response V response)) (\<lambda>r.
     finish_sandbox_run clock worker l r)))))))"

section \<open>From the outcome to the final state\<close>

definition failure_of :: "bool \<Rightarrow> anyhow \<Rightarrow> run_error" where
  "failure_of safe e =
     \<lparr>err_code = (if safe then ''executor_operation_failed'' else ''unsafe_tool_interrupted''),
      err_message = error_text e, err_retryable = False,
      err_details = json_object [(''safe_to_resume'', Bool safe)]\<rparr>"

definition run_outcome ::
    "(db \<Rightarrow> env) \<Rightarrow> worker_runtime \<Rightarrow> worker_services \<Rightarrow> uuid \<Rightarrow> run_lease \<Rightarrow> json work" where
  "run_outcome clock R V worker l =
     (let input = spec_input (rec_spec (lease_run l)) in
      if get ''sandbox'' input \<noteq> None then execute_sandbox_run clock R V worker l
      else if get_str ''task_runner'' input = Some ''crew'' then execute_crew_run clock R V worker l
      else execute_agent_run clock R V worker l)"

definition settle_run ::
    "(db \<Rightarrow> env) \<Rightarrow> uuid \<Rightarrow> run_lease \<Rightarrow> (anyhow, json) result \<Rightarrow> run_record work" where
  "settle_run clock worker l outcome =
     (case outcome of
        Inr v \<Rightarrow>
          at_clock clock (\<lambda>E. complete_leased_run E (lease_id l) worker (lease_lease_token l) v None Null)
      | Inl e \<Rightarrow> (\<lambda>s.
          let safe = unwrap_or True (latest_checkpoint (lease_id l) s) in
          if safe
          then at_clock clock (\<lambda>E. fail_leased_run E (lease_id l) worker (lease_lease_token l) (failure_of True e)) s
          else at_clock clock (\<lambda>E. interrupt_leased_run E (lease_id l) worker (lease_lease_token l)
            (failure_of False e)) s))"

definition execute_run ::
    "(db \<Rightarrow> env) \<Rightarrow> worker_runtime \<Rightarrow> worker_services \<Rightarrow> uuid \<Rightarrow> run_lease \<Rightarrow> run_record work" where
  "execute_run clock R V worker l = (\<lambda>s0.
     case run_outcome clock R V worker l s0 of (s1, outcome) \<Rightarrow>
       (let s2 = (if wr_desktop_runner R then fst (ws_end_sessions V (lease_id l) s1) else s1) in
        settle_run clock worker l outcome s2))"

end
