(* ===== verification/WorkerFacts.thy ===== *)
theory WorkerFacts
  imports WorkerRuns LeaseFacts
begin

text \<open>
  What the worker leaves in the database before it reaches the runner: checkpoints are written by
  one statement only, a new one is the latest, and a runner that refuses jobs outside a condition
  (\<open>guarded\<close>) cannot be told from the real one when every job meets the condition.
\<close>

section \<open>Checkpoints\<close>

interpretation same_checkpoints: state_preorder "\<lambda>d d'. checkpoints d' = checkpoints d"
  by unfold_locales simp_all

named_theorems checkpoint_intros \<open>transactions that leave the checkpoints as they were\<close>

lemmas [checkpoint_intros] = same_checkpoints.obeys_rules

lemma writeT_checkpoints [checkpoint_intros]:
  "(\<And>d. checkpoints (f d) = checkpoints d) \<Longrightarrow> obeys (\<lambda>d d'. checkpoints d' = checkpoints d) (writeT f)"
  by (rule obeysI) (simp add: tx_simps)

lemma checkpoint_statements [checkpoint_intros]:
  "obeys (\<lambda>d d'. checkpoints d' = checkpoints d) (new_v4 E)"
  "obeys (\<lambda>d d'. checkpoints d' = checkpoints d) (update_run i f)"
  "obeys (\<lambda>d d'. checkpoints d' = checkpoints d) (queue_push E r e)"
  by (auto intro!: obeysI simp: tx_simps queue_push_def Let_def)

lemma append_event_checkpoints [checkpoint_intros]:
  "obeys (\<lambda>d d'. checkpoints d' = checkpoints d) (append_event_tx_with_id E i n kind payload)"
  "obeys (\<lambda>d d'. checkpoints d' = checkpoints d) (append_event_tx E i kind payload)"
  unfolding append_event_tx_with_id_def append_event_tx_def Let_def
  by (auto intro!: checkpoint_intros split: option.splits)

lemma verify_lease_checkpoints [checkpoint_intros]:
  "obeys (\<lambda>d d'. checkpoints d' = checkpoints d) (verify_lease E i ex token)"
  unfolding verify_lease_def by (auto intro!: checkpoint_intros split: option.splits)

lemma unchanged_checkpoints:
  "obeys (\<lambda>d d'. d' = d) m \<Longrightarrow> obeys (\<lambda>d d'. checkpoints d' = checkpoints d) m"
  by (auto simp: obeys_def)

lemma add_usage_checkpoints [checkpoint_intros]:
  "obeys (\<lambda>d d'. checkpoints d' = checkpoints d) (add_usage E t c x)"
  unfolding add_usage_def by (cases x) (auto intro!: checkpoint_intros split: option.splits)

lemma record_model_usage_checkpoints [checkpoint_intros]:
  "obeys (\<lambda>d d'. checkpoints d' = checkpoints d) (record_model_usage_for_run_tx E i t c)"
  unfolding record_model_usage_for_run_tx_def
  by (intro checkpoint_intros run_quota_scopes_unchanged [THEN unchanged_checkpoints])

lemma append_leased_event_checkpoints [checkpoint_intros]:
  "obeys (\<lambda>d d'. checkpoints d' = checkpoints d) (append_leased_event E inp)"
  unfolding append_leased_event_def append_leased_event_with_accounting_def append_new_leased_event_def 
  by (auto intro!: checkpoint_intros ensure_model_quota_unchanged [THEN unchanged_checkpoints]
      split: option.splits)

lemma max_sequence_upper:
  assumes "c \<in> set (checkpoints d)" "ck_run_id c = i"
  shows "ck_sequence c \<le> max_sequence i d"
proof -
  let ?ys = "map ck_sequence (filter (\<lambda>c. ck_run_id c = i) (checkpoints d))"
  from assms have c: "ck_sequence c \<in> set ?ys" by simp
  then have "max_sequence i d = Max (set ?ys)"
    unfolding max_sequence_def by (cases ?ys) (simp_all only: list.case Max.set_eq_fold list.set(1) empty_iff)
  with c show ?thesis by (simp only: Max_ge finite_set)
qed

lemma latest_checkpoint_snoc:
  assumes "ck_run_id c = i" "max_sequence i d < ck_sequence c"
    "checkpoints d' = checkpoints d @ [c]"
  shows "latest_checkpoint i d' = Some (ck_safe c)"
proof -
  let ?xs = "filter (\<lambda>c. ck_run_id c = i) (checkpoints d')"
  let ?ys = "order_limit (\<lambda>c. - ck_sequence c) 1 ?xs"
  have c: "c \<in> set ?xs" using assms by simp
  then have "length ?xs \<noteq> 0" by (rule length_pos_if_in_set [THEN less_not_refl2])
  moreover have "length ?ys = min (length ?xs) 1" by (simp add: order_limit_def)
  ultimately have "length ?ys \<noteq> 0" by linarith
  then obtain y ys where ys: "?ys = y # ys" by (cases ?ys) auto
  with order_limit_first [OF ys c] have le: "ck_sequence c \<le> ck_sequence y" by simp
  have "set (y # ys) \<subseteq> set ?xs" unfolding ys [symmetric] by (rule set_order_limit)
  then have y: "y \<in> set (checkpoints d')" "ck_run_id y = i" by simp_all
  have "y = c"
    using max_sequence_upper [of y d i] y le assms(2) by (auto simp: assms(3))
  with ys show ?thesis by (simp add: latest_checkpoint_def)
qed

lemma insert_checkpoint_latest:
  assumes "insert_checkpoint E cid i safe v d = Inr (c, d')"
  shows "latest_checkpoint i d' = Some safe"
proof -
  from assms obtain c d1 e where
    c: "c = \<lparr>ck_id = cid, ck_run_id = i, ck_sequence = max_sequence i d + 1, ck_safe = safe,
              ck_executor_state = v, ck_created = env_now E\<rparr>"
    and d1: "d1 = d\<lparr>checkpoints := checkpoints d @ [c]\<rparr>"
    and e: "append_event_tx E i Ev_CheckpointCreated
       (json_object [(''checkpoint_id'', String (env_uuid E cid)),
          (''sequence'', Number (Integer (ck_sequence c))), (''safe_to_resume'', Bool safe)]) d1 = Inr (e, d')"
    unfolding insert_checkpoint_def by (auto simp: tx_simps Let_def)
  from obeysD [OF append_event_checkpoints(2) e] have "checkpoints d' = checkpoints d @ [c]"
    by (simp add: d1)
  then show ?thesis using latest_checkpoint_snoc [of c i d d'] by (simp add: c)
qed

lemma worker_checkpoint_latest:
  assumes "worker_checkpoint clock w l safe v s = (t, Inr u)"
  shows "latest_checkpoint (lease_id l) t = Some safe"
proof -
  from assms obtain c d where
    "insert_checkpoint (clock s) (env_new_v4 (clock s) (draws d)) (lease_id l) safe v
       (d\<lparr>draws := Suc (draws d)\<rparr>) = Inr (c, t)"
    unfolding worker_checkpoint_def at_clock_def map_errH_def create_worker_checkpoint_def
    by (auto simp: tx_simps commit_def map_err_def split: prod.splits sum.splits)
  then show ?thesis by (rule insert_checkpoint_latest)
qed

lemma latest_checkpoint_cong: "checkpoints d' = checkpoints d \<Longrightarrow> latest_checkpoint i d' = latest_checkpoint i d"
  by (simp add: latest_checkpoint_def)

lemma append_worker_event_checkpoints:
  assumes "append_worker_event clock w l kind v s = (t, r)"
  shows "checkpoints t = checkpoints s"
proof -
  let ?m = "bindT (append_leased_event (clock s) (leased_event w l kind v)) (\<lambda>_. returnT ())"
  from assms have "t = fst (commit ?m s)"
    by (simp add: append_worker_event_def at_clock_def map_errH_def split: prod.splits)
  moreover have "obeysH (\<lambda>d d'. checkpoints d' = checkpoints d) (commit ?m)"
    by (intro same_checkpoints.obeysH_commit checkpoint_intros)
  ultimately show ?thesis by (simp add: obeysH_def)
qed

section \<open>A guarded runner\<close>

definition guarded :: "(sandbox_run_spec \<Rightarrow> db \<Rightarrow> bool) \<Rightarrow> worker_services \<Rightarrow> worker_services" where
  "guarded P V = V\<lparr>ws_post_job := (\<lambda>job s. if P job s then ws_post_job V job s else (s, Inl [''refused'']))\<rparr>"

named_theorems guard_simps \<open>operations that do not reach the runner's job queue\<close>

lemma guarded_select [guard_simps]:
  "ws_sign (guarded P V) = ws_sign V" "ws_parse_result (guarded P V) = ws_parse_result V"
  "ws_parse_spec (guarded P V) = ws_parse_spec V" "ws_get_file (guarded P V) = ws_get_file V"
  "ws_persist_artifact (guarded P V) = ws_persist_artifact V"
  "ws_desktop_session (guarded P V) = ws_desktop_session V" "ws_end_sessions (guarded P V) = ws_end_sessions V"
  "ws_wait_approval (guarded P V) = ws_wait_approval V" "ws_wait_input (guarded P V) = ws_wait_input V"
  "ws_base64 (guarded P V) = ws_base64 V" "ws_from_str (guarded P V) = ws_from_str V"
  "ws_pretty (guarded P V) = ws_pretty V" "ws_codec (guarded P V) = ws_codec V"
  "ws_client (guarded P V) = ws_client V" "ws_build (guarded P V) = ws_build V"
  by (simp_all add: guarded_def)

lemma guarded_post: "P job s \<Longrightarrow> ws_post_job (guarded P V) job s = ws_post_job V job s"
  by (simp add: guarded_def)

lemma guarded_operations [guard_simps]:
  "read_runner_response (guarded P V) = read_runner_response V"
  "fetch_runner_file R (guarded P V) = fetch_runner_file R V"
  "announce_artifact clock R (guarded P V) = announce_artifact clock R V"
  "structured_output (guarded P V) = structured_output V"
  "tool_content (guarded P V) = tool_content V"
  "await_worker_input clock (guarded P V) = await_worker_input clock V"
  "await_worker_approval clock (guarded P V) = await_worker_approval clock V"
  "select_agent clock R (guarded P V) = select_agent clock R V"
  "resolve_bindings_at clock R (guarded P V) = resolve_bindings_at clock R V"
  "crew_job E (guarded P V) = crew_job E V"
  "sandbox_spec_of (guarded P V) = sandbox_spec_of V"
  by (simp_all add: fun_eq_iff read_runner_response_def fetch_runner_file_def announce_artifact_def
      structured_output_def tool_content_def await_worker_input_def await_worker_approval_def
      select_agent_def resolve_bindings_at_def crew_job_def sandbox_spec_of_def guarded_select
      split: option.split)

lemma guarded_crew_lines [guard_simps]:
  "crew_lines clock (guarded P V) w l secrets response n ls = crew_lines clock V w l secrets response n ls"
  by (induction ls arbitrary: response n) (simp_all add: guard_simps cong: option.case_cong if_cong)

lemma bindH_cong_at:
  "(\<And>x t. m s = (t, Inr x) \<Longrightarrow> f x t = g x t) \<Longrightarrow> bindH m f s = bindH m g s"
  by (auto simp: bindH_def split: prod.splits sum.splits)

lemma guarded_send:
  "P job s \<Longrightarrow> send_runner_job R (guarded P V) job s = send_runner_job R V job s"
  unfolding send_runner_job_def
  by (simp add: guard_simps bindH_def liftH_def contextH_def guarded_post split: sum.splits)

section \<open>Finishing without a result\<close>

text \<open>The lease of run \<open>i\<close> is \<open>ex\<close>'s under \<open>token\<close> and has not expired at the time of \<open>E\<close>.\<close>

definition holds :: "env \<Rightarrow> uuid \<Rightarrow> uuid \<Rightarrow> uuid \<Rightarrow> db \<Rightarrow> bool" where
  "holds E i ex token d =
     (case find_run i d of None \<Rightarrow> False | Some r \<Rightarrow> owns_lease i ex token r \<and> expires_after (env_now E) r)"

lemma holds_verify:
  assumes "consistent d" "holds E i ex token d"
  obtains r where "find_run i d = Some r" "verify_lease E i ex token d = Inr (r, d)" "owns_lease i ex token r"
proof -
  from assms(2) obtain r where r: "find_run i d = Some r" "owns_lease i ex token r" "expires_after (env_now E) r"
    by (auto simp: holds_def split: option.splits)
  let ?p = "\<lambda>r. owns_lease i ex token r \<and> expires_after (env_now E) r"
  from r have "fetch_optional ?p (runs d) \<noteq> None" by (auto simp: fetch_optional_None dest: find_run_Some)
  then obtain x where x: "fetch_optional ?p (runs d) = Some x" by auto
  then have "x \<in> set (runs d)" "run_id x = i" by (auto simp: owns_lease_def dest: fetch_optional_Some)
  with find_run_member [of d x] assms(1) r(1) have "x = r" by (simp add: consistent_def)
  with x r that show ?thesis by (simp add: verify_lease_def tx_simps)
qed

lemma finish_failing_total:
  assumes ok: "consistent d" "fresh_ids E d" and held: "holds E i ex token d"
    and st: "out_state out = Failed \<or> out_state out = Interrupted" "out_manifest out = None"
  shows "\<exists>rec d' r'. finish_leased_run E i ex token out d = Inr (rec, d') \<and> find_run i d' = Some r'
    \<and> run_state r' = out_state out \<and> run_error r' = out_error out \<and> run_lease_owner r' = None"
proof -
  from holds_verify [OF ok(1) held] obtain r where r: "find_run i d = Some r"
    "verify_lease E i ex token d = Inr (r, d)" "owns_lease i ex token r" by blast
  let ?f = "finish_row E (out_state out) (out_result out) (out_error out)"
  let ?d = "d\<lparr>runs := update_where (\<lambda>r. run_id r = i) ?f (runs d)\<rparr>"
  from r(3) st(1) have step: "can_transition_to (run_state r) (out_state out)" "\<not> holds_lease (out_state out)"
    by (auto simp: owns_lease_def can_transition_to.simps)
  have "sound d ?d"
    using r step find_run_Some [OF r(1)]
    by (intro owns_lease_update_sound [of r] finish_row_sound) (auto simp: owns_lease_def)
  with ok(1) have "consistent ?d" by (simp add: sound_def)
  moreover obtain d2 where d2: "release_executor E True ex ?d = Inr ((), d2)" "runs d2 = runs ?d"
    "events d2 = events ?d" "draws d2 = draws ?d" using release_executor_total by blast
  ultimately have "consistent d2"
    using obeysD [OF release_executor_sound d2(1)] by (simp add: sound_def)
  moreover have row: "find_run i ?d = Some (?f r)"
    using find_run_update_where [where f = ?f and j = i and i = i and d = d] r(1) by (simp add: finish_row_def clear_lease_def)
  then have "find_run i d2 = Some (?f r)" using d2(2) by (simp add: find_run_def)
  moreover have "fresh_ids E d2" using ok(2) d2(3,4) by (simp add: fresh_ids_def)
  ultimately obtain e d3 where d3: "append_event_tx E i Ev_Failed
      (outcome_payload (out_result out) (out_error out)) d2 = Inr (e, d3)"
    using append_event_tx_total by blast
  obtain k where "\<And>j. find_run j d3 = map_option (\<lambda>r. if j = i then bump k r else r) (find_run j d2)"
    by (rule logged_find_run [OF obeysD [OF append_event_tx_logged d3]]) blast
  then have "find_run i d3 = Some (bump k (?f r))" using \<open>find_run i d2 = _\<close> by simp
  moreover have "finish_leased_run E i ex token out d = Inr (row_to_run E (?f r), d3)"
    using r(2) step(1) row d2(1) d3 st
    by (auto simp: finish_leased_run_def tx_simps result_with_version_def)
  ultimately show ?thesis by (auto simp: finish_row_def clear_lease_def)
qed

end
