(* ===== verification/WorkerProperties.thy ===== *)
theory WorkerProperties
  imports WorkerFacts
begin

text \<open>
  The properties of the server worker: what is durable before a job reaches the runner, what the
  read-only policy admits, that a failed run is settled by its last checkpoint, and that what the
  worker redacts is gone.
\<close>

section \<open>Jobs that only read\<close>

definition read_only_argv :: "string list \<Rightarrow> bool" where
  "read_only_argv argv =
     (take 3 argv \<in> set (map (\<lambda>script. [''python3'', ''-c'', script]) [READ_SCRIPT, LIST_SCRIPT, GLOB_SCRIPT])
      \<or> take 3 argv = [''/opt/cowork/office-venv/bin/python'', ''-c'', OPEN_OFFICE_SCRIPT]
      \<or> take 1 argv = [''rg''] \<or> take 1 argv = [''curl''])"

definition read_only_action :: "string list \<Rightarrow> json \<Rightarrow> bool" where
  "read_only_action argv request =
     (case get_str ''action'' request of
        None \<Rightarrow> False
      | Some action \<Rightarrow>
          argv = [''node'', ''/opt/cowork/browser-tool.mjs'']
            \<and> action \<in> set [''navigate'', ''screenshot'', ''inspect'', ''tabs'']
          \<or> argv = [''/opt/cowork/office-venv/bin/python'', ''/opt/cowork/office-tool.py'']
            \<and> action \<in> set [''inspect'', ''export_pdf'', ''preview''])"

definition read_only_job :: "(string \<Rightarrow> string) \<Rightarrow> sandbox_run_spec \<Rightarrow> bool" where
  "read_only_job base64 job =
     (read_only_argv (srs_argv job)
      \<or> (\<exists>(E :: env) request. srs_stdin_base64 job = Some (base64 (env_json E request))
           \<and> read_only_action (srs_argv job) request))"

lemma get_str_action:
  "get_str ''action'' (Object (obj_insert ''action'' (String a) m)) = Some a"
  "get_str ''action'' (Object (if b then obj_insert ''visible'' v (obj_insert ''action'' (String a) m)
     else obj_insert ''action'' (String a) m)) = Some a"
  by (simp_all add: get_str_def obj_get_insert)

lemma browser_plan_read_only:
  assumes "browser_plan E base64 required call = Inr plan" "\<not> mutating_tool (ti_name call)"
  shows "\<exists>request. pl_stdin plan = Some (base64 (env_json E request)) \<and> read_only_action (pl_argv plan) request"
proof -
  from assms(1) obtain action m b where a: "browser_action (ti_name call) = Inr action"
    and argv: "pl_argv plan = [''node'', ''/opt/cowork/browser-tool.mjs'']"
    and stdin: "pl_stdin plan = Some (base64 (env_json E (Object
      (if b then obj_insert ''visible'' (Bool True) (obj_insert ''action'' (String action) m)
       else obj_insert ''action'' (String action) m))))"
    unfolding browser_plan_def bindE_Inr_iff ok_or_Inr_iff Let_def by (auto simp: core_plan_def)
  from a assms(2) have "action \<in> set [''navigate'', ''screenshot'', ''inspect'', ''tabs'']"
    by (auto simp: browser_action_def mutating_tool_def tx_simps split: if_splits)
  then have "read_only_action (pl_argv plan) (Object
      (if b then obj_insert ''visible'' (Bool True) (obj_insert ''action'' (String action) m)
       else obj_insert ''action'' (String action) m))"
    unfolding read_only_action_def get_str_action(2) by (simp add: argv)
  with stdin show ?thesis by blast
qed

lemma office_plan_read_only:
  assumes "office_plan E base64 call = Inr plan" "\<not> mutating_tool (ti_name call)"
  shows "\<exists>request. pl_stdin plan = Some (base64 (env_json E request)) \<and> read_only_action (pl_argv plan) request"
  using assms
  by (auto simp: office_plan_def office_action_def mutating_tool_def tx_simps core_plan_def read_only_action_def
      get_str_action split: if_splits)

lemma plan_read_only:
  assumes "sandbox_plan_of E base64 bindings required call = Inr plan" "\<not> mutating_tool (ti_name call)"
  shows "read_only_argv (pl_argv plan) \<or>
    (\<exists>request. pl_stdin plan = Some (base64 (env_json E request)) \<and> read_only_action (pl_argv plan) request)"
proof -
  have "ti_name call \<notin> {''Write'', ''Edit'', ''Bash'', ''MCPTool''}"
    using assms(2) by (auto simp: mutating_tool_def)
  then consider (argv) "read_only_argv (pl_argv plan)"
    | (browser) "browser_plan E base64 required call = Inr plan"
    | (office) "office_plan E base64 call = Inr plan"
    using assms(1)
    by (auto simp: sandbox_plan_of_def Let_def read_plan_def list_plan_def glob_plan_def grep_plan_def
        web_fetch_plan_def open_office_plan_def core_plan_def tx_simps read_only_argv_def split: if_splits)
  then show ?thesis
  proof cases
    case argv then show ?thesis by blast
  next
    case browser from browser_plan_read_only [OF this assms(2)] show ?thesis by blast
  next
    case office from office_plan_read_only [OF this assms(2)] show ?thesis by blast
  qed
qed

section \<open>Tools\<close>

text \<open>Desktop sessions are opened before the job is sent; they write their own tables.\<close>

definition keeps_checkpoints :: "worker_services \<Rightarrow> bool" where
  "keeps_checkpoints V = (\<forall>i w s. checkpoints (fst (ws_desktop_session V i w s)) = checkpoints s)"

definition plan_job :: "run_lease \<Rightarrow> sandbox_plan \<Rightarrow> sandbox_run_spec" where
  "plan_job l plan =
     \<lparr>srs_schema_version = SCHEMA_VERSION, srs_run_id = lease_id l, srs_image = pl_image plan,
      srs_argv = pl_argv plan, srs_environment = [], srs_stdin_base64 = pl_stdin plan,
      srs_network = pl_network plan, srs_limits = pl_limits plan\<rparr>"

lemma guarded_bind_send:
  "P job s \<Longrightarrow> bindH (send_runner_job R (guarded P V) job) f s = bindH (send_runner_job R V job) f s"
  by (simp add: bindH_def guarded_send)

lemma guarded_tool:
  assumes P: "\<And>plan t. sandbox_plan_of (clock s) (ws_base64 V) bindings
        (spec_required_capabilities (rec_spec (lease_run l))) call = Inr plan
      \<Longrightarrow> (keeps_checkpoints V \<Longrightarrow> checkpoints t = checkpoints s) \<Longrightarrow> P (plan_job l plan) t"
  shows "execute_sandbox_tool clock R (guarded P V) w l bindings call s = execute_sandbox_tool clock R V w l bindings call s"
proof -
  have kept: "checkpoints t = checkpoints s"
    if "(if b then bindH (liftH (ensure c e)) (\<lambda>_. ws_desktop_session V i w) else returnH ()) s = (t, x)"
      "keeps_checkpoints V" for b c e i t x
    using that
    by (auto simp: keeps_checkpoints_def bindH_def liftH_def returnH_def ensure_def split: if_splits)
      (metis fst_conv)+
  show ?thesis
    unfolding execute_sandbox_tool_def Let_def guard_simps plan_job_def [symmetric]
    by (intro bindH_cong_at) (auto simp: tx_simps intro!: guarded_bind_send P kept)
qed

definition recoverable_job :: "run_lease \<Rightarrow> worker_services \<Rightarrow> sandbox_run_spec \<Rightarrow> db \<Rightarrow> bool" where
  "recoverable_job l V job s =
     (latest_checkpoint (lease_id l) s = Some False \<or> read_only_job (ws_base64 V) job)"

lemma plan_job_read_only:
  assumes "sandbox_plan_of E base64 bindings required call = Inr plan" "\<not> mutating_tool (ti_name call)"
  shows "read_only_job base64 (plan_job l plan)"
  using plan_read_only [OF assms] by (auto simp: read_only_job_def plan_job_def)

lemma guarded_dispatch:
  assumes "keeps_checkpoints V"
  shows "dispatch_tool clock R (guarded (recoverable_job l V) V) w l bindings call = dispatch_tool clock R V w l bindings call"
proof
  fix s
  show "dispatch_tool clock R (guarded (recoverable_job l V) V) w l bindings call s = dispatch_tool clock R V w l bindings call s"
    unfolding dispatch_tool_def
  proof (rule bindH_cong_at, rule guarded_tool)
    fix x plan and t t' :: db
    assume before: "(if mutating_tool (ti_name call) then worker_checkpoint clock w l False (dispatched_state call)
        else returnH ()) s = (t, Inr x)"
      and plan: "sandbox_plan_of (clock t) (ws_base64 V) bindings
        (spec_required_capabilities (rec_spec (lease_run l))) call = Inr plan"
      and "keeps_checkpoints V \<Longrightarrow> checkpoints t' = checkpoints t"
    then have same: "checkpoints t' = checkpoints t" using assms by blast
    show "recoverable_job l V (plan_job l plan) t'"
    proof (cases "mutating_tool (ti_name call)")
      case True
      with before have "latest_checkpoint (lease_id l) t = Some False" by (auto intro: worker_checkpoint_latest)
      then show ?thesis using latest_checkpoint_cong [OF same] by (simp add: recoverable_job_def)
    next
      case False
      from plan_job_read_only [OF plan False] show ?thesis by (simp add: recoverable_job_def)
    qed
  qed
qed

lemma guarded_host:
  assumes "keeps_checkpoints V"
  shows "server_host clock R (guarded (recoverable_job l V) V) w l bindings = server_host clock R V w l bindings"
proof -
  have "host_execute_tool clock R (guarded (recoverable_job l V) V) w l bindings call
      = host_execute_tool clock R V w l bindings call" for call
    unfolding host_execute_tool_def guard_simps guarded_dispatch [OF assms] by (rule refl)
  then show ?thesis by (simp add: server_host_def fun_eq_iff)
qed

section \<open>Runs\<close>

lemma guarded_agent_run:
  assumes "keeps_checkpoints V"
  shows "execute_agent_run clock R (guarded (recoverable_job l V) V) w l = execute_agent_run clock R V w l"
  unfolding execute_agent_run_def guard_simps guarded_host [OF assms] by (rule refl)

lemma guarded_crew_job:
  "run_crew_job clock R (guarded (recoverable_job l V) V) w l model secrets request n
     = run_crew_job clock R V w l model secrets request n"
proof
  fix s
  have "recoverable_job l V job t"
    if "worker_checkpoint clock w l False v u = (u', Inr x)" "append_worker_event clock w l kind p u' = (t, Inr y)"
    for u v u' x kind p t y job
    using worker_checkpoint_latest [OF that(1)] latest_checkpoint_cong [OF append_worker_event_checkpoints [OF that(2)]]
    by (simp add: recoverable_job_def)
  then show "run_crew_job clock R (guarded (recoverable_job l V) V) w l model secrets request n s
      = run_crew_job clock R V w l model secrets request n s"
    unfolding run_crew_job_def Let_def guard_simps
    by (intro bindH_cong_at guarded_bind_send)
qed

lemma guarded_sandbox_run:
  "execute_sandbox_run clock R (guarded (recoverable_job l V) V) w l = execute_sandbox_run clock R V w l"
proof
  fix s
  have "bindH (contextH c (ws_post_job (guarded (recoverable_job l V) V) job)) f t
      = bindH (contextH c (ws_post_job V job)) f t"
    if "worker_checkpoint clock w l False v u = (u', Inr x)" "append_worker_event clock w l kind p u' = (t, Inr y)"
    for u v u' x kind p t y job c and f :: "_ \<Rightarrow> json work"
    using worker_checkpoint_latest [OF that(1)] latest_checkpoint_cong [OF append_worker_event_checkpoints [OF that(2)]]
    by (simp add: recoverable_job_def guarded_post bindH_def contextH_def)
  then show "execute_sandbox_run clock R (guarded (recoverable_job l V) V) w l s = execute_sandbox_run clock R V w l s"
    unfolding execute_sandbox_run_def Let_def guard_simps
    by (intro bindH_cong_at)
qed

lemma guarded_crew_run:
  "execute_crew_run clock R (guarded (recoverable_job l V) V) w l = execute_crew_run clock R V w l"
  unfolding execute_crew_run_def guard_simps guarded_crew_job by (rule refl)

text \<open>A worker whose only service is a runner that answers every job with exit code 0.\<close>

definition demo_runtime :: worker_runtime where
  "demo_runtime =
     \<lparr>wr_agent = None, wr_default_crew_model = None, wr_runner = True, wr_desktop_runner = False,
      wr_object_store = None, wr_model_pricing = None, wr_server_capabilities = []\<rparr>"

definition demo_job :: sandbox_run_spec where
  "demo_job =
     \<lparr>srs_schema_version = 2, srs_run_id = 0, srs_image = Core, srs_argv = [''/bin/true''], srs_environment = [],
      srs_stdin_base64 = None, srs_network = NetworkNone, srs_limits = default_limits\<rparr>"

definition demo_services :: worker_services where
  "demo_services =
     \<lparr>ws_sign = Inr (), ws_post_job = (\<lambda>_. returnH \<lparr>http_success = True, http_status = ''200 OK'',
        http_content_length = None, http_bytes = Inr []\<rparr>),
      ws_parse_result = (\<lambda>_. Inr \<lparr>srr_schema_version = 2, srr_run_id = 10, srr_container_name = ''c'',
        srr_workspace_volume = ''v'', srr_exit_code = Some 0, srr_timed_out = False, srr_stdout = ''done'',
        srr_stderr = [], srr_output_truncated = False\<rparr>),
      ws_parse_spec = (\<lambda>_. Inr demo_job), ws_get_file = (\<lambda>_ _. throwH [''none'']),
      ws_persist_artifact = (\<lambda>_ _ _ _. throwH [''none'']), ws_desktop_session = (\<lambda>_ _. returnH ()),
      ws_end_sessions = (\<lambda>_. returnH ()), ws_wait_approval = (\<lambda>_. returnH False),
      ws_wait_input = (\<lambda>_. returnH None), ws_base64 = id, ws_from_str = (\<lambda>_. Inl ''none''),
      ws_pretty = (\<lambda>_. []), ws_codec = \<lparr>bc_encode = (\<lambda>_. []), bc_decode = (\<lambda>_. Inl ''none'')\<rparr>,
      ws_client = \<lparr>mcl_post = (\<lambda>_ _ _. throwH [''none'']), mcl_completion = (\<lambda>_. Inl [''none'']),
        mcl_from_str = (\<lambda>_. Inl ''none''), mcl_to_string = (\<lambda>_. [])\<rparr>,
      ws_build = (\<lambda>_ _. Inr ())\<rparr>"

definition demo_lease :: "json \<Rightarrow> run_lease" where
  "demo_lease input =
     (case claim_server_run demo_env 9 60 demo_created of
        Inr (Some l, _) \<Rightarrow>
          l\<lparr>lease_run := (lease_run l)\<lparr>rec_spec := (rec_spec (lease_run l))\<lparr>spec_input := input\<rparr>\<rparr>\<rparr>
      | _ \<Rightarrow> undefined)"

definition demo_sandbox :: json where
  "demo_sandbox = Object [(''sandbox'', Null)]"

definition state_is :: "run_state \<Rightarrow> db \<times> (anyhow, run_record) result \<Rightarrow> bool" where
  "state_is st x = (case x of (_, Inr r) \<Rightarrow> rec_state r = st | _ \<Rightarrow> False)"

lemma demo_sandbox_completes:
  "state_is Completed (execute_run (\<lambda>_. demo_env) demo_runtime demo_services 9 (demo_lease demo_sandbox) demo_running)"
  by code_simp



section \<open>The read-only policy\<close>

lemma frozen_tool_policy:
  assumes "get_str ''tool_policy'' (spec_input spec) = Some policy"
  shows "at_clock clock (\<lambda>E. tool_policy spec) = returnH policy"
  using assms by (simp add: at_clock_def tool_policy_def map_errH_def map_err_def commit_def returnT_def
    returnH_def fun_eq_iff)

lemma guarded_read_only_host:
  assumes "get_str ''tool_policy'' (spec_input (rec_spec (lease_run l))) = Some ''read_only''"
  shows "server_host clock R (guarded (\<lambda>job s. read_only_job (ws_base64 V) job) V) w l bindings
    = server_host clock R V w l bindings"
proof -
  let ?V = "guarded (\<lambda>job s. read_only_job (ws_base64 V) job) V"
  have "execute_sandbox_tool clock R ?V w l bindings call s = execute_sandbox_tool clock R V w l bindings call s"
    if "\<not> mutating_tool (ti_name call)" for call s
    using that by (intro guarded_tool plan_job_read_only)
  then have "host_execute_tool clock R ?V w l bindings call s = host_execute_tool clock R V w l bindings call s"
    for call s
    unfolding host_execute_tool_def frozen_tool_policy [OF assms] guard_simps
    by (simp add: Let_def bindH_def returnH_def dispatch_tool_def)
  then show ?thesis by (simp add: server_host_def fun_eq_iff)
qed


definition demo_read_only :: json where
  "demo_read_only = Object [(''tool_policy'', String ''read_only'')]"


section \<open>The outcome\<close>

text \<open>C15: When the work of a run fails while the worker still holds its lease, the run is settled: it
  leaves the lease and becomes interrupted when its latest checkpoint is unsafe to resume, and
  failed otherwise, with the error of the work.\<close>

theorem failed_run_settled:
  assumes "run_outcome clock R V worker l s = (s1, Inl e)"
    and "s2 = (if wr_desktop_runner R then fst (ws_end_sessions V (lease_id l) s1) else s1)"
    and "consistent s2" "fresh_ids (clock s2) s2" "holds (clock s2) (lease_id l) worker (lease_lease_token l) s2"
  shows "\<exists>s' rec r. execute_run clock R V worker l s = (s', Inr rec) \<and> find_run (lease_id l) s' = Some r
    \<and> run_lease_owner r = None
    \<and> (if latest_checkpoint (lease_id l) s2 = Some False
       then run_state r = Interrupted \<and> run_error r = Some (failure_of False e)
       else run_state r = Failed \<and> run_error r = Some (failure_of True e))"
proof -
  let ?safe = "unwrap_or True (latest_checkpoint (lease_id l) s2)"
  let ?out = "\<lparr>out_state = (if ?safe then Failed else Interrupted), out_result = None,
    out_error = Some (failure_of ?safe e), out_manifest = None, out_diff_summary = Null\<rparr>"
  have "out_state ?out = Failed \<or> out_state ?out = Interrupted" "out_manifest ?out = None" by simp_all
  from finish_failing_total [OF assms(3-5) this] obtain rec s' r where fin: "finish_leased_run (clock s2) (lease_id l) worker (lease_lease_token l) ?out s2 = Inr (rec, s')"
    "find_run (lease_id l) s' = Some r" "run_state r = out_state ?out" "run_error r = out_error ?out"
    "run_lease_owner r = None"
    by blast
  have "execute_run clock R V worker l s = settle_run clock worker l (Inl e) s2"
    by (simp add: execute_run_def assms(1,2))
  also have "\<dots> = (s', Inr rec)"
    using fin(1)
    by (cases ?safe) (simp_all add: settle_run_def Let_def at_clock_def map_errH_def commit_def map_err_def
        fail_leased_run_def interrupt_leased_run_def)
  moreover have "?safe \<longleftrightarrow> latest_checkpoint (lease_id l) s2 \<noteq> Some False"
    by (auto simp: unwrap_or_def split: option.splits)
  ultimately show ?thesis using fin by (cases ?safe) auto
qed

theorem failed_run_settled_witness:
  "\<exists>s' rec r. execute_run (\<lambda>_. demo_env) demo_runtime demo_services 9 (demo_lease Null) demo_running = (s', Inr rec)
     \<and> find_run 10 s' = Some r \<and> run_state r = Failed"
proof -
  have i: "lease_id (demo_lease Null) = 10" by code_simp
  have "list_all (\<lambda>e. ev_event_id e < 20 + draws demo_running) (events demo_running)" by code_simp
  then have fresh: "fresh_ids demo_env demo_running"
    by (auto simp: fresh_ids_def demo_env_def list_all_iff inj_def)
  have spec: "spec_input (rec_spec (lease_run (demo_lease Null))) = Null"
    "spec_model_profile_id (rec_spec (lease_run (demo_lease Null))) = None"
    by code_simp+
  have fails: "run_outcome (\<lambda>_. demo_env) demo_runtime demo_services 9 (demo_lease Null) demo_running
      = (demo_running, Inl [''the server model provider is not configured''])"
    using spec
    by (simp add: run_outcome_def execute_agent_run_def select_agent_def demo_runtime_def get_str_def bindH_def
        liftH_def ok_or_def)
  have held: "holds demo_env 10 9 (lease_lease_token (demo_lease Null)) demo_running" by code_simp
  have "latest_checkpoint 10 demo_running = None" by code_simp
  with failed_run_settled [OF fails refl] demo_running_reachable fresh held i show ?thesis
    by (auto simp: demo_runtime_def dest: reachable_consistent)
qed

end
