(* ===== verification/ToolProperties.thy ===== *)
theory ToolProperties
  imports WorkerProperties AgentProperties
begin

text \<open>
  The properties of the worker's tools: the advertised table passes the checks of the agent
  runtime and agrees with what the host treats as mutating, the paths that reach a script stay in
  the workspace, redaction is complete, and the cost of a model call is the rounded-up price.
\<close>

section \<open>The tool table\<close>

definition tool_facts :: "tool_definition \<Rightarrow> string \<times> bool \<times> bool" where
  "tool_facts t = (td_name t, td_mutating t, is_object (td_input_schema t))"

definition fixed_names :: "string list" where
  "fixed_names = map td_name (base_tools @ workspace_tools @ browser_tools @ office_tools)"

definition tool_names :: "bool \<Rightarrow> resolved_binding list \<Rightarrow> string list" where
  "tool_names runner bindings =
     (if runner then fixed_names @ (if bindings \<noteq> [] then [''MCPTool''] else []) else [''Think'', ''AskUser''])"

lemma fixed_names_facts:
  "map tool_facts (base_tools @ workspace_tools @ browser_tools @ office_tools) =
     map (\<lambda>n. (n, mutating_tool n, True)) fixed_names"
  "map tool_facts base_tools = map (\<lambda>n. (n, mutating_tool n, True)) [''Think'', ''AskUser'']"
  "list_all valid_tool_name (''MCPTool'' # fixed_names)" "distinct (''MCPTool'' # fixed_names)"
  by code_simp+

lemma server_tool_facts:
  "map tool_facts (server_tools runner bindings) = map (\<lambda>n. (n, mutating_tool n, True)) (tool_names runner bindings)"
  using fixed_names_facts(1,2)
  by (simp add: server_tools_def tool_names_def mcp_tool_def tool_def_def tool_facts_def mutating_tool_def
      object_schema_def json_object_def is_object_def)

lemma tool_names_ok:
  "list_all valid_tool_name (tool_names runner bindings)" "distinct (tool_names runner bindings)"
proof -
  have "list_all valid_tool_name [''Think'', ''AskUser'']" by code_simp
  with fixed_names_facts(3) show "list_all valid_tool_name (tool_names runner bindings)"
    by (auto simp: tool_names_def)
  from fixed_names_facts(4) show "distinct (tool_names runner bindings)"
    by (auto simp: tool_names_def)
qed

lemma map_tool_facts:
  assumes "map tool_facts ts = map (\<lambda>n. (n, mutating_tool n, True)) ns"
  shows "map td_name ts = ns"
    and "list_all (\<lambda>t. td_mutating t = mutating_tool (td_name t) \<and> is_object (td_input_schema t)) ts"
  using assms by (induction ts arbitrary: ns) (auto simp: tool_facts_def)

text \<open>Arguments that every tool accepts.\<close>

definition full_arguments :: "string \<Rightarrow> json" where
  "full_arguments server =
     Object [(''command'', String ''x''), (''content'', String ''x''), (''new_string'', String ''x''),
       (''old_string'', String ''x''), (''path'', String ''x''), (''pattern'', String ''x''),
       (''server_name'', String server), (''tool_name'', String ''x''), (''url'', String ''https://x'')]"

lemma full_arguments_get:
  "get_str ''command'' (full_arguments server) = Some ''x''" "get_str ''content'' (full_arguments server) = Some ''x''"
  "get_str ''new_string'' (full_arguments server) = Some ''x''" "get_str ''old_string'' (full_arguments server) = Some ''x''"
  "get_str ''path'' (full_arguments server) = Some ''x''" "get_str ''pattern'' (full_arguments server) = Some ''x''"
  "get_str ''server_name'' (full_arguments server) = Some server" "get_str ''tool_name'' (full_arguments server) = Some ''x''"
  "get_str ''url'' (full_arguments server) = Some ''https://x''" "get ''arguments'' (full_arguments server) = None"
  "as_object (full_arguments server) \<noteq> None"
  by (simp_all add: full_arguments_def get_str_def obj_get_def)

lemma full_arguments_valid:
  "validated_workspace_path ''x'' = Inr ''x''" "validated_glob_pattern ''x'' = Inr ''x''" "trim ''x'' \<noteq> []"
  "starts_with ''https://'' ''https://x''" "\<not> has_control ''x''"
  by code_simp+

lemma fixed_names_dispatched:
  "list_all (\<lambda>n. n \<in> set [''Think'', ''AskUser'', ''Read'', ''Write'', ''Edit'', ''ListDir'', ''Glob'', ''Grep'', ''Bash'',
       ''WebFetch'', ''DesktopOpenOffice'']
     \<or> starts_with ''Browser'' n \<and> is_ok (browser_action n)
     \<or> \<not> starts_with ''Browser'' n \<and> starts_with ''Office'' n \<and> is_ok (office_action n)) fixed_names"
  by code_simp

lemma is_ok_simps [simp]: "is_ok (Inr x)" "\<not> is_ok (Inl e)" "is_ok r \<Longrightarrow> is_ok (bindE r f) \<longleftrightarrow> (\<forall>x. r = Inr x \<longrightarrow> is_ok (f x))"
  by (auto simp: is_ok_def split: sum.splits)

lemma dispatch_ok:
  assumes "\<not> a9" "a1 \<or> a2 \<or> a3 \<or> a4 \<or> a5 \<or> a6 \<or> a7 \<or> a8 \<or> a12 \<or> a10 \<and> ok10 \<or> \<not> a10 \<and> a11 \<and> ok11"
    and "is_ok x1" "is_ok x2" "is_ok x3" "is_ok x4" "is_ok x5" "is_ok x6" "is_ok x7" "is_ok x8" "is_ok x12"
    and "ok10 \<Longrightarrow> is_ok x10" "ok11 \<Longrightarrow> is_ok x11" "a12 \<Longrightarrow> \<not> a10 \<and> \<not> a11"
  shows "is_ok (if a1 then x1 else if a2 then x2 else if a3 then x3 else if a4 then x4 else if a5 then x5
    else if a6 then x6 else if a7 then x7 else if a8 then x8 else if a9 then x9 else if a10 then x10
    else if a11 then x11 else if a12 then x12 else y)"
  using assms by (simp split: if_split) blast

lemma full_arguments_ok:
  assumes "ti_arguments call = full_arguments server"
  shows "path_argument call = Inr ''x''" "path_or_root call = Inr ''x''" "argument call ''content'' = Inr ''x''"
    "argument call ''old_string'' = Inr ''x''" "argument call ''new_string'' = Inr ''x''"
    "argument call ''pattern'' = Inr ''x''" "argument call ''command'' = Inr ''x''" "argument call ''url'' = Inr ''https://x''"
    "argument call ''server_name'' = Inr server" "argument call ''tool_name'' = Inr ''x''"
  using assms
  by (simp_all add: argument_def path_argument_def path_or_root_def full_arguments_get full_arguments_valid ok_or_def)

lemma plans_exist:
  assumes "ti_arguments call = full_arguments server"
  shows "is_ok (read_plan call)" "is_ok (write_plan base64 call)" "is_ok (edit_plan E base64 call)"
    "is_ok (list_plan call)" "is_ok (glob_plan call)" "is_ok (grep_plan call)" "is_ok (bash_plan call)"
    "is_ok (web_fetch_plan call)" "is_ok (open_office_plan call)"
  unfolding read_plan_def write_plan_def edit_plan_def list_plan_def glob_plan_def grep_plan_def
    bash_plan_def web_fetch_plan_def open_office_plan_def full_arguments_ok [OF assms] bindE_simps
    full_arguments_valid ensure_def
  by (simp_all add: full_arguments_valid)

lemma interactive_plans_exist:
  assumes "ti_arguments call = full_arguments server"
  shows "is_ok (browser_action (ti_name call)) \<Longrightarrow> is_ok (browser_plan E base64 required call)"
    and "is_ok (office_action (ti_name call)) \<Longrightarrow> is_ok (office_plan E base64 call)"
proof -
  obtain m where m: "as_object (ti_arguments call) = Some m" using full_arguments_get(11) assms by fastforce
  show "is_ok (browser_plan E base64 required call)" if "is_ok (browser_action (ti_name call))"
    using that unfolding browser_plan_def m ok_or_def Let_def
    by (cases "browser_action (ti_name call)") (simp_all only: bindE_simps option.case is_ok_simps)
  show "is_ok (office_plan E base64 call)" if "is_ok (office_action (ti_name call))"
    using that unfolding office_plan_def m ok_or_def
    by (cases "office_action (ti_name call)") (simp_all only: bindE_simps option.case is_ok_simps)
qed

lemma mcp_plan_exists:
  assumes "ti_arguments call = full_arguments (rb_name b)" "b \<in> set bindings"
  shows "is_ok (mcp_plan E base64 bindings call)"
proof -
  have "List.find (\<lambda>x. rb_name x = rb_name b) bindings \<noteq> None" using assms(2) by (auto simp: find_None_iff)
  then show ?thesis
    unfolding mcp_plan_def full_arguments_ok [OF assms(1)] bindE_simps
    using full_arguments_valid
    by (auto simp: ensure_def ok_or_def assms(1) full_arguments_get unwrap_or_def is_object_def)
qed

lemma advertised_tools_planned:
  assumes "n \<in> set (tool_names runner bindings)" "n \<noteq> ''Think''" "n \<noteq> ''AskUser''"
  shows "\<exists>arguments plan. sandbox_plan_of E base64 bindings required
    \<lparr>ti_id = i, ti_name = n, ti_arguments = arguments\<rparr> = Inr plan"
proof -
  let ?call = "\<lparr>ti_id = i, ti_name = n, ti_arguments = full_arguments (rb_name (hd bindings))\<rparr>"
  have "is_ok (sandbox_plan_of E base64 bindings required ?call)"
  proof (cases "n = ''MCPTool''")
    case True
    with assms fixed_names_facts(4) have "bindings \<noteq> []" by (auto simp: tool_names_def split: if_splits)
    then have "is_ok (mcp_plan E base64 bindings ?call)" by (intro mcp_plan_exists [of _ "hd bindings"]) simp_all
    with True show ?thesis by (simp add: sandbox_plan_of_def)
  next
    case False
    with assms have n: "n \<in> set fixed_names" by (auto simp: tool_names_def split: if_splits)
    have cases: "n = ''Read'' \<or> n = ''Write'' \<or> n = ''Edit'' \<or> n = ''ListDir'' \<or> n = ''Glob'' \<or> n = ''Grep'' \<or> n = ''Bash''
       \<or> n = ''WebFetch'' \<or> n = ''DesktopOpenOffice'' \<or> starts_with ''Browser'' n \<and> is_ok (browser_action n)
       \<or> \<not> starts_with ''Browser'' n \<and> starts_with ''Office'' n \<and> is_ok (office_action n)"
      using bspec [OF fixed_names_dispatched [unfolded list_all_iff] n] assms(2,3)
      unfolding list.set insert_iff empty_iff by argo
    have desktop: "\<not> starts_with ''Browser'' ''DesktopOpenOffice'' \<and> \<not> starts_with ''Office'' ''DesktopOpenOffice''"
      by code_simp
    have name: "ti_name ?call = n" by simp
    show ?thesis
      unfolding sandbox_plan_of_def Let_def name
      by (rule dispatch_ok [OF False cases])
        (use desktop in \<open>simp_all add: plans_exist interactive_plans_exist\<close>)
  qed
  then show ?thesis by (auto simp: is_ok_def split: sum.splits)
qed

text \<open>C17: The table of tools the worker advertises, whatever the bindings of the run, passes the validation of
  the agent runtime, marks a tool as mutating exactly when the host checkpoints and confirms it,
  and every tool beyond the two built-in ones has arguments for which a sandbox job is planned.\<close>

theorem server_tools_sound:
  "validate_tools (server_tools runner bindings) = Inr ()
   \<and> list_all (\<lambda>t. td_mutating t = mutating_tool (td_name t)
       \<and> (td_name t = ''Think'' \<or> td_name t = ''AskUser''
          \<or> (\<exists>arguments plan. sandbox_plan_of E base64 bindings required
               \<lparr>ti_id = i, ti_name = td_name t, ti_arguments = arguments\<rparr> = Inr plan)))
     (server_tools runner bindings)"
proof
  note facts = map_tool_facts [OF server_tool_facts [of runner bindings]]
  have names: "td_name t \<in> set (tool_names runner bindings)" if "t \<in> set (server_tools runner bindings)" for t
    using that facts(1) by (metis imageI set_map)
  show "validate_tools (server_tools runner bindings) = Inr ()"
    using facts(2) tool_names_ok [of runner bindings] names
    unfolding validate_tools_def validate_tools_from_iff by (auto simp: facts(1) list_all_iff)
  show "list_all (\<lambda>t. td_mutating t = mutating_tool (td_name t)
       \<and> (td_name t = ''Think'' \<or> td_name t = ''AskUser''
          \<or> (\<exists>arguments plan. sandbox_plan_of E base64 bindings required
               \<lparr>ti_id = i, ti_name = td_name t, ti_arguments = arguments\<rparr> = Inr plan)))
     (server_tools runner bindings)"
    using facts(2) advertised_tools_planned [OF names] unfolding list_all_iff by blast
qed

section \<open>Paths\<close>

text \<open>Lexical resolution of a relative path under a directory.\<close>

fun walk :: "string list \<Rightarrow> string list \<Rightarrow> string list" where
  "walk dir [] = dir"
| "walk dir (c # cs) =
     walk (if c = [] \<or> c = ''.'' then dir else if c = ''..'' then butlast dir else dir @ [c]) cs"

definition resolve_path :: "string list \<Rightarrow> string \<Rightarrow> string list" where
  "resolve_path root path = (if starts_with ''/'' path then walk [] (split_on (CHR ''/'') path)
     else walk root (split_on (CHR ''/'') path))"

lemma walk_inside: "''..'' \<notin> set cs \<Longrightarrow> prefix dir (walk dir cs)"
proof (induction cs arbitrary: dir)
  case (Cons c cs)
  then have "prefix (dir @ [c]) (walk (dir @ [c]) cs)" "prefix dir (walk dir cs)" by auto
  with Cons.prems show ?case by (auto dest: append_prefixD)
qed simp

text \<open>C18: A path or glob pattern that the worker accepts stays under the workspace: resolved component by
  component from any directory it ends at or below that directory, it carries no backslash, and an
  accepted path is passed on as it is, with no empty component and no NUL.\<close>

theorem accepted_paths_inside:
  "(validated_workspace_path path = Inr p \<longrightarrow>
      p = path \<and> prefix root (resolve_path root p) \<and> NUL \<notin> set p \<and> CHR 0x5C \<notin> set p
      \<and> [] \<notin> set (split_on (CHR ''/'') p))
   \<and> (validated_glob_pattern path = Inr p \<longrightarrow>
      p = path \<and> prefix root (resolve_path root p) \<and> CHR 0x5C \<notin> set p)"
  by (auto simp: validated_workspace_path_def validated_glob_pattern_def resolve_path_def list_ex_iff
      intro!: walk_inside split: if_splits)

theorem accepted_paths_inside_witness:
  "prefix [''workspace''] (resolve_path [''workspace''] ''src/./main.rs'')
   \<and> prefix [''workspace''] (resolve_path [''workspace''] ''**/*.rs'')"
proof -
  have "validated_workspace_path ''src/./main.rs'' = Inr ''src/./main.rs''"
    "validated_glob_pattern ''**/*.rs'' = Inr ''**/*.rs''" by code_simp+
  then show ?thesis
    using accepted_paths_inside [of "''src/./main.rs''" "''src/./main.rs''" "[''workspace'']"]
      accepted_paths_inside [of "''**/*.rs''" "''**/*.rs''" "[''workspace'']"] by simp
qed

section \<open>Redaction\<close>

lemma disjoint_no_clash:
  assumes "set p \<inter> set r = {}" "p \<noteq> []" "r \<noteq> []"
  shows "\<not> clashes p r"
proof -
  have "\<not> overlaps a b" if "set a \<inter> set b = {}" for a b :: string
  proof
    assume "overlaps a b"
    then obtain n where "1 \<le> n" "n \<le> length a" "prefix (drop (length a - n) a) b" by (auto simp: overlaps_def)
    then obtain c cs where "drop (length a - n) a = c # cs" "c \<in> set b"
      by (cases "drop (length a - n) a") (auto simp: prefix_def)
    moreover from this(1) have "c \<in> set a" by (metis in_set_dropD list.set_intros(1))
    ultimately show False using that by blast
  qed
  moreover have "\<not> sublist p r" "\<not> sublist r p"
    using assms by (auto dest!: set_mono_sublist simp: Int_absorb1 Int_absorb2)
  ultimately show ?thesis using assms by (simp add: clashes_def Int_commute)
qed

text \<open>C19: Redaction is complete: after it no secret of the list occurs in a text, nor in any string value of a
  document at any depth, provided the secret neither overlaps the marker nor is part of it. The
  order and number of the secrets do not matter, also when one contains another.\<close>

theorem redaction_complete:
  assumes "secret \<in> set secrets" "secret \<noteq> []" "\<not> clashes secret REDACTED"
  shows "\<not> contains secret (redact_secrets text secrets)
    \<and> list_all (\<lambda>s. \<not> contains secret s) (string_values (redact_secret_values secrets v))"
  using redact_secrets_complete [OF assms] by (auto simp: list_all_iff string_values_redacted)

theorem redaction_complete_witness:
  "\<not> contains ''sk-1'' (redact_secrets ''key sk-12 and sk-1'' [''sk-1'', ''sk-12''])"
proof -
  have "\<not> clashes ''sk-1'' REDACTED" by (rule disjoint_no_clash) (simp_all add: REDACTED_def)
  then show ?thesis
    by (rule redaction_complete [THEN conjunct1, rotated 2]) simp_all
qed

text \<open>
  Only the content of a tool's answer is redacted. The metadata, which the agent runtime writes to the
  event log beside it, holds the output of the job as the runner returned it.
\<close>

lemma tool_metadata_unredacted:
  assumes "execute_sandbox_tool clock R V worker l bindings call s = (t, Inr out)"
  obtains job u u' r where "send_runner_job R V job u = (u', Inr r)"
    and "Option.bind (get ''sandbox'' (to_metadata out)) (get_str ''stdout'') = Some (srr_stdout r)"
proof -
  from assms obtain job u u' r v where "send_runner_job R V job u = (u', Inr r)"
    "to_metadata out = json_object [(''sandbox'', sandbox_result_json (clock s) r), (''output'', v)]"
    unfolding execute_sandbox_tool_def by (fastforce simp: tx_simps Let_def)
  moreover have "get_str ''stdout'' (sandbox_result_json E r) = Some (srr_stdout r)" for E
    by (simp add: sandbox_result_json_def get_str_def json_object_def obj_get_def)
  ultimately show ?thesis
    by (intro that [of job u u' r]) (simp_all add: json_object_def obj_get_def)
qed

section \<open>Cost\<close>

text \<open>C20: While the token counts and prices stay below 2 to the 63 the cost of a model call is its price in
  micros of a token, rounded up to a whole micro, or the largest 64-bit number when that is
  smaller: never less than what was used.\<close>

theorem model_cost_exact:
  assumes "p < 2 ^ 63" "c < 2 ^ 63" "mp_input pricing < 2 ^ 63" "mp_output pricing < 2 ^ 63"
  shows "\<exists>micros. model_cost_micros pricing p c = min u64_max micros
    \<and> p * mp_input pricing + c * mp_output pricing \<le> micros * 1000000
    \<and> micros * 1000000 < p * mp_input pricing + c * mp_output pricing + 1000000"
proof -
  let ?n = "p * mp_input pricing + c * mp_output pricing"
  have "p * mp_input pricing \<le> 2 ^ 63 * 2 ^ 63" "c * mp_output pricing \<le> 2 ^ 63 * 2 ^ 63"
    using assms by (simp_all only: mult_le_mono less_imp_le)
  then have "?n < 2 ^ 128" by simp
  then have "model_cost_micros pricing p c = min u64_max ((?n + 999999) div 1000000)"
    by (simp add: model_cost_micros_def Let_def)
  moreover have "?n + 999999 = (?n + 999999) div 1000000 * 1000000 + (?n + 999999) mod 1000000"
    "(?n + 999999) mod 1000000 < 1000000" by simp_all
  then have "?n \<le> (?n + 999999) div 1000000 * 1000000" "(?n + 999999) div 1000000 * 1000000 < ?n + 1000000"
    by linarith+
  ultimately show ?thesis by blast
qed

theorem model_cost_exact_witness:
  "\<exists>micros. model_cost_micros \<lparr>mp_input = 3000000, mp_output = 15000000\<rparr> 7 2 = min u64_max micros
     \<and> 51000000 \<le> micros * 1000000"
  using model_cost_exact [of 7 2 "\<lparr>mp_input = 3000000, mp_output = 15000000\<rparr>"] by auto

end
