(* ===== verification/NetworkSafety.thy ===== *)
theory NetworkSafety
  imports IpAddr Utf8
begin

text \<open>
  The rules for destinations on the public network: \<open>network_safety.rs\<close> of the desktop
  application, with its fetch loop over redirects, and the address check of the device agent. The
  \<open>url\<close> crate, name resolution, the HTTP client and the clock are the parameter record \<open>web\<close> over
  a state of the outside world.
\<close>

section \<open>Addresses\<close>

definition is_public_ipv4 :: "ipv4 \<Rightarrow> bool" where
  "is_public_ipv4 address =
     (let a = octet 0 address; b = octet 1 address; c = octet 2 address in
      \<not> (a = 0 \<or> a = 10 \<or> a = 127 \<or> (a = 100 \<and> 64 \<le> b \<and> b \<le> 127) \<or> (a = 169 \<and> b = 254)
        \<or> (a = 172 \<and> 16 \<le> b \<and> b \<le> 31) \<or> (a = 192 \<and> b = 0 \<and> c = 0) \<or> (a = 192 \<and> b = 0 \<and> c = 2)
        \<or> (a = 192 \<and> b = 88 \<and> c = 99) \<or> (a = 192 \<and> b = 168) \<or> (a = 198 \<and> (b = 18 \<or> b = 19))
        \<or> (a = 198 \<and> b = 51 \<and> c = 100) \<or> (a = 203 \<and> b = 0 \<and> c = 113) \<or> a \<ge> 224))"

definition ipv4_mapped :: "ipv6 \<Rightarrow> ipv4 option" where
  "ipv4_mapped address =
     (if list_all (\<lambda>i. segment i address = 0) [0, 1, 2, 3, 4] \<and> segment 5 address = 0xFFFF
      then Some (ipv4_new (ucast (drop_bit 8 (segment 6 address))) (ucast (segment 6 address))
        (ucast (drop_bit 8 (segment 7 address))) (ucast (segment 7 address)))
      else None)"

definition is_public_ipv6 :: "ipv6 \<Rightarrow> bool" where
  "is_public_ipv6 address =
     (case ipv4_mapped address of
        Some mapped \<Rightarrow> is_public_ipv4 mapped
      | None \<Rightarrow>
          let s0 = segment 0 address; s1 = segment 1 address;
              in_global_unicast = (s0 AND 0xE000 = 0x2000);
              ietf_special = (s0 = 0x2001 \<and> s1 \<le> 0x01FF);
              documentation = ((s0 = 0x2001 \<and> s1 = 0x0DB8) \<or> (s0 = 0x3FFF \<and> s1 \<le> 0x0FFF));
              transition_6to4 = (s0 = 0x2002) in
          in_global_unicast \<and> \<not> ietf_special \<and> \<not> documentation \<and> \<not> transition_6to4)"

definition is_public_ip :: "ip_addr \<Rightarrow> bool" where
  "is_public_ip address = (case address of V4 a \<Rightarrow> is_public_ipv4 a | V6 a \<Rightarrow> is_public_ipv6 a)"

text \<open>The device agent's version; its IPv4 rule is written out again with the same conditions.\<close>

definition agent_public_ipv4 :: "ipv4 \<Rightarrow> bool" where
  "agent_public_ipv4 address =
     (let first = octet 0 address; second = octet 1 address; third = octet 2 address in
      \<not> (first = 0 \<or> first = 10 \<or> first = 127 \<or> (first = 100 \<and> 64 \<le> second \<and> second \<le> 127)
        \<or> (first = 169 \<and> second = 254) \<or> (first = 172 \<and> 16 \<le> second \<and> second \<le> 31)
        \<or> (first = 192 \<and> second = 0 \<and> third = 0) \<or> (first = 192 \<and> second = 0 \<and> third = 2)
        \<or> (first = 192 \<and> second = 88 \<and> third = 99) \<or> (first = 192 \<and> second = 168)
        \<or> (first = 198 \<and> (second = 18 \<or> second = 19)) \<or> (first = 198 \<and> second = 51 \<and> third = 100)
        \<or> (first = 203 \<and> second = 0 \<and> third = 113) \<or> first \<ge> 224))"

definition agent_public_ipv6 :: "ipv6 \<Rightarrow> bool" where
  "agent_public_ipv6 address =
     (case ipv4_mapped address of
        Some mapped \<Rightarrow> agent_public_ipv4 mapped
      | None \<Rightarrow>
          let s0 = segment 0 address; s1 = segment 1 address in
          s0 AND 0xE000 = 0x2000
          \<and> \<not> (s0 = 0x2001 \<and> (s1 = 0 \<or> s1 = 2 \<or> s1 = 0x0DB8 \<or> s1 AND 0xFFF0 = 0x0010 \<or> s1 AND 0xFFF0 = 0x0020))
          \<and> s0 \<noteq> 0x2002)"

definition is_public_destination :: "ip_addr \<Rightarrow> bool" where
  "is_public_destination address = (case address of V4 a \<Rightarrow> agent_public_ipv4 a | V6 a \<Rightarrow> agent_public_ipv6 a)"

section \<open>URLs\<close>

datatype web_host = Domain string | HostV4 ipv4 | HostV6 ipv6

record web_url =
  wu_scheme :: string
  wu_username :: string
  wu_password :: "string option"
  wu_host :: "web_host option"
  wu_host_str :: string
  wu_port :: "nat option"
  wu_path :: string
  wu_fragment :: "string option"

record web_response =
  wr_status :: nat
  wr_location :: "(unit, string) result option"
  wr_content_type :: "string option"
  wr_content_length :: "nat option"
  wr_chunks :: "(bool, string) result list"

datatype request_error = TimedOut | NotConnected | OtherFailure

record 'w web =
  web_parse :: "string \<Rightarrow> (string, web_url) result"
  web_join :: "web_url \<Rightarrow> string \<Rightarrow> (string, web_url) result"
  web_text :: "web_url \<Rightarrow> string"
  web_ip_text :: "ip_addr \<Rightarrow> string"
  web_now :: "'w \<Rightarrow> nat"
  web_lookup :: "string \<Rightarrow> nat \<Rightarrow> nat \<Rightarrow> 'w \<Rightarrow> 'w \<times> (string option, ip_addr list) result"
  web_build :: "(string, unit) result"
  web_get :: "web_url \<Rightarrow> (string \<times> ip_addr list) option \<Rightarrow> nat \<Rightarrow> 'w \<Rightarrow> 'w \<times> (request_error, web_response) result"

definition MAX_URL_LENGTH :: nat where "MAX_URL_LENGTH = 4096"
definition MAX_REDIRECTS :: nat where "MAX_REDIRECTS = 5"
definition TOTAL_TIMEOUT :: nat where "TOTAL_TIMEOUT = 30 * 1000000000"
definition DNS_TIMEOUT :: nat where "DNS_TIMEOUT = 5 * 1000000000"
definition MAX_TEXT_RESPONSE_BYTES :: nat where "MAX_TEXT_RESPONSE_BYTES = 2 * 1024 * 1024"

text \<open>The port a scheme implies; \<open>Url::port\<close> is \<open>None\<close> when it is the default.\<close>

definition port_or_known_default :: "web_url \<Rightarrow> nat option" where
  "port_or_known_default u =
     (case wu_port u of
        Some p \<Rightarrow> Some p
      | None \<Rightarrow> if wu_scheme u = ''http'' \<or> wu_scheme u = ''ws'' then Some 80
          else if wu_scheme u = ''https'' \<or> wu_scheme u = ''wss'' then Some 443
          else if wu_scheme u = ''ftp'' then Some 21 else None)"

definition trim_dots :: "string \<Rightarrow> string" where
  "trim_dots s = rev (dropWhile (\<lambda>c. c = CHR ''.'') (rev s))"

definition validate_domain_name :: "string \<Rightarrow> (string, unit) result" where
  "validate_domain_name domain =
     (let normalized = to_ascii_lowercase (trim_dots domain) in
      ensure (\<not> (normalized = [] \<or> normalized = ''localhost'' \<or> normalized = ''localhost.localdomain''
          \<or> list_ex (\<lambda>suffix. ends_with suffix normalized)
               [''.localhost'', ''.local'', ''.localdomain'', ''.internal'', ''.home'', ''.lan'']))
        (''network policy blocks local hostname '' @ normalized))"

definition validate_public_ip :: "'w web \<Rightarrow> ip_addr \<Rightarrow> (string, unit) result" where
  "validate_public_ip W address =
     ensure (is_public_ip address) (''network policy blocks non-public address '' @ web_ip_text W address)"

definition parse_public_web_url :: "'w web \<Rightarrow> string \<Rightarrow> (string, web_url) result" where
  "parse_public_web_url W input =
     (let trimmed = trim input in
      bindE (ensure (trimmed \<noteq> []) ''url must not be empty'') (\<lambda>_.
      bindE (ensure (length trimmed \<le> MAX_URL_LENGTH)
        (''network policy blocks URLs longer than '' @ nat_text MAX_URL_LENGTH @ '' bytes'')) (\<lambda>_.
      bindE (case web_parse W trimmed of Inl e \<Rightarrow> Inl (''invalid URL: '' @ e) | Inr u \<Rightarrow> Inr u) (\<lambda>u.
      bindE (ensure (wu_scheme u = ''http'' \<or> wu_scheme u = ''https'')
        ''network policy allows only http and https URLs'') (\<lambda>_.
      bindE (ensure (wu_username u = [] \<and> wu_password u = None) ''network policy blocks credentials in URLs'') (\<lambda>_.
      bindE (ok_or (port_or_known_default u) ''URL has no supported port'') (\<lambda>port.
      bindE (ensure (port = 80 \<or> port = 443)
        (''network policy blocks destination port '' @ nat_text port)) (\<lambda>_.
      bindE (case wu_host u of
          Some (Domain domain) \<Rightarrow> validate_domain_name domain
        | Some (HostV4 a) \<Rightarrow> validate_public_ip W (V4 a)
        | Some (HostV6 a) \<Rightarrow> validate_public_ip W (V6 a)
        | None \<Rightarrow> Inl ''URL must include a host'') (\<lambda>_.
      Inr (u\<lparr>wu_fragment := None\<rparr>))))))))))"

definition resolve_redirect :: "'w web \<Rightarrow> web_url \<Rightarrow> string \<Rightarrow> (string, web_url) result" where
  "resolve_redirect W current location =
     bindE (case web_join W current location of Inl e \<Rightarrow> Inl (''invalid redirect URL: '' @ e) | Inr u \<Rightarrow> Inr u) (\<lambda>u.
     bindE (parse_public_web_url W (web_text W u)) (\<lambda>next.
     bindE (ensure (\<not> (wu_scheme current = ''https'' \<and> wu_scheme next = ''http''))
       ''network policy blocks HTTPS-to-HTTP redirects'') (\<lambda>_. Inr next)))"

fun pinned_addresses :: "'w web \<Rightarrow> ip_addr list \<Rightarrow> ip_addr list \<Rightarrow> (string, ip_addr list) result" where
  "pinned_addresses W out [] = Inr out"
| "pinned_addresses W out (a # as) =
     bindE (validate_public_ip W a) (\<lambda>_. pinned_addresses W (push_unseen out a) as)"

text \<open>The error of a lookup is its message, or nothing when it timed out.\<close>

definition lookup_result :: "(string option, ip_addr list) result \<Rightarrow> (string, ip_addr list) result" where
  "lookup_result r =
     (case r of
        Inl None \<Rightarrow> Inl ''DNS lookup timed out''
      | Inl (Some e) \<Rightarrow> Inl (''DNS lookup failed: '' @ e)
      | Inr found \<Rightarrow> Inr found)"

text \<open>The result is the domain with the addresses it is pinned to, or nothing for a literal.\<close>

definition resolve_public_target ::
    "'w web \<Rightarrow> web_url \<Rightarrow> nat \<Rightarrow> ('w, string, (string \<times> ip_addr list) option) hx" where
  "resolve_public_target W u timeout =
     bindH (liftH (ok_or (port_or_known_default u) ''URL has no supported port'')) (\<lambda>port.
     case wu_host u of
       Some (Domain domain) \<Rightarrow>
         bindH (liftH (validate_domain_name domain)) (\<lambda>_.
         \<lambda>w. case web_lookup W domain port timeout w of (w, r) \<Rightarrow>
           (w,
            bindE (lookup_result r) (\<lambda>found.
            bindE (pinned_addresses W [] found) (\<lambda>addresses.
            bindE (ensure (addresses \<noteq> []) ''DNS lookup returned no addresses'') (\<lambda>_.
            Inr (Some (domain, addresses)))))))
     | Some (HostV4 a) \<Rightarrow> liftH (bindE (validate_public_ip W (V4 a)) (\<lambda>_. Inr None))
     | Some (HostV6 a) \<Rightarrow> liftH (bindE (validate_public_ip W (V6 a)) (\<lambda>_. Inr None))
     | None \<Rightarrow> throwH ''URL must include a host'')"

section \<open>Responses\<close>

definition is_followable_redirect :: "nat \<Rightarrow> bool" where
  "is_followable_redirect status = (status \<in> {301, 302, 303, 307, 308})"

definition is_redirection :: "nat \<Rightarrow> bool" where
  "is_redirection status = (300 \<le> status \<and> status < 400)"

definition append_with_limit :: "string \<Rightarrow> string \<Rightarrow> nat \<Rightarrow> string \<times> bool" where
  "append_with_limit buffer chunk max_bytes =
     (let accepted = min (length chunk) (max_bytes - length buffer) in
      (buffer @ take accepted chunk, accepted < length chunk))"

definition sanitized_request_error :: "request_error \<Rightarrow> string" where
  "sanitized_request_error e =
     (case e of TimedOut \<Rightarrow> ''web request timed out''
      | NotConnected \<Rightarrow> ''web request could not connect to the validated origin''
      | OtherFailure \<Rightarrow> ''web request failed'')"

text \<open>The argument says whether the stream timed out.\<close>

definition sanitized_stream_error :: "bool \<Rightarrow> string" where
  "sanitized_stream_error timeout = (if timeout then ''web response timed out'' else ''web response stream failed'')"

definition normalize_content_type :: "string \<Rightarrow> string" where
  "normalize_content_type v = to_ascii_lowercase (trim (hd (split_on (CHR '';'') v)))"

definition is_allowed_text_content_type :: "string \<Rightarrow> bool" where
  "is_allowed_text_content_type t =
     (starts_with ''text/'' t
      \<or> t \<in> set [''application/json'', ''application/xml'', ''application/xhtml+xml'', ''application/rss+xml'',
           ''application/atom+xml'']
      \<or> ends_with ''+json'' t \<or> ends_with ''+xml'' t)"

fun read_chunks :: "nat \<Rightarrow> string \<Rightarrow> bool \<Rightarrow> (bool, string) result list \<Rightarrow> (string, string \<times> bool) result" where
  "read_chunks max_bytes bytes truncated [] = Inr (bytes, truncated)"
| "read_chunks max_bytes bytes truncated (Inl e # chunks) = Inl (sanitized_stream_error e)"
| "read_chunks max_bytes bytes truncated (Inr chunk # chunks) =
     (case append_with_limit bytes chunk max_bytes of (bytes, over) \<Rightarrow>
        if over then Inr (bytes, True)
        else if length bytes = max_bytes then
          (case chunks of
             [] \<Rightarrow> Inr (bytes, truncated)
           | Inl e # _ \<Rightarrow> Inl (sanitized_stream_error e)
           | Inr _ # _ \<Rightarrow> Inr (bytes, True))
        else read_chunks max_bytes bytes truncated chunks)"

record safe_text_response =
  str_final_url :: string
  str_status :: nat
  str_content_type :: string
  str_body :: string
  str_truncated :: bool

definition read_text :: "'w web \<Rightarrow> nat \<Rightarrow> web_url \<Rightarrow> web_response \<Rightarrow> (string, safe_text_response) result" where
  "read_text W max_bytes u r =
     (let content_type = map_option normalize_content_type (wr_content_type r) in
      bindE (if wr_status r = 204 then Inr ()
             else case content_type of
               None \<Rightarrow> Inl ''network policy requires a textual Content-Type''
             | Some t \<Rightarrow> ensure (is_allowed_text_content_type t)
                 (''network policy blocked non-text Content-Type '' @ t)) (\<lambda>_.
      bindE (read_chunks max_bytes []
        (case wr_content_length r of None \<Rightarrow> False | Some n \<Rightarrow> n > max_bytes) (wr_chunks r)) (\<lambda>(bytes, truncated).
      Inr \<lparr>str_final_url = web_text W u, str_status = wr_status r,
        str_content_type = (case content_type of None \<Rightarrow> [] | Some t \<Rightarrow> t),
        str_body = from_utf8_lossy bytes, str_truncated = truncated\<rparr>)))"

definition redirect_location :: "web_response \<Rightarrow> (string, string) result" where
  "redirect_location r =
     (case wr_location r of
        None \<Rightarrow> Inl ''redirect response is missing Location''
      | Some (Inl _) \<Rightarrow> Inl ''redirect Location is not valid text''
      | Some (Inr l) \<Rightarrow> Inr l)"

text \<open>One request of the loop: the deadline, the pinned resolution and the call.\<close>

definition send_request ::
    "'w web \<Rightarrow> nat \<Rightarrow> web_url \<Rightarrow> ('w, string, web_response) hx" where
  "send_request W started u = (\<lambda>w.
     (let remaining = TOTAL_TIMEOUT - (web_now W w - started) in
      if remaining = 0 then (w, Inl ''web request timed out'')
      else
        bindH (resolve_public_target W u (min remaining DNS_TIMEOUT)) (\<lambda>pinned.
        bindH (liftH (web_build W)) (\<lambda>_.
        \<lambda>w. case web_get W u pinned remaining w of (w, r) \<Rightarrow>
          (w, case r of Inl e \<Rightarrow> Inl (sanitized_request_error e) | Inr x \<Rightarrow> Inr x))) w))"

function fetch_loop ::
    "'w web \<Rightarrow> nat \<Rightarrow> nat \<Rightarrow> string list \<Rightarrow> nat \<Rightarrow> web_url \<Rightarrow> ('w, string, safe_text_response) hx" where
  "fetch_loop W max_bytes started visited redirect_count u =
     (if web_text W u \<in> set visited then throwH ''network policy blocked a redirect loop''
      else
        bindH (send_request W started u) (\<lambda>r.
        if is_followable_redirect (wr_status r) then
          if redirect_count \<ge> MAX_REDIRECTS
          then throwH (''network policy blocked more than '' @ nat_text MAX_REDIRECTS @ '' redirects'')
          else
            bindH (liftH (bindE (redirect_location r) (resolve_redirect W u))) (\<lambda>next.
            fetch_loop W max_bytes started (web_text W u # visited) (redirect_count + 1) next)
        else if is_redirection (wr_status r)
        then throwH (''unsupported redirect status '' @ nat_text (wr_status r))
        else liftH (read_text W max_bytes u r)))"
  by pat_completeness auto
termination
  by (relation "measure (\<lambda>(W, max_bytes, started, visited, redirect_count, u). MAX_REDIRECTS - redirect_count)") auto

declare fetch_loop.simps [simp del]

definition fetch_public_text :: "'w web \<Rightarrow> string \<Rightarrow> nat \<Rightarrow> ('w, string, safe_text_response) hx" where
  "fetch_public_text W input max_bytes = (\<lambda>w.
     bindH (liftH (parse_public_web_url W input)) (\<lambda>u.
     fetch_loop W (max 1024 (min MAX_TEXT_RESPONSE_BYTES max_bytes)) (web_now W w) [] 0 u) w)"

definition origin_for_audit :: "'w web \<Rightarrow> string \<Rightarrow> string" where
  "origin_for_audit W input =
     (case web_parse W input of
        Inl _ \<Rightarrow> ''invalid-url''
      | Inr u \<Rightarrow>
          if wu_host u = None then ''invalid-url''
          else wu_scheme u @ ''://'' @ wu_host_str u
            @ (case wu_port u of None \<Rightarrow> [] | Some p \<Rightarrow> '':'' @ nat_text p))"

end
