(* ===== verification/NetworkProperties.thy ===== *)
theory NetworkProperties
  imports NetworkSafety
begin

text \<open>
  The properties of the network rules: the octet tests are the published address blocks, the two
  implementations differ in known IPv6 ranges only, and a fetch contacts nothing but public
  destinations, at most six of them.
\<close>

section \<open>Address blocks\<close>

definition in_block :: "ipv4 \<Rightarrow> ipv4 \<times> nat \<Rightarrow> bool" where
  "in_block a block = (case block of (p, n) \<Rightarrow> drop_bit (32 - n) a = drop_bit (32 - n) p)"

abbreviation dotted :: "nat \<Rightarrow> nat \<Rightarrow> nat \<Rightarrow> nat \<Rightarrow> ipv4" where
  "dotted a b c d \<equiv> of_nat (((a * 256 + b) * 256 + c) * 256 + d)"

definition reserved_blocks :: "(ipv4 \<times> nat) list" where
  "reserved_blocks =
     [(dotted 0 0 0 0, 8), (dotted 10 0 0 0, 8), (dotted 100 64 0 0, 10), (dotted 127 0 0 0, 8),
      (dotted 169 254 0 0, 16), (dotted 172 16 0 0, 12), (dotted 192 0 0 0, 24), (dotted 192 0 2 0, 24),
      (dotted 192 88 99 0, 24), (dotted 192 168 0 0, 16), (dotted 198 18 0 0, 15),
      (dotted 198 51 100 0, 24), (dotted 203 0 113 0, 24), (dotted 224 0 0 0, 3)]"

lemma word_unat_iff: "x = y \<longleftrightarrow> unat x = unat y" for x y :: "'a::len word"
  by (auto intro: unsigned_word_eqI)

lemma in_block_nat: "in_block a (p, n) \<longleftrightarrow> unat a div 2 ^ (32 - n) = unat p div 2 ^ (32 - n)"
proof -
  have "unat (drop_bit k w) = unat w div 2 ^ k" for k and w :: ipv4
    by (metis drop_bit_eq_div unsigned_drop_bit_eq take_bit_length_eq unsigned_take_bit_eq)
  then show ?thesis unfolding in_block_def word_unat_iff by simp
qed

lemma octet_tests:
  "octet i a = numeral k \<longleftrightarrow> unat (octet i a) = numeral k mod 256"
  "octet i a = 0 \<longleftrightarrow> unat (octet i a) = 0" "octet i a \<le> numeral k \<longleftrightarrow> unat (octet i a) \<le> numeral k mod 256"
  "numeral k \<le> octet i a \<longleftrightarrow> numeral k mod 256 \<le> unat (octet i a)"
  by (simp_all add: word_unat_iff word_le_nat_alt unsigned_numeral take_bit_eq_mod)

lemma octets_of_nat:
  fixes n :: nat
  defines "a \<equiv> n div 16777216" and "b \<equiv> n div 65536 mod 256" and "c \<equiv> n div 256 mod 256"
  shows "n div 65536 = a * 256 + b" "n div 256 = (a * 256 + b) * 256 + c" "b < 256" "c < 256"
proof -
  have "n div 16777216 = n div 65536 div 256" "n div 65536 = n div 256 div 256"
    by (simp_all add: div_mult2_eq [symmetric])
  then show "n div 65536 = a * 256 + b" "n div 256 = (a * 256 + b) * 256 + c"
    unfolding a_def b_def c_def by presburger+
qed (simp_all add: b_def c_def)

lemma digits_eq:
  fixes a b x y :: nat
  assumes "b < 256" "y < 256"
  shows "a * 256 + b = x * 256 + y \<longleftrightarrow> a = x \<and> b = y"
proof
  assume eq: "a * 256 + b = x * 256 + y"
  with assms have "a = x" by linarith
  with eq show "a = x \<and> b = y" by simp
qed simp

lemma div_range: "0 < k \<Longrightarrow> x div k = m \<longleftrightarrow> m * k \<le> x \<and> x < Suc m * k" for x k m :: nat
  using less_eq_div_iff_mult_less_eq [of k m x] div_less_iff_less_mult [of k x "Suc m"] by auto

lemma block_tests:
  fixes n :: nat
  defines "a \<equiv> n div 16777216" and "b \<equiv> n div 65536 mod 256" and "c \<equiv> n div 256 mod 256"
  shows "n div 4194304 = 401 \<longleftrightarrow> a = 100 \<and> 64 \<le> b \<and> b \<le> 127"
    and "n div 65536 = 43518 \<longleftrightarrow> a = 169 \<and> b = 254"
    and "n div 1048576 = 2753 \<longleftrightarrow> a = 172 \<and> 16 \<le> b \<and> b \<le> 31"
    and "n div 256 = 12582912 \<longleftrightarrow> a = 192 \<and> b = 0 \<and> c = 0"
    and "n div 256 = 12582914 \<longleftrightarrow> a = 192 \<and> b = 0 \<and> c = 2"
    and "n div 256 = 12605539 \<longleftrightarrow> a = 192 \<and> b = 88 \<and> c = 99"
    and "n div 65536 = 49320 \<longleftrightarrow> a = 192 \<and> b = 168"
    and "n div 131072 = 25353 \<longleftrightarrow> a = 198 \<and> (b = 18 \<or> b = 19)"
    and "n div 256 = 12989284 \<longleftrightarrow> a = 198 \<and> b = 51 \<and> c = 100"
    and "n div 256 = 13303921 \<longleftrightarrow> a = 203 \<and> b = 0 \<and> c = 113"
    and "n div 536870912 = 7 \<longleftrightarrow> 224 \<le> a \<and> a \<le> 255"
proof -
  note facts = octets_of_nat [of n, folded a_def b_def c_def]
  have pair: "n div 65536 = x * 256 + y \<longleftrightarrow> a = x \<and> b = y" if "y < 256" for x y
    unfolding facts(1) using facts(3) that by (rule digits_eq)
  have triple: "n div 256 = (x * 256 + y) * 256 + z \<longleftrightarrow> a = x \<and> b = y \<and> c = z" if "y < 256" "z < 256" for x y z
    unfolding facts(2) using digits_eq [OF facts(4) that(2), of "a * 256 + b" "x * 256 + y"]
      digits_eq [OF facts(3) that(1), of a x] by simp
  show "n div 65536 = 43518 \<longleftrightarrow> a = 169 \<and> b = 254" "n div 65536 = 49320 \<longleftrightarrow> a = 192 \<and> b = 168"
    using pair [of 254 169] pair [of 168 192] by simp_all
  show "n div 256 = 12582912 \<longleftrightarrow> a = 192 \<and> b = 0 \<and> c = 0" "n div 256 = 12582914 \<longleftrightarrow> a = 192 \<and> b = 0 \<and> c = 2"
    "n div 256 = 12605539 \<longleftrightarrow> a = 192 \<and> b = 88 \<and> c = 99" "n div 256 = 12989284 \<longleftrightarrow> a = 198 \<and> b = 51 \<and> c = 100"
    "n div 256 = 13303921 \<longleftrightarrow> a = 203 \<and> b = 0 \<and> c = 113"
    using triple [of 0 0 192] triple [of 0 2 192] triple [of 88 99 192] triple [of 51 100 198] triple [of 0 113 203]
    by simp_all
  have steps: "n div 4194304 = (a * 256 + b) div 64" "n div 1048576 = (a * 256 + b) div 16"
    "n div 131072 = (a * 256 + b) div 2" "n div 536870912 = a div 32"
    unfolding facts(1) [symmetric] unfolding a_def by (simp_all add: div_mult2_eq [symmetric])
  have ranges: "n div 4194304 = 401 \<longleftrightarrow> 25664 \<le> a * 256 + b \<and> a * 256 + b < 25728"
    "n div 1048576 = 2753 \<longleftrightarrow> 44048 \<le> a * 256 + b \<and> a * 256 + b < 44064"
    "n div 131072 = 25353 \<longleftrightarrow> 50706 \<le> a * 256 + b \<and> a * 256 + b < 50708"
    "n div 536870912 = 7 \<longleftrightarrow> 224 \<le> a \<and> a < 256"
    unfolding steps by (simp_all only: div_range) simp_all
  show "n div 4194304 = 401 \<longleftrightarrow> a = 100 \<and> 64 \<le> b \<and> b \<le> 127"
    unfolding ranges using facts(3) by presburger
  show "n div 1048576 = 2753 \<longleftrightarrow> a = 172 \<and> 16 \<le> b \<and> b \<le> 31"
    unfolding ranges using facts(3) by presburger
  show "n div 131072 = 25353 \<longleftrightarrow> a = 198 \<and> (b = 18 \<or> b = 19)"
    unfolding ranges using facts(3) by presburger
  show "n div 536870912 = 7 \<longleftrightarrow> 224 \<le> a \<and> a \<le> 255"
    unfolding ranges by linarith
qed

text \<open>C22: The octet tests of the desktop application and of the device agent accept an IPv4 address exactly
  when it lies in none of the reserved blocks: this network, private, shared, loopback, link-local,
  protocol assignments, documentation, 6to4 relay, benchmarking, multicast and reserved.\<close>

theorem public_ipv4_blocks:
  "is_public_ipv4 address = (\<not> list_ex (in_block address) reserved_blocks)
   \<and> agent_public_ipv4 address = (\<not> list_ex (in_block address) reserved_blocks)"
proof -
  have u: "unat address < 4294967296" using unsigned_less [of address, where ?'a = nat] by simp
  then have "unat address div 16777216 \<le> 255" by linarith
  then show ?thesis
    unfolding is_public_ipv4_def agent_public_ipv4_def Let_def octet_tests reserved_blocks_def in_block_nat octet_nat
    by (simp add: in_block_nat block_tests unsigned_numeral take_bit_eq_mod) argo
qed

section \<open>The two implementations\<close>

text \<open>C23: The device agent accepts every destination that the desktop application accepts. Beyond those it
  accepts exactly the addresses of the IETF protocol block 2001::/23 outside Teredo, benchmarking
  and ORCHID, and those of the documentation block 3fff::/20.\<close>

theorem agent_accepts_more:
  "is_public_destination a =
     (is_public_ip a
      \<or> (case a of V4 _ \<Rightarrow> False
         | V6 x \<Rightarrow> let s0 = segment 0 x; s1 = segment 1 x in
             ipv4_mapped x = None
             \<and> (s0 = 0x2001 \<and> s1 \<le> 0x01FF \<and> s1 \<noteq> 0 \<and> s1 \<noteq> 2 \<and> s1 AND 0xFFF0 \<noteq> 0x0010 \<and> s1 AND 0xFFF0 \<noteq> 0x0020
                \<or> s0 = 0x3FFF \<and> s1 \<le> 0x0FFF)))"
proof (cases a)
  case (V4 x)
  then show ?thesis by (simp add: is_public_destination_def is_public_ip_def is_public_ipv4_def agent_public_ipv4_def)
next
  case (V6 x)
  have four: "agent_public_ipv4 = is_public_ipv4"
    by (simp add: fun_eq_iff is_public_ipv4_def agent_public_ipv4_def)
  have masks: "(0x2001 :: 16 word) AND 0xE000 = 0x2000" "(0x3FFF :: 16 word) AND 0xE000 = 0x2000" by simp_all
  have big: "s AND 0xFFF0 \<noteq> 0x0010 \<and> s AND 0xFFF0 \<noteq> 0x0020" if "\<not> s \<le> 0x01FF" for s :: "16 word"
  proof -
    have "s \<le> 0x01FF" if "s AND 0xFFF0 = m" "m = 0x0010 \<or> m = 0x0020" for m
    proof -
      have "(0xFFF0 :: 16 word) OR 0x000F = - 1" by simp
      then have "s = (s AND 0xFFF0) OR (s AND 0x000F)" by (metis bit.conj_disj_distrib bit.conj_one_right)
      also have "\<dots> = (s AND 0xFFF0) + (s AND 0x000F)"
        by (rule disjunctive_add_eq_or [symmetric]) (simp add: ac_simps)
      finally have "unat s = unat (m + (s AND 0x000F))" using that(1) by simp
      also have "\<dots> \<le> unat m + unat (s AND 0x000F)" by (simp only: unat_word_ariths mod_less_eq_dividend)
      also have "unat (s AND 0x000F) \<le> 15"
        using word_and_le1 [of s "0x000F"] by (simp add: word_le_nat_alt)
      finally have "unat s \<le> unat m + 15" by simp
      with that(2) show ?thesis by (auto simp: word_le_nat_alt)
    qed
    with \<open>\<not> s \<le> 0x01FF\<close> show ?thesis by blast
  qed
  show ?thesis
    unfolding V6 is_public_destination_def is_public_ip_def agent_public_ipv6_def is_public_ipv6_def four Let_def
    by (auto split: option.splits simp: masks dest: big)
qed

section \<open>Fetching\<close>

text \<open>The web with a log of the requests it was sent, each with the addresses it was pinned to.\<close>

type_synonym web_log = "(web_url \<times> (string \<times> ip_addr list) option) list"

definition recorded_web :: "'w web \<Rightarrow> ('w \<times> web_log) web" where
  "recorded_web W =
     \<lparr>web_parse = web_parse W, web_join = web_join W, web_text = web_text W, web_ip_text = web_ip_text W,
      web_now = (\<lambda>(w, log). web_now W w),
      web_lookup = (\<lambda>domain port timeout (w, log).
        case web_lookup W domain port timeout w of (w, r) \<Rightarrow> ((w, log), r)),
      web_build = web_build W,
      web_get = (\<lambda>u pinned timeout (w, log).
        case web_get W u pinned timeout w of (w, r) \<Rightarrow> ((w, log @ [(u, pinned)]), r))\<rparr>"

definition public_url :: "web_url \<Rightarrow> bool" where
  "public_url u =
     ((wu_scheme u = ''http'' \<or> wu_scheme u = ''https'') \<and> wu_username u = [] \<and> wu_password u = None
      \<and> wu_fragment u = None
      \<and> (port_or_known_default u = Some 80 \<or> port_or_known_default u = Some 443))"

definition public_request :: "web_url \<times> (string \<times> ip_addr list) option \<Rightarrow> bool" where
  "public_request rq =
     (case rq of (u, pinned) \<Rightarrow>
        public_url u
        \<and> (case wu_host u of
             Some (Domain d) \<Rightarrow> \<exists>as. pinned = Some (d, as) \<and> as \<noteq> [] \<and> list_all is_public_ip as
           | Some (HostV4 a) \<Rightarrow> pinned = None \<and> is_public_ipv4 a
           | Some (HostV6 a) \<Rightarrow> pinned = None \<and> is_public_ipv6 a
           | None \<Rightarrow> False))"

definition no_downgrade :: "web_url \<Rightarrow> web_url \<Rightarrow> bool" where
  "no_downgrade u v = (wu_scheme u = ''https'' \<longrightarrow> wu_scheme v = ''https'')"

lemma recorded_select [simp]:
  "web_parse (recorded_web W) = web_parse W" "web_join (recorded_web W) = web_join W"
  "web_text (recorded_web W) = web_text W" "web_ip_text (recorded_web W) = web_ip_text W"
  "web_now (recorded_web W) (w, log) = web_now W w" "web_build (recorded_web W) = web_build W"
  "web_lookup (recorded_web W) d p t (w, log) = (case web_lookup W d p t w of (w, r) \<Rightarrow> ((w, log), r))"
  "web_get (recorded_web W) u q t (w, log) = (case web_get W u q t w of (w, r) \<Rightarrow> ((w, log @ [(u, q)]), r))"
  by (simp_all add: recorded_web_def)

lemma recorded_validate [simp]: "validate_public_ip (recorded_web W) = validate_public_ip W"
  by (simp add: fun_eq_iff validate_public_ip_def)

lemma recorded_parse [simp]: "parse_public_web_url (recorded_web W) = parse_public_web_url W"
  unfolding fun_eq_iff parse_public_web_url_def recorded_select recorded_validate by blast

lemma recorded_redirect [simp]: "resolve_redirect (recorded_web W) = resolve_redirect W"
  unfolding fun_eq_iff resolve_redirect_def recorded_select recorded_parse by blast

lemma recorded_read [simp]: "read_text (recorded_web W) = read_text W"
  unfolding fun_eq_iff read_text_def recorded_select by blast

lemma recorded_pinned [simp]: "pinned_addresses (recorded_web W) out as = pinned_addresses W out as"
  by (induction as arbitrary: out) simp_all

lemma validate_public_ip_Inr [tx_simps]: "validate_public_ip W a = Inr x \<longleftrightarrow> is_public_ip a"
  by (simp add: validate_public_ip_def ensure_def)

lemma pinned_public:
  "pinned_addresses W out as = Inr out' \<Longrightarrow> list_all is_public_ip out \<Longrightarrow> list_all is_public_ip out'"
proof (induction as arbitrary: out)
  case (Cons a as)
  from Cons.prems(1) have a: "is_public_ip a" "pinned_addresses W (push_unseen out a) as = Inr out'"
    unfolding pinned_addresses.simps bindE_Inr_iff validate_public_ip_Inr by blast+
  from a(1) Cons.prems(2) have "list_all is_public_ip (push_unseen out a)" unfolding list_all_iff set_push_unseen by blast
  with a(2) show ?case by (rule Cons.IH)
qed simp

lemma parse_public:
  assumes "parse_public_web_url W s = Inr u"
  shows "public_url u"
proof -
  from assms obtain v where "u = v\<lparr>wu_fragment := None\<rparr>" "wu_scheme v = ''http'' \<or> wu_scheme v = ''https''"
    "wu_username v = [] \<and> wu_password v = None" "port_or_known_default v = Some 80 \<or> port_or_known_default v = Some 443"
    unfolding parse_public_web_url_def Let_def bindE_Inr_iff ensure_Inr_iff ok_or_Inr_iff by blast
  moreover have "port_or_known_default (v\<lparr>wu_fragment := None\<rparr>) = port_or_known_default v"
    by (simp add: port_or_known_default_def)
  ultimately show ?thesis by (auto simp: public_url_def)
qed

lemma redirect_public:
  assumes "resolve_redirect W u l = Inr v" "public_url u"
  shows "public_url v \<and> no_downgrade u v"
proof -
  from assms(1) obtain s where v: "parse_public_web_url W s = Inr v"
    and "\<not> (wu_scheme u = ''https'' \<and> wu_scheme v = ''http'')"
    unfolding resolve_redirect_def bindE_Inr_iff ensure_Inr_iff by blast
  with parse_public [OF v] show ?thesis by (auto simp: no_downgrade_def public_url_def)
qed

lemma resolve_recorded:
  "resolve_public_target (recorded_web W) u t (w, log) =
     (case resolve_public_target W u t w of (w', r) \<Rightarrow> ((w', log), r))"
  by (cases "port_or_known_default u"; cases "wu_host u"; cases "the (wu_host u)")
    (simp_all add: resolve_public_target_def bindH_def liftH_def throwH_def ok_or_def split: prod.split sum.split)

lemma resolve_public:
  assumes "public_url u" "resolve_public_target W u t w = (w', Inr pinned)"
  shows "public_request (u, pinned)"
proof (cases "wu_host u")
  case None
  with assms show ?thesis
    by (simp add: resolve_public_target_def bindH_def liftH_def throwH_def split: sum.splits)
next
  case (Some h)
  show ?thesis
  proof (cases h)
    case (Domain d)
    with assms Some obtain found as where "pinned_addresses W [] found = Inr as" "as \<noteq> []" "pinned = Some (d, as)"
      by (auto simp: resolve_public_target_def bindH_def liftH_def tx_simps split: sum.splits prod.splits)
    with assms(1) Some Domain show ?thesis by (auto simp: public_request_def dest: pinned_public)
  qed (use assms Some in \<open>auto simp: resolve_public_target_def bindH_def liftH_def tx_simps public_request_def
      is_public_ip_def split: sum.splits\<close>)
qed

lemma send_recorded:
  assumes "public_url u"
  shows "\<exists>sent w' r. send_request W started u w = (w', r)
    \<and> send_request (recorded_web W) started u (w, log) = ((w', log @ sent), r)
    \<and> (sent = [] \<and> \<not> is_ok r \<or> (\<exists>pinned. sent = [(u, pinned)] \<and> public_request (u, pinned)))"
proof (cases "TOTAL_TIMEOUT - (web_now W w - started) = 0")
  case True
  then show ?thesis by (simp add: send_request_def Let_def is_ok_def)
next
  case False
  let ?t = "TOTAL_TIMEOUT - (web_now W w - started)"
  obtain w1 r1 where res: "resolve_public_target W u (min ?t DNS_TIMEOUT) w = (w1, r1)" by force
  show ?thesis
  proof (cases r1)
    case (Inl e)
    with False res show ?thesis by (simp add: send_request_def Let_def bindH_def resolve_recorded is_ok_def)
  next
    case (Inr pinned)
    note public = resolve_public [OF assms res [unfolded Inr]]
    obtain w2 r2 where get: "web_get W u pinned ?t w1 = (w2, r2)" by force
    show ?thesis
    proof (cases "web_build W")
      case (Inl e)
      with False res Inr show ?thesis
        by (simp add: send_request_def Let_def bindH_def liftH_def resolve_recorded is_ok_def)
    next
      case (Inr _)
      with False res \<open>r1 = Inr pinned\<close> get public show ?thesis
        by (simp add: send_request_def Let_def bindH_def liftH_def resolve_recorded)
    qed
  qed
qed

definition log_ok :: "'w web \<Rightarrow> string list \<Rightarrow> web_url \<Rightarrow> web_log \<Rightarrow> bool" where
  "log_ok W visited u log =
     (map (\<lambda>(v, _). web_text W v) log = rev visited \<and> distinct visited \<and> list_all public_request log
      \<and> sorted_wrt (\<lambda>(v, _) (v', _). no_downgrade v v') log \<and> list_all (\<lambda>(v, _). no_downgrade v u) log)"

lemma log_ok_snoc:
  assumes "log_ok W visited u log" "web_text W u \<notin> set visited" "public_request (u, p)" "no_downgrade u v"
  shows "log_ok W (web_text W u # visited) v (log @ [(u, p)])"
  using assms unfolding log_ok_def
  by (auto simp: sorted_wrt_append list_all_iff no_downgrade_def)

definition logs_to ::
    "'w web \<Rightarrow> nat \<Rightarrow> web_log \<Rightarrow> ('w, string, 'a) hx \<Rightarrow> ('w \<times> web_log, string, 'a) hx \<Rightarrow> 'w \<Rightarrow> bool" where
  "logs_to W n log m m' w =
     (\<exists>w' r log'. m w = (w', r) \<and> m' (w, log) = ((w', log'), r) \<and> length log' \<le> n
        \<and> list_all public_request log' \<and> distinct (map (\<lambda>(v, _). web_text W v) log')
        \<and> sorted_wrt (\<lambda>(v, _) (v', _). no_downgrade v v') log')"

lemma logs_to_stop:
  assumes "log_ok W visited u log" "m w = (w', r)" "m' (w, log) = ((w', log @ sent), r)" "length log < n"
    "sent = [] \<or> (\<exists>p. sent = [(u, p)] \<and> public_request (u, p)) \<and> web_text W u \<notin> set visited"
  shows "logs_to W n log m m' w"
  using assms unfolding logs_to_def log_ok_def by (auto simp: sorted_wrt_append list_all_iff)

lemma logs_to_continue:
  assumes "logs_to W n log1 m1 m1' w1" "m w = m1 w1" "m' (w, log) = m1' (w1, log1)"
  shows "logs_to W n log m m' w"
  using assms unfolding logs_to_def by auto

lemma fetch_loop_logged:
  assumes "public_url u" "log_ok W visited u log" "length log = redirect_count" "redirect_count \<le> MAX_REDIRECTS"
  shows "logs_to W (Suc MAX_REDIRECTS) log (fetch_loop W n started visited redirect_count u)
    (fetch_loop (recorded_web W) n started visited redirect_count u) w"
  using assms
proof (induction W n started visited redirect_count u arbitrary: log w rule: fetch_loop.induct)
  case (1 W n started visited redirect_count u log w)
  note step = fetch_loop.simps [of W n started visited redirect_count u]
    fetch_loop.simps [of "recorded_web W" n started visited redirect_count u]
  have few: "length log < Suc MAX_REDIRECTS" using 1(4,5) by simp
  show ?case
  proof (cases "web_text W u \<in> set visited")
    case True
    show ?thesis by (rule logs_to_stop [OF 1(3) _ _ few, of _ _ _ _ _ "[]"]) (simp_all add: step True throwH_def)
  next
    case unseen: False
    obtain sent w1 r where send: "send_request W started u w = (w1, r)"
      "send_request (recorded_web W) started u (w, log) = ((w1, log @ sent), r)"
      "sent = [] \<and> \<not> is_ok r \<or> (\<exists>pinned. sent = [(u, pinned)] \<and> public_request (u, pinned))"
      using send_recorded [OF 1(2)] by metis
    note run = step unseen send(1,2) bindH_def throwH_def liftH_def
    have stop: "logs_to W (Suc MAX_REDIRECTS) log m m' w"
      if "m w = (w1, q)" "m' (w, log) = ((w1, log @ sent), q)" for q and m m' :: "(_, _, safe_text_response) hx"
      by (rule logs_to_stop [of W visited u log m w w1 q m' sent]) (use that few 1(3) send(3) unseen in blast)+
    show ?thesis
    proof (cases r)
      case (Inl e)
      show ?thesis by (rule stop [of _ "Inl e"]) (simp_all add: run Inl)
    next
      case (Inr x)
      with send(3) obtain pinned where sent: "sent = [(u, pinned)]" "public_request (u, pinned)"
        by (auto simp: is_ok_def)
      consider (odd) "\<not> is_followable_redirect (wr_status x)" "is_redirection (wr_status x)"
        | (final) "\<not> is_followable_redirect (wr_status x)" "\<not> is_redirection (wr_status x)"
        | (many) "is_followable_redirect (wr_status x)" "redirect_count \<ge> MAX_REDIRECTS"
        | (bad) e where "is_followable_redirect (wr_status x)" "\<not> MAX_REDIRECTS \<le> redirect_count"
            "bindE (redirect_location x) (resolve_redirect W u) = Inl e"
        | (go) v where "is_followable_redirect (wr_status x)" "\<not> MAX_REDIRECTS \<le> redirect_count"
            "bindE (redirect_location x) (resolve_redirect W u) = Inr v"
        by (metis sum.exhaust)
      then show ?thesis
      proof cases
        case odd
        show ?thesis by (rule stop) (simp_all add: run Inr odd)
      next
        case final
        show ?thesis by (rule stop) (simp_all add: run Inr final)
      next
        case many
        show ?thesis by (rule stop) (simp_all add: run Inr many)
      next
        case bad
        show ?thesis by (rule stop) (simp_all add: run Inr bad)
      next
        case go
        then obtain l where "resolve_redirect W u l = Inr v" by (auto simp: tx_simps)
        note v = redirect_public [OF this 1(2)]
        have ok: "log_ok W (web_text W u # visited) v (log @ sent)"
          unfolding sent(1) using log_ok_snoc [OF 1(3) unseen sent(2)] v by blast
        show ?thesis
          by (rule logs_to_continue [where ?w1.0 = w1, OF 1(1) [OF unseen go(1) _ _ ok]])
            (use go v sent 1(4) in \<open>simp_all add: run Inr\<close>)
      qed
    qed
  qed
qed

text \<open>C21: A web fetch contacts public destinations only. Recording the requests of a fetch changes
  nothing else about it, and whatever the servers answer there are at most six of them, each to an
  http(s) URL without credentials on port 80 or 443 whose host is a public address or a name pinned
  to public addresses only, no URL is requested twice, and after an https request none goes over
  plain http.\<close>

theorem fetch_contacts_public:
  "case fetch_public_text (recorded_web W) input max_bytes (w, []) of ((w', log), r) \<Rightarrow>
     fetch_public_text W input max_bytes w = (w', r)
     \<and> length log \<le> Suc MAX_REDIRECTS
     \<and> list_all public_request log
     \<and> distinct (map (\<lambda>(u, _). web_text W u) log)
     \<and> sorted_wrt (\<lambda>(u, _) (v, _). no_downgrade u v) log"
proof (cases "parse_public_web_url W input")
  case (Inl e)
  then show ?thesis by (simp add: fetch_public_text_def bindH_def liftH_def)
next
  case (Inr u)
  let ?run = "\<lambda>W w. fetch_loop W (max 1024 (min MAX_TEXT_RESPONSE_BYTES max_bytes)) (web_now W w) [] 0 u w"
  have runs: "fetch_public_text W input max_bytes w = ?run W w"
    "fetch_public_text (recorded_web W) input max_bytes (w, []) = ?run (recorded_web W) (w, [])"
    by (simp_all add: fetch_public_text_def bindH_def liftH_def Inr)
  have "log_ok W [] u []" by (simp add: log_ok_def)
  from fetch_loop_logged [OF parse_public [OF Inr] this, of 0 "max 1024 (min MAX_TEXT_RESPONSE_BYTES max_bytes)"
      "web_now W w" w]
  show ?thesis unfolding logs_to_def runs recorded_select by auto
qed

lemma read_chunks_prefix:
  assumes "[] \<notin> set chunks" "length bytes < max_bytes"
  shows "read_chunks max_bytes bytes declared (map Inr chunks) =
    Inr (take max_bytes (bytes @ concat chunks),
      declared \<or> max_bytes < length (bytes @ concat chunks))"
  using assms
proof (induction chunks arbitrary: bytes)
  case (Cons c chunks)
  show ?case
  proof (cases "length bytes + length c < max_bytes")
    case True
    with Cons show ?thesis by (simp add: append_with_limit_def Let_def add.assoc)
  next
    case False
    with Cons.prems show ?thesis
      by (cases chunks) (auto simp: append_with_limit_def Let_def)
  qed
qed simp



end
