(* ===== verification/Envelope.thy ===== *)
theory Envelope
  imports McpBindings
begin

text \<open>
  The envelope encryption of \<open>storage.rs\<close>: a value is encrypted under a random data key, and the
  data key is wrapped under a key derived from the master key and the scope, a user or a team. The
  cipher (AES-256-GCM) and the derivation (HMAC-SHA-256) are the parameter record \<open>crypto\<close>; the
  bytes that \<open>getrandom\<close> fills are an argument of the encryption.
\<close>

section \<open>Parameters\<close>

record crypto =
  cr_seal :: "string \<Rightarrow> string \<Rightarrow> string \<Rightarrow> string option"
  cr_open :: "string \<Rightarrow> string \<Rightarrow> string \<Rightarrow> string option"
  cr_hmac :: "string \<Rightarrow> string \<Rightarrow> string"

record entropy =
  en_data_key :: "(string, string) result"
  en_nonce :: "(string, string) result"
  en_wrap_nonce :: "(string, string) result"

text \<open>\<open>getrandom::fill\<close> on arrays of 32, 12 and 12 bytes.\<close>

definition lawful_entropy :: "entropy \<Rightarrow> bool" where
  "lawful_entropy r =
     ((case en_data_key r of Inl _ \<Rightarrow> True | Inr k \<Rightarrow> length k = 32)
      \<and> (case en_nonce r of Inl _ \<Rightarrow> True | Inr n \<Rightarrow> length n = 12)
      \<and> (case en_wrap_nonce r of Inl _ \<Rightarrow> True | Inr n \<Rightarrow> length n = 12))"

section \<open>Scopes\<close>

datatype key_scope = KeyUser uuid | KeyTeam uuid

fun scope_kind :: "key_scope \<Rightarrow> string" where
  "scope_kind (KeyUser _) = ''user''"
| "scope_kind (KeyTeam _) = ''team''"

fun scope_id :: "key_scope \<Rightarrow> uuid" where
  "scope_id (KeyUser i) = i"
| "scope_id (KeyTeam i) = i"

definition key_id :: "env \<Rightarrow> key_scope \<Rightarrow> string" where
  "key_id E s = ''master-v1:'' @ scope_kind s @ '':'' @ env_uuid E (scope_id s)"

text \<open>\<open>Uuid::as_bytes\<close>: the sixteen bytes of the number, the most significant first.\<close>

definition uuid_bytes :: "uuid \<Rightarrow> string" where
  "uuid_bytes i = map (\<lambda>k. char_of (i div 256 ^ (15 - k))) [0..<16]"

definition scope_message :: "key_scope \<Rightarrow> string" where
  "scope_message s = ''open-cowork-envelope-v1'' @ [NUL] @ scope_kind s @ [NUL] @ uuid_bytes (scope_id s)"

definition scope_key :: "crypto \<Rightarrow> string \<Rightarrow> key_scope \<Rightarrow> string" where
  "scope_key A master_key s = cr_hmac A master_key (scope_message s)"

text \<open>What the cipher promises: opening under the same key and nonce undoes sealing, and the tag of
  HMAC-SHA-256 has 32 bytes.\<close>

definition lawful_crypto :: "crypto \<Rightarrow> bool" where
  "lawful_crypto A =
     ((\<forall>k n p c. cr_seal A k n p = Some c \<longrightarrow> cr_open A k n c = Some p)
      \<and> (\<forall>k m. length (cr_hmac A k m) = 32))"

text \<open>The idealised promise behind authenticated encryption and key derivation: another key opens
  nothing, and the messages of different scopes have different tags.\<close>

definition ideal_crypto :: "crypto \<Rightarrow> bool" where
  "ideal_crypto A =
     ((\<forall>k k' n p c. length k = 32 \<longrightarrow> length k' = 32 \<longrightarrow> k' \<noteq> k \<longrightarrow> cr_seal A k n p = Some c
         \<longrightarrow> cr_open A k' n c = None)
      \<and> (\<forall>k s s'. cr_hmac A k (scope_message s) = cr_hmac A k (scope_message s')
         \<longrightarrow> scope_message s = scope_message s'))"

section \<open>Operations\<close>

text \<open>\<open>Aes256Gcm::new_from_slice\<close> takes keys of 32 bytes.\<close>

definition new_from_slice :: "string \<Rightarrow> string \<Rightarrow> (api_error, string) result" where
  "new_from_slice message key = (if length key = 32 then Inr key else Inl (Internal message))"

definition random_bytes :: "string \<Rightarrow> (string, string) result \<Rightarrow> (api_error, string) result" where
  "random_bytes what r = map_err (\<lambda>e. Internal (what @ '' generation failed: '' @ e)) r"

definition encrypt :: "crypto \<Rightarrow> string \<Rightarrow> entropy \<Rightarrow> key_scope \<Rightarrow> string \<Rightarrow> (api_error, sealed_value) result" where
  "encrypt A master_key r s plaintext =
     bindE (random_bytes ''random key'' (en_data_key r)) (\<lambda>data_key.
     bindE (random_bytes ''random nonce'' (en_nonce r)) (\<lambda>nonce.
     bindE (random_bytes ''random wrap nonce'' (en_wrap_nonce r)) (\<lambda>wrap_nonce.
     bindE (new_from_slice ''invalid generated data key'' data_key) (\<lambda>cipher.
     bindE (ok_or (cr_seal A cipher nonce plaintext) (Internal ''chunk encryption failed'')) (\<lambda>ciphertext.
     bindE (new_from_slice ''invalid scope key'' (scope_key A master_key s)) (\<lambda>wrapper.
     bindE (ok_or (cr_seal A wrapper wrap_nonce data_key) (Internal ''data-key wrapping failed'')) (\<lambda>wrapped.
     Inr \<lparr>sv_ciphertext = ciphertext, sv_encrypted_data_key = wrapped, sv_nonce = nonce,
          sv_wrap_nonce = wrap_nonce\<rparr>)))))))"

definition decrypt :: "crypto \<Rightarrow> string \<Rightarrow> key_scope \<Rightarrow> sealed_value \<Rightarrow> (api_error, string) result" where
  "decrypt A master_key s v =
     (if length (sv_nonce v) \<noteq> 12 \<or> length (sv_wrap_nonce v) \<noteq> 12
      then Inl (Internal ''invalid encrypted chunk nonce'')
      else
        bindE (new_from_slice ''invalid scope key'' (scope_key A master_key s)) (\<lambda>wrapper.
        bindE (ok_or (cr_open A wrapper (sv_wrap_nonce v) (sv_encrypted_data_key v))
          (Internal ''data-key unwrap failed'')) (\<lambda>data_key.
        bindE (new_from_slice ''invalid unwrapped data key'' data_key) (\<lambda>cipher.
        ok_or (cr_open A cipher (sv_nonce v) (sv_ciphertext v)) (Internal ''chunk authentication failed'')))))"

definition seal_for_user :: "crypto \<Rightarrow> string \<Rightarrow> entropy \<Rightarrow> uuid \<Rightarrow> string \<Rightarrow> (api_error, sealed_value) result" where
  "seal_for_user A master_key r u plaintext = encrypt A master_key r (KeyUser u) plaintext"

definition open_for_user :: "crypto \<Rightarrow> string \<Rightarrow> uuid \<Rightarrow> sealed_value \<Rightarrow> (api_error, string) result" where
  "open_for_user A master_key u v = decrypt A master_key (KeyUser u) v"

definition seal_for_team :: "crypto \<Rightarrow> string \<Rightarrow> entropy \<Rightarrow> uuid \<Rightarrow> string \<Rightarrow> (api_error, sealed_value) result" where
  "seal_for_team A master_key r t plaintext = encrypt A master_key r (KeyTeam t) plaintext"

definition open_for_team :: "crypto \<Rightarrow> string \<Rightarrow> uuid \<Rightarrow> sealed_value \<Rightarrow> (api_error, string) result" where
  "open_for_team A master_key t v = decrypt A master_key (KeyTeam t) v"

text \<open>The store the other components are given, for the bytes drawn by one request.\<close>

definition envelope_store :: "crypto \<Rightarrow> string \<Rightarrow> entropy \<Rightarrow> object_store" where
  "envelope_store A master_key r =
     \<lparr>os_seal_for_user = seal_for_user A master_key r, os_seal_for_team = seal_for_team A master_key r,
      os_open_for_user = open_for_user A master_key, os_open_for_team = open_for_team A master_key\<rparr>"

end
