(* ===== verification/CredentialProperties.thy ===== *)
theory CredentialProperties
  imports Envelope Providers Examples
begin

text \<open>
  What the encrypted records give back: a value opens in the scope it was sealed for and in no other,
  a provider profile resolves to what it was created with, and an MCP binding reaches a run as it was
  stored.
\<close>

section \<open>Envelopes\<close>

lemma new_from_slice_Inr [tx_simps]: "new_from_slice m k = Inr x \<longleftrightarrow> length k = 32 \<and> x = k"
  by (auto simp: new_from_slice_def)

lemma random_bytes_Inr [tx_simps]: "random_bytes w r = Inr x \<longleftrightarrow> r = Inr x"
  by (simp add: random_bytes_def map_err_def split: sum.splits)

lemma encrypt_Inr:
  assumes "encrypt A master r s p = Inr v" "lawful_entropy r"
  obtains k where "length k = 32" "cr_seal A k (sv_nonce v) p = Some (sv_ciphertext v)"
    "cr_seal A (scope_key A master s) (sv_wrap_nonce v) k = Some (sv_encrypted_data_key v)"
    "length (sv_nonce v) = 12" "length (sv_wrap_nonce v) = 12"
proof -
  from assms(1) obtain k n w c b where parts: "en_nonce r = Inr n" "en_wrap_nonce r = Inr w"
      "length k = 32" "cr_seal A k n p = Some c" "cr_seal A (scope_key A master s) w k = Some b"
    and v: "v = \<lparr>sv_ciphertext = c, sv_encrypted_data_key = b, sv_nonce = n, sv_wrap_nonce = w\<rparr>"
    unfolding encrypt_def bindE_Inr_iff ok_or_Inr_iff new_from_slice_Inr random_bytes_Inr by blast
  show thesis by (rule that [of k]) (use parts assms(2) v in \<open>simp_all add: lawful_entropy_def\<close>)
qed

lemma decrypt_encrypt:
  assumes "lawful_crypto A" "lawful_entropy r" "encrypt A master r s p = Inr v"
  shows "decrypt A master s v = Inr p"
proof -
  from encrypt_Inr [OF assms(3,2)] obtain k where "length k = 32" "cr_open A k (sv_nonce v) (sv_ciphertext v) = Some p"
    "cr_open A (scope_key A master s) (sv_wrap_nonce v) (sv_encrypted_data_key v) = Some k"
    "length (sv_nonce v) = 12" "length (sv_wrap_nonce v) = 12"
    using assms(1) unfolding lawful_crypto_def by metis
  moreover have "length (scope_key A master s) = 32" using assms(1) by (simp add: lawful_crypto_def scope_key_def)
  ultimately show ?thesis by (simp add: decrypt_def new_from_slice_def ok_or_def)
qed

lemma digits_mod:
  "(\<And>k. k < n \<Longrightarrow> i div 256 ^ k mod 256 = j div 256 ^ k mod 256) \<Longrightarrow> i mod 256 ^ n = (j :: nat) mod 256 ^ n"
proof (induction n)
  case (Suc n)
  have "i mod (256 ^ n * 256) = j mod (256 ^ n * 256)"
    unfolding mod_mult2_eq using Suc.IH Suc.prems [of n] Suc.prems by simp
  then show ?case by (simp add: ac_simps)
qed simp

lemma uuid_bytes_inj:
  assumes "uuid_bytes i = uuid_bytes j" "i < 2 ^ 128" "j < 2 ^ 128"
  shows "i = j"
proof -
  have "i div 256 ^ k mod 256 = j div 256 ^ k mod 256" if "k < 16" for k
  proof -
    have "uuid_bytes i ! (15 - k) = uuid_bytes j ! (15 - k)" using assms(1) by simp
    moreover have "[0..<16] ! (15 - k) = 15 - k" by (subst nth_upt) simp_all
    ultimately show ?thesis using that by (simp add: uuid_bytes_def)
  qed
  then have "i mod 256 ^ 16 = j mod 256 ^ 16" by (rule digits_mod)
  with assms(2,3) show ?thesis by simp
qed

lemma scope_message_inj:
  assumes "scope_message s = scope_message s'" "scope_id s < 2 ^ 128" "scope_id s' < 2 ^ 128"
  shows "s = s'"
  using assms by (cases s; cases s') (auto simp: scope_message_def dest: uuid_bytes_inj)

lemma other_scope_refused:
  assumes "lawful_crypto A" "ideal_crypto A" "lawful_entropy r" "encrypt A master r s p = Inr v"
    "s' \<noteq> s" "scope_id s < 2 ^ 128" "scope_id s' < 2 ^ 128"
  shows "decrypt A master s' v = Inl (Internal ''data-key unwrap failed'')"
proof -
  have long: "length (scope_key A master t) = 32" for t
    using assms(1) by (simp add: lawful_crypto_def scope_key_def)
  have "scope_key A master s' \<noteq> scope_key A master s"
    using assms(2,5-7) scope_message_inj unfolding ideal_crypto_def scope_key_def by metis
  with encrypt_Inr [OF assms(4,3)] have "cr_open A (scope_key A master s') (sv_wrap_nonce v) (sv_encrypted_data_key v) = None"
    "length (sv_nonce v) = 12" "length (sv_wrap_nonce v) = 12"
    using assms(2) long unfolding ideal_crypto_def by metis+
  then show ?thesis by (simp add: decrypt_def new_from_slice_def ok_or_def long)
qed

text \<open>C27: An envelope is opened by its scope alone. A value sealed for a user or a team is returned by
  opening it for the same user or team, with any randomness, and opening it for another scope fails
  when unwrapping the data key; that user and team keys with one identifier differ is part of the
  claim.\<close>

theorem envelope_scoped:
  assumes "lawful_crypto A" "lawful_entropy r" "encrypt A master r s p = Inr v"
  shows "decrypt A master s v = Inr p
    \<and> (ideal_crypto A \<longrightarrow> s' \<noteq> s \<longrightarrow> scope_id s < 2 ^ 128 \<longrightarrow> scope_id s' < 2 ^ 128
         \<longrightarrow> decrypt A master s' v = Inl (Internal ''data-key unwrap failed''))"
  using decrypt_encrypt [OF assms] other_scope_refused [OF assms(1) _ assms(2,3)] by blast

text \<open>A cipher and a derivation that keep the promises: the key in front of the text, and the end of
  the message.\<close>

definition toy_crypto :: crypto where
  "toy_crypto =
     \<lparr>cr_seal = (\<lambda>k n p. Some (k @ p)),
      cr_open = (\<lambda>k n c. if take (length k) c = k then Some (drop (length k) c) else None),
      cr_hmac = (\<lambda>k m. take 32 (rev m @ replicate 32 NUL))\<rparr>"

definition toy_entropy :: entropy where
  "toy_entropy = \<lparr>en_data_key = Inr (replicate 32 CHR ''k''), en_nonce = Inr (replicate 12 CHR ''n''),
     en_wrap_nonce = Inr (replicate 12 CHR ''w'')\<rparr>"

lemma toy_lawful: "lawful_crypto toy_crypto" "lawful_entropy toy_entropy"
  by (auto simp: lawful_crypto_def toy_crypto_def lawful_entropy_def toy_entropy_def min_def)

lemma toy_seals: "\<exists>v. encrypt toy_crypto master toy_entropy s p = Inr v"
proof -
  have "length (scope_key toy_crypto master s) = 32"
    using toy_lawful(1) by (simp add: lawful_crypto_def scope_key_def)
  moreover have "cr_seal toy_crypto k n q = Some (k @ q)" for k n q by (simp add: toy_crypto_def)
  ultimately show ?thesis
    by (simp add: encrypt_def toy_entropy_def random_bytes_def map_err_def new_from_slice_def ok_or_def)
qed

lemma toy_ideal: "ideal_crypto toy_crypto"
proof -
  have tail: "take 32 (rev (scope_message s) @ replicate 32 NUL) = rev (uuid_bytes (scope_id s)) @ [NUL]
    @ rev (scope_kind s) @ take 11 (rev (''open-cowork-envelope-v1'' @ [NUL]))" for s
  proof -
    have "length (uuid_bytes (scope_id s)) = 16" "length (scope_kind s) = 4"
      by (simp add: uuid_bytes_def) (cases s, simp_all)
    then show ?thesis by (simp add: scope_message_def)
  qed
  have "scope_message s = scope_message s'"
    if "take 32 (rev (scope_message s) @ replicate 32 NUL) = take 32 (rev (scope_message s') @ replicate 32 NUL)" for s s'
    using that unfolding tail by (cases s; cases s') (auto simp: scope_message_def uuid_bytes_def)
  then show ?thesis by (auto simp: ideal_crypto_def toy_crypto_def)
qed

theorem envelope_scoped_witness:
  "\<exists>v. encrypt toy_crypto ''master'' toy_entropy (KeyUser 7) ''secret'' = Inr v
     \<and> decrypt toy_crypto ''master'' (KeyUser 7) v = Inr ''secret''
     \<and> decrypt toy_crypto ''master'' (KeyTeam 7) v = Inl (Internal ''data-key unwrap failed'')"
proof -
  obtain v where "encrypt toy_crypto ''master'' toy_entropy (KeyUser 7) ''secret'' = Inr v"
    using toy_seals by blast
  with envelope_scoped [OF toy_lawful this, of "KeyTeam 7"] toy_ideal show ?thesis by auto
qed

section \<open>Trimming\<close>

lemma trim_start_fixed: "trim_start (trim_start s) = trim_start s"
  by (induction s rule: trim_start.induct) simp_all

lemma trim_rev_fixed: "trim_rev (trim_rev s) = trim_rev s"
  by (induction s rule: trim_rev.induct) simp_all

definition starts_white :: "string \<Rightarrow> bool" where
  "starts_white s =
     ((\<exists>a t. s = a # t \<and> white1 (byte a)) \<or> (\<exists>a b t. s = a # b # t \<and> white2 (byte a) (byte b))
      \<or> (\<exists>a b c t. s = a # b # c # t \<and> white3 (byte a) (byte b) (byte c)))"

lemma trim_start_id_iff: "trim_start s = s \<longleftrightarrow> \<not> starts_white s"
proof
  assume fixed: "trim_start s = s"
  have short: "trim_start u \<noteq> s" if "length u < length s" for u
    using length_trim_start [of u] that by auto
  show "\<not> starts_white s"
    using fixed short by (cases s rule: trim_start.cases) (auto simp: starts_white_def split: if_splits)
qed (cases s rule: trim_start.cases; auto simp: starts_white_def)

lemma trim_start_prefix: "trim_start (s @ t) = s @ t \<Longrightarrow> trim_start s = s"
  unfolding trim_start_id_iff starts_white_def by fastforce

lemma trim_rev_suffix: "\<exists>t. s = t @ trim_rev s"
  by (induction s rule: trim_rev.induct) (auto intro: exI [of _ "[]"], (metis append_Cons)+)

lemma trim_trim [simp]: "trim (trim s) = trim s"
proof -
  obtain t where "rev (trim_start s) = t @ trim_rev (rev (trim_start s))" using trim_rev_suffix by blast
  then have "trim_start s = trim s @ rev t" unfolding trim_def by (metis rev_append rev_rev_ident)
  then have "trim_start (trim s) = trim s" using trim_start_prefix trim_start_fixed by metis
  then show ?thesis by (simp add: trim_def trim_rev_fixed)
qed

section \<open>Provider profiles\<close>

text \<open>What a request asks for, read off its JSON.\<close>

definition requested_object :: "profile_request \<Rightarrow> jmap" where
  "requested_object rq = (case pr_defaults rq of Object m \<Rightarrow> m | _ \<Rightarrow> [])"

definition requested_text :: "profile_request \<Rightarrow> string \<Rightarrow> string" where
  "requested_text rq key = trim (unwrap_or [] (Option.bind (obj_get key (requested_object rq)) as_str))"

definition requested_provider :: "profile_request \<Rightarrow> resolved_provider" where
  "requested_provider rq =
     \<lparr>rp_base_url = requested_text rq ''base_url'', rp_api_key = map_option trim (pr_api_key rq),
      rp_model = requested_text rq ''model'',
      rp_timeout_ms = unwrap_or (20 * 60 * 1000) (Option.bind (obj_get ''timeout_ms'' (requested_object rq)) as_u64),
      rp_max_steps = unwrap_or 64 (Option.bind (obj_get ''max_steps'' (requested_object rq)) as_u64),
      rp_verify_tls = unwrap_or True (Option.bind (obj_get ''verify_tls_certificates'' (requested_object rq)) as_bool)\<rparr>"

definition wants_bearer :: "profile_request \<Rightarrow> bool" where
  "wants_bearer rq =
     (unwrap_or ''bearer'' (Option.bind (obj_get ''auth_mode'' (requested_object rq)) as_str) = ''bearer'')"

text \<open>The stored defaults carry what was asked for.\<close>

definition carries :: "jmap \<Rightarrow> profile_request \<Rightarrow> bool" where
  "carries m rq =
     (let P = requested_provider rq in
      endpoint_binding (Object m) = ''server''
      \<and> obj_get ''base_url'' m = Some (String (rp_base_url P)) \<and> rp_base_url P \<noteq> []
      \<and> obj_get ''model'' m = Some (String (rp_model P)) \<and> rp_model P \<noteq> []
      \<and> Option.bind (obj_get ''timeout_ms'' m) as_u64 = Some (rp_timeout_ms P)
      \<and> 1000 \<le> rp_timeout_ms P \<and> rp_timeout_ms P \<le> MAX_TIMEOUT_MS
      \<and> Option.bind (obj_get ''max_steps'' m) as_u64 = Some (rp_max_steps P)
      \<and> 1 \<le> rp_max_steps P \<and> rp_max_steps P \<le> MAX_MODEL_STEPS
      \<and> (Option.bind (obj_get ''auth_mode'' m) as_str = Some ''bearer'') = wants_bearer rq
      \<and> unwrap_or True (Option.bind (obj_get ''verify_tls_certificates'' m) as_bool) = rp_verify_tls P)"

lemma obj_get_or_insert: "obj_get k (or_insert k' v m) =
    (if k = k' then Some (unwrap_or v (obj_get k m)) else obj_get k m)"
  by (auto simp: or_insert_def obj_get_insert split: option.splits)

lemma normalized_carries:
  assumes "normalized_server_defaults E (pr_defaults rq) = Inr v"
  shows "\<exists>m. v = Object m \<and> carries m rq"
proof -
  obtain m0 where "pr_defaults rq = Object m0"
    using assms unfolding normalized_server_defaults_def bindE_Inr_iff ok_or_Inr_iff by (cases "pr_defaults rq") auto
  note m0 = this requested_object_def [of rq, unfolded this json.case]
  let ?P = "requested_provider rq"
  have texts: "required_string_api m0 key = Inr x \<longleftrightarrow> x = requested_text rq key \<and> x \<noteq> [] \<and> length x \<le> 4096" for key x
    unfolding required_string_api_def Let_def requested_text_def m0 by auto
  let ?auth = "unwrap_or ''bearer'' (Option.bind (obj_get ''auth_mode'' m0) as_str)"
  let ?kvs = "[(''base_url'', String (rp_base_url ?P)), (''model'', String (rp_model ?P)),
    (''timeout_ms'', nat_json (rp_timeout_ms ?P)), (''max_steps'', nat_json (rp_max_steps ?P)), (''auth_mode'', String ?auth),
    (''endpoint_binding'', String ''server''), (''source'', String ''server'')]"
  let ?n = "fold (\<lambda>(k, v) m. obj_insert k v m) ?kvs m0"
  let ?m = "or_insert ''verify_tls_certificates'' (Bool True) ?n"
  from assms have facts: "v = Object ?m" "rp_base_url ?P \<noteq> []" "rp_model ?P \<noteq> []"
      "1000 \<le> rp_timeout_ms ?P" "rp_timeout_ms ?P \<le> MAX_TIMEOUT_MS" "1 \<le> rp_max_steps ?P" "rp_max_steps ?P \<le> MAX_MODEL_STEPS"
    unfolding requested_provider_def resolved_provider.select_convs
    by (simp_all only: normalized_server_defaults_def bindE_Inr_iff ok_or_Inr_iff ensure_Inr_iff Let_def m0
      as_object.simps option.inject sum.inject simp_thms ex_simps texts) blast+
  have got: "obj_get k ?m = (if k = ''verify_tls_certificates'' then Some (unwrap_or (Bool True) (obj_get k ?n))
      else obj_get k ?n)" for k
    unfolding obj_get_or_insert by simp
  have n: "obj_get k ?n = (case map_of (rev ?kvs) k of None \<Rightarrow> obj_get k m0 | Some v \<Rightarrow> Some v)" for k
    by (rule obj.get_fold_insert)
  have u64: "as_u64 (nat_json i) = Some i" if "i \<le> MAX_TIMEOUT_MS \<or> i \<le> MAX_MODEL_STEPS" for i
    using that by (auto simp: nat_json_def MAX_TIMEOUT_MS_def MAX_MODEL_STEPS_def)
  have tls: "unwrap_or True (as_bool (unwrap_or (Bool True) x)) = unwrap_or True (Option.bind x as_bool)" for x
    by (cases x) simp_all
  have "carries ?m rq"
    unfolding carries_def Let_def got n endpoint_binding_def get_str_def get.simps wants_bearer_def m0
    using facts(2-7) u64 by (simp add: requested_provider_def m0 tls)
  with facts(1) show ?thesis by blast
qed

lemma fetch_snoc: "p r \<Longrightarrow> \<forall>x \<in> set rs. \<not> p x \<Longrightarrow> fetch_optional p (rs @ [r]) = Some r"
  by (induction rs) (simp_all add: fetch_optional_def)

lemma created_row:
  assumes "create_profile E store u rq d = (d', Inr row)"
    "env_new_v4 E (draws d) \<notin> pp_id ` set (profiles d)"
  shows "\<exists>m sealed. profiles d' = profiles d @ [row] \<and> pp_id row \<notin> pp_id ` set (profiles d) \<and> pp_deleted row = None
    \<and> pp_defaults row = Object m \<and> carries m rq \<and> pp_secret row = sealed
    \<and> pp_owner row = (if pr_team rq = None then Some u else None) \<and> pp_team row = pr_team rq
    \<and> seal_optional_secret store u (pr_team rq) (pr_api_key rq) = Inr sealed"
proof -
  let ?row = "\<lambda>i name kind defaults sealed. \<lparr>pp_id = i, pp_revision = 1, pp_etag = version_etag E i 1,
    pp_owner = (if pr_team rq = None then Some u else None), pp_team = pr_team rq, pp_name = name, pp_kind = kind,
    pp_defaults = defaults, pp_secret = sealed, pp_created = env_now E, pp_updated = env_now E, pp_deleted = None\<rparr>"
  obtain d1 name kind defaults sealed b where allowed:
      "(case pr_team rq of None \<Rightarrow> returnT () | Some t \<Rightarrow> ensure_team_admin u t) d = Inr ((), d1)"
    and parts: "normalized_server_defaults E (pr_defaults rq) = Inr defaults"
      "seal_optional_secret store u (pr_team rq) (pr_api_key rq) = Inr sealed"
      "row = ?row (env_new_v4 E (draws d1)) name kind defaults sealed"
      "publish_canonical_provider_profile_tx E (pp_id row)
         (d1\<lparr>draws := Suc (draws d1), profiles := profiles d1 @ [row]\<rparr>) = Inr (b, d')"
    using assms(1) unfolding create_profile_def Let_def bindH_Inr_iff commit_Inr_iff liftH_Inr_iff bindT_Inr_iff
      returnT_Inr_iff writeT_Inr_iff new_v4_def by auto
  have "d1 = d"
    using allowed by (auto simp: tx_simps ensure_team_admin_def split: option.splits)
  moreover obtain m where "defaults = Object m" "carries m rq" using normalized_carries [OF parts(1)] by blast
  moreover have "profiles d' = profiles d1 @ [row]"
    using obeysD [OF publish_canonical_provider_profile_sync parts(4)] by (auto simp: only_sync_def)
  ultimately show ?thesis using parts(2,3) assms(2) by simp
qed

lemma sealed_opens:
  assumes "lawful_crypto A" "lawful_entropy r"
    "seal_optional_secret (Some (envelope_store A master r)) u team key = Inr (pp_secret row)"
    "pp_owner row = (if team = None then Some u else None)" "pp_team row = team"
    "\<And>k. key = Some k \<Longrightarrow> utf8 (trim k)"
  shows "open_profile_secret (Some (envelope_store A master r')) row = Inr (map_option trim key)
    \<and> map_option trim key \<noteq> Some []"
proof (cases key)
  case None
  with assms(3) show ?thesis by (simp add: seal_optional_secret_def open_profile_secret_def)
next
  case (Some k)
  note opens = decrypt_encrypt [OF assms(1,2)]
  have "from_utf8 (trim k) = Some (trim k)" using assms(6) Some by (simp add: from_utf8_def from_utf8_lossy_id)
  moreover from assms(3) Some obtain x where "pp_secret row = Some x" "trim k \<noteq> []"
    "(case team of Some t \<Rightarrow> encrypt A master r (KeyTeam t) (trim k) | None \<Rightarrow> encrypt A master r (KeyUser u) (trim k)) = Inr x"
    by (auto simp: seal_optional_secret_def Let_def envelope_store_def seal_for_user_def [abs_def] seal_for_team_def [abs_def]
      ok_or_def tx_simps dest: sym split: if_splits option.splits)
  ultimately show ?thesis using Some assms(4,5)
    by (cases team) (auto simp: open_profile_secret_def envelope_store_def open_for_user_def open_for_team_def
      ok_or_def map_err_def dest!: opens)
qed

lemma carried_resolves:
  assumes "pp_defaults row = Object m" "carries m rq" "open_profile_secret store row = Inr (map_option trim (pr_api_key rq))"
    "map_option trim (pr_api_key rq) \<noteq> Some []"
  shows "resolve_profile store row =
    (if wants_bearer rq \<and> pr_api_key rq = None then Inl [''the selected provider profile requires an API key'']
     else Inr (requested_provider rq))"
proof -
  let ?P = "requested_provider rq"
  have shape: "\<lparr>rp_base_url = rp_base_url ?P, rp_api_key = map_option trim (pr_api_key rq), rp_model = rp_model ?P,
      rp_timeout_ms = rp_timeout_ms ?P, rp_max_steps = rp_max_steps ?P, rp_verify_tls = rp_verify_tls ?P\<rparr> = ?P"
    by (simp add: requested_provider_def)
  have texts: "requested_text rq k = trim (requested_text rq k)" for k by (simp add: requested_text_def)
  have bounds: "max 1000 (min MAX_TIMEOUT_MS (rp_timeout_ms (requested_provider rq))) = rp_timeout_ms (requested_provider rq)"
    "max 1 (min MAX_MODEL_STEPS (rp_max_steps (requested_provider rq))) = rp_max_steps (requested_provider rq)"
    using assms(2) by (simp_all add: carries_def Let_def)
  have urls: "trim (rp_base_url (requested_provider rq)) = rp_base_url (requested_provider rq)"
    "trim (rp_model (requested_provider rq)) = rp_model (requested_provider rq)"
    by (simp_all add: requested_provider_def flip: texts)
  have missing: "(case pr_api_key rq of None \<Rightarrow> True | Some x \<Rightarrow> ((\<lambda>k. k = []) \<circ> trim) x) \<longleftrightarrow> pr_api_key rq = None"
    using assms(4) by (auto split: option.splits)
  have "required_default m ''base_url'' = Inr (rp_base_url (requested_provider rq))"
    "required_default m ''model'' = Inr (rp_model (requested_provider rq))"
    using assms(2) urls by (simp_all add: carries_def Let_def required_default_def)
  then show ?thesis
    using assms(2) unfolding resolve_profile_def assms(1,3) Let_def carries_def
    by (auto simp: ok_or_def ensure_def missing bounds shape)
qed

text \<open>C25: A provider profile resolves to what it was created with. For every run whose project may use
  the profile, the worker gets the base URL, the model, the limits and the TLS setting of the request
  and the decrypted key, trimmed; a profile that wants a bearer token and was created without a key is
  refused.\<close>

theorem created_profile_resolves:
  assumes "lawful_crypto A" "lawful_entropy r"
    "create_profile E (Some (envelope_store A master r)) u rq d = (d', Inr row)"
    "env_new_v4 E (draws d) \<notin> pp_id ` set (profiles d)"
    "\<And>k. pr_api_key rq = Some k \<Longrightarrow> utf8 (trim k)"
    "find_project p d' = Some project" "profile_accessible w project d' row"
  shows "resolve_server_provider E' (Some (envelope_store A master r')) w p (pp_id row) d' =
    (d', if wants_bearer rq \<and> pr_api_key rq = None
         then Inl [''the selected provider profile requires an API key'']
         else Inr (requested_provider rq))"
proof -
  from created_row [OF assms(3,4)] obtain m where row: "profiles d' = profiles d @ [row]" "pp_deleted row = None"
      "pp_id row \<notin> pp_id ` set (profiles d)" "pp_defaults row = Object m" "carries m rq"
      "pp_owner row = (if pr_team rq = None then Some u else None)" "pp_team row = pr_team rq"
      "seal_optional_secret (Some (envelope_store A master r)) u (pr_team rq) (pr_api_key rq) = Inr (pp_secret row)"
    by blast
  have "fetch_optional (\<lambda>pp. pp_id pp = pp_id row \<and> pp_deleted pp = None \<and> profile_accessible w project d' pp)
      (profiles d') = Some row"
    unfolding row(1) using row(2,3) assms(7) by (intro fetch_snoc) (auto simp: image_iff)
  then have "accessible_profile E' w p (pp_id row) d' = Inr (row, d')"
    using assms(6) by (simp add: accessible_profile_def tx_defs)
  moreover note carried_resolves [OF row(4,5), of "Some (envelope_store A master r')"]
    sealed_opens [OF assms(1,2) row(8,6,7) assms(5), of r']
  ultimately show ?thesis
    by (simp add: resolve_server_provider_def bindH_def map_errH_def map_err_def commit_def liftH_def)
qed

definition demo_profile_request :: profile_request where
  "demo_profile_request =
     \<lparr>pr_team = None, pr_name = ''local'', pr_kind = ''openai-compatible'',
      pr_defaults = json_object [(''base_url'', String ''http://h ''), (''model'', String ''m'')],
      pr_api_key = Some '' key''\<rparr>"

definition web_env :: env where
  "web_env = demo_env\<lparr>env_parse_url := (\<lambda>_. Some \<lparr>url_scheme = ''http'', url_host_str = Some ''h'',
     url_port_or_known_default = Some 80, url_username = [], url_password = None, url_query = None, url_fragment = None\<rparr>)\<rparr>"

definition demo_store :: "object_store option" where
  "demo_store = Some (envelope_store toy_crypto ''master'' toy_entropy)"

lemma demo_profile_created:
  "case create_profile web_env demo_store 7 demo_profile_request demo_db of
     (d', Inr row) \<Rightarrow> find_project 1 d' = Some demo_project \<and> profile_accessible 7 demo_project d' row
   | _ \<Rightarrow> False"
  by code_simp

theorem created_profile_resolves_witness:
  "\<exists>d' row. create_profile web_env demo_store 7 demo_profile_request demo_db = (d', Inr row)
     \<and> resolve_server_provider web_env demo_store 7 1 (pp_id row) d' =
        (d', Inr \<lparr>rp_base_url = ''http://h'', rp_api_key = Some ''key'', rp_model = ''m'', rp_timeout_ms = 1200000,
          rp_max_steps = 64, rp_verify_tls = True\<rparr>)"
proof -
  obtain d' row where made: "create_profile web_env demo_store 7 demo_profile_request demo_db = (d', Inr row)"
    and p: "find_project 1 d' = Some demo_project" "profile_accessible 7 demo_project d' row"
    using demo_profile_created by (auto split: prod.splits sum.splits)
  have fresh: "env_new_v4 web_env (draws demo_db) \<notin> pp_id ` set (profiles demo_db)" by code_simp
  have key: "utf8 (trim k)" if "pr_api_key demo_profile_request = Some k" for k
  proof -
    have "k = '' key''" using that by (simp add: demo_profile_request_def)
    moreover have "utf8 (trim '' key'')" by code_simp
    ultimately show ?thesis by simp
  qed
  have asked: "requested_provider demo_profile_request = \<lparr>rp_base_url = ''http://h'', rp_api_key = Some ''key'', rp_model = ''m'',
      rp_timeout_ms = 1200000, rp_max_steps = 64, rp_verify_tls = True\<rparr>" "pr_api_key demo_profile_request \<noteq> None"
    by code_simp+
  from created_profile_resolves [OF toy_lawful made [unfolded demo_store_def] fresh key p, of web_env toy_entropy] asked
  show ?thesis using made by (simp add: demo_store_def)
qed

section \<open>MCP bindings\<close>

abbreviation binding_key :: "mcp_binding_row \<Rightarrow> uuid \<times> uuid" where
  "binding_key b \<equiv> (mb_project_id b, mb_entity_id b)"

text \<open>The binding a request asks for, as a run sees it.\<close>

definition requested_binding :: "set_binding_request \<Rightarrow> resolved_binding" where
  "requested_binding rq =
     \<lparr>rb_name = trim (sbr_name rq),
      rb_transport = (if trim (sbr_transport rq) = [] then ''stdio'' else trim (sbr_transport rq)),
      rb_command = trim (sbr_command rq), rb_args = sbr_args rq, rb_environment = sbr_environment rq,
      rb_url = trim (sbr_url rq), rb_headers = sbr_headers rq\<rparr>"

lemma filter_none: "\<forall>x \<in> set xs. \<not> p x \<Longrightarrow> filter p xs = []"
  by (induction xs) simp_all

lemma replaced_once:
  assumes "distinct (map k xs)" "\<exists>x \<in> set xs. k x = k0" "k r = k0"
  shows "filter (\<lambda>x. k x = k0) (update_where (\<lambda>x. k x = k0) (\<lambda>_. r) xs) = [r]"
  using assms(1,2)
proof (induction xs)
  case (Cons x xs)
  show ?case
  proof (cases "k x = k0")
    case True
    with Cons.prems(1) have "\<forall>y \<in> set xs. k y \<noteq> k0" by (auto simp: image_iff)
    then have "filter (\<lambda>x. k x = k0) (update_where (\<lambda>x. k x = k0) (\<lambda>_. r) xs) = []"
      by (intro filter_none) (auto simp: set_update_where)
    with True assms(3) show ?thesis by (simp add: update_where_def)
  next
    case False
    with Cons show ?thesis by (simp add: update_where_def)
  qed
qed simp

lemma write_binding_stored:
  assumes "write_binding E new expected d = Inr (row, d')" "distinct (map binding_key (mcp_bindings d))"
  shows "filter (\<lambda>b. binding_key b = binding_key new) (mcp_bindings d') = [row] \<and> binding_key row = binding_key new
    \<and> mb_owner row = mb_owner new \<and> mb_team row = mb_team new \<and> mb_sealed row = mb_sealed new"
proof -
  let ?current = "find_binding (mb_project_id new) (mb_entity_id new) d"
  from assms(1) obtain revision where
      row: "row = new\<lparr>mb_revision := revision, mb_etag := binding_etag E (mb_project_id new) (mb_entity_id new) revision,
        mb_created := (case ?current of None \<Rightarrow> env_now E | Some b \<Rightarrow> mb_created b), mb_updated := env_now E\<rparr>"
      and d': "d' = d\<lparr>mcp_bindings := (case ?current of None \<Rightarrow> mcp_bindings d @ [row]
         | Some _ \<Rightarrow> update_where (\<lambda>b. mb_project_id b = mb_project_id new \<and> mb_entity_id b = mb_entity_id new)
             (\<lambda>_. row) (mcp_bindings d))\<rparr>"
    unfolding write_binding_def Let_def tx_simps by blast
  have key: "binding_key row = binding_key new" by (simp add: row)
  have "filter (\<lambda>b. binding_key b = binding_key new) (mcp_bindings d') = [row]"
  proof (cases ?current)
    case None
    then have "filter (\<lambda>b. binding_key b = binding_key new) (mcp_bindings d) = []"
      by (intro filter_none) (auto simp: find_binding_def fetch_optional_None)
    with None key d' show ?thesis by simp
  next
    case (Some b)
    then have "\<exists>x \<in> set (mcp_bindings d). binding_key x = binding_key new"
      by (auto simp: find_binding_def dest: fetch_optional_Some)
    with replaced_once [OF assms(2) this key] Some d' show ?thesis by simp
  qed
  with key show ?thesis by (simp add: row)
qed

lemma binding_opens:
  assumes "lawful_crypto A" "lawful_entropy r" "bc_decode C (bc_encode C b) = Inr b"
    "(case mb_team row of Some t \<Rightarrow> encrypt A master r (KeyTeam t) (bc_encode C b)
        | None \<Rightarrow> encrypt A master r (KeyUser (mb_owner row)) (bc_encode C b)) = Inr (mb_sealed row)"
    "validate_stored_binding E b = Inr ()" "mb_entity_id row = fmr_entity_id f" "sb_name b = fmr_name f"
  shows "open_binding E C (envelope_store A master r') [f] row = Inr (fmr_entity_id f,
    \<lparr>rb_name = sb_name b, rb_transport = transport_name (sb_transport b), rb_command = sb_command b, rb_args = sb_args b,
     rb_environment = sb_environment b, rb_url = sb_url b, rb_headers = sb_headers b\<rparr>)"
proof -
  have "(case mb_team row of Some t \<Rightarrow> os_open_for_team (envelope_store A master r') t (mb_sealed row)
       | None \<Rightarrow> os_open_for_user (envelope_store A master r') (mb_owner row) (mb_sealed row)) = Inr (bc_encode C b)"
    using assms(4) decrypt_encrypt [OF assms(1,2)]
    by (auto simp: envelope_store_def open_for_user_def open_for_team_def split: option.splits)
  then show ?thesis
    unfolding open_binding_def by (simp add: map_err_def assms(3,5-7) ok_or_def ensure_def)
qed

lemma validated_binding_Inr:
  assumes "validated_binding E rq = Inr b"
  shows "validate_stored_binding E b = Inr () \<and> sb_name b = trim (sbr_name rq)
    \<and> \<lparr>rb_name = sb_name b, rb_transport = transport_name (sb_transport b), rb_command = sb_command b, rb_args = sb_args b,
     rb_environment = sb_environment b, rb_url = sb_url b, rb_headers = sb_headers b\<rparr> = requested_binding rq"
  using assms
  by (auto simp: validated_binding_def Let_def tx_simps parse_transport_def requested_binding_def split: if_splits)

lemma set_binding_stored:
  assumes "set_binding E C (Some (envelope_store A master r)) u p i rq d = (d', Inr row)"
    "distinct (map binding_key (mcp_bindings d))"
  shows "\<exists>b. validated_binding E rq = Inr b \<and> filter (\<lambda>b. binding_key b = (p, i)) (mcp_bindings d') = [row]
    \<and> binding_key row = (p, i)
    \<and> (case mb_team row of Some t \<Rightarrow> encrypt A master r (KeyTeam t) (bc_encode C b)
        | None \<Rightarrow> encrypt A master r (KeyUser (mb_owner row)) (bc_encode C b)) = Inr (mb_sealed row)"
proof -
  let ?new = "\<lambda>b owner team v. \<lparr>mb_project_id = p, mb_entity_id = i, mb_revision = 1, mb_etag = [], mb_owner = owner,
    mb_team = team, mb_name = sb_name b, mb_transport = transport_name (sb_transport b), mb_hint = binding_hint b,
    mb_argument_count = int (length (sb_args b)), mb_environment_keys = Array (map (String \<circ> fst) (binding_secret_keys b)),
    mb_sealed = v, mb_created = env_now E, mb_updated = env_now E\<rparr>"
  from assms(1) obtain d1 d2 d3 b owner team v role z where steps:
      "ensure_project_role E u p Editor d = Inr (role, d1)" "ensure_owned_mcp_metadata E u i (sbr_name rq) d1 = Inr (z, d2)"
      "validated_binding E rq = Inr b" "project_key_scope E p d2 = Inr ((owner, team), d3)"
      "(case team of Some t \<Rightarrow> os_seal_for_team (envelope_store A master r) t (bc_encode C b)
        | None \<Rightarrow> os_seal_for_user (envelope_store A master r) owner (bc_encode C b)) = Inr v"
      "write_binding E (?new b owner team v) (sbr_expected_revision rq) d3 = Inr (row, d')"
    unfolding set_binding_def Let_def tx_simps split_paired_Ex prod.case option.inject by blast
  have "mcp_bindings d1 = mcp_bindings d"
    using obeysD [OF ensure_project_role_only steps(1)] by (auto simp: only_audits_def)
  moreover have "d2 = d1" "d3 = d2"
    using steps(2,4) by (auto simp: ensure_owned_mcp_metadata_def project_key_scope_def Let_def tx_simps)
  ultimately have "distinct (map binding_key (mcp_bindings d3))" using assms(2) by simp
  from write_binding_stored [OF steps(6) this] steps(3,5) show ?thesis
    by (cases team) (simp_all add: envelope_store_def seal_for_user_def seal_for_team_def)
qed

text \<open>C26: An MCP binding reaches a run as it was stored. After a binding was set, a run that froze a
  reference to its metadata under the same name gets exactly the requested transport, command,
  arguments, environment, URL and headers, decrypted and validated again, for user and team projects
  alike.\<close>

theorem stored_binding_resolves:
  assumes "lawful_crypto A" "lawful_entropy r"
    "\<And>b. validated_binding E rq = Inr b \<Longrightarrow> bc_decode C (bc_encode C b) = Inr b"
    "set_binding E C (Some (envelope_store A master r)) u p i rq d = (d', Inr row)"
    "distinct (map (\<lambda>b. (mb_project_id b, mb_entity_id b)) (mcp_bindings d))"
    "frozen_mcp_references E input = Inr [\<lparr>fmr_entity_id = i, fmr_name = trim (sbr_name rq)\<rparr>]"
  shows "resolve_server_bindings_for_run E C (Some (envelope_store A master r')) p input d' = Inr [requested_binding rq]"
proof -
  let ?f = "\<lparr>fmr_entity_id = i, fmr_name = trim (sbr_name rq)\<rparr>"
  from set_binding_stored [OF assms(4,5)] obtain b where b: "validated_binding E rq = Inr b"
      and rows: "filter (\<lambda>b. binding_key b = (p, i)) (mcp_bindings d') = [row]" "binding_key row = (p, i)"
      and sealed: "(case mb_team row of Some t \<Rightarrow> encrypt A master r (KeyTeam t) (bc_encode C b)
        | None \<Rightarrow> encrypt A master r (KeyUser (mb_owner row)) (bc_encode C b)) = Inr (mb_sealed row)"
    by blast
  note valid = validated_binding_Inr [OF b]
  have "open_binding E C (envelope_store A master r') [?f] row = Inr (i, requested_binding rq)"
    using binding_opens [OF assms(1,2) assms(3) [OF b] sealed, of E ?f r'] valid rows(2)
    unfolding frozen_mcp_reference.select_convs prod.inject by metis
  moreover have "bindings_for p [?f] d' = [row]" using rows(1) by (simp add: bindings_for_def)
  ultimately show ?thesis
    by (simp add: resolve_server_bindings_for_run_def assms(6) map_err_def ok_or_def)
qed

definition demo_binding_request :: set_binding_request where
  "demo_binding_request =
     \<lparr>sbr_name = ''files'', sbr_transport = [], sbr_command = ''npx'', sbr_args = [''-y''], sbr_environment = [(''TOKEN'', ''t'')],
      sbr_url = [], sbr_headers = [], sbr_expected_revision = None\<rparr>"

definition demo_codec :: binding_codec where
  "demo_codec = \<lparr>bc_encode = (\<lambda>_. ''binding''),
     bc_decode = (\<lambda>_. Inr \<lparr>sb_name = ''files'', sb_transport = Stdio, sb_command = ''npx'', sb_args = [''-y''],
       sb_environment = [(''TOKEN'', ''t'')], sb_url = [], sb_headers = []\<rparr>)\<rparr>"

definition mcp_env :: env where
  "mcp_env = demo_env\<lparr>env_parse_uuid := (\<lambda>_. Some 30)\<rparr>"

definition mcp_db :: db where
  "mcp_db = demo_db\<lparr>sync_entities := [\<lparr>se_user = 7, se_type = ''mcp_metadata'', se_entity = 30, se_revision = 1,
     se_etag = [], se_payload = Some (json_object [(''name'', String ''files'')]), se_tombstone = False,
     se_updated = 0\<rparr>]\<rparr>"

definition mcp_input :: json where
  "mcp_input = json_object [(''frozen_runtime_context'', json_object [(''mcp_metadata'', Array [json_object
     [(''entity_id'', String ''id''), (''definition'', json_object [(''name'', String ''files'')])]])])]"

lemma demo_binding_set:
  "case set_binding mcp_env demo_codec demo_store 7 1 30 demo_binding_request mcp_db of (d', Inr row) \<Rightarrow> True | _ \<Rightarrow> False"
  by code_simp

theorem stored_binding_resolves_witness:
  "\<exists>d' row. set_binding mcp_env demo_codec demo_store 7 1 30 demo_binding_request mcp_db = (d', Inr row)
     \<and> resolve_server_bindings_for_run mcp_env demo_codec demo_store 1 mcp_input d' =
         Inr [\<lparr>rb_name = ''files'', rb_transport = ''stdio'', rb_command = ''npx'', rb_args = [''-y''],
           rb_environment = [(''TOKEN'', ''t'')], rb_url = [], rb_headers = []\<rparr>]"
proof -
  obtain d' row where made: "set_binding mcp_env demo_codec demo_store 7 1 30 demo_binding_request mcp_db = (d', Inr row)"
    using demo_binding_set by (auto split: prod.splits sum.splits)
  have codec: "bc_decode demo_codec (bc_encode demo_codec b) = Inr b"
    if "validated_binding mcp_env demo_binding_request = Inr b" for b
  proof -
    have "map_err (\<lambda>_. []) (validated_binding mcp_env demo_binding_request) = bc_decode demo_codec ''binding''" by code_simp
    with that show ?thesis by (simp add: map_err_def demo_codec_def)
  qed
  have "distinct (map (\<lambda>b. (mb_project_id b, mb_entity_id b)) (mcp_bindings mcp_db))" by code_simp
  moreover have "frozen_mcp_references mcp_env mcp_input = Inr [\<lparr>fmr_entity_id = 30, fmr_name = trim (sbr_name demo_binding_request)\<rparr>]"
    by code_simp
  ultimately have "resolve_server_bindings_for_run mcp_env demo_codec demo_store 1 mcp_input d' = Inr [requested_binding demo_binding_request]"
    using stored_binding_resolves [OF toy_lawful codec made [unfolded demo_store_def]] by (simp add: demo_store_def)
  moreover have "requested_binding demo_binding_request = \<lparr>rb_name = ''files'', rb_transport = ''stdio'', rb_command = ''npx'',
      rb_args = [''-y''], rb_environment = [(''TOKEN'', ''t'')], rb_url = [], rb_headers = []\<rparr>"
    by code_simp
  ultimately show ?thesis using made by simp
qed

end
