(* ===== verification/Artifacts.thy ===== *)
theory Artifacts
  imports Snapshots
begin

text \<open>
  Artifacts of runs (\<open>storage.rs\<close>): files an executor or a user stores beside a run. Each is sealed for
  the scope of its project, kept in the object store under its own identifier and recorded in the
  event log. An executor may repeat an upload under the identifier of its source event.
\<close>

section \<open>Names and paths\<close>

text \<open>\<open>std::path::Component\<close> on Unix: empty components vanish, and so does \<open>.\<close> after the first.\<close>

datatype path_component = RootDir | CurDir | ParentDir | Normal string

fun component_of :: "string \<Rightarrow> path_component list" where
  "component_of c = (if c = [] \<or> c = ''.'' then [] else if c = ''..'' then [ParentDir] else [Normal c])"

definition path_components :: "string \<Rightarrow> path_component list" where
  "path_components path =
     (let parts = split_on (CHR ''/'') path; rest = concat (map component_of parts) in
      if starts_with ''/'' path then RootDir # rest
      else if parts \<noteq> [] \<and> hd parts = ''.'' then CurDir # rest
      else rest)"

fun is_normal :: "path_component \<Rightarrow> bool" where
  "is_normal (Normal _) = True"
| "is_normal _ = False"

definition validate_executor_artifact_path :: "string \<Rightarrow> (api_error, unit) result" where
  "validate_executor_artifact_path path =
     bindE (ensure (\<not> (path = [] \<or> length path > 1024 \<or> CHR 0x5C \<in> set path))
       (Unprocessable ''artifact path is invalid'')) (\<lambda>_.
     ensure (case path_components path of
         [] \<Rightarrow> False
       | c # cs \<Rightarrow> c = Normal ''artifacts'' \<and> list_all is_normal cs)
       (Unprocessable ''artifact path must stay below artifacts/''))"

definition validate_attachment_name :: "string \<Rightarrow> (api_error, unit) result" where
  "validate_attachment_name name =
     ensure (\<not> (name = [] \<or> length name > 255 \<or> name = ''.'' \<or> name = ''..''
         \<or> CHR ''/'' \<in> set name \<or> CHR 0x5C \<in> set name \<or> NUL \<in> set name \<or> has_control name))
       (Unprocessable ''attachment name must be a single safe file name'')"

definition artifact_media :: "string \<Rightarrow> string \<times> string" where
  "artifact_media name =
     (let extension = to_ascii_lowercase (last (split_on (CHR ''.'') name)) in
      if extension = ''png'' then (''image'', ''image/png'')
      else if extension \<in> {''jpg'', ''jpeg''} then (''image'', ''image/jpeg'')
      else if extension = ''webp'' then (''image'', ''image/webp'')
      else if extension = ''pdf'' then (''document'', ''application/pdf'')
      else if extension = ''zip'' then (''trace'', ''application/zip'')
      else if extension = ''webm'' then (''video'', ''video/webm'')
      else if extension = ''json'' then (''log'', ''application/json'')
      else if extension \<in> {''txt'', ''log''} then (''log'', ''text/plain; charset=utf-8'')
      else (''file'', ''application/octet-stream''))"

text \<open>\<open>utf8_percent_encode\<close> with \<open>AWS_ENCODE_SET\<close>.\<close>

definition hex_digit :: "nat \<Rightarrow> char" where
  "hex_digit n = ''0123456789ABCDEF'' ! n"

definition percent_encode :: "string \<Rightarrow> string" where
  "percent_encode name = concat (map (\<lambda>c.
     if is_ascii_alphanumeric c \<or> c \<in> set ''-._~'' then [c]
     else CHR 0x25 # [hex_digit (byte c div 16), hex_digit (byte c mod 16)]) name)"

section \<open>Storing\<close>

definition artifact_object_key :: "env \<Rightarrow> key_scope \<Rightarrow> uuid \<Rightarrow> uuid \<Rightarrow> string" where
  "artifact_object_key E s run artifact =
     ''artifacts/'' @ scope_kind s @ ''/'' @ env_uuid E (scope_id s) @ ''/'' @ env_uuid E run @ ''/'' @ env_uuid E artifact"

definition artifact_payload :: "env \<Rightarrow> artifact_row \<Rightarrow> string \<Rightarrow> nat \<Rightarrow> string \<Rightarrow> json" where
  "artifact_payload E a digest byte_count workspace_path =
     json_object [(''schema_version'', Number (Integer (int SCHEMA_VERSION))), (''id'', String (env_uuid E (art_id a))),
       (''run_id'', String (env_uuid E (art_run_id a))), (''revision'', Number (Integer (art_revision a))),
       (''kind'', String (art_kind a)), (''media_type'', String (art_media_type a)), (''name'', String (art_name a)),
       (''digest'', String digest), (''size_bytes'', Number (Integer (int byte_count))),
       (''workspace_path'', String workspace_path), (''storage'', String ''object_store_encrypted'')]"

definition replayed_artifact ::
    "env \<Rightarrow> artifact_row \<Rightarrow> string \<Rightarrow> nat \<Rightarrow> string \<Rightarrow> string \<Rightarrow> (api_error, json) result" where
  "replayed_artifact E a digest byte_count workspace_path source =
     bindE (ensure (\<not> (art_digest a \<noteq> digest \<or> art_size a \<noteq> int byte_count
         \<or> Option.bind (get ''workspace_path'' (art_metadata a)) as_str \<noteq> Some workspace_path
         \<or> Option.bind (get ''source'' (art_metadata a)) as_str \<noteq> Some source))
       (Conflict ''source_event_id was already used for different artifact content'')) (\<lambda>_.
     Inr (artifact_payload E a digest byte_count workspace_path))"

definition artifact_revision :: "uuid \<Rightarrow> string \<Rightarrow> db \<Rightarrow> int" where
  "artifact_revision run name d =
     (let revisions = map art_revision (filter (\<lambda>a. art_run_id a = run \<and> art_name a = name) (artifacts d)) in
      (if revisions = [] then 0 else Max (set revisions)) + 1)"

text \<open>\<open>INSERT INTO run_artifacts\<close> with its keys: the identifier, the run and the source event of the run.\<close>

definition insert_artifact :: "artifact_row \<Rightarrow> unit dbtx" where
  "insert_artifact a =
     bindT (readT (\<lambda>d. exists_row (\<lambda>x. art_id x = art_id a) (artifacts d))) (\<lambda>taken.
     bindT (ensureT (\<not> taken) (unique_violation ''run_artifacts_pkey'')) (\<lambda>_.
     bindT (readT (\<lambda>d. art_source_event a \<noteq> None \<and> exists_row (\<lambda>x. art_run_id x = art_run_id a
       \<and> art_source_event x = art_source_event a) (artifacts d))) (\<lambda>taken.
     bindT (ensureT (\<not> taken) (unique_violation ''run_artifacts_source_event_unique'')) (\<lambda>_.
     bindT (readT (\<lambda>d. find_run (art_run_id a) d \<noteq> None)) (\<lambda>referenced.
     bindT (ensureT referenced (DatabaseError ''run_artifacts violates its foreign key'')) (\<lambda>_.
     writeT (\<lambda>d. d\<lparr>artifacts := artifacts d @ [a]\<rparr>)))))))"

definition new_artifact ::
    "env \<Rightarrow> uuid \<Rightarrow> uuid \<Rightarrow> int \<Rightarrow> string \<Rightarrow> string \<Rightarrow> string \<Rightarrow> nat \<Rightarrow> string \<Rightarrow> string \<Rightarrow> key_scope \<Rightarrow> sealed_value
      \<Rightarrow> uuid option \<Rightarrow> artifact_row" where
  "new_artifact E i run revision name key digest byte_count workspace_path source s sealed source_event =
     \<lparr>art_id = i, art_run_id = run, art_revision = revision, art_kind = fst (artifact_media name),
      art_media_type = snd (artifact_media name), art_name = name, art_object_key = key, art_digest = digest,
      art_size = int byte_count,
      art_metadata = json_object [(''workspace_path'', String workspace_path), (''source'', String source)],
      art_scope = Some (scope_type s), art_scope_id = Some (scope_id s),
      art_encrypted_data_key = Some (sv_encrypted_data_key sealed), art_nonce = Some (sv_nonce sealed),
      art_wrap_nonce = Some (sv_wrap_nonce sealed), art_source_event = source_event, art_created = env_now E,
      art_deleted = None\<rparr>"

definition store_artifact ::
    "env \<Rightarrow> vault \<Rightarrow> uuid \<Rightarrow> uuid \<Rightarrow> string \<Rightarrow> string \<Rightarrow> string \<Rightarrow> key_scope \<Rightarrow> uuid option \<Rightarrow> string \<Rightarrow> json storage" where
  "store_artifact E V i run name workspace_path source s source_event plaintext =
     (let digest = v_sha256 V plaintext; key = artifact_object_key E s run i in
      bindH (liftH (encrypt (v_crypto V) (v_master V) (v_entropy V key) s plaintext)) (\<lambda>sealed.
      bindH (put_object V key (sv_ciphertext sealed)) (\<lambda>_.
      bindH (on_db (commit (readT (artifact_revision run name)))) (\<lambda>revision.
      let a = new_artifact E i run revision name key digest (length plaintext) workspace_path source s sealed source_event in
      (\<lambda>x. case on_db (commit (insert_artifact a)) x of
          (x', Inl e) \<Rightarrow> (fst (delete_object V key x'), Inl e)
        | (x', Inr _) \<Rightarrow> (x', Inr (artifact_payload E a digest (length plaintext) workspace_path)))))))"

definition persist_run_artifact ::
    "env \<Rightarrow> vault \<Rightarrow> uuid \<Rightarrow> uuid \<Rightarrow> uuid \<Rightarrow> string \<Rightarrow> string \<Rightarrow> uuid option \<Rightarrow> string \<Rightarrow> json storage" where
  "persist_run_artifact E V run project creator workspace_path source source_event plaintext =
     bindH (on_db (commit (project_scope E project creator))) (\<lambda>s.
     bindH (on_db (commit (new_v4 E))) (\<lambda>i.
     let name = last (split_on (CHR ''/'') workspace_path) in
     bindH (liftH (ensure (name \<noteq> []) (Unprocessable ''artifact path has no file name''))) (\<lambda>_.
     bindH (on_db (commit (readT (\<lambda>d. case source_event of
         None \<Rightarrow> None
       | Some e \<Rightarrow> fetch_optional (\<lambda>a. art_run_id a = run \<and> art_source_event a = Some e) (artifacts d))))) (\<lambda>known.
     case known of
       Some a \<Rightarrow> liftH (replayed_artifact E a (v_sha256 V plaintext) (length plaintext) workspace_path source)
     | None \<Rightarrow> store_artifact E V i run name workspace_path source s source_event plaintext))))"

section \<open>Routes\<close>

definition append_artifact_event :: "env \<Rightarrow> uuid \<Rightarrow> uuid option \<Rightarrow> json \<Rightarrow> unit dbtx" where
  "append_artifact_event E run source_event payload =
     bindT (case source_event of
         Some e \<Rightarrow> append_event_tx_with_id E run e Ev_ArtifactCreated payload
       | None \<Rightarrow> append_event_tx E run Ev_ArtifactCreated payload) (\<lambda>_. returnT ())"

definition upload_executor_run_artifact ::
    "env \<Rightarrow> vault option \<Rightarrow> uuid \<Rightarrow> uuid \<Rightarrow> uuid \<Rightarrow> string option \<Rightarrow> string \<Rightarrow> string \<Rightarrow> uuid option \<Rightarrow> string \<Rightarrow> json storage" where
  "upload_executor_run_artifact E store caller ex i header path source source_event body =
     bindH (liftH (ensure_executor_path caller ex)) (\<lambda>_.
     bindH (liftH (validate_executor_artifact_path path)) (\<lambda>_.
     bindH (liftH (ensure (\<not> (trim source = [] \<or> length source > 100))
       (Unprocessable ''artifact source must contain 1 to 100 characters''))) (\<lambda>_.
     bindH (on_db (verify_executor_lease E i ex (executor_lease_token E header))) (\<lambda>run.
     bindH (liftH (require_store store)) (\<lambda>V.
     bindH (persist_run_artifact E V i (spec_project_id (rec_spec run)) (spec_creator_user_id (rec_spec run))
       path source source_event body) (\<lambda>payload.
     bindH (on_db (commit (append_artifact_event E i source_event payload))) (\<lambda>_.
     returnH payload)))))))"

definition insert_uploader :: "env \<Rightarrow> uuid \<Rightarrow> json \<Rightarrow> json" where
  "insert_uploader E u payload =
     (case payload of
        Object m \<Rightarrow> Object (obj_insert ''uploaded_by_user_id'' (String (env_uuid E u)) m)
      | _ \<Rightarrow> payload)"

definition upload_run_attachment ::
    "env \<Rightarrow> vault option \<Rightarrow> uuid \<Rightarrow> uuid \<Rightarrow> string \<Rightarrow> string \<Rightarrow> json storage" where
  "upload_run_attachment E store u i name body =
     bindH (liftH (validate_attachment_name name)) (\<lambda>_.
     bindH (liftH (ensure (body \<noteq> []) (Unprocessable ''attachment must not be empty''))) (\<lambda>_.
     bindH (on_db (commit (readT (find_run i)))) (\<lambda>row.
     bindH (liftH (ok_or row (run_not_found E i))) (\<lambda>run.
     let project = spec_project_id (run_spec run) in
     bindH (on_db (commit (ensure_project_role E u project Runner))) (\<lambda>_.
     bindH (liftH (require_store store)) (\<lambda>V.
     bindH (persist_run_artifact E V i project u (''artifacts/user-uploads/'' @ name) ''user_attachment'' None body) (\<lambda>payload.
     let payload = insert_uploader E u payload in
     bindH (on_db (commit (append_artifact_event E i None payload))) (\<lambda>_.
     returnH payload))))))))"

section \<open>Reading\<close>

record run_artifact =
  ra_id :: uuid
  ra_run_id :: uuid
  ra_revision :: int
  ra_kind :: string
  ra_media_type :: string
  ra_name :: string
  ra_digest :: string
  ra_size_bytes :: nat
  ra_metadata :: json
  ra_created_at :: time
  ra_deleted_at :: "time option"

definition row_to_artifact :: "artifact_row \<Rightarrow> run_artifact" where
  "row_to_artifact a =
     \<lparr>ra_id = art_id a, ra_run_id = art_run_id a, ra_revision = art_revision a, ra_kind = art_kind a,
      ra_media_type = art_media_type a, ra_name = art_name a, ra_digest = art_digest a, ra_size_bytes = nat (art_size a),
      ra_metadata = art_metadata a, ra_created_at = art_created a, ra_deleted_at = art_deleted a\<rparr>"

definition list_run_artifacts :: "env \<Rightarrow> uuid \<Rightarrow> uuid \<Rightarrow> run_artifact list handler" where
  "list_run_artifacts E u i =
     bindH (commit (readT (find_run i))) (\<lambda>row.
     bindH (liftH (ok_or row (run_not_found E i))) (\<lambda>run.
     bindH (commit (ensure_thread_role E u (spec_project_id (run_spec run)) (run_thread run) Viewer)) (\<lambda>_.
     commit (readT (\<lambda>d. map row_to_artifact (sort_key (\<lambda>a. (art_created a, art_id a))
       (filter (\<lambda>a. art_run_id a = i \<and> art_deleted a = None) (artifacts d))))))))"

record artifact_response =
  ar_content_type :: string
  ar_content_length :: nat
  ar_content_disposition :: string
  ar_body :: string

definition null_column :: "string \<Rightarrow> api_error" where
  "null_column column = DatabaseError (''unexpected null in column '' @ column)"

definition artifact_scope :: "artifact_row \<Rightarrow> (api_error, key_scope) result" where
  "artifact_scope a =
     bindE (ok_or (art_scope_id a) (null_column ''key_scope_id'')) (\<lambda>i.
     bindE (ok_or (art_scope a) (null_column ''key_scope_type'')) (\<lambda>t.
     Inr (case t of ScopeUser \<Rightarrow> KeyUser i | ScopeTeam \<Rightarrow> KeyTeam i)))"

definition download_run_artifact ::
    "env \<Rightarrow> vault option \<Rightarrow> uuid \<Rightarrow> uuid \<Rightarrow> uuid \<Rightarrow> artifact_response storage" where
  "download_run_artifact E store u i artifact =
     bindH (on_db (commit (readT (\<lambda>d. (fetch_optional (\<lambda>a. art_id a = artifact \<and> art_run_id a = i
       \<and> art_deleted a = None) (artifacts d), find_run i d))))) (\<lambda>(row, run).
     bindH (liftH (ok_or (case (row, run) of (Some a, Some r) \<Rightarrow> Some (a, r) | _ \<Rightarrow> None)
       (NotFound (''artifact '' @ env_uuid E artifact @ '' was not found'')))) (\<lambda>(a, r).
     bindH (on_db (commit (ensure_thread_role E u (spec_project_id (run_spec r)) (run_thread r) Viewer))) (\<lambda>_.
     bindH (liftH (ok_or store (Conflict ''object storage is not configured''))) (\<lambda>V.
     bindH (liftH (artifact_scope a)) (\<lambda>s.
     bindH (liftH (ok_or (art_encrypted_data_key a) (Conflict ''artifact has no encrypted data key''))) (\<lambda>wrapped_data_key.
     bindH (liftH (ok_or (art_nonce a) (Conflict ''artifact has no encryption nonce''))) (\<lambda>nonce.
     bindH (liftH (ok_or (art_wrap_nonce a) (Conflict ''artifact has no wrapped-key nonce''))) (\<lambda>wrap_nonce.
     bindH (get_decrypted V s (art_object_key a) wrapped_data_key nonce wrap_nonce) (\<lambda>bytes.
     bindH (liftH (ensure (v_sha256 V bytes = art_digest a) (Internal ''artifact digest verification failed''))) (\<lambda>_.
     returnH \<lparr>ar_content_type = art_media_type a, ar_content_length = length bytes,
       ar_content_disposition = ''inline; filename*=UTF-8'' @ [CHR 0x27, CHR 0x27] @ percent_encode (art_name a),
       ar_body = bytes\<rparr>))))))))))"

end
