(* ===== verification/SnapshotFacts.thy ===== *)
theory SnapshotFacts
  imports Artifacts CredentialProperties
begin

text \<open>
  Facts of snapshot storage: what the validation of a declaration accepts, and that the keys of stored
  objects tell chunks apart.
\<close>

section \<open>Declarations\<close>

definition plain_component :: "string \<Rightarrow> bool" where
  "plain_component w = (w \<noteq> [] \<and> w \<noteq> ''.'' \<and> w \<noteq> ''..'')"

lemma component_of_plain: "component_of w = (if plain_component w then [Normal w] else if w = ''..'' then [ParentDir] else [])"
  by (simp add: plain_component_def)

lemma components_plain: "concat (map component_of ws) = map Normal ws \<longleftrightarrow> list_all plain_component ws"
proof (induction ws)
  case (Cons w ws)
  have "length (concat (map component_of vs)) \<le> length vs" for vs
    by (induction vs) (simp_all add: component_of_plain del: component_of.simps)
  from this [of ws] have "concat (map component_of ws) \<noteq> Normal w # map Normal ws"
    by (metis impossible_Cons length_map)
  with Cons show ?case by (simp add: component_of_plain [of w] del: component_of.simps)
qed simp

lemma path_components_plain:
  "path_components p = map Normal (split_on (CHR ''/'') p) \<longleftrightarrow> list_all plain_component (split_on (CHR ''/'') p)"
proof (cases "starts_with ''/'' p \<or> hd (split_on (CHR ''/'') p) = ''.''")
  case True
  then have "\<not> plain_component (hd (split_on (CHR ''/'') p))"
    by (cases p) (auto simp: starts_with_def plain_component_def)
  then have "\<not> list_all plain_component (split_on (CHR ''/'') p)"
    by (cases "split_on (CHR ''/'') p") simp_all
  moreover have "path_components p \<noteq> map Normal (split_on (CHR ''/'') p)"
    using True by (cases "split_on (CHR ''/'') p") (auto simp: path_components_def Let_def)
  ultimately show ?thesis by simp
next
  case False
  then show ?thesis by (simp add: path_components_def Let_def components_plain)
qed

lemma relative_path_iff:
  "validate_relative_path p = Inr u \<longleftrightarrow>
     length p \<le> 4096 \<and> CHR 0x5C \<notin> set p \<and> NUL \<notin> set p
     \<and> path_components p = map Normal (split_on (CHR ''/'') p)"
proof -
  have "list_ex (\<lambda>component. component = [] \<or> component = ''.'' \<or> component = ''..'') ws \<longleftrightarrow> \<not> list_all plain_component ws" for ws
    by (induction ws) (simp_all add: plain_component_def)
  moreover have "p = [] \<or> starts_with ''/'' p \<Longrightarrow> \<not> list_all plain_component (split_on (CHR ''/'') p)"
    by (cases p) (auto simp: starts_with_def plain_component_def)
  ultimately show ?thesis
    unfolding validate_relative_path_def ensure_Inr_iff path_components_plain by (meson not_less)
qed

definition digest_ok :: "string \<Rightarrow> bool" where
  "digest_ok digest = (length digest = 64 \<and> set digest \<subseteq> set ''0123456789abcdef'')"

lemma hex_char: "(48 \<le> byte c \<and> byte c \<le> 57) \<or> (97 \<le> byte c \<and> byte c \<le> 102) \<longleftrightarrow> c \<in> set ''0123456789abcdef''"
proof -
  have "c \<in> set ''0123456789abcdef'' \<longleftrightarrow> byte c \<in> set (map byte ''0123456789abcdef'')"
    by (auto simp del: of_char_Char simp: of_char_eq_iff)
  also have "map byte ''0123456789abcdef'' = [48..<58] @ [97..<103]" by code_simp
  finally show ?thesis by (simp only: set_append set_upt Un_iff atLeastLessThan_iff) linarith
qed

lemma validate_digest_iff: "validate_digest digest = Inr u \<longleftrightarrow> digest_ok digest"
  unfolding validate_digest_def ensure_Inr_iff hex_char digest_ok_def list_all_iff subset_eq ..

definition chunk_ok :: "snapshot_upload_chunk \<Rightarrow> bool" where
  "chunk_ok c = (digest_ok (suc_digest c) \<and> 0 < suc_plaintext_size c \<and> suc_plaintext_size c \<le> MAX_CHUNK_BYTES)"

lemma chunk_total_iff:
  "chunk_total n cs = Inr k \<longleftrightarrow>
     (\<forall>c \<in> set cs. chunk_ok c) \<and> k = n + sum_list (map suc_plaintext_size cs) \<and> (cs \<noteq> [] \<longrightarrow> k \<le> u64_max)"
proof (induction cs arbitrary: n)
  case (Cons c cs)
  have "chunk_total n (c # cs) = Inr k \<longleftrightarrow> chunk_ok c \<and> n + suc_plaintext_size c \<le> u64_max
      \<and> chunk_total (n + suc_plaintext_size c) cs = Inr k"
    unfolding chunk_total.simps bindE_Inr_iff ensure_Inr_iff validate_digest_iff chunk_ok_def checked_add_def by (auto simp: not_less)
  then show ?case unfolding Cons.IH by (cases cs) auto
qed auto

definition file_ok :: "snapshot_upload_file \<Rightarrow> bool" where
  "file_ok f = (validate_relative_path (suf_path f) = Inr () \<and> (\<forall>c \<in> set (suf_chunks f). chunk_ok c)
     \<and> sum_list (map suc_plaintext_size (suf_chunks f)) = suf_size f)"

lemma files_total_iff:
  "files_total ps n fs = Inr k \<longleftrightarrow>
     (\<forall>f \<in> set fs. file_ok f \<and> suf_size f \<le> u64_max) \<and> distinct (map suf_path fs) \<and> set (map suf_path fs) \<inter> set ps = {}
     \<and> k = n + sum_list (map suf_size fs) \<and> (fs \<noteq> [] \<longrightarrow> k \<le> u64_max)"
proof (induction fs arbitrary: ps n)
  case (Cons f fs)
  have "files_total ps n (f # fs) = Inr k \<longleftrightarrow> file_ok f \<and> (suf_chunks f \<noteq> [] \<longrightarrow> suf_size f \<le> u64_max) \<and> suf_path f \<notin> set ps
      \<and> n + suf_size f \<le> u64_max \<and> files_total (suf_path f # ps) (n + suf_size f) fs = Inr k"
    unfolding files_total.simps bindE_Inr_iff ensure_Inr_iff chunk_total_iff file_ok_def checked_add_def by auto
  then show ?case unfolding Cons.IH by (cases fs) auto
qed auto

lemma validate_files_iff:
  "validate_snapshot_files total_bytes files = Inr () \<longleftrightarrow>
     total_bytes \<le> MAX_SNAPSHOT_BYTES \<and> total_bytes = sum_list (map suf_size files)
     \<and> distinct (map suf_path files) \<and> (\<forall>f \<in> set files. file_ok f)"
proof -
  have "suf_size f \<le> sum_list (map suf_size files)" if "f \<in> set files" for f
    using that by (simp add: member_le_sum_list)
  moreover have "MAX_SNAPSHOT_BYTES \<le> u64_max" by (simp add: MAX_SNAPSHOT_BYTES_def u64_max_def)
  ultimately have "suf_size f \<le> u64_max" if "f \<in> set files" "sum_list (map suf_size files) \<le> MAX_SNAPSHOT_BYTES" for f
    using that by (meson le_trans)
  moreover have "sum_list (map suf_size files) \<le> u64_max" if "sum_list (map suf_size files) \<le> MAX_SNAPSHOT_BYTES"
    using that \<open>MAX_SNAPSHOT_BYTES \<le> u64_max\<close> by (rule le_trans)
  ultimately show ?thesis
    unfolding validate_snapshot_files_def bindE_Inr_iff ensure_Inr_iff files_total_iff by (auto simp: not_less)
qed

section \<open>Keys\<close>

definition chunk_key :: "chunk_row \<Rightarrow> quota_scope \<times> uuid \<times> string" where
  "chunk_key c = (chk_scope c, chk_scope_id c, chk_digest c)"

definition mapping_key :: "manifest_chunk_row \<Rightarrow> quota_scope \<times> uuid \<times> string" where
  "mapping_key x = (mc_scope x, mc_scope_id x, mc_digest x)"

lemma mapping_of_key: "mapping_of c x \<longleftrightarrow> chunk_key c = mapping_key x"
  by (auto simp: mapping_of_def chunk_key_def mapping_key_def)

lemma same_chunk_key: "same_chunk c x \<longleftrightarrow> chunk_key x = chunk_key c"
  by (auto simp: same_chunk_def chunk_key_def)

lemma chunk_of_key: "chunk_of s digest c \<longleftrightarrow> chunk_key c = (scope_type s, scope_id s, digest)"
  by (auto simp: chunk_of_def chunk_key_def)

text \<open>The scope of a row, as \<open>row_scope\<close> reads it.\<close>

definition key_scope_of :: "quota_scope \<Rightarrow> uuid \<Rightarrow> key_scope" where
  "key_scope_of t i = (case t of ScopeUser \<Rightarrow> KeyUser i | ScopeTeam \<Rightarrow> KeyTeam i)"

lemma key_scope_of_simps [simp]:
  "key_scope_of (scope_type s) (scope_id s) = s"
  "scope_type (key_scope_of t i) = t" "scope_id (key_scope_of t i) = i"
  by (cases s; simp add: key_scope_of_def) (cases t; simp add: key_scope_of_def)+

lemma row_scope_eq: "row_scope m = key_scope_of (man_scope m) (man_scope_id m)"
  by (simp add: row_scope_def key_scope_of_def)

lemma scope_eq_iff: "s = s' \<longleftrightarrow> scope_type s = scope_type s' \<and> scope_id s = scope_id s'"
  by (cases s; cases s') auto

lemma chunk_object_key_inj:
  assumes "inj (env_uuid E)" "digest_ok g" "digest_ok h" "chunk_object_key E s g = chunk_object_key E t h"
  shows "s = t \<and> g = h"
proof -
  let ?pre = "\<lambda>s g. ''chunks/'' @ scope_kind s @ ''/'' @ env_uuid E (scope_id s) @ ''/'' @ take 2 g @ ''/''"
  have "?pre s g @ g = ?pre t h @ h" "length g = length h"
    using assms(2,3,4) by (simp_all add: chunk_object_key_def digest_ok_def)
  then have eq: "g = h" "?pre s g = ?pre t h"
    by (metis append_eq_append_conv)+
  then have "scope_kind s @ ''/'' @ env_uuid E (scope_id s) = scope_kind t @ ''/'' @ env_uuid E (scope_id t)"
    by simp
  then have "s = t" using assms(1) by (cases s; cases t) (auto dest: injD)
  with eq show ?thesis by simp
qed

end
