(* ===== verification/SnapshotInvariant.thy ===== *)
theory SnapshotInvariant
  imports SnapshotFacts
begin

text \<open>
  The invariant of snapshot storage. Chunk rows and manifests have distinct keys, the reference
  count of a chunk is the number of mappings to it, every mapping leads to a ready chunk and belongs
  to a ready manifest of its scope, a ready manifest has exactly the mappings it declares, and the
  object of a ready chunk decrypts to bytes with the digest and the size of the row.
\<close>

section \<open>The invariant\<close>

definition well_keyed :: "env \<Rightarrow> db \<Rightarrow> bool" where
  "well_keyed E d = (distinct (map chunk_key (chunks d)) \<and> distinct (map man_id (manifests d))
     \<and> (\<forall>c \<in> set (chunks d). digest_ok (chk_digest c)
         \<and> chk_object_key c = chunk_object_key E (key_scope_of (chk_scope c) (chk_scope_id c)) (chk_digest c)))"

definition counted :: "db \<Rightarrow> bool" where
  "counted d = (\<forall>c \<in> set (chunks d). chk_ref_count c = int (length (filter (mapping_of c) (manifest_chunks d))))"

definition referenced :: "db \<Rightarrow> bool" where
  "referenced d = (\<forall>x \<in> set (manifest_chunks d). \<exists>c \<in> set (chunks d). mapping_of c x \<and> chk_status c = ChunkReady)"

definition owns :: "manifest_row \<Rightarrow> manifest_chunk_row \<Rightarrow> bool" where
  "owns m x = (mc_manifest x = man_id m \<and> man_status m = Ready \<and> mc_scope x = man_scope m \<and> mc_scope_id x = man_scope_id m)"

definition owned :: "db \<Rightarrow> bool" where
  "owned d = (\<forall>x \<in> set (manifest_chunks d). \<exists>m \<in> set (manifests d). owns m x)"

definition declared :: "db \<Rightarrow> bool" where
  "declared d = (\<forall>m \<in> set (manifests d). distinct (map suf_path (man_files m)) \<and> (\<forall>f \<in> set (man_files m). file_ok f))"

definition file_mappings :: "uuid \<Rightarrow> string \<Rightarrow> db \<Rightarrow> (int \<times> string) list" where
  "file_mappings i path d = map (\<lambda>x. (mc_index x, mc_digest x))
     (filter (\<lambda>x. mc_manifest x = i \<and> mc_path x = path) (manifest_chunks d))"

definition file_chunks :: "snapshot_upload_file \<Rightarrow> (int \<times> string) list" where
  "file_chunks f = map (\<lambda>(k, c). (int k, suc_digest c)) (List.enumerate 0 (suf_chunks f))"

definition fully_mapped :: "db \<Rightarrow> manifest_row \<Rightarrow> bool" where
  "fully_mapped d m = (\<forall>f \<in> set (man_files m). file_mappings (man_id m) (suf_path f) d = file_chunks f)"

definition sized :: "db \<Rightarrow> manifest_row \<Rightarrow> bool" where
  "sized d m = (\<forall>f \<in> set (man_files m). \<forall>u \<in> set (suf_chunks f). \<exists>c \<in> set (chunks d).
     chunk_key c = (man_scope m, man_scope_id m, suc_digest u) \<and> chk_plaintext_size c = int (suc_plaintext_size u))"

definition ready_complete :: "db \<Rightarrow> bool" where
  "ready_complete d = (\<forall>m \<in> set (manifests d). man_status m = Ready \<longrightarrow> fully_mapped d m \<and> sized d m)"

text \<open>A stored chunk: what its object decrypts to.\<close>

definition intact :: "vault \<Rightarrow> bucket \<Rightarrow> chunk_row \<Rightarrow> bool" where
  "intact V b c = (\<exists>p ciphertext wrap_nonce. b (chk_object_key c) = Some ciphertext \<and> chk_wrap_nonce c = Some wrap_nonce
     \<and> decrypt (v_crypto V) (v_master V) (key_scope_of (chk_scope c) (chk_scope_id c))
         \<lparr>sv_ciphertext = ciphertext, sv_encrypted_data_key = chk_wrapped_data_key c, sv_nonce = chk_nonce c,
          sv_wrap_nonce = wrap_nonce\<rparr> = Inr p
     \<and> v_sha256 V p = chk_digest c \<and> int (length p) = chk_plaintext_size c)"

definition stored :: "vault \<Rightarrow> db \<Rightarrow> bucket \<Rightarrow> bool" where
  "stored V d b = (\<forall>c \<in> set (chunks d). chk_status c = ChunkReady \<longrightarrow> intact V b c)"

definition snapshot_inv :: "vault \<Rightarrow> env \<Rightarrow> db \<times> bucket \<Rightarrow> bool" where
  "snapshot_inv V E x = (well_keyed E (fst x) \<and> counted (fst x) \<and> referenced (fst x) \<and> owned (fst x) \<and> declared (fst x)
     \<and> ready_complete (fst x) \<and> stored V (fst x) (snd x))"

lemmas inv_defs = snapshot_inv_def well_keyed_def counted_def referenced_def owned_def declared_def ready_complete_def
  stored_def

lemma inv_parts:
  assumes "snapshot_inv V E (d, b)"
  shows "well_keyed E d" "counted d" "referenced d" "owned d" "declared d" "ready_complete d" "stored V d b"
  using assms by (simp_all add: snapshot_inv_def)

section \<open>Changes that keep it\<close>

text \<open>The invariant does not see columns other than the ones it names.\<close>

definition same_tables :: "db \<Rightarrow> db \<Rightarrow> bool" where
  "same_tables d d' = (chunks d' = chunks d \<and> manifest_chunks d' = manifest_chunks d)"

lemma same_tables_parts:
  assumes "same_tables d d'"
  shows "counted d' = counted d" "referenced d' = referenced d" "file_mappings i p d' = file_mappings i p d"
    "fully_mapped d' m = fully_mapped d m" "sized d' m = sized d m" "stored V d' b = stored V d b"
  using assms
  by (simp_all add: same_tables_def counted_def referenced_def file_mappings_def fully_mapped_def sized_def stored_def)

lemma inv_manifests:
  assumes "snapshot_inv V E (d, b)" "same_tables d d'" "manifests d' = map h (manifests d)"
    and h: "\<And>m. man_id (h m) = man_id m \<and> man_scope (h m) = man_scope m \<and> man_scope_id (h m) = man_scope_id m
      \<and> man_files (h m) = man_files m"
    and down: "\<And>m. m \<in> set (manifests d) \<Longrightarrow> man_status (h m) = Ready \<Longrightarrow> man_status m = Ready"
    and kept: "\<And>m x. m \<in> set (manifests d) \<Longrightarrow> x \<in> set (manifest_chunks d) \<Longrightarrow> mc_manifest x = man_id m
      \<Longrightarrow> man_status m = Ready \<Longrightarrow> man_status (h m) = Ready"
  shows "snapshot_inv V E (d', b)"
proof -
  have same: "fully_mapped d' (h m) = fully_mapped d m" "sized d' (h m) = sized d m" "owns m x \<Longrightarrow> man_status (h m) = Ready \<Longrightarrow> owns (h m) x" for m x
    using h [of m] same_tables_parts [OF assms(2)] by (simp_all add: fully_mapped_def sized_def owns_def)
  have "map man_id (manifests d') = map man_id (manifests d)" using h assms(3) by simp
  then have "well_keyed E d'" using assms(1,2) by (simp add: inv_defs same_tables_def)
  moreover have "owned d'"
    unfolding owned_def
  proof
    fix x assume "x \<in> set (manifest_chunks d')"
    then have "x \<in> set (manifest_chunks d)" using assms(2) by (simp add: same_tables_def)
    moreover from this assms(1) obtain m where "m \<in> set (manifests d)" "owns m x" by (auto simp: inv_defs)
    ultimately show "\<exists>m \<in> set (manifests d'). owns m x"
      using kept same(3) assms(3) by (force simp: owns_def)
  qed
  moreover have "declared d'" using assms(1,3) h by (simp add: inv_defs)
  moreover have "ready_complete d'" using assms(1,3) same down by (auto simp: inv_defs)
  ultimately show ?thesis using assms(1) same_tables_parts [OF assms(2)] by (simp add: snapshot_inv_def)
qed

lemma inv_same:
  "snapshot_inv V E (d, b) \<Longrightarrow> same_tables d d' \<Longrightarrow> manifests d' = manifests d \<Longrightarrow> snapshot_inv V E (d', b)"
  by (rule inv_manifests [where h = id]) simp_all

lemma inv_new_manifest:
  assumes "snapshot_inv V E (d, b)" "same_tables d d'" "manifests d' = manifests d @ [m]"
    "man_id m \<notin> man_id ` set (manifests d)" "man_status m \<noteq> Ready"
    "distinct (map suf_path (man_files m))" "\<forall>f \<in> set (man_files m). file_ok f"
  shows "snapshot_inv V E (d', b)"
proof -
  have "well_keyed E d'" using assms(1,2,3,4) by (simp add: inv_defs same_tables_def)
  moreover have "owned d'"
    using assms(1,2,3) unfolding snapshot_inv_def owned_def same_tables_def by (metis UnI1 fst_conv set_append)
  moreover have "declared d'" using assms(1,3,6,7) by (simp add: inv_defs ball_Un)
  moreover have "ready_complete d'"
    using assms(1,3,5) same_tables_parts [OF assms(2)] by (simp add: snapshot_inv_def ready_complete_def ball_Un)
  ultimately show ?thesis using assms(1) same_tables_parts [OF assms(2)] by (simp add: snapshot_inv_def)
qed

lemma inv_bucket:
  assumes "snapshot_inv V E (d, b)"
    and "\<And>c. c \<in> set (chunks d) \<Longrightarrow> chk_status c = ChunkReady \<Longrightarrow> b' (chk_object_key c) = b (chk_object_key c)"
  shows "snapshot_inv V E (d, b')"
  using assms by (simp add: snapshot_inv_def stored_def intact_def)

lemma key_unique:
  assumes "well_keyed E d" "c \<in> set (chunks d)" "c' \<in> set (chunks d)" "chunk_key c = chunk_key c'"
  shows "c = c'"
  using assms by (metis distinct_map inj_onD well_keyed_def)

lemma unmapped:
  assumes "referenced d" "well_keyed E d" "c \<in> set (chunks d)" "chk_status c \<noteq> ChunkReady"
  shows "filter (mapping_of c) (manifest_chunks d) = []"
proof -
  have "\<not> mapping_of c x" if "x \<in> set (manifest_chunks d)" for x
  proof
    assume "mapping_of c x"
    moreover from assms(1) that obtain c' where "c' \<in> set (chunks d)" "mapping_of c' x" "chk_status c' = ChunkReady"
      unfolding referenced_def by blast
    ultimately show False using key_unique [OF assms(2,3), of c'] assms(4) by (simp add: mapping_of_key)
  qed
  then show ?thesis by (simp add: filter_empty_conv)
qed

text \<open>Updates of chunk rows that keep the key and the envelope.\<close>

definition keeps_envelope :: "(chunk_row \<Rightarrow> chunk_row) \<Rightarrow> bool" where
  "keeps_envelope h = (\<forall>c. chunk_key (h c) = chunk_key c \<and> chk_object_key (h c) = chk_object_key c
     \<and> chk_plaintext_size (h c) = chk_plaintext_size c \<and> chk_wrapped_data_key (h c) = chk_wrapped_data_key c
     \<and> chk_nonce (h c) = chk_nonce c \<and> chk_wrap_nonce (h c) = chk_wrap_nonce c)"

lemma keeps_envelope_if: "keeps_envelope f \<Longrightarrow> keeps_envelope (\<lambda>c. if p c then f c else c)"
  by (auto simp: keeps_envelope_def)

lemma keeps_envelope_columns:
  "keeps_envelope (\<lambda>c. c\<lparr>chk_status := st\<rparr>)"
  "keeps_envelope (\<lambda>c. c\<lparr>chk_ref_count := r c, chk_last_referenced := t\<rparr>)"
  by (simp_all add: keeps_envelope_def chunk_key_def)

lemma keeps_envelope_parts:
  assumes "keeps_envelope h" "chunks d' = map h (chunks d)"
  shows "sized d' m = sized d m" "map chunk_key (chunks d') = map chunk_key (chunks d)"
    "map man_id (manifests d') = map man_id (manifests d) \<Longrightarrow> well_keyed E d \<Longrightarrow> well_keyed E d'"
    "intact V b (h c) = intact V b c"
    "mapping_of (h c) x = mapping_of c x"
proof -
  have h: "chunk_key (h c) = chunk_key c" "chk_scope (h c) = chk_scope c" "chk_scope_id (h c) = chk_scope_id c"
      "chk_digest (h c) = chk_digest c" "chk_object_key (h c) = chk_object_key c"
      "chk_plaintext_size (h c) = chk_plaintext_size c" "chk_wrapped_data_key (h c) = chk_wrapped_data_key c"
      "chk_nonce (h c) = chk_nonce c" "chk_wrap_nonce (h c) = chk_wrap_nonce c" for c
    using assms(1) by (simp_all add: keeps_envelope_def chunk_key_def)
  show "sized d' m = sized d m" by (simp add: sized_def assms(2) h)
  show keys: "map chunk_key (chunks d') = map chunk_key (chunks d)" by (simp add: assms(2) h comp_def)
  show "map man_id (manifests d') = map man_id (manifests d) \<Longrightarrow> well_keyed E d \<Longrightarrow> well_keyed E d'"
    unfolding well_keyed_def keys by (simp add: assms(2) h)
  show "intact V b (h c) = intact V b c" by (simp add: intact_def h)
  show "mapping_of (h c) x = mapping_of c x" by (simp add: mapping_of_key h)
qed

lemma inv_new_chunk:
  assumes "snapshot_inv V E (d, b)" "chunks d' = chunks d @ [c]" "manifest_chunks d' = manifest_chunks d"
    "manifests d' = manifests d" "chunk_key c \<notin> chunk_key ` set (chunks d)" "chk_ref_count c = 0" "digest_ok (chk_digest c)"
    "chk_object_key c = chunk_object_key E (key_scope_of (chk_scope c) (chk_scope_id c)) (chk_digest c)" "intact V b c"
  shows "snapshot_inv V E (d', b)"
proof -
  have "\<not> mapping_of c x" if "x \<in> set (manifest_chunks d)" for x
    using assms(1,5) that unfolding snapshot_inv_def referenced_def mapping_of_key by (metis fst_conv imageI)
  then have "filter (mapping_of c) (manifest_chunks d) = []" by (simp add: filter_empty_conv)
  then have "counted d'" using assms(1,2,3,6) by (simp add: inv_defs ball_Un)
  moreover have "well_keyed E d'" using assms(1,2,4,5,7,8) by (simp add: inv_defs ball_Un)
  moreover have "referenced d'" using assms(1,2,3) by (simp add: inv_defs bex_Un)
  moreover have "ready_complete d'"
    using assms(1,2,3,4) by (simp add: inv_defs fully_mapped_def file_mappings_def sized_def bex_Un)
  moreover have "stored V d' b" using assms(1,2,9) by (simp add: inv_defs ball_Un)
  ultimately show ?thesis using assms(1,3,4) by (simp add: snapshot_inv_def owned_def declared_def)
qed

lemma mapped_counted:
  assumes "counted d" "c \<in> set (chunks d)" "x \<in> set (manifest_chunks d)" "mapping_of c x"
  shows "chk_ref_count c \<noteq> 0"
proof -
  have "x \<in> set (filter (mapping_of c) (manifest_chunks d))" using assms(3,4) by simp
  then show ?thesis using assms(1,2) unfolding counted_def by (metis empty_iff length_0_conv list.set(1) of_nat_eq_0_iff)
qed

lemma inv_mark:
  assumes "snapshot_inv V E (d, b)"
    and "chunks d' = update_where p (\<lambda>c. c\<lparr>chk_status := ChunkDeleting\<rparr>) (chunks d)"
    and "\<And>c. c \<in> set (chunks d) \<Longrightarrow> p c \<Longrightarrow> chk_ref_count c = 0"
    and "manifest_chunks d' = manifest_chunks d" "manifests d' = manifests d"
  shows "snapshot_inv V E (d', b)"
proof -
  let ?h = "\<lambda>c. if p c then c\<lparr>chk_status := ChunkDeleting\<rparr> else c"
  have h: "keeps_envelope ?h" by (intro keeps_envelope_if keeps_envelope_columns)
  have eq: "chunks d' = map ?h (chunks d)" unfolding assms(2) update_where_def ..
  note parts = keeps_envelope_parts [OF h eq]
  have "counted d'"
    unfolding counted_def
  proof
    fix c assume "c \<in> set (chunks d')"
    then obtain c0 where "c = ?h c0" "c0 \<in> set (chunks d)" unfolding eq set_map by (rule imageE)
    moreover have "mapping_of (?h c0) = mapping_of c0" using parts(5) by (intro ext)
    ultimately show "chk_ref_count c = int (length (filter (mapping_of c) (manifest_chunks d')))"
      using assms(1,4) by (simp add: snapshot_inv_def counted_def)
  qed
  moreover have "referenced d'"
    unfolding referenced_def
  proof
    fix x assume x: "x \<in> set (manifest_chunks d')"
    then obtain c where c: "c \<in> set (chunks d)" "mapping_of c x" "chk_status c = ChunkReady"
      using assms(1,4) unfolding snapshot_inv_def referenced_def by auto
    then have "\<not> p c" using mapped_counted [of d c x] x assms(1,3,4) by (auto simp: snapshot_inv_def)
    with c show "\<exists>c \<in> set (chunks d'). mapping_of c x \<and> chk_status c = ChunkReady" using eq by force
  qed
  moreover have "stored V d' b" using assms(1) parts(4) unfolding snapshot_inv_def stored_def eq by auto
  moreover have "well_keyed E d'" using parts(3) assms(1,5) by (simp add: snapshot_inv_def)
  moreover have "ready_complete d'"
    using assms(1,4,5) parts(1) by (simp add: inv_defs fully_mapped_def file_mappings_def)
  ultimately show ?thesis using assms(1,4,5) by (simp add: snapshot_inv_def owned_def declared_def)
qed

lemma file_mappings_member:
  "(k, g) \<in> set (file_mappings i path d) \<longleftrightarrow>
     (\<exists>x \<in> set (manifest_chunks d). mc_manifest x = i \<and> mc_path x = path \<and> mc_index x = k \<and> mc_digest x = g)"
  by (auto simp: file_mappings_def)

lemma file_chunks_member: "u \<in> set (suf_chunks f) \<Longrightarrow> \<exists>k. (k, suc_digest u) \<in> set (file_chunks f)"
proof -
  assume "u \<in> set (suf_chunks f)"
  then obtain k where "k < length (suf_chunks f)" "u = suf_chunks f ! k" by (metis in_set_conv_nth)
  then have "(k, u) \<in> set (List.enumerate 0 (suf_chunks f))" by (simp add: in_set_enumerate_eq)
  then show ?thesis unfolding file_chunks_def by force
qed

lemma manifest_unique:
  assumes "well_keyed E d" "m \<in> set (manifests d)" "m' \<in> set (manifests d)" "man_id m = man_id m'"
  shows "m = m'"
  using assms by (metis distinct_map inj_onD well_keyed_def)

lemma declared_mapping:
  assumes "snapshot_inv V E (d, b)" "m \<in> set (manifests d)" "man_status m = Ready" "f \<in> set (man_files m)" "u \<in> set (suf_chunks f)"
  shows "\<exists>x \<in> set (manifest_chunks d). mc_manifest x = man_id m \<and> mapping_key x = (man_scope m, man_scope_id m, suc_digest u)"
proof -
  from assms(1-3) have "fully_mapped d m" unfolding snapshot_inv_def ready_complete_def by auto
  with assms(4) have "file_mappings (man_id m) (suf_path f) d = file_chunks f" unfolding fully_mapped_def by blast
  with file_chunks_member [OF assms(5)] obtain k where "(k, suc_digest u) \<in> set (file_mappings (man_id m) (suf_path f) d)"
    by auto
  then obtain x where x: "x \<in> set (manifest_chunks d)" "mc_manifest x = man_id m" "mc_digest x = suc_digest u"
    unfolding file_mappings_member by blast
  have "\<exists>m' \<in> set (manifests d). owns m' x" using inv_parts(4) [OF assms(1)] x(1) unfolding owned_def by (rule bspec)
  then obtain m' where m': "m' \<in> set (manifests d)" "owns m' x" ..
  have "man_id m' = man_id m" using m'(2) x(2) by (simp add: owns_def)
  then have "m' = m" by (rule manifest_unique [OF inv_parts(1) [OF assms(1)] m'(1) assms(2)])
  with m' x show ?thesis by (auto simp: owns_def mapping_key_def)
qed

lemma declared_ready:
  assumes "snapshot_inv V E (d, b)" "m \<in> set (manifests d)" "man_status m = Ready" "f \<in> set (man_files m)" "u \<in> set (suf_chunks f)"
  shows "\<exists>c \<in> set (chunks d). chunk_key c = (man_scope m, man_scope_id m, suc_digest u) \<and> chk_status c = ChunkReady
    \<and> chk_plaintext_size c = int (suc_plaintext_size u)"
proof -
  from assms(1,2,3) have "sized d m" unfolding snapshot_inv_def ready_complete_def by auto
  with assms(4,5) obtain c where c: "c \<in> set (chunks d)" "chunk_key c = (man_scope m, man_scope_id m, suc_digest u)"
      "chk_plaintext_size c = int (suc_plaintext_size u)"
    unfolding sized_def by blast
  from declared_mapping [OF assms] obtain x where "x \<in> set (manifest_chunks d)" "mapping_key x = chunk_key c"
    using c(2) by auto
  then obtain c' where "c' \<in> set (chunks d)" "chunk_key c' = chunk_key c" "chk_status c' = ChunkReady"
    using inv_parts(3) [OF assms(1)] unfolding referenced_def mapping_of_key by metis
  then have "c' = c" using key_unique [OF inv_parts(1) [OF assms(1)] _ c(1)] by blast
  then show ?thesis using c \<open>chk_status c' = ChunkReady\<close> by auto
qed

lemma object_key_unique:
  assumes "well_keyed E d" "inj (env_uuid E)" "c \<in> set (chunks d)" "c' \<in> set (chunks d)" "chk_object_key c = chk_object_key c'"
  shows "c = c'"
proof -
  have "key_scope_of (chk_scope c) (chk_scope_id c) = key_scope_of (chk_scope c') (chk_scope_id c') \<and> chk_digest c = chk_digest c'"
    using assms by (intro chunk_object_key_inj [where E = E]) (simp_all add: well_keyed_def)
  then have "chunk_key c = chunk_key c'" unfolding chunk_key_def by (metis key_scope_of_simps(2,3))
  then show ?thesis using key_unique assms by blast
qed

lemma inv_sweep:
  assumes inv: "snapshot_inv V E (d, b)" and "inj (env_uuid E)" and c: "c \<in> set (chunks d)" "chk_status c = ChunkDeleting"
    and "chunks d' = filter (\<lambda>x. \<not> (chunk_key x = chunk_key c \<and> chk_ref_count x = 0 \<and> chk_status x = ChunkDeleting)) (chunks d)"
    and "manifest_chunks d' = manifest_chunks d" "manifests d' = manifests d" "b' = b(chk_object_key c := None)"
  shows "snapshot_inv V E (d', b')"
proof -
  have sub: "x \<in> set (chunks d') \<Longrightarrow> x \<in> set (chunks d)"
    and ready: "x \<in> set (chunks d) \<Longrightarrow> chk_status x = ChunkReady \<Longrightarrow> x \<in> set (chunks d')" for x
    using assms(5) by auto
  note parts = inv_parts [OF inv]
  have "well_keyed E d'"
    using parts(1) unfolding well_keyed_def assms(5,7) by (simp add: distinct_map_filter)
  moreover have "counted d'" using parts(2) unfolding counted_def assms(5,6) by simp
  moreover have "referenced d'" using parts(3) ready assms(6) unfolding referenced_def by metis
  moreover have "ready_complete d'"
  proof -
    have "sized d' m" if "m \<in> set (manifests d)" "man_status m = Ready" for m
      unfolding sized_def using declared_ready [OF inv that] ready by blast
    then show ?thesis
      using parts(6) assms(6,7) by (simp add: ready_complete_def fully_mapped_def file_mappings_def)
  qed
  moreover have "stored V d' b'"
    unfolding stored_def
  proof (intro ballI impI)
    fix x assume x: "x \<in> set (chunks d')" "chk_status x = ChunkReady"
    then have "chk_object_key x \<noteq> chk_object_key c"
      using object_key_unique [OF parts(1) assms(2) sub [OF x(1)] c(1)] c(2) by auto
    then show "intact V b' x" using parts(7) x sub by (simp add: stored_def intact_def assms(8))
  qed
  ultimately show ?thesis using parts(4,5) assms(6,7) by (simp add: snapshot_inv_def owned_def declared_def)
qed

lemma reference_count_change:
  assumes "counted d" "chunks d' = map h (chunks d)" "keeps_envelope h"
    and "\<And>c. c \<in> set (chunks d) \<Longrightarrow> chk_ref_count c = int (length (filter (mapping_of c) (manifest_chunks d)))
      \<Longrightarrow> chk_ref_count (h c) = int (length (filter (mapping_of c) (manifest_chunks d')))"
  shows "counted d'"
  unfolding counted_def
proof
  fix c assume "c \<in> set (chunks d')"
  then obtain c0 where c: "c = h c0" "c0 \<in> set (chunks d)" unfolding assms(2) set_map by (rule imageE)
  have "mapping_of (h c0) = mapping_of c0" using assms(3) by (intro ext) (simp add: mapping_of_key keeps_envelope_def)
  with c assms(1,4) show "chk_ref_count c = int (length (filter (mapping_of c) (manifest_chunks d')))"
    by (simp add: counted_def)
qed

lemma referenced_map:
  assumes "chunks d' = map h (chunks d)" "keeps_envelope h" "\<And>c. chk_status (h c) = chk_status c"
    and "\<And>x. x \<in> set (manifest_chunks d') \<Longrightarrow> \<exists>c \<in> set (chunks d). mapping_of c x \<and> chk_status c = ChunkReady"
  shows "referenced d'"
  unfolding referenced_def
proof
  fix x assume "x \<in> set (manifest_chunks d')"
  from assms(4) [OF this] obtain c where c: "c \<in> set (chunks d)" "mapping_of c x" "chk_status c = ChunkReady" by blast
  have "h c \<in> set (chunks d')" using c(1) by (simp add: assms(1))
  moreover have "mapping_of (h c) x" using c(2) assms(2) by (simp add: mapping_of_key keeps_envelope_def)
  ultimately show "\<exists>c \<in> set (chunks d'). mapping_of c x \<and> chk_status c = ChunkReady" using assms(3) c(3) by metis
qed

lemma stored_map:
  assumes "stored V d b" "chunks d' = map h (chunks d)" "keeps_envelope h"
    and "\<And>c. chk_status (h c) = ChunkReady \<Longrightarrow> chk_status c = ChunkReady"
  shows "stored V d' b"
proof -
  have "intact V b (h c) = intact V b c" for c by (rule keeps_envelope_parts(4) [OF assms(3,2)])
  then show ?thesis using assms(1,4) unfolding stored_def assms(2) by simp
qed

lemma filter_split_count:
  "length (filter p xs) = length (filter p (filter q xs)) + length (filter (\<lambda>x. \<not> q x \<and> p x) xs)"
  by (induction xs) auto

lemma inv_release:
  assumes inv: "snapshot_inv V E (d, b)" and d': "same_tables (release_references E' i d) d'"
    and "manifests d' = manifests (set_expired i d)"
  shows "snapshot_inv V E (d', b)"
proof -
  let ?f = "\<lambda>c. c\<lparr>chk_ref_count := max (chk_ref_count c - manifest_references i d c) 0, chk_last_referenced := env_now E'\<rparr>"
  let ?h = "\<lambda>c. if manifest_references i d c \<noteq> 0 then ?f c else c"
  have h: "keeps_envelope ?h" by (intro keeps_envelope_if keeps_envelope_columns)
  have eq: "chunks d' = map ?h (chunks d)" and maps: "manifest_chunks d' = filter (\<lambda>x. mc_manifest x \<noteq> i) (manifest_chunks d)"
    using d' by (simp_all add: same_tables_def release_references_def update_where_def)
  have mans: "manifests d' = map (\<lambda>m. if man_id m = i then m\<lparr>man_status := ManifestExpired\<rparr> else m) (manifests d)"
    using assms(3) by (simp add: set_expired_def update_where_def)
  note parts = inv_parts [OF inv] and hp = keeps_envelope_parts [OF h eq]
  have "counted d'"
  proof (rule reference_count_change [OF parts(2) eq h])
    fix c assume "chk_ref_count c = int (length (filter (mapping_of c) (manifest_chunks d)))"
    moreover have "length (filter (mapping_of c) (manifest_chunks d)) = length (filter (mapping_of c) (manifest_chunks d'))
        + nat (manifest_references i d c)"
      unfolding maps manifest_references_def by (subst filter_split_count [where q = "\<lambda>x. mc_manifest x \<noteq> i"]) simp
    moreover have "0 \<le> manifest_references i d c" by (simp add: manifest_references_def)
    ultimately show "chk_ref_count (?h c) = int (length (filter (mapping_of c) (manifest_chunks d')))" by simp
  qed
  moreover have "well_keyed E d'" by (rule hp(3) [OF _ parts(1)]) (simp add: mans comp_def if_distrib [of man_id] cong: if_cong)
  moreover have "referenced d'"
    by (rule referenced_map [OF eq h]) (use parts(3) in \<open>simp_all add: maps referenced_def\<close>)
  moreover have "owned d'"
    unfolding owned_def
  proof
    fix x assume "x \<in> set (manifest_chunks d')"
    then have x: "x \<in> set (manifest_chunks d)" "mc_manifest x \<noteq> i" unfolding maps by simp_all
    have "\<exists>m \<in> set (manifests d). owns m x" using parts(4) x(1) unfolding owned_def by (rule bspec)
    then obtain m where m: "m \<in> set (manifests d)" "owns m x" ..
    then have "man_id m \<noteq> i" using x(2) by (simp add: owns_def)
    then have "m \<in> set (manifests d')" using m(1) unfolding mans by force
    with m(2) show "\<exists>m \<in> set (manifests d'). owns m x" by blast
  qed
  moreover have "declared d'" using parts(5) unfolding declared_def mans by auto
  moreover have "ready_complete d'"
  proof -
    have same: "file_mappings j p d' = file_mappings j p d" if "j \<noteq> i" for j p
      using that unfolding file_mappings_def maps by (auto intro: arg_cong [where f = "map _"] filter_cong)
    show ?thesis
      using parts(6) hp(1) unfolding ready_complete_def mans fully_mapped_def by (auto simp: same)
  qed
  moreover have "stored V d' b" by (rule stored_map [OF parts(7) eq h]) (simp split: if_splits)
  ultimately show ?thesis by (simp add: snapshot_inv_def)
qed

section \<open>Committing a manifest\<close>

definition mapping_row :: "uuid \<Rightarrow> key_scope \<Rightarrow> string \<times> int \<times> string \<Rightarrow> manifest_chunk_row" where
  "mapping_row i s e = (case e of (path, index, digest) \<Rightarrow> \<lparr>mc_manifest = i, mc_path = path, mc_index = index,
     mc_scope = scope_type s, mc_scope_id = scope_id s, mc_digest = digest\<rparr>)"

definition entry_key :: "string \<times> int \<times> string \<Rightarrow> string \<times> int" where
  "entry_key e = (fst e, fst (snd e))"

lemma mapping_row_simps [simp]:
  "mc_manifest (mapping_row i s e) = i" "(mc_path (mapping_row i s e), mc_index (mapping_row i s e)) = entry_key e"
  "mc_scope (mapping_row i s e) = scope_type s" "mc_scope_id (mapping_row i s e) = scope_id s"
  "mapping_key (mapping_row i s e) = (scope_type s, scope_id s, snd (snd e))"
  "mc_digest (mapping_row i s e) = snd (snd e)" "mc_path (mapping_row i s e) = fst e" "mc_index (mapping_row i s e) = fst (snd e)"
  by (cases e; simp add: mapping_row_def mapping_key_def entry_key_def)+

lemma insert_mapping_fresh:
  assumes "insert_mapping i s e d = Inr (u, d')"
    and "\<And>x. x \<in> set (manifest_chunks d) \<Longrightarrow> mc_manifest x = i \<Longrightarrow> (mc_path x, mc_index x) \<noteq> entry_key e"
  shows "d' = d\<lparr>manifest_chunks := manifest_chunks d @ [mapping_row i s e]\<rparr>"
    "\<exists>c \<in> set (chunks d). mapping_of c (mapping_row i s e)"
  using assms by (cases e; auto simp: insert_mapping_def mapping_row_def entry_key_def Let_def tx_simps table_simps split: if_splits)+

lemma insert_mappings_fresh:
  assumes "for_each es (insert_mapping i s) d = Inr (u, d')" "distinct (map entry_key es)"
    and "\<And>x. x \<in> set (manifest_chunks d) \<Longrightarrow> mc_manifest x = i \<Longrightarrow> (mc_path x, mc_index x) \<notin> entry_key ` set es"
  shows "d' = d\<lparr>manifest_chunks := manifest_chunks d @ map (mapping_row i s) es\<rparr>
    \<and> (\<forall>e \<in> set es. \<exists>c \<in> set (chunks d). mapping_of c (mapping_row i s e))"
  using assms
proof (induction es arbitrary: d)
  case (Cons e es)
  from Cons.prems(1) obtain v d1 where first: "insert_mapping i s e d = Inr (v, d1)"
      and rest: "for_each es (insert_mapping i s) d1 = Inr (u, d')"
    unfolding for_each.simps bindT_Inr_iff by blast
  have "(mc_path x, mc_index x) \<noteq> entry_key e" if "x \<in> set (manifest_chunks d)" "mc_manifest x = i" for x
    using Cons.prems(3) [OF that] by auto
  note new = insert_mapping_fresh [OF first this]
  have "d' = d1\<lparr>manifest_chunks := manifest_chunks d1 @ map (mapping_row i s) es\<rparr>
      \<and> (\<forall>e \<in> set es. \<exists>c \<in> set (chunks d1). mapping_of c (mapping_row i s e))"
  proof (rule Cons.IH [OF rest])
    show "distinct (map entry_key es)" using Cons.prems(2) by simp
    fix x assume x: "x \<in> set (manifest_chunks d1)" "mc_manifest x = i"
    have "manifest_chunks d1 = manifest_chunks d @ [mapping_row i s e]" using new(1) by simp
    with x(1) consider "x \<in> set (manifest_chunks d)" | "x = mapping_row i s e" by auto
    then show "(mc_path x, mc_index x) \<notin> entry_key ` set es"
    proof cases
      case 1
      from Cons.prems(3) [OF this x(2)] show ?thesis by auto
    next
      case 2
      then have "(mc_path x, mc_index x) = entry_key e" by (simp add: entry_key_def)
      with Cons.prems(2) show ?thesis by auto
    qed
  qed
  with new show ?case by simp
qed (simp add: tx_simps)

lemma distinct_file_entries:
  "distinct (map entry_key (map (\<lambda>(k, c). (path, int k, suc_digest c)) (List.enumerate n cs)))"
proof -
  have "map entry_key (map (\<lambda>(k, c). (path, int k, suc_digest c)) (List.enumerate n cs)) = map (\<lambda>k. (path, int k)) [n..<n + length cs]"
    by (simp add: entry_key_def comp_def case_prod_beta flip: map_fst_enumerate)
  then show ?thesis by (simp add: distinct_map inj_on_def)
qed

lemma distinct_declared_mappings:
  "distinct (map suf_path files) \<Longrightarrow> distinct (map entry_key (declared_mappings files))"
proof (induction files)
  case (Cons f files)
  define own where "own = map (\<lambda>(k, c). (suf_path f, int k, suc_digest c)) (List.enumerate 0 (suf_chunks f))"
  have "fst e \<in> set (map suf_path files)" if "e \<in> set (declared_mappings files)" for e
    using that by (auto simp: declared_mappings_def)
  moreover have "fst e = suf_path f" if "e \<in> set own" for e
    using that by (auto simp: own_def)
  ultimately have "entry_key e \<noteq> entry_key e'" if "e \<in> set own" "e' \<in> set (declared_mappings files)" for e e'
    using that Cons.prems unfolding entry_key_def by (metis distinct.simps(2) list.simps(9) prod.inject)
  then have "entry_key ` set own \<inter> entry_key ` set (declared_mappings files) = {}" by blast
  moreover have "distinct (map entry_key own)" unfolding own_def by (rule distinct_file_entries)
  moreover have "declared_mappings (f # files) = own @ declared_mappings files" by (simp add: declared_mappings_def own_def)
  ultimately show ?case using Cons.IH Cons.prems by simp
qed (simp add: declared_mappings_def)

definition held :: "snapshot_chunk list \<Rightarrow> snapshot_upload_chunk \<Rightarrow> bool" where
  "held rows u = (\<exists>r \<in> set rows. sck_digest r = suc_digest u \<and> sck_plaintext_size r = suc_plaintext_size u)"

lemma map_chunks_Inr:
  "map_chunks rows path n cs = Inr ms \<Longrightarrow>
     map fst ms = map (\<lambda>(k, c). (path, int k, suc_digest c)) (List.enumerate n cs) \<and> (\<forall>u \<in> set cs. held rows u)"
proof (induction cs arbitrary: n ms)
  case (Cons c cs)
  from Cons.prems obtain r rest where r: "List.find (\<lambda>r. sck_digest r = suc_digest c) rows = Some r"
      "sck_plaintext_size r = suc_plaintext_size c" "map_chunks rows path (Suc n) cs = Inr rest"
      "ms = ((path, int n, suc_digest c), r) # rest"
    unfolding map_chunks.simps bindE_Inr_iff ok_or_Inr_iff ensure_Inr_iff by blast
  have "held rows c" using find_member [OF r(1)] r(2) unfolding held_def by blast
  then show ?case using Cons.IH [OF r(3)] r(4) by simp
qed auto

lemma map_files_Inr:
  assumes "map_files rows files = Inr mapped"
  shows "concat (map fst mapped) = declared_mappings files" "\<forall>f \<in> set files. \<forall>u \<in> set (suf_chunks f). held rows u"
proof -
  have "concat (map fst mapped) = declared_mappings files \<and> (\<forall>f \<in> set files. \<forall>u \<in> set (suf_chunks f). held rows u)"
    using assms
  proof (induction files arbitrary: mapped)
    case (Cons f files)
    then obtain ms rest where "map_chunks rows (suf_path f) 0 (suf_chunks f) = Inr ms" "map_files rows files = Inr rest"
        "mapped = (map fst ms, snapshot_file_of f (map snd ms)) # rest"
      unfolding map_files_def collectE.simps bindE_Inr_iff by blast
    with Cons.IH [of rest] map_chunks_Inr [of rows "suf_path f" 0 "suf_chunks f" ms] show ?case
      by (simp add: declared_mappings_def)
  qed (simp add: map_files_def declared_mappings_def)
  then show "concat (map fst mapped) = declared_mappings files" "\<forall>f \<in> set files. \<forall>u \<in> set (suf_chunks f). held rows u" by blast+
qed

lemma fetched_held:
  assumes "fetch_chunk_rows s digests d = Inr rows" "held rows u"
  shows "\<exists>c \<in> set (chunks d). chunk_key c = (scope_type s, scope_id s, suc_digest u) \<and> chk_status c = ChunkReady
    \<and> chk_plaintext_size c = int (suc_plaintext_size u)"
proof -
  from assms(2) obtain r where r: "r \<in> set rows" "sck_digest r = suc_digest u" "sck_plaintext_size r = suc_plaintext_size u"
    unfolding held_def by blast
  from assms(1) r(1) obtain c where c: "c \<in> set (filter (\<lambda>c. chk_scope c = scope_type s \<and> chk_scope_id c = scope_id s
      \<and> chk_status c = ChunkReady \<and> chk_digest c \<in> set digests) (chunks d))" "stored_chunk c = Inr r"
    unfolding fetch_chunk_rows_def by (rule collectE_member)
  then show ?thesis
    using r by (auto simp: stored_chunk_def tx_simps i64_to_u64_def chunk_key_def split: if_splits)
qed

lemma attach_chunks_Inr:
  assumes "attach_chunks E i s es d = Inr (u, d')" "distinct (map entry_key es)"
    and "\<And>x. x \<in> set (manifest_chunks d) \<Longrightarrow> mc_manifest x \<noteq> i"
  obtains d1 where "d1 = d\<lparr>manifest_chunks := manifest_chunks d @ map (mapping_row i s) es\<rparr>" "d' = add_references E i d1"
    "\<forall>e \<in> set es. \<exists>c \<in> set (chunks d). mapping_of c (mapping_row i s e)"
proof (cases "es = []")
  case True
  then have "d' = d" using assms(1) by (simp add: attach_chunks_def tx_simps)
  moreover have "manifest_references i d c = 0" for c
    using assms(3) by (auto simp: manifest_references_def filter_empty_conv)
  then have "add_references E i d = d" by (simp add: add_references_def update_where_def)
  ultimately show thesis using that [of d] True by simp
next
  case False
  then obtain v d1 where "for_each es (insert_mapping i s) d = Inr (v, d1)" "d' = add_references E i d1"
    using assms(1) by (auto simp: attach_chunks_def tx_simps)
  moreover from this(1) have "d1 = d\<lparr>manifest_chunks := manifest_chunks d @ map (mapping_row i s) es\<rparr>
    \<and> (\<forall>e \<in> set es. \<exists>c \<in> set (chunks d). mapping_of c (mapping_row i s e))"
    by (rule insert_mappings_fresh [OF _ assms(2)]) (use assms(3) in blast)
  ultimately show thesis using that by blast
qed

lemma declared_entry:
  "e \<in> set (declared_mappings files) \<Longrightarrow> \<exists>f \<in> set files. \<exists>u \<in> set (suf_chunks f). snd (snd e) = suc_digest u"
proof -
  assume "e \<in> set (declared_mappings files)"
  then obtain f k u where f: "f \<in> set files" and "(k, u) \<in> set (List.enumerate 0 (suf_chunks f))"
      "e = (suf_path f, int k, suc_digest u)"
    unfolding declared_mappings_def by auto
  moreover from this(2) have "u \<in> set (suf_chunks f)" by (auto simp: in_set_enumerate_eq)
  ultimately show ?thesis by (intro bexI [of _ f] bexI [of _ u]) simp_all
qed

lemma declared_of_path:
  assumes "distinct (map suf_path files)" "f \<in> set files"
  shows "filter (\<lambda>e. fst e = suf_path f) (declared_mappings files)
    = map (\<lambda>(k, c). (suf_path f, int k, suc_digest c)) (List.enumerate 0 (suf_chunks f))"
  using assms
proof (induction files)
  case (Cons g files)
  have own: "filter (\<lambda>e. fst e = p) (map (\<lambda>(k, c). (q, int k, suc_digest c)) xs)
      = (if p = q then map (\<lambda>(k, c). (q, int k, suc_digest c)) xs else [])"
    for p q :: string and xs :: "(nat \<times> snapshot_upload_chunk) list"
    by (induction xs) auto
  have other: "filter (\<lambda>e. fst e = p) (declared_mappings fs) = []" if "p \<notin> set (map suf_path fs)"
    for p and fs :: "snapshot_upload_file list"
    using that by (auto simp: declared_mappings_def filter_empty_conv)
  have "declared_mappings (g # files) = map (\<lambda>(k, c). (suf_path g, int k, suc_digest c)) (List.enumerate 0 (suf_chunks g))
      @ declared_mappings files"
    by (simp add: declared_mappings_def)
  moreover have "f = g \<Longrightarrow> suf_path f \<notin> set (map suf_path files)" "f \<in> set files \<Longrightarrow> suf_path f \<noteq> suf_path g"
    using Cons.prems(1) by (auto, metis imageI)
  moreover from this have "f = g \<or> f \<in> set files \<and> suf_path f \<noteq> suf_path g" using Cons.prems(2) by auto
  ultimately show ?case using Cons.IH Cons.prems(1) own other by auto
qed simp

lemma file_mappings_new:
  assumes "\<And>x. x \<in> set (manifest_chunks d) \<Longrightarrow> mc_manifest x \<noteq> i"
    and "manifest_chunks d' = manifest_chunks d @ map (mapping_row i s) (declared_mappings files)"
    and "distinct (map suf_path files)" "f \<in> set files"
  shows "file_mappings i (suf_path f) d' = file_chunks f"
proof -
  have "filter (\<lambda>x. mc_manifest x = i \<and> mc_path x = p) (manifest_chunks d) = []" for p
    using assms(1) by (simp add: filter_empty_conv)
  moreover have "filter (\<lambda>x. mc_manifest x = i \<and> mc_path x = p) (map (mapping_row i s) es) = map (mapping_row i s) (filter (\<lambda>e. fst e = p) es)" for p es
    by (induction es) auto
  ultimately show ?thesis
    unfolding file_mappings_def assms(2) filter_append file_chunks_def
    by (simp add: declared_of_path [OF assms(3,4)] case_prod_beta)
qed

lemma no_mappings:
  assumes "snapshot_inv V E (d, b)" "m \<in> set (manifests d)" "man_status m \<noteq> Ready" "x \<in> set (manifest_chunks d)"
  shows "mc_manifest x \<noteq> man_id m"
proof
  assume eq: "mc_manifest x = man_id m"
  have "\<exists>m' \<in> set (manifests d). owns m' x" using inv_parts(4) [OF assms(1)] assms(4) unfolding owned_def by (rule bspec)
  then obtain m' where m': "m' \<in> set (manifests d)" "owns m' x" ..
  have "man_id m' = man_id m" using m'(2) eq by (simp add: owns_def)
  then have "m' = m" by (rule manifest_unique [OF inv_parts(1) [OF assms(1)] m'(1) assms(2)])
  with m'(2) assms(3) show False by (simp add: owns_def)
qed

lemma commit_manifest_Inr:
  assumes "commit_manifest_tx E m d = Inr (r, d')" "distinct (map suf_path (man_files m))"
    and fresh: "\<And>x. x \<in> set (manifest_chunks d) \<Longrightarrow> mc_manifest x \<noteq> man_id m"
  obtains d1 where "d1 = d\<lparr>manifest_chunks := manifest_chunks d @ map (mapping_row (man_id m) (row_scope m)) (declared_mappings (man_files m))\<rparr>"
    "same_tables (add_references E (man_id m) d1) d'"
    "manifests d' = update_where (\<lambda>x. man_id x = man_id m) (\<lambda>x. x\<lparr>man_status := Ready, man_committed := Some (env_now E)\<rparr>) (manifests d)"
    "\<forall>f \<in> set (man_files m). \<forall>u \<in> set (suf_chunks f). \<exists>c \<in> set (chunks d).
       chunk_key c = (man_scope m, man_scope_id m, suc_digest u) \<and> chk_status c = ChunkReady
       \<and> chk_plaintext_size c = int (suc_plaintext_size u)"
proof -
  have "\<exists>(unique :: (string \<times> nat) list) rows mapped v d2. fetch_chunk_rows (row_scope m) (map fst unique) d = Inr rows \<and> map_files rows (man_files m) = Inr mapped
      \<and> attach_chunks E (man_id m) (row_scope m) (concat (map fst mapped)) d = Inr (v, d2) \<and> same_tables d2 d'
      \<and> manifests d' = update_where (\<lambda>x. man_id x = man_id m)
          (\<lambda>x. x\<lparr>man_status := Ready, man_committed := Some (env_now E)\<rparr>) (manifests d2)"
    using assms(1) by (clarsimp simp: commit_manifest_tx_def Let_def tx_simps) (intro exI conjI, assumption+, simp_all add: same_tables_def)
  then obtain unique :: "(string \<times> nat) list" and rows mapped v d2 where
      rows: "fetch_chunk_rows (row_scope m) (map fst unique) d = Inr rows" "map_files rows (man_files m) = Inr mapped"
      and att: "attach_chunks E (man_id m) (row_scope m) (concat (map fst mapped)) d = Inr (v, d2)"
      and d': "same_tables d2 d'" "manifests d' = update_where (\<lambda>x. man_id x = man_id m)
          (\<lambda>x. x\<lparr>man_status := Ready, man_committed := Some (env_now E)\<rparr>) (manifests d2)"
    by blast
  have es: "concat (map fst mapped) = declared_mappings (man_files m)"
    and held: "\<forall>f \<in> set (man_files m). \<forall>u \<in> set (suf_chunks f). held rows u" by (rule map_files_Inr [OF rows(2)])+
  obtain d1 where d1: "d1 = d\<lparr>manifest_chunks := manifest_chunks d @ map (mapping_row (man_id m) (row_scope m)) (declared_mappings (man_files m))\<rparr>"
      "d2 = add_references E (man_id m) d1"
    using attach_chunks_Inr [OF att [unfolded es] distinct_declared_mappings [OF assms(2)] fresh] by blast
  show thesis
  proof (rule that [OF d1(1)])
    show "same_tables (add_references E (man_id m) d1) d'" using d'(1) by (simp add: d1)
    show "manifests d' = update_where (\<lambda>x. man_id x = man_id m) (\<lambda>x. x\<lparr>man_status := Ready, man_committed := Some (env_now E)\<rparr>) (manifests d)"
      using d'(2) by (simp add: d1 add_references_def)
    show "\<forall>f \<in> set (man_files m). \<forall>u \<in> set (suf_chunks f). \<exists>c \<in> set (chunks d).
       chunk_key c = (man_scope m, man_scope_id m, suc_digest u) \<and> chk_status c = ChunkReady
       \<and> chk_plaintext_size c = int (suc_plaintext_size u)"
      using held fetched_held [OF rows(1)] by (simp add: row_scope_eq)
  qed
qed

lemma added_references:
  assumes "\<And>x. x \<in> set (manifest_chunks d) \<Longrightarrow> mc_manifest x \<noteq> i"
    and "d1 = d\<lparr>manifest_chunks := manifest_chunks d @ map (mapping_row i s) es\<rparr>"
  shows "int (length (filter (mapping_of c) (manifest_chunks d1)))
    = int (length (filter (mapping_of c) (manifest_chunks d))) + manifest_references i d1 c"
proof -
  have "filter (\<lambda>x. mc_manifest x = i \<and> mapping_of c x) (manifest_chunks d) = []"
    using assms(1) by (simp add: filter_empty_conv)
  moreover have "filter (\<lambda>x. mc_manifest x = i \<and> mapping_of c x) (map (mapping_row i s) es) = filter (mapping_of c) (map (mapping_row i s) es)"
    by (induction es) auto
  ultimately show ?thesis by (simp add: manifest_references_def assms(2))
qed

lemma inv_commit:
  assumes inv: "snapshot_inv V E (d, b)" and m: "m \<in> set (manifests d)" "man_status m \<noteq> Ready"
    and "commit_manifest_tx E' m d = Inr (r, d')"
  shows "snapshot_inv V E (d', b)"
proof -
  note parts = inv_parts [OF inv]
  let ?i = "man_id m"
  have fresh: "\<And>x. x \<in> set (manifest_chunks d) \<Longrightarrow> mc_manifest x \<noteq> ?i" by (rule no_mappings [OF inv m])
  have paths: "distinct (map suf_path (man_files m))" using parts(5) m(1) by (simp add: declared_def)
  obtain d1 where d1: "d1 = d\<lparr>manifest_chunks := manifest_chunks d @ map (mapping_row ?i (row_scope m)) (declared_mappings (man_files m))\<rparr>"
    and tables: "same_tables (add_references E' ?i d1) d'"
    and mans: "manifests d' = update_where (\<lambda>x. man_id x = ?i) (\<lambda>x. x\<lparr>man_status := Ready, man_committed := Some (env_now E')\<rparr>) (manifests d)"
    and found: "\<forall>f \<in> set (man_files m). \<forall>u \<in> set (suf_chunks f). \<exists>c \<in> set (chunks d).
       chunk_key c = (man_scope m, man_scope_id m, suc_digest u) \<and> chk_status c = ChunkReady
       \<and> chk_plaintext_size c = int (suc_plaintext_size u)"
    using commit_manifest_Inr [OF assms(4) paths fresh] by blast
  let ?h = "\<lambda>c. if manifest_references ?i d1 c \<noteq> 0
    then c\<lparr>chk_ref_count := chk_ref_count c + manifest_references ?i d1 c, chk_last_referenced := env_now E'\<rparr> else c"
  have h: "keeps_envelope ?h" by (intro keeps_envelope_if keeps_envelope_columns)
  have eq: "chunks d' = map ?h (chunks d)" and maps: "manifest_chunks d' = manifest_chunks d1"
    using tables by (simp_all add: same_tables_def add_references_def update_where_def d1)
  have maps': "manifest_chunks d' = manifest_chunks d @ map (mapping_row ?i (row_scope m)) (declared_mappings (man_files m))"
    by (simp add: maps d1)
  have in_d': "(if man_id x = ?i then x\<lparr>man_status := Ready, man_committed := Some (env_now E')\<rparr> else x) \<in> set (manifests d')"
    if "x \<in> set (manifests d)" for x using that unfolding mans update_where_def by force
  have from_d': "x \<in> set (manifests d) \<and> man_id x \<noteq> ?i \<or> x = m\<lparr>man_status := Ready, man_committed := Some (env_now E')\<rparr>"
    if "x \<in> set (manifests d')" for x
    using that manifest_unique [OF parts(1) _ m(1)] unfolding mans update_where_def by auto
  note hp = keeps_envelope_parts [OF h eq]
  have "counted d'"
    by (rule reference_count_change [OF parts(2) eq h]) (simp add: maps added_references [OF fresh d1])
  moreover have "well_keyed E d'" by (rule hp(3) [OF _ parts(1)]) (simp add: mans map_update_where)
  moreover have "referenced d'"
  proof (rule referenced_map [OF eq h])
    fix x assume "x \<in> set (manifest_chunks d')"
    then consider "x \<in> set (manifest_chunks d)" | e where "e \<in> set (declared_mappings (man_files m))" "x = mapping_row ?i (row_scope m) e"
      unfolding maps' by auto
    then show "\<exists>c \<in> set (chunks d). mapping_of c x \<and> chk_status c = ChunkReady"
    proof cases
      case 1
      with parts(3) show ?thesis unfolding referenced_def by blast
    next
      case 2
      from declared_entry [OF 2(1)] found show ?thesis unfolding 2(2) by (fastforce simp: mapping_of_key row_scope_eq)
    qed
  qed simp
  moreover have "owned d'"
    unfolding owned_def
  proof
    fix x assume "x \<in> set (manifest_chunks d')"
    then consider "x \<in> set (manifest_chunks d)" | e where "x = mapping_row ?i (row_scope m) e"
      unfolding maps' by auto
    then show "\<exists>n \<in> set (manifests d'). owns n x"
    proof cases
      case 1
      have "\<exists>n \<in> set (manifests d). owns n x" using parts(4) 1 unfolding owned_def by (rule bspec)
      then obtain n where n: "n \<in> set (manifests d)" "owns n x" ..
      moreover have "man_id n \<noteq> ?i" using n(2) fresh [OF 1] by (simp add: owns_def)
      ultimately show ?thesis using in_d' [of n] by auto
    next
      case 2
      then have "owns (m\<lparr>man_status := Ready, man_committed := Some (env_now E')\<rparr>) x" by (simp add: owns_def row_scope_eq)
      with in_d' [OF m(1)] show ?thesis by auto
    qed
  qed
  moreover have "declared d'"
    using parts(5) from_d' m(1) unfolding declared_def by fastforce
  moreover have "ready_complete d'"
    unfolding ready_complete_def
  proof (intro ballI impI)
    fix n assume n: "n \<in> set (manifests d')" "man_status n = Ready"
    have other: "file_mappings j p d' = file_mappings j p d" if "j \<noteq> ?i" for j p
      using that unfolding file_mappings_def maps' by (auto simp: filter_empty_conv)
    from from_d' [OF n(1)] show "fully_mapped d' n \<and> sized d' n"
    proof
      assume "n \<in> set (manifests d) \<and> man_id n \<noteq> ?i"
      then show ?thesis using parts(6) n(2) hp(1) other unfolding ready_complete_def fully_mapped_def by auto
    next
      assume n': "n = m\<lparr>man_status := Ready, man_committed := Some (env_now E')\<rparr>"
      then have "fully_mapped d' n" using file_mappings_new [OF fresh maps' paths] by (simp add: fully_mapped_def)
      moreover have "sized d' n" unfolding hp(1) using found unfolding sized_def n' by fastforce
      ultimately show ?thesis ..
    qed
  qed
  moreover have "stored V d' b" by (rule stored_map [OF parts(7) eq h]) (simp split: if_splits)
  ultimately show ?thesis by (simp add: snapshot_inv_def)
qed

end
