(* ===== verification/SnapshotSteps.thy ===== *)
theory SnapshotSteps
  imports SnapshotInvariant
begin

text \<open>
  Executions of snapshot storage: requests of users and executors and the statements of the garbage
  collector, in any order, beside changes of other tables and objects; and that each keeps the invariant.
\<close>

section \<open>Statements that leave the tables alone\<close>

definition same_snapshots :: "db \<Rightarrow> db \<Rightarrow> bool" where
  "same_snapshots d d' = (chunks d' = chunks d \<and> manifest_chunks d' = manifest_chunks d \<and> manifests d' = manifests d)"

interpretation same_snapshots: state_preorder same_snapshots
  by unfold_locales (simp_all add: same_snapshots_def)

lemma audits_same_snapshots: "obeys only_audits m \<Longrightarrow> obeys same_snapshots m"
  by (force simp: obeys_def only_audits_def same_snapshots_def)

lemma draws_same_snapshots: "obeys same_snapshots (new_v4 E)"
  by (rule obeysI) (auto simp: tx_simps same_snapshots_def)

lemma write_same_snapshots: "(\<And>d. same_snapshots d (f d)) \<Longrightarrow> obeys same_snapshots (writeT f)"
  by (rule obeysI) (simp add: tx_simps)

lemma append_event_same_snapshots: "obeys same_snapshots (append_event_tx_with_id E i event_id kind payload)"
  unfolding append_event_tx_with_id_def Let_def queue_push_def
  by (auto intro!: same_snapshots.obeys_rules split: option.splits)
    (auto intro!: obeysI simp: tx_simps Let_def same_snapshots_def)

lemma transition_same_snapshots: "obeys same_snapshots (transition_run E i next_state result error)"
  unfolding transition_run_def append_event_tx_def
  by (auto intro!: same_snapshots.obeys_rules append_event_same_snapshots draws_same_snapshots split: option.splits)
    (auto intro!: obeysI simp: tx_simps Let_def same_snapshots_def check_transition_def release_executor_def
      update_run_returning_def split: if_splits sum.splits)

context state_preorder
begin

lemma obeys_lift_bind: "(\<And>x. r = Inr x \<Longrightarrow> obeys R (f x)) \<Longrightarrow> obeys R (bindT (liftT r) f)"
  by (auto simp: obeys_def tx_simps)

lemma obeysH_lift_bind: "(\<And>x. r = Inr x \<Longrightarrow> obeysH R (f x)) \<Longrightarrow> obeysH R (bindH (liftH r) f)"
  by (cases r) (auto simp: obeysH_def bindH_def liftH_def R_refl)

lemma obeysH_then:
  assumes "obeysH R m" "\<And>s t x. m s = (t, Inr x) \<Longrightarrow> R t (fst (f x t))"
  shows "obeysH R (bindH m f)"
  unfolding obeysH_def
proof
  fix s
  obtain t r where m: "m s = (t, r)" by fastforce
  with assms(1) have "R s t" by (metis fst_conv obeysH_def)
  with m assms(2) [of s t] show "R s (fst (bindH m f s))"
    by (cases r) (auto simp: bindH_def intro: R_trans)
qed

end

lemma resume_same_snapshots: "obeysH same_snapshots (resume_snapshot_runs E server i)"
proof -
  have run: "obeys same_snapshots (get_run E j)" "obeys same_snapshots (target_has_executor E t cs input)" for j t cs input
    by (auto intro!: obeysI simp: get_run_def target_has_executor_def tx_simps same_snapshots_def split: executor_target.splits option.splits)
  have "obeysH same_snapshots (resume_snapshot_run E server j)" for j
    unfolding resume_snapshot_run_def
    by (auto intro!: same_snapshots.obeysH_rules run transition_same_snapshots split: executor_target.splits)
  then show ?thesis
    unfolding resume_snapshot_runs_def by (intro same_snapshots.obeysH_rules same_snapshots.obeys_read)
qed

lemma accessible_same_snapshots: "obeysH same_snapshots (accessible_manifest E u i role)"
  unfolding accessible_manifest_def
  by (intro same_snapshots.obeysH_rules same_snapshots.obeys_read audits_same_snapshots ensure_project_role_only)

lemma accessible_Inr:
  assumes "accessible_manifest E u i role d = (d', Inr m)"
  shows "m \<in> set (manifests d')" "man_id m = i" "same_snapshots d d'"
proof -
  show same: "same_snapshots d d'" using obeysHD [OF accessible_same_snapshots assms] .
  from assms have "find_manifest i d = Some m" by (auto simp: accessible_manifest_def tx_simps)
  then show "m \<in> set (manifests d')" "man_id m = i"
    using same by (auto simp: find_manifest_def same_snapshots_def dest: fetch_optional_Some)
qed

section \<open>Requests\<close>

lemma inv_same_snapshots: "snapshot_inv V E (d, b) \<Longrightarrow> same_snapshots d d' \<Longrightarrow> snapshot_inv V E (d', b)"
  by (rule inv_same) (simp_all add: same_tables_def same_snapshots_def)

interpretation kept: state_preorder "\<lambda>d d'. snapshot_inv V E (d, b) \<longrightarrow> snapshot_inv V E (d', b)" for V E b
  by unfold_locales blast+

lemma kept_same: "obeys same_snapshots m \<Longrightarrow> obeys (\<lambda>d d'. snapshot_inv V E (d, b) \<longrightarrow> snapshot_inv V E (d', b)) m"
  unfolding obeys_def using inv_same_snapshots by blast

lemma keptH_same: "obeysH same_snapshots m \<Longrightarrow> obeysH (\<lambda>d d'. snapshot_inv V E (d, b) \<longrightarrow> snapshot_inv V E (d', b)) m"
  unfolding obeysH_def using inv_same_snapshots by blast

lemma insert_reservation_same: "same_snapshots d (insert_reservation i s g d)"
  by (simp add: insert_reservation_def Let_def same_snapshots_def)

lemma reserve_same_snapshots:
  "obeys same_snapshots (insert_chunk_reservation i s g)" "obeys same_snapshots (reserve_existing_chunks i s gs)"
proof -
  have "same_snapshots d (fold (insert_reservation i s) xs d)" for xs d
    by (induction xs arbitrary: d) (auto intro: same_snapshots.R_refl same_snapshots.R_trans insert_reservation_same)
  then show "obeys same_snapshots (reserve_existing_chunks i s gs)"
    unfolding reserve_existing_chunks_def by (intro same_snapshots.obeys_rules write_same_snapshots)
  show "obeys same_snapshots (insert_chunk_reservation i s g)"
    unfolding insert_chunk_reservation_def by (intro write_same_snapshots insert_reservation_same)
qed

lemma insert_manifest_kept:
  assumes "man_status m \<noteq> Ready" "distinct (map suf_path (man_files m))" "\<forall>f \<in> set (man_files m). file_ok f"
  shows "obeys (\<lambda>d d'. snapshot_inv V E (d, b) \<longrightarrow> snapshot_inv V E (d', b)) (insert_manifest m)"
proof (rule obeysI, rule impI)
  fix d x d' assume "insert_manifest m d = Inr (x, d')" "snapshot_inv V E (d, b)"
  then show "snapshot_inv V E (d', b)"
    by (intro inv_new_manifest [of V E d b d' m, OF _ _ _ _ assms])
      (auto simp: insert_manifest_def tx_simps table_simps same_tables_def)
qed

lemma unique_digests_same: "obeys same_snapshots (snapshot_upload_session_from_row m)" "obeys same_snapshots (retried_upload rq u m)"
  "obeys same_snapshots (project_scope E p u)" "obeys same_snapshots (enforce_storage_quota_tx E sc j n)"
  unfolding snapshot_upload_session_from_row_def retried_upload_def project_scope_def enforce_storage_quota_tx_def
  by (auto intro!: same_snapshots.obeys_rules split: project_privacy.splits option.splits)

lemma begin_kept:
  "obeysH (\<lambda>d d'. snapshot_inv V E (d, b) \<longrightarrow> snapshot_inv V E (d', b)) (begin_snapshot_upload_for E' store u rq source_run)"
proof -
  have new: "obeys (\<lambda>d d'. snapshot_inv V E (d, b) \<longrightarrow> snapshot_inv V E (d', b))
      (insert_manifest (new_manifest E' i p u s n (bur_files rq) Uploading expires source_run))"
    if "validate_snapshot_files (bur_total_bytes rq) (bur_files rq) = Inr x" for i p s n expires and x :: unit
    using that validate_files_iff [of "bur_total_bytes rq" "bur_files rq"]
    by (intro insert_manifest_kept) (simp_all add: new_manifest_def)
  show ?thesis
    unfolding begin_snapshot_upload_for_def
    by (intro kept.obeysH_lift_bind kept.obeysH_bind kept.obeysH_commit kept.obeys_bind kept.obeys_rules
        kept_same [OF audits_same_snapshots [OF ensure_project_role_only]] kept_same [OF draws_same_snapshots]
        kept_same [OF unique_digests_same(3)] kept_same [OF unique_digests_same(4)] kept_same [OF reserve_same_snapshots(2)]
        | split option.split | intro conjI impI allI kept.obeysH_commit kept_same [OF unique_digests_same(2)] | rule new, assumption)+
qed

lemma commit_snapshot_kept:
  "obeysH (\<lambda>d d'. snapshot_inv V E (d, b) \<longrightarrow> snapshot_inv V E (d', b)) (commit_snapshot E' server store u i)"
  unfolding commit_snapshot_def
proof (intro kept.obeysH_lift_bind kept.obeysH_then keptH_same [OF accessible_same_snapshots] impI)
  fix d d1 m assume "accessible_manifest E' u i Runner d = (d1, Inr m)" and inv: "snapshot_inv V E (d1, b)"
  then have m: "m \<in> set (manifests d1)" "man_id m = i" by (auto dest: accessible_Inr)
  have resume: "snapshot_inv V E (d2, b) \<Longrightarrow> snapshot_inv V E (fst (resume_snapshot_runs E' server i d2), b)" for d2
    using resume_same_snapshots inv_same_snapshots unfolding obeysH_def by blast
  show "snapshot_inv V E (fst ((if man_status m = Ready then \<lambda>d. (d, snapshot_from_row m d)
      else bindH (liftH (ensure (man_status m = Uploading) (Conflict ''snapshot is not in an uploadable state''))) (\<lambda>_.
        bindH (commit (commit_manifest_tx E' m)) (\<lambda>manifest. bindH (resume_snapshot_runs E' server i) (\<lambda>_. returnH manifest)))) d1), b)"
    using inv resume inv_commit [OF inv m(1)]
    by (auto simp: handler_defs split: sum.splits prod.splits) (metis fst_conv)+
qed

lemma delete_snapshot_kept:
  "obeysH (\<lambda>d d'. snapshot_inv V E (d, b) \<longrightarrow> snapshot_inv V E (d', b)) (delete_snapshot E' u i)"
  unfolding delete_snapshot_def
proof (intro kept.obeysH_then keptH_same [OF accessible_same_snapshots] impI)
  fix d d1 m assume "accessible_manifest E' u i Editor d = (d1, Inr m)" and inv: "snapshot_inv V E (d1, b)"
  then have m: "m \<in> set (manifests d1)" "man_id m = i" by (auto dest: accessible_Inr)
  have "release_references E' i d1 = d1" if "man_status m \<noteq> Ready"
  proof -
    have "mc_manifest x \<noteq> i" if "x \<in> set (manifest_chunks d1)" for x
      using no_mappings [OF inv m(1) \<open>man_status m \<noteq> Ready\<close> that] m(2) by simp
    then have "manifest_references i d1 c = 0" "filter (\<lambda>x. mc_manifest x \<noteq> i) (manifest_chunks d1) = manifest_chunks d1" for c
      by (auto simp: manifest_references_def filter_empty_conv filter_id_conv)
    then show ?thesis by (simp add: release_references_def update_where_def)
  qed
  moreover have "snapshot_inv V E (set_expired i (drop_reservations i (release_references E' i d1)), b)"
    by (rule inv_release [OF inv, of E' i])
      (simp_all add: same_tables_def set_expired_def drop_reservations_def release_references_def)
  ultimately show "snapshot_inv V E (fst (bindH (commit (readT (\<lambda>d. exists_row (\<lambda>v. ver_manifest v = i) (versions d)))) (\<lambda>used.
      bindH (liftH (ensure (\<not> used) (Conflict ''snapshot is retained by a project version''))) (\<lambda>_.
      bindH (if man_status m = Ready then release_manifest_references E' i else returnH ()) (\<lambda>_.
      bindH (commit (writeT (drop_reservations i))) (\<lambda>_. commit (writeT (set_expired i)))))) d1), b)"
    using inv by (auto simp: handler_defs release_manifest_references_def readT_def writeT_def ensure_def)
qed

section \<open>Uploads\<close>

definition same_store :: "db \<times> bucket \<Rightarrow> db \<times> bucket \<Rightarrow> bool" where
  "same_store x y = (same_snapshots (fst x) (fst y) \<and> snd y = snd x)"

interpretation same_store: state_preorder same_store
  by unfold_locales (auto simp: same_store_def intro: same_snapshots.R_refl same_snapshots.R_trans)

text \<open>Changes of other tables and of objects that are not chunks, such as artifacts.\<close>

definition beside_chunks :: "db \<times> bucket \<Rightarrow> db \<times> bucket \<Rightarrow> bool" where
  "beside_chunks x y = (same_snapshots (fst x) (fst y) \<and> (\<forall>k. take 7 k = ''chunks/'' \<longrightarrow> snd y k = snd x k))"

interpretation beside_chunks: state_preorder beside_chunks
  by unfold_locales (auto simp: beside_chunks_def intro: same_snapshots.R_refl same_snapshots.R_trans)

lemma on_db_beside: "obeysH same_snapshots h \<Longrightarrow> obeysH beside_chunks (on_db h)"
  by (auto simp: obeysH_def on_db_def beside_chunks_def split: prod.splits) (metis fst_conv)

lemma inv_beside:
  assumes inv: "snapshot_inv V E (d, b)" and "beside_chunks (d, b) (d', b')"
  shows "snapshot_inv V E (d', b')"
proof (rule inv_same_snapshots [OF inv_bucket [OF inv]])
  fix c assume "c \<in> set (chunks d)"
  then have "take 7 (chk_object_key c) = ''chunks/''"
    using inv_parts(1) [OF inv] by (simp add: well_keyed_def chunk_object_key_def)
  then show "b' (chk_object_key c) = b (chk_object_key c)" using assms(2) by (simp add: beside_chunks_def)
qed (use assms(2) in \<open>simp add: beside_chunks_def\<close>)

lemma on_db_same_store: "obeysH same_snapshots h \<Longrightarrow> obeysH same_store (on_db h)"
  by (auto simp: obeysH_def on_db_def same_store_def split: prod.splits) (metis fst_conv)

lemma on_db_Inr [tx_simps]: "on_db h x = (y, Inr r) \<longleftrightarrow> (\<exists>d'. h (fst x) = (d', Inr r) \<and> y = (d', snd x))"
  by (cases x) (auto simp: on_db_def split: prod.splits)

lemma admit_same_store: "obeysH same_store (admit_chunk E store u i g body)"
  unfolding admit_chunk_def
  by (intro same_store.obeysH_rules on_db_same_store accessible_same_snapshots)

lemma admit_Inr:
  assumes "admit_chunk E store u i g body x = (y, Inr (W, m))"
  shows "store = Some W" "digest_ok g" "m \<in> set (manifests (fst y))" "man_id m = i" "v_sha256 W body = g" "same_store x y"
proof -
  show "same_store x y" using obeysHD [OF admit_same_store assms] .
  from assms obtain d' where "accessible_manifest E u i Runner (fst x) = (d', Inr m)" "y = (d', snd x)"
      "require_store store = Inr W" "validate_digest g = Inr ()" "v_sha256 W body = g"
    by (auto simp: admit_chunk_def tx_simps)
  then show "store = Some W" "digest_ok g" "m \<in> set (manifests (fst y))" "man_id m = i" "v_sha256 W body = g"
    using accessible_Inr validate_digest_iff by (auto simp: require_store_def tx_simps)
qed

text \<open>What the requests of one deployment share: cipher, master key, digest and rendering of identifiers.\<close>

definition deployed :: "vault \<Rightarrow> env \<Rightarrow> vault \<Rightarrow> env \<Rightarrow> bool" where
  "deployed V E V' E' = (v_crypto V' = v_crypto V \<and> v_master V' = v_master V \<and> v_sha256 V' = v_sha256 V
     \<and> env_uuid E' = env_uuid E)"

lemma deployed_parts:
  assumes "deployed V E V' E'"
  shows "snapshot_inv V' E' x = snapshot_inv V E x" "chunk_object_key E' = chunk_object_key E"
proof -
  show key: "chunk_object_key E' = chunk_object_key E"
    using assms by (intro ext) (simp add: chunk_object_key_def deployed_def)
  have "intact V' = intact V" using assms by (intro ext) (simp add: intact_def deployed_def)
  then show "snapshot_inv V' E' x = snapshot_inv V E x" by (simp add: snapshot_inv_def well_keyed_def stored_def key)
qed

lemma put_keeps:
  assumes inv: "snapshot_inv V E (d, b)" and "inj (env_uuid E)" "digest_ok g" "ready_chunk s g d = None"
  shows "snapshot_inv V E (d, b(chunk_object_key E s g := o'))"
proof (rule inv_bucket [OF inv])
  fix c assume c: "c \<in> set (chunks d)" "chk_status c = ChunkReady"
  have keyed: "digest_ok (chk_digest c)" "chk_object_key c = chunk_object_key E (key_scope_of (chk_scope c) (chk_scope_id c)) (chk_digest c)"
    using inv_parts(1) [OF inv] c(1) by (auto simp: well_keyed_def)
  have "chk_object_key c \<noteq> chunk_object_key E s g"
  proof
    assume "chk_object_key c = chunk_object_key E s g"
    then have "key_scope_of (chk_scope c) (chk_scope_id c) = s \<and> chk_digest c = g"
      unfolding keyed(2) by (rule chunk_object_key_inj [OF assms(2) keyed(1) assms(3)])
    then have "chunk_of s g c" unfolding chunk_of_def by (metis key_scope_of_simps(2,3))
    with c assms(4) show False by (auto simp: ready_chunk_def table_simps)
  qed
  then show "(b(chunk_object_key E s g := o')) (chk_object_key c) = b (chk_object_key c)" by simp
qed

lemma record_keeps:
  assumes inv: "snapshot_inv V E (d, b)" and "digest_ok g" "v_sha256 V body = g" "env_uuid E' = env_uuid E"
    and "record_chunk E' i s g body (chunk_object_key E s g) v d = Inr (u, d')"
    and "b (chunk_object_key E s g) = Some (sv_ciphertext v)" "decrypt (v_crypto V) (v_master V) s v = Inr body"
  shows "snapshot_inv V E (d', b)"
proof -
  define c where "c = \<lparr>chk_scope = scope_type s, chk_scope_id = scope_id s, chk_digest = g,
       chk_object_key = chunk_object_key E s g, chk_plaintext_size = int (length body),
       chk_ciphertext_size = int (length (sv_ciphertext v)), chk_wrapped_data_key = sv_encrypted_data_key v,
       chk_nonce = sv_nonce v, chk_wrap_nonce = Some (sv_wrap_nonce v), chk_ref_count = 0, chk_status = ChunkReady,
       chk_last_referenced = env_now E'\<rparr>"
  define d1 where "d1 = d\<lparr>chunks := chunks d @ [c]\<rparr>"
  have unwarned: "\<exists>w. ms = map (\<lambda>m. if man_id m = i then m\<lparr>man_warnings := man_warnings m @ w\<rparr> else m) ms" for ms :: "manifest_row list"
    by (rule exI [of _ "[]"]) (simp add: map_idI)
  have steps: "chunk_key c \<notin> chunk_key ` set (chunks d)"
    "same_tables d1 d'" "\<exists>w. manifests d' = map (\<lambda>m. if man_id m = i then m\<lparr>man_warnings := man_warnings m @ w\<rparr> else m) (manifests d1)"
    using assms(5) unfolding record_chunk_def insert_chunk_def insert_chunk_reservation_def
    by (auto simp: tx_simps table_simps u64_to_i64_def c_def d1_def chunk_of_key chunk_key_def insert_reservation_def Let_def same_tables_def
        update_where_def split: if_splits intro: unwarned)
  have "snapshot_inv V E (d1, b)"
  proof (rule inv_new_chunk [OF inv _ _ _ steps(1)])
    show "intact V b c" using assms(3,6,7) by (cases v) (auto simp: intact_def c_def)
  qed (simp_all add: d1_def, simp_all add: c_def assms(2))
  moreover from steps(3) obtain w where "manifests d' = map (\<lambda>m. if man_id m = i then m\<lparr>man_warnings := man_warnings m @ w\<rparr> else m) (manifests d1)" ..
  ultimately show ?thesis by (rule inv_manifests [OF _ steps(2)]) (auto split: if_splits)
qed

lemma upload_keeps:
  assumes inv: "snapshot_inv V E (d, b)" and "lawful_crypto (v_crypto V)" "inj (env_uuid E)" "deployed V E V' E'"
    "lawful_entropy (v_entropy V' g)"
  shows "snapshot_inv V E (fst (upload_snapshot_chunk E' (Some V') u i g body (d, b)))"
proof -
  obtain d1 b1 r where admit: "admit_chunk E' (Some V') u i g body (d, b) = ((d1, b1), r)" by (metis surj_pair)
  have same: "same_snapshots d d1" "b1 = b" using obeysHD [OF admit_same_store admit] by (simp_all add: same_store_def)
  have inv1: "snapshot_inv V E (d1, b)" by (rule inv_same_snapshots [OF inv same(1)])
  show ?thesis
  proof (cases r)
    case (Inl e)
    then show ?thesis using admit inv1 same(2) by (simp add: upload_snapshot_chunk_def bindH_def)
  next
    case (Inr x)
    then obtain W m where r: "r = Inr (W, m)" by (cases x) auto
    note ok = admit_Inr [OF admit [unfolded r]]
    have W: "W = V'" using ok(1) by simp
    have sha: "v_sha256 V body = g" using ok(5) W assms(4) by (simp add: deployed_def)
    define s where "s = row_scope m"
    have key: "chunk_object_key E' s g = chunk_object_key E s g" using deployed_parts(2) [OF assms(4)] by simp
    have enc: "decrypt (v_crypto V) (v_master V) s v = Inr body" if "encrypt (v_crypto V') (v_master V') (v_entropy V' g) s body = Inr v" for v
      using decrypt_encrypt [OF assms(2,5)] that assms(4) by (simp add: deployed_def)
    have put: "snapshot_inv V E (d1, b(chunk_object_key E s g := o'))" if "ready_chunk s g d1 = None" for o'
      by (rule put_keeps [OF inv1 assms(3) ok(2) that])
    have rec: "snapshot_inv V E (d2, b(chunk_object_key E s g \<mapsto> sv_ciphertext v))"
      if "ready_chunk s g d1 = None" "encrypt (v_crypto V') (v_master V') (v_entropy V' g) s body = Inr v"
        "record_chunk E' i s g body (chunk_object_key E s g) v d1 = Inr (w, d2)" for v w d2
      using record_keeps [OF put [OF that(1)] ok(2) sha _ that(3), of "Some (sv_ciphertext v)"] enc [OF that(2)] assms(4)
      by (simp add: deployed_def)
    have reserve: "snapshot_inv V E (d2, b)" if "insert_chunk_reservation i s g d1 = Inr (w, d2)" for w d2
      by (rule inv_same_snapshots [OF inv1 obeysD [OF reserve_same_snapshots(1) that]])
    show ?thesis
      using admit r same(2) W inv1 put rec reserve
      unfolding upload_snapshot_chunk_def
      by (auto simp: bindH_def on_db_def commit_def readT_def liftH_def returnH_def put_encrypted_def put_object_def key Let_def
          s_def [symmetric] split: sum.splits prod.splits option.splits s3_outcome.splits)
  qed
qed

section \<open>Collection\<close>

lemma abandon_keeps: "snapshot_inv V E (d, b) \<Longrightarrow> snapshot_inv V E (fst (gc_abandon i d), b)"
  by (rule inv_manifests [where h = "\<lambda>m. if man_id m = i \<and> man_status m = Uploading then m\<lparr>man_status := ManifestExpired\<rparr> else m"])
    (auto simp: gc_abandon_def commit_def writeT_def Let_def drop_reservations_def same_tables_def update_where_def split: if_splits)

lemma expire_keeps: "snapshot_inv V E (d, b) \<Longrightarrow> snapshot_inv V E (fst (gc_expire E' i d), b)"
  by (rule inv_release [where E' = E' and i = i])
    (simp_all add: gc_expire_def release_manifest_references_def handler_defs writeT_def same_tables_def set_expired_def
      release_references_def)

lemma mark_keeps:
  assumes "snapshot_inv V E (d, b)" "gc_mark limit d = Inr (rows, d')"
  shows "snapshot_inv V E (d', b)"
proof -
  have d': "d' = d\<lparr>chunks := update_where (\<lambda>c. list_ex (\<lambda>r. same_chunk r c) (gc_candidates limit d))
      (\<lambda>c. c\<lparr>chk_status := ChunkDeleting\<rparr>) (chunks d)\<rparr>"
    using assms(2) by (auto simp: gc_mark_def tx_simps)
  show ?thesis
  proof (rule inv_mark [OF assms(1)])
    show "chunks d' = update_where (\<lambda>c. list_ex (\<lambda>r. same_chunk r c) (gc_candidates limit d))
      (\<lambda>c. c\<lparr>chk_status := ChunkDeleting\<rparr>) (chunks d)" by (simp add: d')
    fix c assume c: "c \<in> set (chunks d)" "list_ex (\<lambda>r. same_chunk r c) (gc_candidates limit d)"
    then obtain r where r: "r \<in> set (gc_candidates limit d)" "chunk_key c = chunk_key r"
      by (auto simp: list_ex_iff same_chunk_key)
    then have "r \<in> set (chunks d)" "chk_ref_count r = 0"
      unfolding gc_candidates_def using set_order_limit by fastforce+
    then show "chk_ref_count c = 0" using key_unique [OF inv_parts(1) [OF assms(1)] c(1) _ r(2)] by simp
  qed (simp_all add: d')
qed

lemma sweep_keeps:
  assumes "snapshot_inv V E (d, b)" "inj (env_uuid E)" "c \<in> set (chunks d)" "chk_status c = ChunkDeleting"
    "chunk_key r = chunk_key c" "chk_object_key r = chk_object_key c" "s3_delete (v_s3 V') (chk_object_key c) = S3Done"
  shows "snapshot_inv V E (fst (gc_sweep V' r (d, b)))"
  using assms(5-7)
  by (auto simp: gc_sweep_def delete_object_def on_db_def handler_defs writeT_def same_chunk_key
      intro!: inv_sweep [OF assms(1-4)])

section \<open>Executions\<close>

text \<open>
  The requests of one deployment and the statements of its collector, one after the other. A chunk is
  swept after it was marked, and deletions of objects succeed. The upload of a chunk is one step, and
  the manifests that a merge writes are not part of these executions.
\<close>

inductive storage_step :: "vault \<Rightarrow> env \<Rightarrow> db \<times> bucket \<Rightarrow> db \<times> bucket \<Rightarrow> bool" for V E where
  begun: "begin_snapshot_upload_for E' store u rq source_run d = (d', r) \<Longrightarrow> storage_step V E (d, b) (d', b)"
| uploaded: "deployed V E V' E' \<Longrightarrow> lawful_entropy (v_entropy V' digest)
    \<Longrightarrow> upload_snapshot_chunk E' (Some V') u i digest body (d, b) = (x, r) \<Longrightarrow> storage_step V E (d, b) x"
| committed: "commit_snapshot E' server store u i d = (d', r) \<Longrightarrow> storage_step V E (d, b) (d', b)"
| deleted: "delete_snapshot E' u i d = (d', r) \<Longrightarrow> storage_step V E (d, b) (d', b)"
| abandoned: "gc_abandon i d = (d', r) \<Longrightarrow> storage_step V E (d, b) (d', b)"
| expired: "gc_expire E' i d = (d', r) \<Longrightarrow> storage_step V E (d, b) (d', b)"
| marked: "gc_mark limit d = Inr (rows, d') \<Longrightarrow> storage_step V E (d, b) (d', b)"
| swept: "c \<in> set (chunks d) \<Longrightarrow> chk_status c = ChunkDeleting \<Longrightarrow> chunk_key row = chunk_key c
    \<Longrightarrow> chk_object_key row = chk_object_key c \<Longrightarrow> s3_delete (v_s3 V') (chk_object_key c) = S3Done
    \<Longrightarrow> gc_sweep V' row (d, b) = (x, r) \<Longrightarrow> storage_step V E (d, b) x"
| elsewhere: "beside_chunks x y \<Longrightarrow> storage_step V E x y"

definition empty_storage :: "db \<times> bucket \<Rightarrow> bool" where
  "empty_storage x = (chunks (fst x) = [] \<and> manifest_chunks (fst x) = [] \<and> manifests (fst x) = [])"

lemma empty_storage_inv: "empty_storage x \<Longrightarrow> snapshot_inv V E x"
  by (cases x) (simp add: empty_storage_def inv_defs)

lemma storage_step_inv:
  assumes "storage_step V E x y" "snapshot_inv V E x" "lawful_crypto (v_crypto V)" "inj (env_uuid E)"
  shows "snapshot_inv V E y"
  using assms
proof (induction rule: storage_step.induct)
  case (begun E' store u rq source_run d d' r b)
  then show ?case using begin_kept [THEN obeysHD] by blast
next
  case (uploaded V' E' digest u i body d b x r)
  then show ?case using upload_keeps [of V E d b V' E' digest u i body] by simp
next
  case (committed E' server store u i d d' r b)
  then show ?case using commit_snapshot_kept [THEN obeysHD] by blast
next
  case (deleted E' u i d d' r b)
  then show ?case using delete_snapshot_kept [THEN obeysHD] by blast
next
  case (abandoned i d d' r b)
  then show ?case using abandon_keeps [of V E d b i] by simp
next
  case (expired E' i d d' r b)
  then show ?case using expire_keeps [of V E d b E' i] by simp
next
  case (marked limit d rows d' b)
  then show ?case using mark_keeps by blast
next
  case (swept c d row V' b x r)
  then show ?case using sweep_keeps [of V E d b c row V'] by simp
next
  case (elsewhere x y)
  then show ?case using inv_beside [of V E "fst x" "snd x" "fst y" "snd y"] by simp
qed

lemma storage_reachable_inv:
  assumes "(storage_step V E)\<^sup>*\<^sup>* x y" "empty_storage x" "lawful_crypto (v_crypto V)" "inj (env_uuid E)"
  shows "snapshot_inv V E y"
  using assms(1) by induction (auto intro: empty_storage_inv [OF assms(2)] storage_step_inv assms(3,4))

end
