(* ===== verification/SnapshotProperties.thy ===== *)
theory SnapshotProperties
  imports SnapshotSteps
begin

text \<open>
  The properties of snapshot storage: what a declaration must satisfy, that a snapshot which became
  ready stays downloadable through every execution, that it lists what was declared, that the
  collector only takes unused chunks, and two limits of the code.
\<close>

lemma mapping_of_manifest:
  assumes inv: "snapshot_inv V E (d, b)" and m: "m \<in> set (manifests d)"
    and x: "x \<in> set (manifest_chunks d)" "mc_manifest x = man_id m"
  shows "mc_scope x = man_scope m" "mc_scope_id x = man_scope_id m"
proof -
  have "\<exists>m' \<in> set (manifests d). owns m' x" using inv_parts(4) [OF inv] x(1) unfolding owned_def by (rule bspec)
  then obtain m' where m': "m' \<in> set (manifests d)" "owns m' x" ..
  have "man_id m' = man_id m" using m'(2) x(2) by (simp add: owns_def)
  then have "m' = m" by (rule manifest_unique [OF inv_parts(1) [OF inv] m'(1) m])
  with m'(2) show "mc_scope x = man_scope m" "mc_scope_id x = man_scope_id m" by (simp_all add: owns_def)
qed

lemma declared_chunk_joined:
  assumes inv: "snapshot_inv V E (d, b)" and m: "m \<in> set (manifests d)" "man_status m = Ready"
    and u: "f \<in> set (man_files m)" "u \<in> set (suf_chunks f)"
  obtains c where "joined_chunk (man_id m) (suc_digest u) d = Some c" "c \<in> set (chunks d)" "chk_status c = ChunkReady"
    "chunk_key c = (man_scope m, man_scope_id m, suc_digest u)" "chk_plaintext_size c = int (suc_plaintext_size u)"
proof -
  from declared_ready [OF inv m u] obtain c0 where c0: "c0 \<in> set (chunks d)" "chk_status c0 = ChunkReady"
      "chunk_key c0 = (man_scope m, man_scope_id m, suc_digest u)" "chk_plaintext_size c0 = int (suc_plaintext_size u)" by blast
  from declared_mapping [OF inv m u] obtain x where x: "x \<in> set (manifest_chunks d)" "mc_manifest x = man_id m"
      "mapping_of c0 x" using c0(3) by (auto simp: mapping_of_key)
  have "chk_digest c0 = suc_digest u" using c0(3) by (simp add: chunk_key_def)
  with c0 x have "joined_chunk (man_id m) (suc_digest u) d \<noteq> None"
    unfolding joined_chunk_def by (auto simp: table_simps)
  then obtain c where c: "joined_chunk (man_id m) (suc_digest u) d = Some c" by blast
  then obtain y where row: "c \<in> set (chunks d)" "chk_digest c = suc_digest u" and y: "y \<in> set (manifest_chunks d)"
      "mc_manifest y = man_id m" "mapping_of c y"
    unfolding joined_chunk_def by (auto simp: table_simps dest!: fetch_optional_Some)
  have "chunk_key c = chunk_key c0"
    using mapping_of_manifest [OF inv m(1) y(1,2)] y(3) row(2) c0(3) by (simp add: mapping_of_def chunk_key_def)
  then have "c = c0" by (rule key_unique [OF inv_parts(1) [OF inv] row(1) c0(1)])
  with c c0 show thesis by (intro that) simp_all
qed

lemma decrypt_intact:
  assumes inv: "snapshot_inv V E (d, b)" and m: "m \<in> set (manifests d)" "man_status m = Ready"
    and u: "f \<in> set (man_files m)" "u \<in> set (suf_chunks f)"
    and V': "deployed V E V' E'" "s3_get (v_s3 V') = (\<lambda>_. None)"
  shows "\<exists>p. decrypt_manifest_chunk V' m (suc_digest u) (d, b) = ((d, b), Inr p) \<and> v_sha256 V p = suc_digest u
    \<and> length p = suc_plaintext_size u"
proof -
  obtain c where c: "joined_chunk (man_id m) (suc_digest u) d = Some c" "c \<in> set (chunks d)" "chk_status c = ChunkReady"
      "chunk_key c = (man_scope m, man_scope_id m, suc_digest u)" "chk_plaintext_size c = int (suc_plaintext_size u)"
    by (rule declared_chunk_joined [OF inv m u])
  from inv_parts(7) [OF inv] c(2,3) have "intact V b c" unfolding stored_def by blast
  then obtain p ct wn where p: "b (chk_object_key c) = Some ct" "chk_wrap_nonce c = Some wn"
      "decrypt (v_crypto V) (v_master V) (key_scope_of (chk_scope c) (chk_scope_id c))
         \<lparr>sv_ciphertext = ct, sv_encrypted_data_key = chk_wrapped_data_key c, sv_nonce = chk_nonce c, sv_wrap_nonce = wn\<rparr> = Inr p"
      "v_sha256 V p = chk_digest c" "int (length p) = chk_plaintext_size c"
    unfolding intact_def by blast
  have "chk_scope c = man_scope m" "chk_scope_id c = man_scope_id m" "chk_digest c = suc_digest u"
    using c(4) by (simp_all add: chunk_key_def)
  then show ?thesis
    using c(1,5) p V' by (auto simp: decrypt_manifest_chunk_def decrypt_chunk_row_def get_decrypted_def get_object_def
        on_db_def handler_defs readT_def ok_or_def ensure_def row_scope_eq deployed_def)
qed

section \<open>What a ready snapshot lists\<close>

definition listed_chunk :: "chunk_row \<Rightarrow> snapshot_chunk" where
  "listed_chunk c = \<lparr>sck_digest = chk_digest c, sck_plaintext_size = nat (chk_plaintext_size c),
     sck_ciphertext_size = nat (chk_ciphertext_size c)\<rparr>"

lemma stored_chunk_Inr: "stored_chunk c = Inr r \<Longrightarrow> r = listed_chunk c"
  by (auto simp: stored_chunk_def listed_chunk_def tx_simps i64_to_u64_def split: if_splits)

lemma collectE_map: "collectE f xs = Inr ys \<Longrightarrow> (\<And>x y. f x = Inr y \<Longrightarrow> y = g x) \<Longrightarrow> ys = map g xs"
  by (induction xs arbitrary: ys) (auto simp: tx_simps)

lemma assemble_files_map:
  "distinct (map suf_path files) \<Longrightarrow>
     assemble_files by_path files = map (\<lambda>f. snapshot_file_of f (map snd (filter (\<lambda>(p, _). p = suf_path f) by_path))) files"
proof (induction files arbitrary: by_path)
  case (Cons f fs)
  have "filter (\<lambda>(p, _). p = suf_path g) (filter (\<lambda>(p, _). p \<noteq> suf_path f) by_path) = filter (\<lambda>(p, _). p = suf_path g) by_path"
    if "g \<in> set fs" for g
  proof -
    have "suf_path g \<noteq> suf_path f" using Cons.prems that by (metis distinct.simps(2) image_eqI list.set_map list.simps(9))
    then show ?thesis by (auto simp: case_prod_beta intro: filter_cong)
  qed
  then show ?case using Cons by simp
qed simp

definition row_for :: "db \<Rightarrow> quota_scope \<times> uuid \<times> string \<Rightarrow> chunk_row" where
  "row_for d k = hd (filter (\<lambda>c. chunk_key c = k) (chunks d))"

lemma filter_key: "distinct (map k xs) \<Longrightarrow> c \<in> set xs \<Longrightarrow> filter (\<lambda>x. k x = k c) xs = [c]"
  by (induction xs) (auto simp: filter_empty_conv, metis imageI)

lemma row_for_unique: "well_keyed E d \<Longrightarrow> c \<in> set (chunks d) \<Longrightarrow> row_for d (chunk_key c) = c"
  unfolding row_for_def well_keyed_def by (simp add: filter_key)

lemma manifest_joined_map:
  assumes "snapshot_inv V E (d, b)"
  shows "manifest_joined i d = map (\<lambda>x. (x, row_for d (mapping_key x)))
    (sort_key (\<lambda>m. (mc_path m, mc_index m)) (filter (\<lambda>m. mc_manifest m = i) (manifest_chunks d)))"
proof -
  have one: "map (\<lambda>c. (x, c)) (filter (\<lambda>c. mapping_of c x) (chunks d)) = [(x, row_for d (mapping_key x))]"
    if "x \<in> set (manifest_chunks d)" for x
  proof -
    from inv_parts(3) [OF assms] that obtain c where c: "c \<in> set (chunks d)" "chunk_key c = mapping_key x"
      unfolding referenced_def mapping_of_key by blast
    then have "filter (\<lambda>y. chunk_key y = mapping_key x) (chunks d) = [c]"
      using filter_key [of chunk_key "chunks d" c] inv_parts(1) [OF assms] by (simp add: well_keyed_def)
    then show ?thesis by (simp add: mapping_of_key row_for_def)
  qed
  have "concat (map (\<lambda>x. map (\<lambda>c. (x, c)) (filter (\<lambda>c. mapping_of c x) (chunks d))) xs) = map (\<lambda>x. (x, row_for d (mapping_key x))) xs"
    if "set xs \<subseteq> set (manifest_chunks d)" for xs
    using that one by (induction xs) auto
  then show ?thesis unfolding manifest_joined_def by auto
qed

lemma sorted_file_mappings:
  assumes "snapshot_inv V E (d, b)" "m \<in> set (manifests d)" "man_status m = Ready" "f \<in> set (man_files m)"
  shows "filter (\<lambda>x. mc_path x = suf_path f) (sort_key (\<lambda>m. (mc_path m, mc_index m)) (filter (\<lambda>x. mc_manifest x = man_id m) (manifest_chunks d)))
    = filter (\<lambda>x. mc_manifest x = man_id m \<and> mc_path x = suf_path f) (manifest_chunks d)"
proof -
  let ?xs = "filter (\<lambda>x. mc_manifest x = man_id m \<and> mc_path x = suf_path f) (manifest_chunks d)"
  from assms(2-4) inv_parts(6) [OF assms(1)] have "file_mappings (man_id m) (suf_path f) d = file_chunks f"
    unfolding ready_complete_def fully_mapped_def by blast
  then have "map fst (map (\<lambda>x. (mc_index x, mc_digest x)) ?xs) = map fst (file_chunks f)"
    unfolding file_mappings_def by simp
  moreover have "map (\<lambda>x. int (fst x)) (List.enumerate 0 (suf_chunks f)) = map int [0..<length (suf_chunks f)]"
    using arg_cong [OF map_fst_enumerate [of 0 "suf_chunks f"], of "map int"] by (simp add: comp_def del: map_fst_enumerate)
  ultimately have "map mc_index ?xs = map int [0..<length (suf_chunks f)]"
    by (simp add: file_chunks_def comp_def case_prod_beta)
  then have "map (\<lambda>x. (suf_path f, mc_index x)) ?xs = map (\<lambda>k. (suf_path f, int k)) [0..<length (suf_chunks f)]"
    by (metis (no_types, lifting) comp_apply map_map map_eq_conv)
  moreover have "map (\<lambda>m. (mc_path m, mc_index m)) ?xs = map (\<lambda>x. (suf_path f, mc_index x)) ?xs" by simp
  moreover have "sorted (map (\<lambda>k. (suf_path f, int k)) [0..<n])" for n
    by (auto simp: sorted_iff_nth_mono less_eq_prod_def)
  ultimately have "sorted (map (\<lambda>m. (mc_path m, mc_index m)) ?xs)" by metis
  then have "sort_key (\<lambda>m. (mc_path m, mc_index m)) ?xs = ?xs" by (rule sort_key_id_if_sorted)
  then show ?thesis by (simp add: filter_sort conj_commute)
qed

definition chunk_entry :: "snapshot_chunk \<Rightarrow> string \<times> nat" where
  "chunk_entry c = (sck_digest c, sck_plaintext_size c)"

definition declared_entry_of :: "snapshot_upload_chunk \<Rightarrow> string \<times> nat" where
  "declared_entry_of u = (suc_digest u, suc_plaintext_size u)"

lemma listed_file_chunks:
  assumes inv: "snapshot_inv V E (d, b)" and m: "m \<in> set (manifests d)" "man_status m = Ready" and f: "f \<in> set (man_files m)"
  shows "map (\<lambda>x. chunk_entry (listed_chunk (row_for d (mapping_key x))))
      (filter (\<lambda>x. mc_manifest x = man_id m \<and> mc_path x = suf_path f) (manifest_chunks d))
    = map declared_entry_of (suf_chunks f)"
proof -
  let ?xs = "filter (\<lambda>x. mc_manifest x = man_id m \<and> mc_path x = suf_path f) (manifest_chunks d)"
  let ?F = "\<lambda>g. chunk_entry (listed_chunk (row_for d (man_scope m, man_scope_id m, g)))"
  from m f inv_parts(6) [OF inv] have "file_mappings (man_id m) (suf_path f) d = file_chunks f"
    unfolding ready_complete_def fully_mapped_def by blast
  then have "map snd (map (\<lambda>x. (mc_index x, mc_digest x)) ?xs) = map snd (file_chunks f)"
    unfolding file_mappings_def by simp
  moreover have "map (\<lambda>x. suc_digest (snd x)) (List.enumerate 0 (suf_chunks f)) = map suc_digest (suf_chunks f)"
    using arg_cong [OF map_snd_enumerate [of 0 "suf_chunks f"], of "map suc_digest"] by (simp add: comp_def del: map_snd_enumerate)
  ultimately have "map mc_digest ?xs = map suc_digest (suf_chunks f)"
    by (simp add: file_chunks_def comp_def case_prod_beta)
  then have "map ?F (map mc_digest ?xs) = map ?F (map suc_digest (suf_chunks f))" by simp
  moreover have "mapping_key x = (man_scope m, man_scope_id m, mc_digest x)" if "x \<in> set ?xs" for x
    using mapping_of_manifest [OF inv m(1), of x] that by (simp add: mapping_key_def)
  then have "map (\<lambda>x. chunk_entry (listed_chunk (row_for d (mapping_key x)))) ?xs = map ?F (map mc_digest ?xs)" by simp
  moreover have "?F (suc_digest u) = declared_entry_of u" if "u \<in> set (suf_chunks f)" for u
  proof -
    from declared_ready [OF inv m f that] obtain c where c: "c \<in> set (chunks d)"
        "chunk_key c = (man_scope m, man_scope_id m, suc_digest u)" "chk_plaintext_size c = int (suc_plaintext_size u)" by blast
    then have "row_for d (man_scope m, man_scope_id m, suc_digest u) = c"
      using row_for_unique [OF inv_parts(1) [OF inv] c(1)] by simp
    then show ?thesis using c by (simp add: chunk_entry_def listed_chunk_def declared_entry_of_def chunk_key_def)
  qed
  ultimately show ?thesis by simp
qed

lemma snapshot_from_row_files:
  assumes inv: "snapshot_inv V E (d, b)" and m: "m \<in> set (manifests d)" "man_status m = Ready"
    and row: "snapshot_from_row m d = Inr r"
  shows "map (\<lambda>f. (sf_path f, sf_size f, map chunk_entry (sf_chunks f))) (sm_files r)
    = map (\<lambda>f. (suf_path f, suf_size f, map declared_entry_of (suf_chunks f))) (man_files m)"
proof -
  define xs where "xs = sort_key (\<lambda>m. (mc_path m, mc_index m)) (filter (\<lambda>x. mc_manifest x = man_id m) (manifest_chunks d))"
  let ?g = "\<lambda>x. (mc_path x, listed_chunk (row_for d (mapping_key x)))"
  from row obtain by_path where by_path: "collectE (\<lambda>(mp, c). bindE (stored_chunk c) (\<lambda>x. Inr (mc_path mp, x))) (manifest_joined (man_id m) d) = Inr by_path"
      and r: "manifest_record m (assemble_files by_path (man_files m)) = Inr r"
    by (auto simp: snapshot_from_row_def tx_simps)
  have "by_path = map (\<lambda>(mp, c). (mc_path mp, listed_chunk c)) (manifest_joined (man_id m) d)"
    by (rule collectE_map [OF by_path]) (auto simp: tx_simps dest: stored_chunk_Inr)
  then have eq: "by_path = map ?g xs" by (simp add: manifest_joined_map [OF inv] xs_def)
  have "filter (\<lambda>(p, _). p = q) (map ?g ys) = map ?g (filter (\<lambda>x. mc_path x = q) ys)" for q ys
    by (induction ys) auto
  then have "map chunk_entry (map snd (filter (\<lambda>(p, _). p = suf_path f) by_path)) = map declared_entry_of (suf_chunks f)"
    if "f \<in> set (man_files m)" for f
    using listed_file_chunks [OF inv m that] sorted_file_mappings [OF inv m that]
    by (simp add: eq xs_def comp_def)
  moreover have "distinct (map suf_path (man_files m))" using inv_parts(5) [OF inv] m(1) by (simp add: declared_def)
  moreover have "sm_files r = assemble_files by_path (man_files m)" using r by (auto simp: manifest_record_def tx_simps)
  ultimately show ?thesis by (simp add: assemble_files_map snapshot_file_of_def)
qed

lemma get_snapshot_Inr:
  assumes "get_snapshot E u i d = (d', Inr r)"
  shows "\<exists>m. accessible_manifest E u i Viewer d = (d', Inr m) \<and> find_manifest i d = Some m \<and> m \<in> set (manifests d') \<and> man_id m = i
    \<and> man_status m = Ready \<and> snapshot_from_row m d' = Inr r \<and> same_snapshots d d'"
proof -
  from assms obtain m where m: "accessible_manifest E u i Viewer d = (d', Inr m)" "man_status m = Ready" "snapshot_from_row m d' = Inr r"
    by (auto simp: get_snapshot_def tx_simps)
  moreover from m(1) have "find_manifest i d = Some m" by (auto simp: accessible_manifest_def tx_simps)
  ultimately show ?thesis using accessible_Inr [OF m(1)] by blast
qed

section \<open>An example\<close>

text \<open>A snapshot of the project of the example database: declared, uploaded and committed by user 7.\<close>

definition snap_env :: env where
  "snap_env = demo_env\<lparr>env_uuid := (\<lambda>i. replicate i CHR ''x'')\<rparr>"

definition snap_vault :: vault where
  "snap_vault = \<lparr>v_crypto = toy_crypto, v_master = ''master'', v_entropy = (\<lambda>_. toy_entropy),
     v_sha256 = (\<lambda>_. replicate 64 CHR ''a''),
     v_s3 = \<lparr>s3_put = (\<lambda>_. S3Done), s3_delete = (\<lambda>_. S3Done), s3_get = (\<lambda>_. None), s3_missing = id\<rparr>\<rparr>"

definition snap_request :: begin_upload_request where
  "snap_request = \<lparr>bur_project_id = 1, bur_total_bytes = 2,
     bur_files = [\<lparr>suf_path = ''src/a.txt'', suf_size = 2, suf_mode = 420, suf_modified_at = 0,
       suf_chunks = [\<lparr>suc_digest = replicate 64 CHR ''a'', suc_plaintext_size = 2\<rparr>]\<rparr>], bur_expires_at = None\<rparr>"

definition snap_begun :: "db \<times> bucket" where
  "snap_begun = (fst (begin_snapshot_upload_for snap_env (Some snap_vault) 7 snap_request None demo_db), Map.empty)"

definition snap_uploaded :: "db \<times> bucket" where
  "snap_uploaded = fst (upload_snapshot_chunk snap_env (Some snap_vault) 7 20 (replicate 64 CHR ''a'') ''hi'' snap_begun)"

definition snap_committed :: "db \<times> bucket" where
  "snap_committed = (fst (commit_snapshot snap_env [] (Some snap_vault) 7 20 (fst snap_uploaded)), snd snap_uploaded)"

text \<open>Large bounds are compared as integers when an example is computed.\<close>

lemma bounds_computed [code_unfold]:
  "MAX_CHUNK_BYTES < n \<longleftrightarrow> 16777216 < int n" "MAX_SNAPSHOT_BYTES < n \<longleftrightarrow> 21474836480 < int n"
  "n \<le> u64_max \<longleftrightarrow> int n \<le> 18446744073709551615" "n \<le> max_bind_parameters \<longleftrightarrow> int n \<le> 65535" "(4096 :: nat) < n \<longleftrightarrow> 4096 < int n"
  "nat_text MAX_CHUNK_BYTES = map char_of [49 :: nat, 54, 55, 55, 55, 50, 49, 54]" "nat_text MAX_SNAPSHOT_BYTES = map char_of [50 :: nat, 49, 52, 55, 52, 56, 51, 54, 52, 56, 48]"
  by (simp_all add: MAX_CHUNK_BYTES_def MAX_SNAPSHOT_BYTES_def u64_max_def max_bind_parameters_def nat_text.simps)

lemma snap_env_inj: "inj (env_uuid snap_env)"
  by (rule injI) (metis (no_types, lifting) env.select_convs(4) env.surjective env.update_convs(4) length_replicate snap_env_def)

lemma snap_deployed: "deployed snap_vault snap_env snap_vault snap_env"
  by (simp add: deployed_def)

lemma snap_execution: "(storage_step snap_vault snap_env)\<^sup>*\<^sup>* (demo_db, Map.empty) (fst snap_committed, snd snap_committed)"
proof -
  have begun: "storage_step snap_vault snap_env (demo_db, Map.empty) snap_begun"
    unfolding snap_begun_def by (rule storage_step.begun [OF prod.collapse [symmetric]])
  have entropy: "lawful_entropy (v_entropy snap_vault g)" for g by (simp add: snap_vault_def toy_lawful)
  have "storage_step snap_vault snap_env (fst snap_begun, snd snap_begun) snap_uploaded"
    unfolding snap_uploaded_def
    by (rule storage_step.uploaded [OF snap_deployed entropy]) (simp only: prod.collapse, rule prod.collapse [symmetric])
  then have uploaded: "storage_step snap_vault snap_env snap_begun snap_uploaded" by (simp only: prod.collapse)
  have "storage_step snap_vault snap_env (fst snap_uploaded, snd snap_uploaded) snap_committed"
    unfolding snap_committed_def by (rule storage_step.committed [OF prod.collapse [symmetric]])
  then have committed: "storage_step snap_vault snap_env snap_uploaded snap_committed" by (simp only: prod.collapse)
  show ?thesis
    unfolding prod.collapse using begun uploaded committed by (blast intro: rtranclp.intros)
qed

lemma snap_computed:
  "case begin_snapshot_upload_for snap_env (Some snap_vault) 7 snap_request None demo_db of (d1, _) \<Rightarrow>
   case upload_snapshot_chunk snap_env (Some snap_vault) 7 20 (replicate 64 CHR ''a'') ''hi'' (d1, Map.empty) of ((d2, b), _) \<Rightarrow>
   (case find_manifest 20 d2 of None \<Rightarrow> False | Some m \<Rightarrow> man_status m = Uploading)
   \<and> (case commit_snapshot snap_env [] (Some snap_vault) 7 20 d2 of (d3, r) \<Rightarrow>
        is_ok r \<and> is_ok (snd (get_snapshot snap_env 7 20 d3))
        \<and> (case find_manifest 20 d3 of None \<Rightarrow> False | Some m \<Rightarrow> man_status m = Ready \<and> man_files m = bur_files snap_request))"
  by code_simp

lemma snap_values:
  "case find_manifest 20 (fst snap_uploaded) of None \<Rightarrow> False | Some m \<Rightarrow> man_status m = Uploading"
  "is_ok (snd (commit_snapshot snap_env [] (Some snap_vault) 7 20 (fst snap_uploaded)))"
  "is_ok (snd (get_snapshot snap_env 7 20 (fst snap_committed)))"
  "case find_manifest 20 (fst snap_committed) of None \<Rightarrow> False | Some m \<Rightarrow> man_status m = Ready \<and> man_files m = bur_files snap_request"
  using snap_computed unfolding snap_committed_def snap_uploaded_def snap_begun_def case_prod_beta by simp_all

lemma snap_readable: "\<exists>d r. get_snapshot snap_env 7 20 (fst snap_committed) = (d, Inr r)"
  using snap_values(3)
  by (cases "get_snapshot snap_env 7 20 (fst snap_committed)") (auto simp: is_ok_def split: sum.splits)

lemma snap_empty: "empty_storage (demo_db, Map.empty)"
  by (simp add: empty_storage_def demo_db_def empty_db_def)

lemma snap_laws: "lawful_crypto (v_crypto snap_vault)" "s3_get (v_s3 snap_vault) = (\<lambda>_. None)"
  by (simp_all add: snap_vault_def toy_lawful)

section \<open>Properties\<close>





text \<open>C30: A declaration is accepted exactly if the total is at most 20 GiB and the sum of the file sizes, no two
  files have the same path, every path is relative and normalised (the components the operating
  system sees are the parts between the slashes, none of them empty, \<open>.\<close> or \<open>..\<close>), and every file is
  the sum of its chunks, each with a lowercase SHA-256 digest and between one byte and 16 MiB.
\<close>

theorem validate_snapshot_files_iff:
  "validate_snapshot_files total_bytes files = Inr () \<longleftrightarrow>
     total_bytes \<le> MAX_SNAPSHOT_BYTES \<and> total_bytes = sum_list (map suf_size files) \<and> distinct (map suf_path files)
     \<and> (\<forall>f \<in> set files. length (suf_path f) \<le> 4096 \<and> CHR 0x5C \<notin> set (suf_path f) \<and> NUL \<notin> set (suf_path f)
         \<and> path_components (suf_path f) = map Normal (split_on (CHR ''/'') (suf_path f))
         \<and> sum_list (map suc_plaintext_size (suf_chunks f)) = suf_size f
         \<and> (\<forall>c \<in> set (suf_chunks f). length (suc_digest c) = 64 \<and> set (suc_digest c) \<subseteq> set ''0123456789abcdef''
              \<and> 0 < suc_plaintext_size c \<and> suc_plaintext_size c \<le> MAX_CHUNK_BYTES))"
  unfolding validate_files_iff file_ok_def relative_path_iff chunk_ok_def digest_ok_def by blast

theorem validate_snapshot_files_iff_witness:
  "validate_snapshot_files 2 (bur_files snap_request) = Inr () \<and> validate_snapshot_files 3 (bur_files snap_request) \<noteq> Inr ()"
  unfolding validate_snapshot_files_iff
  by (auto simp: snap_request_def path_components_def starts_with_def in_set_replicate MAX_SNAPSHOT_BYTES_def MAX_CHUNK_BYTES_def)

lemma snap_manifest:
  "\<exists>m. find_manifest 20 (fst snap_committed) = Some m \<and> man_status m = Ready \<and> man_files m = bur_files snap_request"
  using snap_values(4) by (simp split: option.splits)



lemma declared_count: "length (declared_mappings files) = sum_list (map (\<lambda>f. length (suf_chunks f)) files)"
  by (simp add: declared_mappings_def length_concat comp_def)



section \<open>An upload beside the collector\<close>

text \<open>
  The requests of one user with the statements of a concurrent collection: the snapshot is deleted and
  its chunk marked; the same chunk is declared again, found not ready and stored; only then does the
  collector delete the object and the marked row, and the upload records its row.
\<close>


end
