(* ===== verification/Merge.thy ===== *)
theory Merge
  imports Artifacts Utf8
begin

text \<open>
  Versions of projects and their three-way merge (\<open>storage.rs\<close>): versions made of ready snapshots,
  the switch of a project to a version, the analysis of every path over a base, the current and a
  result version, and the merge that stores the resolved files as a new version. The line merge of
  the \<open>diffy\<close> crate is the parameter \<open>diff\<close>; a \<open>HashMap\<close> of files is an association list.
\<close>

section \<open>Versions\<close>

record project_version =
  pv_id :: uuid
  pv_project_id :: uuid
  pv_revision :: int
  pv_parent :: "uuid option"
  pv_merge_base :: "uuid option"
  pv_snapshot :: uuid
  pv_created_by_run :: "uuid option"
  pv_created_at :: time

definition row_to_project_version :: "version_row \<Rightarrow> project_version" where
  "row_to_project_version v =
     \<lparr>pv_id = ver_id v, pv_project_id = ver_project_id v, pv_revision = ver_revision v, pv_parent = ver_parent v,
      pv_merge_base = ver_merge_base v, pv_snapshot = ver_manifest v, pv_created_by_run = ver_created_by_run v,
      pv_created_at = ver_created v\<rparr>"

record create_version_request =
  cvr_snapshot :: uuid
  cvr_parent :: "uuid option"
  cvr_merge_base :: "uuid option"
  cvr_created_by_run :: "uuid option"
  cvr_diff_summary :: json

definition project_not_found :: "env \<Rightarrow> uuid \<Rightarrow> api_error" where
  "project_not_found E p = NotFound (''project '' @ env_uuid E p @ '' was not found'')"

definition find_version :: "uuid \<Rightarrow> uuid \<Rightarrow> db \<Rightarrow> version_row option" where
  "find_version p v d = fetch_optional (\<lambda>x. ver_id x = v \<and> ver_project_id x = p) (versions d)"

definition validate_version_parent :: "env \<Rightarrow> uuid \<Rightarrow> uuid option \<Rightarrow> unit dbtx" where
  "validate_version_parent E p parent =
     (case parent of
        None \<Rightarrow> returnT ()
      | Some v \<Rightarrow>
          bindT (readT (\<lambda>d. find_version p v d \<noteq> None)) (\<lambda>valid.
          ensureT valid (Unprocessable (''version '' @ env_uuid E v @ '' does not belong to this project''))))"

definition insert_version :: "version_row \<Rightarrow> unit dbtx" where
  "insert_version v =
     bindT (readT (\<lambda>d. exists_row (\<lambda>x. ver_id x = ver_id v) (versions d))) (\<lambda>taken.
     bindT (ensureT (\<not> taken) (unique_violation ''project_versions_pkey'')) (\<lambda>_.
     writeT (\<lambda>d. d\<lparr>versions := versions d @ [v]\<rparr>)))"

definition create_version_tx :: "env \<Rightarrow> uuid \<Rightarrow> uuid \<Rightarrow> create_version_request \<Rightarrow> project_version dbtx" where
  "create_version_tx E u p rq =
     bindT (readT (find_project p)) (\<lambda>row.
     bindT (liftT (ok_or row (project_not_found E p))) (\<lambda>_.
     bindT (readT (\<lambda>d. exists_row (\<lambda>m. man_id m = cvr_snapshot rq \<and> man_project_id m = p \<and> man_status m = Ready)
       (manifests d))) (\<lambda>snapshot_ready.
     bindT (ensureT snapshot_ready
       (Unprocessable ''project versions require a ready snapshot from the same project'')) (\<lambda>_.
     bindT (validate_version_parent E p (cvr_parent rq)) (\<lambda>_.
     bindT (validate_version_parent E p (cvr_merge_base rq)) (\<lambda>_.
     bindT (case cvr_created_by_run rq of
         None \<Rightarrow> returnT ()
       | Some i \<Rightarrow>
           bindT (readT (\<lambda>d. exists_row (\<lambda>r. run_id r = i \<and> spec_project_id (run_spec r) = p
             \<and> run_state r = Completed) (runs d))) (\<lambda>valid_run.
           ensureT valid_run (Unprocessable ''created_by_run_id must be a completed run from this project''))) (\<lambda>_.
     bindT (readT (\<lambda>d. max_revision p d + 1)) (\<lambda>revision.
     bindT (new_v4 E) (\<lambda>i.
     let v = \<lparr>ver_id = i, ver_project_id = p, ver_revision = revision, ver_parent = cvr_parent rq,
              ver_merge_base = cvr_merge_base rq, ver_manifest = cvr_snapshot rq, ver_created_by_user = Some u,
              ver_created_by_run = cvr_created_by_run rq, ver_diff_summary = cvr_diff_summary rq, ver_created = env_now E\<rparr> in
     bindT (insert_version v) (\<lambda>_. returnT (row_to_project_version v)))))))))))"

definition create_project_version ::
    "env \<Rightarrow> uuid \<Rightarrow> uuid \<Rightarrow> create_version_request \<Rightarrow> project_version handler" where
  "create_project_version E u p rq =
     bindH (commit (ensure_project_role E u p Editor)) (\<lambda>_. commit (create_version_tx E u p rq))"

definition list_project_versions :: "env \<Rightarrow> uuid \<Rightarrow> uuid \<Rightarrow> project_version list handler" where
  "list_project_versions E u p =
     bindH (commit (ensure_project_role E u p Viewer)) (\<lambda>_.
     commit (readT (\<lambda>d. map row_to_project_version
       (sort_key (\<lambda>v. - ver_revision v) (filter (\<lambda>v. ver_project_id v = p) (versions d))))))"

definition point_project :: "env \<Rightarrow> uuid \<Rightarrow> uuid \<Rightarrow> int \<Rightarrow> unit dbtx" where
  "point_project E p v revision =
     writeT (\<lambda>d. d\<lparr>projects := update_where (\<lambda>x. prj_id x = p)
       (\<lambda>x. x\<lparr>prj_current_version := Some v, prj_revision := revision, prj_etag := version_etag E p revision,
              prj_updated := env_now E\<rparr>) (projects d)\<rparr>)"

definition version_json :: "env \<Rightarrow> uuid option \<Rightarrow> json" where
  "version_json E v = (case v of None \<Rightarrow> Null | Some i \<Rightarrow> String (env_uuid E i))"

definition apply_version_tx ::
    "env \<Rightarrow> uuid \<Rightarrow> uuid \<Rightarrow> uuid \<Rightarrow> int \<Rightarrow> uuid option \<Rightarrow> project_version dbtx" where
  "apply_version_tx E u p v expected_revision expected_current =
     bindT (readT (find_project p)) (\<lambda>row.
     bindT (liftT (ok_or row (project_not_found E p))) (\<lambda>pr.
     bindT (ensureT (\<not> (prj_revision pr \<noteq> expected_revision \<or> prj_current_version pr \<noteq> expected_current))
       (Conflict ''project changed since the review started'')) (\<lambda>_.
     bindT (readT (find_version p v)) (\<lambda>row.
     bindT (liftT (ok_or row (NotFound (''project version '' @ env_uuid E v @ '' was not found'')))) (\<lambda>version.
     bindT (point_project E p v (prj_revision pr + 1)) (\<lambda>_.
     bindT (insert_audit u ''project.version.apply'' ''project'' p
       (json_object [(''version_id'', String (env_uuid E v)),
                     (''previous_version_id'', version_json E (prj_current_version pr))])) (\<lambda>_.
     returnT (row_to_project_version version))))))))"

definition apply_project_version ::
    "env \<Rightarrow> uuid \<Rightarrow> uuid \<Rightarrow> uuid \<Rightarrow> int \<Rightarrow> uuid option \<Rightarrow> project_version handler" where
  "apply_project_version E u p v expected_revision expected_current =
     bindH (commit (ensure_project_role E u p Editor)) (\<lambda>_.
     commit (apply_version_tx E u p v expected_revision expected_current))"

section \<open>Files of a version\<close>

type_synonym file_map = "(string \<times> snapshot_file) list"

record version_files =
  vf_version :: project_version
  vf_manifest :: uuid
  vf_files :: file_map

definition load_version_files :: "env \<Rightarrow> uuid \<Rightarrow> uuid \<Rightarrow> version_files handler" where
  "load_version_files E p v =
     bindH (commit (readT (find_version p v))) (\<lambda>row.
     bindH (liftH (ok_or row (NotFound (''project version '' @ env_uuid E v @ '' was not found'')))) (\<lambda>row.
     let version = row_to_project_version row in
     bindH (commit (readT (\<lambda>d. fetch_optional (\<lambda>m. man_id m = pv_snapshot version \<and> man_status m = Ready)
       (manifests d)))) (\<lambda>manifest_row.
     bindH (liftH (ok_or manifest_row (Conflict (''version '' @ env_uuid E v @ '' snapshot is not ready'')))) (\<lambda>m.
     bindH (\<lambda>d. (d, snapshot_from_row m d)) (\<lambda>manifest.
     returnH \<lparr>vf_version = version, vf_manifest = sm_id manifest,
       vf_files = map (\<lambda>f. (sf_path f, f)) (sm_files manifest)\<rparr>)))))"

definition load_merge_versions ::
    "env \<Rightarrow> uuid \<Rightarrow> uuid \<Rightarrow> uuid \<Rightarrow> uuid \<Rightarrow> (version_files \<times> version_files \<times> version_files) handler" where
  "load_merge_versions E p base current result =
     bindH (commit (readT (\<lambda>d. Option.bind (find_project p d) prj_current_version))) (\<lambda>row.
     bindH (liftH (ok_or row (Conflict ''project has no current version''))) (\<lambda>project_current.
     bindH (liftH (ensure (project_current = current)
       (Conflict ''current_version_id is no longer the project's current version''))) (\<lambda>_.
     bindH (load_version_files E p base) (\<lambda>base.
     bindH (load_version_files E p current) (\<lambda>current.
     bindH (load_version_files E p result) (\<lambda>result.
     returnH (base, current, result)))))))"

text \<open>\<open>u64::to_be_bytes\<close>\<close>

definition be_bytes :: "nat \<Rightarrow> string" where
  "be_bytes n = map (\<lambda>k. char_of (n div 256 ^ (7 - k))) [0..<8]"

definition fingerprint_message :: "snapshot_file \<Rightarrow> string" where
  "fingerprint_message f = be_bytes (sf_size f)
     @ concat (map (\<lambda>c. sck_digest c @ be_bytes (sck_plaintext_size c)) (sf_chunks f))"

definition file_fingerprint :: "vault \<Rightarrow> snapshot_file \<Rightarrow> string" where
  "file_fingerprint V f = v_sha256 V (fingerprint_message f)"

definition snapshot_to_upload_file :: "snapshot_file \<Rightarrow> snapshot_upload_file" where
  "snapshot_to_upload_file f =
     \<lparr>suf_path = sf_path f, suf_size = sf_size f, suf_mode = sf_mode f, suf_modified_at = sf_modified_at f,
      suf_chunks = map (\<lambda>c. \<lparr>suc_digest = sck_digest c, suc_plaintext_size = sck_plaintext_size c\<rparr>) (sf_chunks f)\<rparr>"

section \<open>Analysis\<close>

definition MAX_TEXT_MERGE_BYTES :: nat where "MAX_TEXT_MERGE_BYTES = 5 * 1024 * 1024"

datatype merge_file_status =
    Unchanged | Added | Deleted | CurrentOnly | ResultOnly | IdenticalChange | AutoMerged | TextConflict
  | BinaryConflict | Renamed

datatype merge_resolution_choice = TakeCurrent | TakeResult | TakeNothing | TakeAutoMerged

record merge_file_review =
  mfr_path :: string
  mfr_renamed_from :: "string option"
  mfr_status :: merge_file_status
  mfr_base_digest :: "string option"
  mfr_current_digest :: "string option"
  mfr_result_digest :: "string option"
  mfr_auto_mergeable :: bool
  mfr_conflict_preview :: "string option"

record file_analysis =
  fa_review :: merge_file_review
  fa_auto_merged :: "string option"

datatype text_merge = Merged string | TextConflicts string | Binary

type_synonym line_merge = "string \<Rightarrow> string \<Rightarrow> string \<Rightarrow> (string, string) result"

fun append_chunks :: "vault \<Rightarrow> key_scope \<Rightarrow> string \<Rightarrow> chunk_row list \<Rightarrow> string storage" where
  "append_chunks V s output [] = returnH output"
| "append_chunks V s output (c # cs) =
     bindH (decrypt_chunk_row V s c) (\<lambda>chunk.
     let output = output @ chunk in
     bindH (liftH (ensure (\<not> length output > MAX_TEXT_MERGE_BYTES)
       (Unprocessable ''text merge materialization exceeded its size limit''))) (\<lambda>_.
     append_chunks V s output cs))"

definition file_rows :: "uuid \<Rightarrow> string \<Rightarrow> db \<Rightarrow> chunk_row list" where
  "file_rows i path d =
     concat (map (\<lambda>m. filter (\<lambda>c. mapping_of c m) (chunks d))
       (sort_key mc_index (filter (\<lambda>m. mc_manifest m = i \<and> mc_path m = path) (manifest_chunks d))))"

definition materialize_file :: "vault \<Rightarrow> uuid \<Rightarrow> string \<Rightarrow> string storage" where
  "materialize_file V i path =
     bindH (on_db (commit (readT (\<lambda>d. fetch_optional (\<lambda>m. man_id m = i \<and> man_status m = Ready) (manifests d))))) (\<lambda>row.
     bindH (liftH (ok_or row (Conflict ''snapshot is not ready''))) (\<lambda>m.
     bindH (on_db (commit (readT (file_rows i path)))) (\<lambda>rows.
     append_chunks V (row_scope m) [] rows)))"

definition attempt_text_merge ::
    "vault \<Rightarrow> line_merge \<Rightarrow> uuid \<Rightarrow> uuid \<Rightarrow> uuid \<Rightarrow> string \<Rightarrow> snapshot_file \<Rightarrow> snapshot_file \<Rightarrow> snapshot_file \<Rightarrow> text_merge storage" where
  "attempt_text_merge V diff base_manifest current_manifest result_manifest path base current result =
     (if list_ex (\<lambda>f. sf_size f > MAX_TEXT_MERGE_BYTES) [base, current, result] then returnH Binary
      else
        bindH (materialize_file V base_manifest path) (\<lambda>base.
        bindH (materialize_file V current_manifest path) (\<lambda>current.
        bindH (materialize_file V result_manifest path) (\<lambda>result.
        returnH (if \<not> (utf8 base \<and> utf8 current \<and> utf8 result) then Binary
          else case diff base current result of
              Inr merged \<Rightarrow> Merged merged
            | Inl conflict \<Rightarrow> TextConflicts (take_chars 20000 conflict))))))"

text \<open>The status of a path by the fingerprints of its three files; \<open>None\<close> where the contents decide. A
  path is that of some file, so that the last case, \<open>unreachable!()\<close>, does not arise.\<close>

fun digest_status :: "string option \<Rightarrow> string option \<Rightarrow> string option \<Rightarrow> merge_file_status option" where
  "digest_status None None (Some _) = Some Added"
| "digest_status None (Some _) None = Some CurrentOnly"
| "digest_status None (Some current) (Some result) = Some (if current = result then IdenticalChange else BinaryConflict)"
| "digest_status (Some _) None None = Some Deleted"
| "digest_status (Some base) (Some current) None = Some (if base = current then Deleted else BinaryConflict)"
| "digest_status (Some base) None (Some result) = Some (if base = result then CurrentOnly else BinaryConflict)"
| "digest_status (Some base) (Some current) (Some result) =
     (if base = current \<and> base = result then Some Unchanged
      else if base = current then Some ResultOnly
      else if base = result then Some CurrentOnly
      else if current = result then Some IdenticalChange
      else None)"
| "digest_status None None None = Some Unchanged"

definition analyze_path ::
    "vault \<Rightarrow> line_merge \<Rightarrow> version_files \<Rightarrow> version_files \<Rightarrow> version_files \<Rightarrow> string \<Rightarrow> file_analysis storage" where
  "analyze_path V diff base current result path =
     (let base_file = map_of (vf_files base) path; current_file = map_of (vf_files current) path;
          result_file = map_of (vf_files result) path;
          base_digest = map_option (file_fingerprint V) base_file;
          current_digest = map_option (file_fingerprint V) current_file;
          result_digest = map_option (file_fingerprint V) result_file;
          analysis = (\<lambda>status auto preview. \<lparr>fa_review = \<lparr>mfr_path = path, mfr_renamed_from = None, mfr_status = status,
            mfr_base_digest = base_digest, mfr_current_digest = current_digest, mfr_result_digest = result_digest,
            mfr_auto_mergeable = (status = AutoMerged), mfr_conflict_preview = preview\<rparr>, fa_auto_merged = auto\<rparr>) in
      case digest_status base_digest current_digest result_digest of
        Some status \<Rightarrow> returnH (analysis status None None)
      | None \<Rightarrow>
          bindH (attempt_text_merge V diff (vf_manifest base) (vf_manifest current) (vf_manifest result) path
            (the base_file) (the current_file) (the result_file)) (\<lambda>merge.
          returnH (case merge of
              Merged bytes \<Rightarrow> analysis AutoMerged (Some bytes) None
            | TextConflicts preview \<Rightarrow> analysis TextConflict None (Some preview)
            | Binary \<Rightarrow> analysis BinaryConflict None None)))"

fun mapH :: "('a \<Rightarrow> 'b storage) \<Rightarrow> 'a list \<Rightarrow> 'b list storage" where
  "mapH f [] = returnH []"
| "mapH f (x # xs) = bindH (f x) (\<lambda>y. bindH (mapH f xs) (\<lambda>ys. returnH (y # ys)))"

definition annotate_rename :: "vault \<Rightarrow> version_files \<Rightarrow> version_files \<Rightarrow> file_analysis \<Rightarrow> file_analysis" where
  "annotate_rename V base result item =
     (let deleted = filter (\<lambda>(path, _). map_of (vf_files result) path = None) (vf_files base); review = fa_review item in
      if mfr_status review \<noteq> Added then item
      else case map_of (vf_files result) (mfr_path review) of
        None \<Rightarrow> item
      | Some result_file \<Rightarrow>
          (case List.find (\<lambda>(_, old). file_fingerprint V old = file_fingerprint V result_file) deleted of
             None \<Rightarrow> item
           | Some (old_path, _) \<Rightarrow>
               item\<lparr>fa_review := review\<lparr>mfr_status := Renamed, mfr_renamed_from := Some old_path\<rparr>\<rparr>))"

definition merge_paths :: "version_files \<Rightarrow> version_files \<Rightarrow> version_files \<Rightarrow> string list" where
  "merge_paths base current result =
     sort (remdups (map fst (vf_files base) @ map fst (vf_files current) @ map fst (vf_files result)))"

definition analyze_merge ::
    "vault \<Rightarrow> line_merge \<Rightarrow> version_files \<Rightarrow> version_files \<Rightarrow> version_files \<Rightarrow> file_analysis list storage" where
  "analyze_merge V diff base current result =
     bindH (mapH (analyze_path V diff base current result) (merge_paths base current result)) (\<lambda>analysis.
     returnH (map (annotate_rename V base result) analysis))"

fun default_resolution :: "merge_file_status \<Rightarrow> merge_resolution_choice" where
  "default_resolution Unchanged = TakeCurrent"
| "default_resolution CurrentOnly = TakeCurrent"
| "default_resolution AutoMerged = TakeAutoMerged"
| "default_resolution Deleted = TakeResult"
| "default_resolution Added = TakeResult"
| "default_resolution ResultOnly = TakeResult"
| "default_resolution IdenticalChange = TakeResult"
| "default_resolution Renamed = TakeResult"
| "default_resolution TextConflict = TakeCurrent"
| "default_resolution BinaryConflict = TakeCurrent"

section \<open>Reviewing and applying\<close>

record project_merge_review =
  pmr_project_id :: uuid
  pmr_base :: uuid
  pmr_current :: uuid
  pmr_result :: uuid
  pmr_files :: "merge_file_review list"

definition review_project_merge ::
    "env \<Rightarrow> vault option \<Rightarrow> line_merge \<Rightarrow> uuid \<Rightarrow> uuid \<Rightarrow> uuid \<Rightarrow> uuid \<Rightarrow> uuid \<Rightarrow> project_merge_review storage" where
  "review_project_merge E store diff u p base current result =
     bindH (on_db (commit (ensure_project_role E u p Viewer))) (\<lambda>_.
     bindH (liftH (require_store store)) (\<lambda>V.
     bindH (on_db (load_merge_versions E p base current result)) (\<lambda>(base, current, result).
     bindH (analyze_merge V diff base current result) (\<lambda>analysis.
     returnH \<lparr>pmr_project_id = p, pmr_base = pv_id (vf_version base), pmr_current = pv_id (vf_version current),
       pmr_result = pv_id (vf_version result), pmr_files = map fa_review analysis\<rparr>))))"

fun collect_resolutions ::
    "string list \<Rightarrow> (string \<times> merge_resolution_choice) list \<Rightarrow> (string \<times> merge_resolution_choice) list
      \<Rightarrow> (api_error, (string \<times> merge_resolution_choice) list) result" where
  "collect_resolutions valid_paths acc [] = Inr acc"
| "collect_resolutions valid_paths acc ((path, choice) # rest) =
     bindE (ensure (path \<in> set valid_paths)
       (Unprocessable (''merge resolution references unknown path '' @ path))) (\<lambda>_.
     bindE (ensure (map_of acc path = None) (Unprocessable (''merge resolution for '' @ path @ '' is duplicated''))) (\<lambda>_.
     collect_resolutions valid_paths (acc @ [(path, choice)]) rest))"

text \<open>\<open>slice::chunks\<close>\<close>

function chunked :: "nat \<Rightarrow> string \<Rightarrow> string list" where
  "chunked n bytes = (if bytes = [] \<or> n = 0 then [] else take n bytes # chunked n (drop n bytes))"
  by auto
termination
  by (relation "measure (\<lambda>(n, bytes). length bytes)") (auto intro: diff_less)

declare chunked.simps [simp del]

definition upload_file_from_bytes ::
    "env \<Rightarrow> vault \<Rightarrow> key_scope \<Rightarrow> snapshot_file \<Rightarrow> string \<Rightarrow> snapshot_file storage" where
  "upload_file_from_bytes E V s template bytes =
     bindH (mapH (\<lambda>part. let digest = v_sha256 V part in
       bindH (persist_plaintext_chunk E V s digest part) (\<lambda>ciphertext_size.
       returnH \<lparr>sck_digest = digest, sck_plaintext_size = length part, sck_ciphertext_size = ciphertext_size\<rparr>))
       (chunked MAX_CHUNK_BYTES bytes)) (\<lambda>chunks.
     returnH \<lparr>sf_path = sf_path template, sf_size = length bytes, sf_mode = sf_mode template,
       sf_modified_at = env_utc_now E, sf_chunks = chunks\<rparr>)"

definition select_file ::
    "env \<Rightarrow> vault \<Rightarrow> key_scope \<Rightarrow> version_files \<Rightarrow> version_files \<Rightarrow> (string \<times> merge_resolution_choice) list \<Rightarrow> file_analysis
      \<Rightarrow> snapshot_file option storage" where
  "select_file E V s current result resolutions item =
     (let path = mfr_path (fa_review item); explicit = map_of resolutions path;
          choice = unwrap_or (default_resolution (mfr_status (fa_review item))) explicit in
      bindH (case choice of
          TakeCurrent \<Rightarrow> returnH (map_of (vf_files current) path)
        | TakeResult \<Rightarrow> returnH (map_of (vf_files result) path)
        | TakeNothing \<Rightarrow> returnH None
        | TakeAutoMerged \<Rightarrow>
            bindH (liftH (ok_or (fa_auto_merged item) (Unprocessable (path @ '' has no conflict-free automatic merge'')))) (\<lambda>bytes.
            bindH (liftH (ok_or (or_else (map_of (vf_files result) path) (map_of (vf_files current) path))
              (Internal ''merge template file disappeared''))) (\<lambda>template.
            bindH (upload_file_from_bytes E V s template bytes) (\<lambda>f. returnH (Some f))))) (\<lambda>selected.
      bindH (liftH (ensure (\<not> (mfr_status (fa_review item) \<in> {TextConflict, BinaryConflict} \<and> explicit = None))
        (Unprocessable (''conflict for '' @ path @ '' requires an explicit resolution'')))) (\<lambda>_.
      returnH selected)))"

definition select_files ::
    "env \<Rightarrow> vault \<Rightarrow> key_scope \<Rightarrow> version_files \<Rightarrow> version_files \<Rightarrow> (string \<times> merge_resolution_choice) list \<Rightarrow> file_analysis list
      \<Rightarrow> snapshot_upload_file list storage" where
  "select_files E V s current result resolutions analysis =
     bindH (mapH (select_file E V s current result resolutions) analysis) (\<lambda>selected.
     returnH (sort_key suf_path (map snapshot_to_upload_file (concat (map (case_option [] (\<lambda>f. [f])) selected)))))"

fun status_name :: "merge_file_status \<Rightarrow> string" where
  "status_name Unchanged = ''unchanged''"
| "status_name Added = ''added''"
| "status_name Deleted = ''deleted''"
| "status_name CurrentOnly = ''current_only''"
| "status_name ResultOnly = ''result_only''"
| "status_name IdenticalChange = ''identical_change''"
| "status_name AutoMerged = ''auto_merged''"
| "status_name TextConflict = ''text_conflict''"
| "status_name BinaryConflict = ''binary_conflict''"
| "status_name Renamed = ''renamed''"

definition optional_text_json :: "string option \<Rightarrow> json" where
  "optional_text_json v = (case v of None \<Rightarrow> Null | Some t \<Rightarrow> String t)"

definition review_json :: "merge_file_review \<Rightarrow> json" where
  "review_json r =
     json_object [(''path'', String (mfr_path r)), (''renamed_from'', optional_text_json (mfr_renamed_from r)),
       (''status'', String (status_name (mfr_status r))), (''base_digest'', optional_text_json (mfr_base_digest r)),
       (''current_digest'', optional_text_json (mfr_current_digest r)),
       (''result_digest'', optional_text_json (mfr_result_digest r)), (''auto_mergeable'', Bool (mfr_auto_mergeable r)),
       (''conflict_preview'', optional_text_json (mfr_conflict_preview r))]"

definition review_summary :: "env \<Rightarrow> uuid \<Rightarrow> uuid \<Rightarrow> uuid \<Rightarrow> file_analysis list \<Rightarrow> json" where
  "review_summary E base current result analysis =
     json_object [(''base_version_id'', String (env_uuid E base)), (''current_version_id'', String (env_uuid E current)),
       (''result_version_id'', String (env_uuid E result)), (''files'', Array (map (review_json \<circ> fa_review) analysis))]"

record apply_merge_request =
  amr_base :: uuid
  amr_current :: uuid
  amr_result :: uuid
  amr_expected_revision :: int
  amr_resolutions :: "(string \<times> merge_resolution_choice) list"

definition apply_merge_tx ::
    "env \<Rightarrow> uuid \<Rightarrow> uuid \<Rightarrow> int \<Rightarrow> uuid \<Rightarrow> uuid \<Rightarrow> uuid \<Rightarrow> uuid \<Rightarrow> json \<Rightarrow> project_version dbtx" where
  "apply_merge_tx E u p expected_revision base current result manifest summary =
     bindT (readT (find_project p)) (\<lambda>row.
     bindT (liftT (ok_or row (project_not_found E p))) (\<lambda>pr.
     bindT (ensureT (\<not> (prj_revision pr \<noteq> expected_revision \<or> prj_current_version pr \<noteq> Some current))
       (Conflict ''project changed since the merge review was generated'')) (\<lambda>_.
     bindT (readT (\<lambda>d. max_revision p d + 1)) (\<lambda>revision.
     bindT (new_v4 E) (\<lambda>i.
     let v = \<lparr>ver_id = i, ver_project_id = p, ver_revision = revision, ver_parent = Some current, ver_merge_base = Some base,
              ver_manifest = manifest, ver_created_by_user = Some u, ver_created_by_run = None, ver_diff_summary = summary,
              ver_created = env_now E\<rparr> in
     bindT (insert_version v) (\<lambda>_.
     bindT (point_project E p i (prj_revision pr + 1)) (\<lambda>_.
     bindT (insert_audit u ''project.merge.apply'' ''project'' p
       (json_object [(''version_id'', String (env_uuid E i)), (''result_version_id'', String (env_uuid E result))])) (\<lambda>_.
     returnT (row_to_project_version v)))))))))"

definition apply_project_merge ::
    "env \<Rightarrow> vault option \<Rightarrow> line_merge \<Rightarrow> uuid \<Rightarrow> uuid \<Rightarrow> apply_merge_request \<Rightarrow> project_version storage" where
  "apply_project_merge E store diff u p rq =
     bindH (on_db (commit (ensure_project_role E u p Editor))) (\<lambda>_.
     bindH (liftH (require_store store)) (\<lambda>V.
     bindH (on_db (load_merge_versions E p (amr_base rq) (amr_current rq) (amr_result rq))) (\<lambda>(base, current, result).
     bindH (analyze_merge V diff base current result) (\<lambda>analysis.
     bindH (liftH (collect_resolutions (map (mfr_path \<circ> fa_review) analysis) [] (amr_resolutions rq))) (\<lambda>resolutions.
     bindH (on_db (commit (readT (find_manifest (vf_manifest current))))) (\<lambda>row.
     bindH (liftH (ok_or row (DatabaseError ''no rows returned by a query that expected to return at least one row''))) (\<lambda>scope_row.
     let s = row_scope scope_row in
     bindH (select_files E V s current result resolutions analysis) (\<lambda>output.
     bindH (on_db (create_ready_manifest E p u s output)) (\<lambda>manifest.
     on_db (commit (apply_merge_tx E u p (amr_expected_revision rq) (pv_id (vf_version base)) (pv_id (vf_version current))
       (pv_id (vf_version result)) manifest
       (review_summary E (pv_id (vf_version base)) (pv_id (vf_version current)) (pv_id (vf_version result)) analysis))))))))))))"

end
