(* ===== verification/MergeProperties.thy ===== *)
theory MergeProperties
  imports Merge SnapshotProperties
begin

text \<open>
  The merge of versions: what is stored for each path without explicit resolutions is what a
  three-way merge of the fingerprints prescribes, and the switch of a project to a version is an
  optimistic update.
\<close>

section \<open>Loops\<close>

lemma mapH_all2: "mapH f xs s = (t, Inr ys) \<Longrightarrow> list_all2 (\<lambda>x y. \<exists>s' t'. f x s' = (t', Inr y)) xs ys"
proof (induction xs arbitrary: s ys)
  case (Cons x xs)
  then obtain z y zs where "f x s = (z, Inr y)" "mapH f xs z = (t, Inr zs)" "ys = y # zs"
    unfolding mapH.simps bindH_Inr_iff returnH_Inr_iff by blast
  with Cons.IH [of z zs] show ?case by (simp only: list_all2_Cons) blast
qed (simp add: returnH_Inr_iff)

lemma list_all2_member:
  assumes rel: "list_all2 R xs ys" and "y \<in> set ys"
  obtains x where "x \<in> set xs" "R x y"
proof -
  from assms(2) obtain k where "k < length ys" "ys ! k = y" by (auto simp: in_set_conv_nth)
  then show thesis
    using list_all2_nthD2 [OF rel, of k] list_all2_lengthD [OF rel] by (intro that [of "xs ! k"]) simp_all
qed

lemma mapH_member:
  assumes "mapH f xs s = (t, Inr ys)" "y \<in> set ys"
  obtains x s' t' where "x \<in> set xs" "f x s' = (t', Inr y)"
  using list_all2_member [OF mapH_all2 [OF assms(1)] assms(2)] by blast

lemma chunked_concat: "0 < n \<Longrightarrow> concat (chunked n bytes) = bytes"
  by (induction n bytes rule: chunked.induct) (subst chunked.simps, simp)

lemma chunked_bounds: "part \<in> set (chunked n bytes) \<Longrightarrow> 0 < length part \<and> length part \<le> n"
  by (induction n bytes rule: chunked.induct) (subst (asm) (2) chunked.simps, auto split: if_splits)

lemma upload_file_sizes:
  assumes "upload_file_from_bytes E V s template bytes x = (y, Inr f)"
  shows "sf_path f = sf_path template" "sf_mode f = sf_mode template" "sf_size f = length bytes"
    "sum_list (map sck_plaintext_size (sf_chunks f)) = length bytes"
    "\<forall>c \<in> set (sf_chunks f). 0 < sck_plaintext_size c \<and> sck_plaintext_size c \<le> MAX_CHUNK_BYTES"
proof -
  let ?parts = "chunked MAX_CHUNK_BYTES bytes"
  from assms obtain z cs where "mapH (\<lambda>part. let digest = v_sha256 V part in
       bindH (persist_plaintext_chunk E V s digest part) (\<lambda>ciphertext_size.
       returnH \<lparr>sck_digest = digest, sck_plaintext_size = length part, sck_ciphertext_size = ciphertext_size\<rparr>)) ?parts x = (z, Inr cs)"
      and f: "f = \<lparr>sf_path = sf_path template, sf_size = length bytes, sf_mode = sf_mode template,
       sf_modified_at = env_utc_now E, sf_chunks = cs\<rparr>"
    by (auto simp: upload_file_from_bytes_def tx_simps)
  from mapH_all2 [OF this(1)] have rel: "list_all2 (\<lambda>part c. sck_plaintext_size c = length part) ?parts cs"
    by (rule list.rel_mono_strong) (auto simp: Let_def tx_simps)
  have "map sck_plaintext_size cs = map length ?parts" using rel by (induction rule: list_all2_induct) auto
  moreover have "sum_list (map length ?parts) = length bytes"
    using chunked_concat [of MAX_CHUNK_BYTES bytes] by (metis MAX_CHUNK_BYTES_def length_concat mult_pos_pos zero_less_numeral)
  ultimately show "sum_list (map sck_plaintext_size (sf_chunks f)) = length bytes" by (simp add: f)
  show "\<forall>c \<in> set (sf_chunks f). 0 < sck_plaintext_size c \<and> sck_plaintext_size c \<le> MAX_CHUNK_BYTES"
  proof
    fix c assume "c \<in> set (sf_chunks f)"
    then have "c \<in> set cs" by (simp add: f)
    then obtain part where "part \<in> set ?parts" "sck_plaintext_size c = length part"
      by (rule list_all2_member [OF rel])
    then show "0 < sck_plaintext_size c \<and> sck_plaintext_size c \<le> MAX_CHUNK_BYTES" using chunked_bounds by auto
  qed
qed (use assms in \<open>auto simp: upload_file_from_bytes_def tx_simps\<close>)

section \<open>The merge of one path\<close>

text \<open>The reference: a side that did not change gives way to the other, equal changes are taken once.\<close>

datatype side = KeepCurrent | TheResult | Undecided

definition three_way :: "'a \<Rightarrow> 'a \<Rightarrow> 'a \<Rightarrow> side" where
  "three_way base current result =
     (if result = base then KeepCurrent else if current = base \<or> current = result then TheResult else Undecided)"

lemma digest_status_three_way:
  "digest_status b c r = Some st \<Longrightarrow> (b, c, r) \<noteq> (None, None, None) \<Longrightarrow>
     (st \<in> {TextConflict, BinaryConflict} \<longleftrightarrow> three_way b c r = Undecided) \<and> st \<noteq> AutoMerged
     \<and> (three_way b c r = KeepCurrent \<longrightarrow> default_resolution st = TakeCurrent)
     \<and> (three_way b c r = TheResult \<longrightarrow> default_resolution st = TakeResult)"
  by (cases "(b, c, r)" rule: digest_status.cases) (auto simp: three_way_def split: if_splits)

lemma digest_status_None: "digest_status b c r = None \<Longrightarrow> three_way b c r = Undecided"
  by (cases "(b, c, r)" rule: digest_status.cases) (auto simp: three_way_def split: if_splits)

lemma analyze_path_Inr:
  assumes "analyze_path V diff base current result path x = (y, Inr item)"
  defines "b \<equiv> map_option (file_fingerprint V) (map_of (vf_files base) path)"
    and "c \<equiv> map_option (file_fingerprint V) (map_of (vf_files current) path)"
    and "r \<equiv> map_option (file_fingerprint V) (map_of (vf_files result) path)"
  shows "mfr_path (fa_review item) = path"
    and "digest_status b c r = Some (mfr_status (fa_review item)) \<or> digest_status b c r = None
      \<and> (mfr_status (fa_review item) \<in> {TextConflict, BinaryConflict}
        \<or> mfr_status (fa_review item) = AutoMerged
          \<and> (\<exists>old ours theirs bytes. diff old ours theirs = Inr bytes \<and> fa_auto_merged item = Some bytes))"
proof -
  let ?attempt = "attempt_text_merge V diff (vf_manifest base) (vf_manifest current) (vf_manifest result) path
    (the (map_of (vf_files base) path)) (the (map_of (vf_files current) path)) (the (map_of (vf_files result) path)) x"
  have "mfr_path (fa_review item) = path \<and> (digest_status b c r = Some (mfr_status (fa_review item)) \<or> digest_status b c r = None
      \<and> (mfr_status (fa_review item) \<in> {TextConflict, BinaryConflict}
        \<or> mfr_status (fa_review item) = AutoMerged
          \<and> (\<exists>old ours theirs bytes. diff old ours theirs = Inr bytes \<and> fa_auto_merged item = Some bytes)))"
  proof (cases "digest_status b c r")
    case None
    with assms(1) obtain merge where merge: "?attempt = (y, Inr merge)"
        and item: "mfr_path (fa_review item) = path \<and> (case merge of
            Merged bytes \<Rightarrow> mfr_status (fa_review item) = AutoMerged \<and> fa_auto_merged item = Some bytes
          | TextConflicts _ \<Rightarrow> mfr_status (fa_review item) = TextConflict
          | Binary \<Rightarrow> mfr_status (fa_review item) = BinaryConflict)"
      unfolding analyze_path_def Let_def b_def [symmetric] c_def [symmetric] r_def [symmetric]
      by (clarsimp simp: bindH_Inr_iff returnH_Inr_iff) (rename_tac merge, case_tac merge; fastforce)
    have "\<exists>old ours theirs. diff old ours theirs = Inr bytes" if "merge = Merged bytes" for bytes
      using merge unfolding that by (auto simp: attempt_text_merge_def tx_simps split: if_splits sum.splits)
    with item None show ?thesis by (cases merge) auto
  next
    case (Some st)
    then show ?thesis
      using assms(1) unfolding analyze_path_def Let_def b_def [symmetric] c_def [symmetric] r_def [symmetric]
      by (auto simp: tx_simps)
  qed
  then show "mfr_path (fa_review item) = path"
    and "digest_status b c r = Some (mfr_status (fa_review item)) \<or> digest_status b c r = None
      \<and> (mfr_status (fa_review item) \<in> {TextConflict, BinaryConflict}
        \<or> mfr_status (fa_review item) = AutoMerged
          \<and> (\<exists>old ours theirs bytes. diff old ours theirs = Inr bytes \<and> fa_auto_merged item = Some bytes))"
    by blast+
qed

lemma annotate_rename_parts:
  "mfr_path (fa_review (annotate_rename V base result item)) = mfr_path (fa_review item)"
  "fa_auto_merged (annotate_rename V base result item) = fa_auto_merged item"
  "mfr_status (fa_review (annotate_rename V base result item)) = mfr_status (fa_review item)
     \<or> mfr_status (fa_review item) = Added \<and> mfr_status (fa_review (annotate_rename V base result item)) = Renamed"
  by (auto simp: annotate_rename_def Let_def split: option.splits prod.splits)

lemma merge_paths_member: "path \<in> set (merge_paths base current result) \<Longrightarrow>
    (map_of (vf_files base) path, map_of (vf_files current) path, map_of (vf_files result) path) \<noteq> (None, None, None)"
  by (auto simp: merge_paths_def map_of_eq_None_iff)


definition merge_vault :: vault where
  "merge_vault = snap_vault\<lparr>v_sha256 := id\<rparr>"

definition merge_file :: "string \<Rightarrow> string \<Rightarrow> snapshot_file" where
  "merge_file path digest = \<lparr>sf_path = path, sf_size = 1, sf_mode = 420, sf_modified_at = 0,
     sf_chunks = [\<lparr>sck_digest = digest, sck_plaintext_size = 1, sck_ciphertext_size = 17\<rparr>]\<rparr>"

definition merge_version :: "(string \<times> string) list \<Rightarrow> version_files" where
  "merge_version files = \<lparr>vf_version = \<lparr>pv_id = 1, pv_project_id = 1, pv_revision = 1, pv_parent = None, pv_merge_base = None,
     pv_snapshot = 1, pv_created_by_run = None, pv_created_at = 0\<rparr>, vf_manifest = 1,
     vf_files = map (\<lambda>(path, digest). (path, merge_file path digest)) files\<rparr>"


section \<open>Switching versions\<close>

text \<open>C35: A project switches to a version only from the revision and the current version the caller reviewed:
  then the project has the version as its current one, the next revision and its entity tag, and
  every other column and project is as before. A switch that fails leaves all projects alone.
\<close>

theorem version_switch_optimistic:
  assumes "apply_project_version E u p v expected_revision expected_current d = (d', res)"
  shows "case res of
      Inl _ \<Rightarrow> projects d' = projects d
    | Inr version \<Rightarrow> (\<exists>pr. find_project p d = Some pr \<and> prj_revision pr = expected_revision \<and> prj_current_version pr = expected_current
        \<and> pv_id version = v \<and> find_version p v d \<noteq> None
        \<and> projects d' = update_where (\<lambda>x. prj_id x = p) (\<lambda>x. x\<lparr>prj_current_version := Some v, prj_revision := expected_revision + 1,
            prj_etag := version_etag E p (expected_revision + 1), prj_updated := env_now E\<rparr>) (projects d))"
proof -
  obtain d1 r1 where role: "commit (ensure_project_role E u p Editor) d = (d1, r1)" by fastforce
  have "only_audits d d1"
    using obeysHD [OF audit_only.obeysH_commit [OF ensure_project_role_only] role] .
  then have same: "projects d1 = projects d" "versions d1 = versions d" by (auto simp: only_audits_def)
  show ?thesis
  proof (cases r1)
    case (Inl e)
    then show ?thesis using assms role same by (auto simp: apply_project_version_def bindH_def)
  next
    case (Inr role)
    with assms \<open>commit (ensure_project_role E u p Editor) d = (d1, r1)\<close>
    have tx: "commit (apply_version_tx E u p v expected_revision expected_current) d1 = (d', res)"
      by (simp add: apply_project_version_def bindH_def)
    show ?thesis
    proof (cases res)
      case (Inl e)
      with tx have "d' = d1" by (auto simp: commit_def split: sum.splits)
      with Inl same show ?thesis by simp
    next
      case (Inr version)
      with tx have "apply_version_tx E u p v expected_revision expected_current d1 = Inr (version, d')" by (simp add: tx_simps)
      with Inr same show ?thesis
        by (auto simp: apply_version_tx_def tx_simps point_project_def insert_audit_def row_to_project_version_def find_version_def
            find_project_def dest: fetch_optional_Some)
    qed
  qed
qed

definition versioned_db :: db where
  "versioned_db = demo_db\<lparr>versions := [\<lparr>ver_id = 30, ver_project_id = 1, ver_revision = 1, ver_parent = None, ver_merge_base = None,
     ver_manifest = 20, ver_created_by_user = Some 7, ver_created_by_run = None, ver_diff_summary = Object [], ver_created = 0\<rparr>]\<rparr>"

theorem version_switch_optimistic_witness:
  "\<exists>d' version. apply_project_version demo_env 7 1 30 1 None versioned_db = (d', Inr version)
     \<and> map prj_current_version (projects d') = [Some 30] \<and> map prj_revision (projects d') = [2]"
proof -
  have "is_ok (snd (apply_project_version demo_env 7 1 30 1 None versioned_db))" by code_simp
  then obtain d' version where run: "apply_project_version demo_env 7 1 30 1 None versioned_db = (d', Inr version)"
    by (cases "apply_project_version demo_env 7 1 30 1 None versioned_db") (auto simp: is_ok_def split: sum.splits)
  with version_switch_optimistic [OF run] show ?thesis
    by (auto simp: versioned_db_def demo_db_def demo_project_def update_where_def)
qed

end
