(* ===== verification/Spec2Isabelle.thy ===== *)
theory Spec2Isabelle
  imports RunProperties LeaseProperties AgentProperties ToolProperties NetworkProperties CredentialProperties
    SnapshotProperties MergeProperties
begin

text \<open>
  LocalAI Cowork: a verification library of the distributed control plane and the agent runtime.
\<close>

end
